(* ===== verification/Prelude.thy ===== *)
theory Prelude
  imports Main "HOL-Library.Word" "HOL-Library.Signed_Division" "HOL-Library.Sublist"
begin

text \<open>
  What every component of the driver's model shares.

  \<^item> Go values: \<open>int64\<close> as a 64-bit word, strings as byte lists, the functions of the
    packages \<open>strings\<close> and \<open>fmt\<close> that the sources call.
  \<^item> Go errors: the Kubernetes \<open>StatusError\<close>, the gRPC status error, and \<open>fmt.Errorf\<close> with
    and without a wrapped error, with the tests \<open>errors.IsNotFound\<close> and
    \<open>errors.IsAlreadyExists\<close> of the vendored apimachinery package.
  \<^item> Effects: a handler is a function of a state that holds the outside world (any type) and
    the log of the calls issued so far. Its outcome is a value, a Go error or a panic.
  \<^item> \<open>issues P m\<close>: every call that \<open>m\<close> adds to the log satisfies \<open>P\<close>, with one
    introduction rule per combinator, collected in \<open>issues_intros\<close>.
\<close>

named_theorems io_run \<open>one-step execution of the effect combinators\<close>
named_theorems issues_intros \<open>which calls a handler may issue, one rule per combinator\<close>
named_theorems leaves_intros \<open>which part of the world a handler leaves alone\<close>
named_theorems returns_iff \<open>inversion of a successful outcome\<close>

section \<open>Go values\<close>

type_synonym int64 = "64 word"

text \<open>Signed comparison and the truncated remainder of Go's \<open>int64\<close>.\<close>

definition int64_less :: "int64 \<Rightarrow> int64 \<Rightarrow> bool" where
  "int64_less a b \<longleftrightarrow> sint a < sint b"

definition int64_le :: "int64 \<Rightarrow> int64 \<Rightarrow> bool" where
  "int64_le a b \<longleftrightarrow> sint a \<le> sint b"

definition int64_rem :: "int64 \<Rightarrow> int64 \<Rightarrow> int64" where
  "int64_rem a b = word_of_int (sint a smod sint b)"

text \<open>
  \<open>fmt.Sprintf\<close> for the verbs of the sources; each argument is given as the text Go prints
  for it, so every verb just inserts its argument.
\<close>

fun Sprintf :: "string \<Rightarrow> string list \<Rightarrow> string" where
  "Sprintf (x # y # fs) (a # as) =
     (if x = CHR ''%'' then a @ Sprintf fs as else x # Sprintf (y # fs) (a # as))"
| "Sprintf fs as = fs"

declare Sprintf.simps [simp del]

text \<open>\<open>strings.Contains\<close>, \<open>strings.HasPrefix\<close>, \<open>strings.CutPrefix\<close>.\<close>

fun HasPrefix :: "string \<Rightarrow> string \<Rightarrow> bool" where
  "HasPrefix s [] = True"
| "HasPrefix [] (p # ps) = False"
| "HasPrefix (c # s) (p # ps) = (c = p \<and> HasPrefix s ps)"

fun Contains :: "string \<Rightarrow> string \<Rightarrow> bool" where
  "Contains [] sub = (sub = [])"
| "Contains (c # s) sub = (HasPrefix (c # s) sub \<or> Contains s sub)"

definition CutPrefix :: "string \<Rightarrow> string \<Rightarrow> string option" where
  "CutPrefix s p = (if HasPrefix s p then Some (drop (length p) s) else None)"

text \<open>\<open>strings.SplitN(s, sep, 2)\<close> for a non-empty separator: one part, or the two parts around
  the first occurrence of the separator.\<close>

fun SplitN2 :: "string \<Rightarrow> string \<Rightarrow> string list" where
  "SplitN2 [] sep = [[]]"
| "SplitN2 (c # s) sep =
     (if HasPrefix (c # s) sep then [[], drop (length sep) (c # s)]
      else case SplitN2 s sep of
             [a, b] \<Rightarrow> [c # a, b]
           | [a] \<Rightarrow> [c # a]
           | parts \<Rightarrow> parts)"

section \<open>Go errors\<close>

datatype grpc_code =
    OK | Canceled | Unknown | InvalidArgument | DeadlineExceeded | NotFound | AlreadyExists
  | PermissionDenied | ResourceExhausted | FailedPrecondition | Aborted | OutOfRange
  | Unimplemented | Internal | Unavailable | DataLoss | Unauthenticated

fun code_String :: "grpc_code \<Rightarrow> string" where
  "code_String OK = ''OK''"
| "code_String Canceled = ''Canceled''"
| "code_String Unknown = ''Unknown''"
| "code_String InvalidArgument = ''InvalidArgument''"
| "code_String DeadlineExceeded = ''DeadlineExceeded''"
| "code_String NotFound = ''NotFound''"
| "code_String AlreadyExists = ''AlreadyExists''"
| "code_String PermissionDenied = ''PermissionDenied''"
| "code_String ResourceExhausted = ''ResourceExhausted''"
| "code_String FailedPrecondition = ''FailedPrecondition''"
| "code_String Aborted = ''Aborted''"
| "code_String OutOfRange = ''OutOfRange''"
| "code_String Unimplemented = ''Unimplemented''"
| "code_String Internal = ''Internal''"
| "code_String Unavailable = ''Unavailable''"
| "code_String DataLoss = ''DataLoss''"
| "code_String Unauthenticated = ''Unauthenticated''"

text \<open>
  \<open>APIStatus reason code message\<close> is a Kubernetes \<open>StatusError\<close>; \<open>GRPCStatus\<close> a gRPC status
  error; \<open>OsError errno text\<close> a system call's error, as a bare \<open>syscall.Errno\<close> or in an
  \<open>os.PathError\<close>, \<open>LinkError\<close> or \<open>SyscallError\<close>; \<open>ErrorString\<close> an error that wraps nothing;
  \<open>Wrapped text e\<close> one made by \<open>fmt.Errorf\<close> with the verb \<open>%w\<close>, whose whole text is \<open>text\<close>.
\<close>

datatype gerror =
    APIStatus string int string
  | GRPCStatus grpc_code string
  | OsError nat string
  | ErrorString string
  | Wrapped string gerror

fun Error :: "gerror \<Rightarrow> string" where
  "Error (APIStatus reason code msg) = msg"
| "Error (GRPCStatus c msg) = Sprintf ''rpc error: code = %s desc = %s'' [code_String c, msg]"
| "Error (OsError errno msg) = msg"
| "Error (ErrorString msg) = msg"
| "Error (Wrapped msg e) = msg"

fun reasonAndCodeForError :: "gerror \<Rightarrow> string \<times> int" where
  "reasonAndCodeForError (APIStatus reason code msg) = (reason, code)"
| "reasonAndCodeForError (GRPCStatus c msg) = ('''', 0)"
| "reasonAndCodeForError (OsError errno msg) = ('''', 0)"
| "reasonAndCodeForError (ErrorString msg) = ('''', 0)"
| "reasonAndCodeForError (Wrapped msg e) = reasonAndCodeForError e"

definition ReasonForError :: "gerror \<Rightarrow> string" where
  "ReasonForError e = fst (reasonAndCodeForError e)"

definition knownReasons :: "string list" where
  "knownReasons =
     [''Unauthorized'', ''Forbidden'', ''NotFound'', ''AlreadyExists'', ''Conflict'', ''Gone'',
      ''Invalid'', ''ServerTimeout'', ''StorageReadError'', ''Timeout'', ''TooManyRequests'',
      ''BadRequest'', ''MethodNotAllowed'', ''NotAcceptable'', ''RequestEntityTooLarge'',
      ''UnsupportedMediaType'', ''InternalError'', ''Expired'', ''ServiceUnavailable'']"

definition IsNotFound :: "gerror \<Rightarrow> bool" where
  "IsNotFound e =
     (case reasonAndCodeForError e of (reason, code) \<Rightarrow>
        if reason = ''NotFound'' then True
        else if reason \<notin> set knownReasons \<and> code = 404 then True
        else False)"

definition IsAlreadyExists :: "gerror \<Rightarrow> bool" where
  "IsAlreadyExists e \<longleftrightarrow> ReasonForError e = ''AlreadyExists''"

text \<open>
  \<open>os.IsNotExist\<close> and \<open>os.IsExist\<close> look at a system call's error only, \<open>errors.Is(err, ENOENT)\<close>
  also at the errors it is wrapped in.
\<close>

definition ENOENT :: nat where "ENOENT = 2"
definition EEXIST :: nat where "EEXIST = 17"
definition ENOTEMPTY :: nat where "ENOTEMPTY = 39"

fun IsNotExist :: "gerror \<Rightarrow> bool" where
  "IsNotExist (OsError errno msg) = (errno = ENOENT)"
| "IsNotExist e = False"

fun IsExist :: "gerror \<Rightarrow> bool" where
  "IsExist (OsError errno msg) = (errno = EEXIST \<or> errno = ENOTEMPTY)"
| "IsExist e = False"

fun Is_errno :: "nat \<Rightarrow> gerror \<Rightarrow> bool" where
  "Is_errno target (OsError errno msg) = (errno = target)"
| "Is_errno target (Wrapped msg e) = Is_errno target e"
| "Is_errno target e = False"

text \<open>\<open>status.Errorf\<close>: a gRPC status error with a formatted message.\<close>

definition status_Errorf :: "grpc_code \<Rightarrow> string \<Rightarrow> string list \<Rightarrow> gerror" where
  "status_Errorf c fmt args = GRPCStatus c (Sprintf fmt args)"

definition status_Error :: "grpc_code \<Rightarrow> string \<Rightarrow> gerror" where
  "status_Error c msg = GRPCStatus c msg"

text \<open>The gRPC code an error carries to the caller, \<open>status.Code\<close> of a handler's error.\<close>

fun grpc_code_of :: "gerror \<Rightarrow> grpc_code" where
  "grpc_code_of (GRPCStatus c msg) = c"
| "grpc_code_of e = Unknown"

section \<open>Effects\<close>

datatype 'a result = Ok 'a | Err gerror | Panic

datatype verb =
  VGet | VList | VCreate | VUpdate | VDelete | VPatch | VAddVolume | VRemoveVolume
  | VMount | VFormatAndMount | VUnmount | VExec

datatype kind =
    PVCs | StorageClasses | VolumeSnapshots | VolumeRemoteBackups | VolumeRemoteRestores
  | Settings | NetworkFilesystems | LonghornVolumes | VMs | VMIs | HostVolumeAttachments
  | HostPods | GuestVolumeAttachments | GuestPVs | GuestPods | GuestNodes
  | NodeFS | NodeCommands | HostCommands

text \<open>
  One entry of the call log: verb, resource, namespace, name and the error it answered. A call on
  the node's file system has the path as its name and the source of a mount in place of the
  namespace; a command has its name there, and its last argument as its name.
\<close>

datatype call = Call (call_verb: verb) (call_kind: kind) (call_ns: string) (call_name: string)
    (call_err: "gerror option")

record 'w st =
  world :: 'w
  calls :: "call list"

type_synonym ('w, 'a) io = "'w st \<Rightarrow> 'a result \<times> 'w st"

text \<open>A request to the outside: what it answers and how it changes the world.\<close>

type_synonym ('w, 'a) request = "'w \<Rightarrow> (gerror + 'a) \<times> 'w"

definition ret :: "'a \<Rightarrow> ('w, 'a) io" where
  "ret x = (\<lambda>s. (Ok x, s))"

definition fail :: "gerror \<Rightarrow> ('w, 'a) io" where
  "fail e = (\<lambda>s. (Err e, s))"

definition panic :: "('w, 'a) io" where
  "panic = (\<lambda>s. (Panic, s))"

text \<open>
  \<open>handle m h k\<close> is Go's \<open>x, err := m; if err != nil { h }; k\<close>; \<open>andThen m k\<close> is the same
  with \<open>return err\<close> for \<open>h\<close>. A panic ends both.
\<close>

definition handle ::
  "('w, 'a) io \<Rightarrow> (gerror \<Rightarrow> ('w, 'b) io) \<Rightarrow> ('a \<Rightarrow> ('w, 'b) io) \<Rightarrow> ('w, 'b) io" where
  "handle m h k = (\<lambda>s.
     case m s of
       (Ok x, s') \<Rightarrow> k x s'
     | (Err e, s') \<Rightarrow> h e s'
     | (Panic, s') \<Rightarrow> (Panic, s'))"

definition andThen :: "('w, 'a) io \<Rightarrow> ('a \<Rightarrow> ('w, 'b) io) \<Rightarrow> ('w, 'b) io" where
  "andThen m k = handle m fail k"

text \<open>A pure Go function that returns a value and an error.\<close>

fun lift_result :: "gerror + 'a \<Rightarrow> ('w, 'a) io" where
  "lift_result (Inl e) = fail e"
| "lift_result (Inr x) = ret x"

text \<open>The same for one that may also panic.\<close>

definition lift :: "'a result \<Rightarrow> ('w, 'a) io" where
  "lift r = (\<lambda>s. (r, s))"

definition perform ::
  "verb \<Rightarrow> kind \<Rightarrow> string \<Rightarrow> string \<Rightarrow> ('w, 'a) request \<Rightarrow> ('w, 'a) io" where
  "perform v k ns n f = (\<lambda>s.
     case f (world s) of
       (Inl e, w) \<Rightarrow> (Err e, \<lparr>world = w, calls = calls s @ [Call v k ns n (Some e)]\<rparr>)
     | (Inr x, w) \<Rightarrow> (Ok x, \<lparr>world = w, calls = calls s @ [Call v k ns n None]\<rparr>))"

text \<open>A step of the outside that is no call: reading the clock of a poll loop.\<close>

definition observe :: "('w \<Rightarrow> 'a \<times> 'w) \<Rightarrow> ('w, 'a) io" where
  "observe f = (\<lambda>s. case f (world s) of (x, w) \<Rightarrow> (Ok x, s\<lparr>world := w\<rparr>))"

text \<open>\<open>issues P m\<close>: \<open>m\<close> only appends to the log, and every appended call satisfies \<open>P\<close>.\<close>

definition issues :: "(call \<Rightarrow> bool) \<Rightarrow> ('w, 'a) io \<Rightarrow> bool" where
  "issues P m \<longleftrightarrow>
     (\<forall>s. \<exists>cs. calls (snd (m s)) = calls s @ cs \<and> (\<forall>c \<in> set cs. P c))"

definition read_only :: "call \<Rightarrow> bool" where
  "read_only c \<longleftrightarrow> call_verb c = VGet \<or> call_verb c = VList"

text \<open>The calls of a log that may change something.\<close>

definition writes :: "call list \<Rightarrow> call list" where
  "writes tr = filter (\<lambda>c. \<not> read_only c) tr"

fun is_Ok :: "'a result \<Rightarrow> bool" where
  "is_Ok (Ok x) = True"
| "is_Ok (Err e) = False"
| "is_Ok Panic = False"

section \<open>Signed 64-bit arithmetic\<close>

lemma sint_word_of_int_range:
  "- (2 ^ 63) \<le> x \<Longrightarrow> x < 2 ^ 63 \<Longrightarrow> sint (word_of_int x :: int64) = x"
  by (simp add: sint_sbintrunc' signed_take_bit_int_eq_self)

lemma int64_bounds: "- (2 ^ 63) \<le> sint (x::int64)" "sint (x::int64) < 2 ^ 63"
  using sint_ge [of x] sint_lt [of x] by simp_all

lemma sint_int64_add:
  "- (2 ^ 63) \<le> sint a + sint b \<Longrightarrow> sint a + sint b < 2 ^ 63 \<Longrightarrow>
     sint (a + b :: int64) = sint a + sint b"
  by (simp add: sint_word_add signed_take_bit_int_eq_self)

lemma sint_int64_diff:
  "- (2 ^ 63) \<le> sint a - sint b \<Longrightarrow> sint a - sint b < 2 ^ 63 \<Longrightarrow>
     sint (a - b :: int64) = sint a - sint b"
  by (simp add: sint_word_diff signed_take_bit_int_eq_self)

lemma sint_int64_rem:
  assumes "0 \<le> sint a" "0 < sint b"
  shows "sint (int64_rem a b) = sint a mod sint b"
proof -
  have "sint a mod sint b < sint b" "0 \<le> sint a mod sint b" using assms by simp_all
  moreover have "sint b < 2 ^ 63" using int64_bounds by blast
  ultimately have "sint (word_of_int (sint a mod sint b) :: int64) = sint a mod sint b"
    by (intro sint_word_of_int_range) linarith+
  with assms show ?thesis by (simp add: int64_rem_def smod_mod_positive)
qed

section \<open>Strings\<close>

lemma HasPrefix_iff [simp]: "HasPrefix s p \<longleftrightarrow> (\<exists>t. s = p @ t)"
  by (induction s p rule: HasPrefix.induct) auto

lemma CutPrefix_Some_iff: "CutPrefix s p = Some t \<longleftrightarrow> s = p @ t"
  by (auto simp: CutPrefix_def)

text \<open>\<open>SplitN\<close> at a one-byte separator: the first part has no separator, and joining the parts
  gives the input back.\<close>

lemma SplitN2_append:
  "c \<notin> set a \<Longrightarrow> SplitN2 (a @ c # b) [c] = [a, b]"
  by (induction a) auto

lemma SplitN2_parts: "sep \<noteq> [] \<Longrightarrow> SplitN2 s sep = [a, b] \<Longrightarrow> s = a @ sep @ b"
  by (induction s sep arbitrary: a rule: SplitN2.induct) (auto split: if_splits list.splits)

lemma SplitN2_no_sep:
  "c \<notin> set s \<Longrightarrow> SplitN2 s [c] = [s]"
  by (induction s) auto

lemma SplitN2_cases:
  obtains (one) "c \<notin> set s" "SplitN2 s [c] = [s]"
  | (two) a b where "s = a @ c # b" "c \<notin> set a" "SplitN2 s [c] = [a, b]"
proof (cases "c \<in> set s")
  case True
  then obtain a b where "s = a @ c # b" "c \<notin> set a"
    by (meson split_list_first)
  then show ?thesis using SplitN2_append [of c a b] by (intro two) simp_all
next
  case False
  then show ?thesis using SplitN2_no_sep [of c s] by (intro one)
qed

section \<open>Errors\<close>

lemma IsNotFound_APIStatus [simp]:
  "IsNotFound (APIStatus ''NotFound'' code msg)"
  by (simp add: IsNotFound_def)

lemma IsNotFound_GRPCStatus [simp]:
  "\<not> IsNotFound (GRPCStatus c msg)" "\<not> IsNotFound (ErrorString m)"
  "\<not> IsNotFound (OsError errno m)"
  by (simp_all add: IsNotFound_def)

lemma IsNotFound_Wrapped [simp]: "IsNotFound (Wrapped msg e) = IsNotFound e"
  by (simp add: IsNotFound_def)

lemma IsNotFound_status [simp]:
  "\<not> IsNotFound (status_Errorf c fmt args)" "\<not> IsNotFound (status_Error c msg)"
  by (simp_all add: status_Errorf_def status_Error_def)

lemma grpc_code_of_status [simp]:
  "grpc_code_of (status_Errorf c fmt args) = c" "grpc_code_of (status_Error c msg) = c"
  by (simp_all add: status_Errorf_def status_Error_def)

section \<open>Running the effect combinators\<close>

lemma ret_run [io_run, returns_iff]: "ret x s = (Ok x, s)"
  by (simp add: ret_def)

lemma fail_run [io_run, returns_iff]: "fail e s = (Err e, s)"
  by (simp add: fail_def)

lemma panic_run [io_run, returns_iff]: "panic s = (Panic, s)"
  by (simp add: panic_def)

lemma handle_run [io_run]:
  "handle m h k s =
     (case m s of (Ok x, s') \<Rightarrow> k x s' | (Err e, s') \<Rightarrow> h e s' | (Panic, s') \<Rightarrow> (Panic, s'))"
  by (simp add: handle_def)

lemma andThen_run [io_run]:
  "andThen m k s =
     (case m s of (Ok x, s') \<Rightarrow> k x s' | (Err e, s') \<Rightarrow> (Err e, s') | (Panic, s') \<Rightarrow> (Panic, s'))"
  by (simp add: andThen_def handle_def fail_run split: prod.splits result.splits)

lemma perform_run [io_run]:
  "perform v k ns n f s =
     (case f (world s) of
        (Inl e, w) \<Rightarrow> (Err e, \<lparr>world = w, calls = calls s @ [Call v k ns n (Some e)]\<rparr>)
      | (Inr x, w) \<Rightarrow> (Ok x, \<lparr>world = w, calls = calls s @ [Call v k ns n None]\<rparr>))"
  by (simp add: perform_def)

lemma observe_run [io_run]:
  "observe f s = (case f (world s) of (x, w) \<Rightarrow> (Ok x, s\<lparr>world := w\<rparr>))"
  by (simp add: observe_def)

lemma lift_result_run [io_run]:
  "lift_result r s = (case r of Inl e \<Rightarrow> (Err e, s) | Inr x \<Rightarrow> (Ok x, s))"
  by (cases r) (simp_all add: ret_def fail_def)

lemma lift_run [io_run, returns_iff]: "lift r s = (r, s)"
  by (simp add: lift_def)

text \<open>The outcome of a compound handler, read backwards.\<close>

lemma handle_returns [returns_iff]:
  "handle m h k s = (r, s') \<longleftrightarrow>
     (\<exists>x s1. m s = (Ok x, s1) \<and> k x s1 = (r, s')) \<or>
     (\<exists>e s1. m s = (Err e, s1) \<and> h e s1 = (r, s')) \<or>
     (m s = (Panic, s') \<and> r = Panic)"
  by (auto simp: handle_def split: prod.splits result.splits)

lemma andThen_returns [returns_iff]:
  "andThen m k s = (r, s') \<longleftrightarrow>
     (\<exists>x s1. m s = (Ok x, s1) \<and> k x s1 = (r, s')) \<or>
     (\<exists>e. m s = (Err e, s') \<and> r = Err e) \<or>
     (m s = (Panic, s') \<and> r = Panic)"
  by (auto simp: andThen_def handle_returns fail_def)

lemma perform_returns [returns_iff]:
  "perform v k ns n f s = (r, s') \<longleftrightarrow>
     (\<exists>x. f (world s) = (Inr x, world s') \<and> r = Ok x \<and>
        calls s' = calls s @ [Call v k ns n None]) \<or>
     (\<exists>e. f (world s) = (Inl e, world s') \<and> r = Err e \<and>
        calls s' = calls s @ [Call v k ns n (Some e)])"
  by (cases s') (auto simp: perform_def split: prod.splits sum.splits)

lemma observe_returns [returns_iff]:
  "observe f s = (r, s') \<longleftrightarrow>
     (\<exists>x. f (world s) = (x, world s') \<and> r = Ok x \<and> calls s' = calls s)"
  by (cases s; cases s') (auto simp: observe_def split: prod.splits)

lemma lift_result_returns [returns_iff]:
  "lift_result q s = (r, s') \<longleftrightarrow>
     s' = s \<and> ((\<exists>x. q = Inr x \<and> r = Ok x) \<or> (\<exists>e. q = Inl e \<and> r = Err e))"
  by (cases q) (auto simp: ret_def fail_def)

lemma is_Ok_run: 
  assumes "is_Ok (fst (m s))"
  obtains x s' where "m s = (Ok x, s')"
  using assms by (cases "m s"; cases "fst (m s)") auto

section \<open>Which calls a handler may issue\<close>

lemma issuesI:
  assumes "\<And>s. \<exists>cs. calls (snd (m s)) = calls s @ cs \<and> (\<forall>c \<in> set cs. P c)"
  shows "issues P m"
  using assms by (simp add: issues_def)

lemma issuesD:
  assumes "issues P m" and "m s = (r, s')"
  obtains cs where "calls s' = calls s @ cs" and "\<forall>c \<in> set cs. P c"
proof -
  from assms(1) obtain cs where
    "calls (snd (m s)) = calls s @ cs" "\<forall>c \<in> set cs. P c"
    unfolding issues_def by blast
  with assms(2) show thesis by (intro that) simp_all
qed

lemma issues_mono: "issues P m \<Longrightarrow> (\<And>c. P c \<Longrightarrow> Q c) \<Longrightarrow> issues Q m"
  unfolding issues_def by metis

lemma issues_ret [issues_intros]: "issues P (ret x)"
  by (simp add: issues_def ret_def)

lemma issues_fail [issues_intros]: "issues P (fail e)"
  by (simp add: issues_def fail_def)

lemma issues_panic [issues_intros]: "issues P panic"
  by (simp add: issues_def panic_def)

lemma issues_lift_result [issues_intros]: "issues P (lift_result r)"
  by (cases r) (simp_all add: issues_ret issues_fail)

lemma issues_lift [issues_intros]: "issues P (lift r)"
  by (simp add: issues_def lift_def)

lemma issues_observe [issues_intros]: "issues P (observe f)"
  by (simp add: issues_def observe_def split: prod.splits)

lemma issues_perform [issues_intros]:
  assumes "\<And>e. P (Call v k ns n e)"
  shows "issues P (perform v k ns n f)"
  using assms by (auto simp: issues_def perform_def split: prod.splits sum.splits)

lemma issues_handle [issues_intros]:
  assumes m: "issues P m" and h: "\<And>e. issues P (h e)" and k: "\<And>x. issues P (k x)"
  shows "issues P (handle m h k)"
proof (rule issuesI)
  fix s
  obtain r s1 where ms: "m s = (r, s1)" by (cases "m s")
  from m ms obtain cs where cs: "calls s1 = calls s @ cs" "\<forall>c \<in> set cs. P c"
    by (rule issuesD)
  have "\<exists>ds. calls (snd (handle m h k s)) = calls s1 @ ds \<and> (\<forall>c \<in> set ds. P c)"
    using h k ms by (cases r) (auto simp: handle_def issues_def)
  with cs show "\<exists>cs. calls (snd (handle m h k s)) = calls s @ cs \<and> (\<forall>c \<in> set cs. P c)"
    by (metis Un_iff append.assoc set_append)
qed

lemma issues_andThen [issues_intros]:
  assumes "issues P m" and "\<And>x. issues P (k x)"
  shows "issues P (andThen m k)"
  using assms by (simp add: andThen_def issues_handle issues_fail)

text \<open>The same, with what the first handler has answered.\<close>

lemma issues_handle_after:
  assumes m: "issues P m" and h: "\<And>e. issues P (h e)"
    and k: "\<And>x s s'. m s = (Ok x, s') \<Longrightarrow> issues P (k x)"
  shows "issues P (handle m h k)"
proof (rule issuesI)
  fix s
  obtain r s1 where ms: "m s = (r, s1)" by (cases "m s")
  from m ms obtain cs where cs: "calls s1 = calls s @ cs" "\<forall>c \<in> set cs. P c"
    by (rule issuesD)
  have "\<exists>ds. calls (snd (handle m h k s)) = calls s1 @ ds \<and> (\<forall>c \<in> set ds. P c)"
    using h k [of s _ s1] ms by (cases r) (auto simp: handle_def issues_def)
  with cs show "\<exists>cs. calls (snd (handle m h k s)) = calls s @ cs \<and> (\<forall>c \<in> set cs. P c)"
    by (metis Un_iff append.assoc set_append)
qed

lemma issues_andThen_after:
  assumes "issues P m" and "\<And>x s s'. m s = (Ok x, s') \<Longrightarrow> issues P (k x)"
  shows "issues P (andThen m k)"
  unfolding andThen_def by (intro issues_handle_after issues_fail assms)

lemma issues_if [issues_intros]:
  assumes "b \<Longrightarrow> issues P m" and "\<not> b \<Longrightarrow> issues P m'"
  shows "issues P (if b then m else m')"
  using assms by simp

lemma issues_case_option [issues_intros]:
  assumes "x = None \<Longrightarrow> issues P m" and "\<And>y. x = Some y \<Longrightarrow> issues P (k y)"
  shows "issues P (case x of None \<Rightarrow> m | Some y \<Rightarrow> k y)"
  using assms by (cases x) simp_all

lemma issues_case_sum [issues_intros]:
  assumes "\<And>e. x = Inl e \<Longrightarrow> issues P (h e)" and "\<And>y. x = Inr y \<Longrightarrow> issues P (k y)"
  shows "issues P (case x of Inl e \<Rightarrow> h e | Inr y \<Rightarrow> k y)"
  using assms by (cases x) simp_all

lemma issues_case_prod [issues_intros]:
  assumes "\<And>a b. x = (a, b) \<Longrightarrow> issues P (k a b)"
  shows "issues P (case x of (a, b) \<Rightarrow> k a b)"
  using assms by (cases x) simp

lemma issues_Let [issues_intros]:
  assumes "issues P (k v)"
  shows "issues P (let x = v in k x)"
  using assms by simp

text \<open>A call that the first part of a handler never issues shows that its second part ran.\<close>

lemma handle_reached:
  assumes run: "handle m h k s = (r, s')" and tr: "calls s' = calls s @ tr" "c \<in> set tr" "\<not> P c"
    and m: "issues P m" and h: "\<And>e. issues P (h e)" and k: "\<And>x. issues Q (k x)"
  obtains x s1 tr' where "m s = (Ok x, s1)" "k x s1 = (r, s')" "calls s' = calls s1 @ tr'"
    "c \<in> set tr'"
proof -
  obtain q s1 where ms: "m s = (q, s1)" by (cases "m s")
  from issuesD [OF m ms] obtain t1 where t1: "calls s1 = calls s @ t1" "\<forall>c \<in> set t1. P c" by blast
  show thesis
  proof (cases q)
    case (Ok x)
    with run ms have kx: "k x s1 = (r, s')" by (simp add: handle_run)
    from issuesD [OF k kx] obtain t2 where t2: "calls s' = calls s1 @ t2" by blast
    with t1 tr(1) have "tr = t1 @ t2" by simp
    with tr(2,3) t1(2) have "c \<in> set t2" by auto
    with Ok ms kx t2 show thesis using that by blast
  next
    case (Err e)
    with run ms have "h e s1 = (r, s')" by (simp add: handle_run)
    from issuesD [OF h this] obtain t2 where "calls s' = calls s1 @ t2" "\<forall>c \<in> set t2. P c" by blast
    with t1 tr show thesis by auto
  next
    case Panic
    with run ms have "s' = s1" by (simp add: handle_run)
    with t1 tr show thesis by simp
  qed
qed

lemma writes_simps [simp]:
  "writes [] = []" "writes (xs @ ys) = writes xs @ writes ys"
  "writes (c # xs) = (if read_only c then writes xs else c # writes xs)"
  by (simp_all add: writes_def)

lemma writes_none: "(\<forall>c \<in> set tr. read_only c) \<Longrightarrow> writes tr = []"
  by (simp add: writes_def)

lemma read_only_simps [simp]:
  "read_only (Call VGet k ns n e)" "read_only (Call VList k ns n e)"
  "\<not> read_only (Call VCreate k ns n e)" "\<not> read_only (Call VUpdate k ns n e)"
  "\<not> read_only (Call VDelete k ns n e)" "\<not> read_only (Call VPatch k ns n e)"
  "\<not> read_only (Call VAddVolume k ns n e)" "\<not> read_only (Call VRemoveVolume k ns n e)"
  "\<not> read_only (Call VMount k ns n e)" "\<not> read_only (Call VFormatAndMount k ns n e)"
  "\<not> read_only (Call VUnmount k ns n e)" "\<not> read_only (Call VExec k ns n e)"
  by (simp_all add: read_only_def)

lemma read_trace:
  assumes "issues read_only m" and "m s = (r, s')"
  obtains tr where "calls s' = calls s @ tr" "writes tr = []"
  using issuesD [OF assms] writes_none by blast

lemma issues_or_mono: "issues P m \<Longrightarrow> issues (\<lambda>c. P c \<or> Q c) m"
  by (erule issues_mono) simp

end
