(* ===== verification/Kube_Api.thy ===== *)
theory Kube_Api
  imports Prelude
begin

text \<open>
  The objects the driver exchanges with the host and guest API servers, with the fields it
  reads or writes, and the API servers themselves as a parameter.

  A Go pointer field that may be nil is an \<open>option\<close>; a Go map that the sources compare with
  nil or may find nil is an \<open>option\<close> of a map. A \<open>resource.Quantity\<close> is its \<open>Value()\<close>. The
  embedded \<open>ObjectMeta\<close> is a record that every object extends, so \<open>Name\<close>, \<open>Namespace\<close> and
  \<open>Labels\<close> read any of them.

  The servers are third-party code: a value of type \<open>'w api\<close> gives, for each call the sources
  make, the answer and the new world for any world of type \<open>'w\<close>. Nothing is assumed of it
  here, so a theorem with no hypothesis on it holds when calls fail, answer stale objects or
  interleave with the changes of other actors. The laws that some theorems need are the
  predicates at the end of this theory.
\<close>

section \<open>Objects\<close>

type_synonym time = int
type_synonym resource_list = "string \<rightharpoonup> int64"

record objectmeta =
  Namespace :: string
  Name :: string
  ResourceVersion :: string
  Labels :: "(string \<rightharpoonup> string) option"
  Annotations :: "(string \<rightharpoonup> string) option"
  CreationTimestamp :: "time option"
  DeletionTimestamp :: "time option"

text \<open>\<open>TypedLocalObjectReference\<close>.\<close>

record typed_ref =
  APIGroup :: "string option"
  RefKind :: string
  RefName :: string

record pvc = objectmeta +
  AccessModes :: "string list"
  VolumeMode :: "string option"
  StorageClassName :: "string option"
  VolumeName :: string
  Requests :: "resource_list option"
  DataSource :: "typed_ref option"
  Phase :: string
  Capacity :: "resource_list option"

record storageclass = objectmeta +
  Provisioner :: string

record snap_status =
  CreationTime :: "time option"
  ReadyToUse :: "bool option"
  RestoreSize :: "int64 option"
  SnapError :: "string option option"

record snapshot = objectmeta +
  SourcePVCName :: "string option"
  VolumeSnapshotClassName :: "string option"
  SnapStatus :: "snap_status option"

record vrb = objectmeta +
  vrbType :: string
  vrbSource :: string
  SourceRequests :: "resource_list option"
  vrbSuccess :: bool

record vrr = objectmeta +
  vrrType :: string
  vrrFrom :: string
  vrrSuccess :: bool

record setting = objectmeta +
  SettingDefault :: string
  SettingValue :: string

record networkfs = objectmeta +
  NetworkFSName :: string
  DesiredState :: string
  NFSProvisioner :: string
  NFSState :: string
  NFSEndpoint :: string
  NFSStatus :: string
  MountOpts :: string

text \<open>A VM volume with its \<open>PersistentVolumeClaim\<close> source, and a disk with its \<open>Disk\<close> target.\<close>

record pvc_source =
  ClaimName :: string
  Hotpluggable :: bool

record volume =
  volName :: string
  volPVC :: "pvc_source option"

record disk =
  diskName :: string
  diskBus :: "string option"

record condition =
  CondType :: string
  CondStatus :: string

record template =
  Volumes :: "volume list"
  Disks :: "disk list"

record vm = objectmeta +
  Template :: "template option"
  VMConditions :: "condition list"
  PrintableStatus :: string

record volume_status =
  vsName :: string
  vsHotplug :: bool
  vsPhase :: string
  vsTarget :: string

record vmi = objectmeta +
  VMINodeName :: string
  VolumeStatus :: "volume_status list"
  InterfaceMACs :: "string list"

record va = objectmeta +
  vaPVName :: "string option"
  vaNodeName :: string
  vaAttached :: bool

record pod = objectmeta +
  podPhase :: string
  podClaims :: "string option list"

record pv = objectmeta +
  ClaimRef :: "(string \<times> string) option"

record taint =
  TaintKey :: string
  TaintValue :: string
  TaintEffect :: string

record node = objectmeta +
  Taints :: "taint list"
  NodeConditions :: "condition list"

text \<open>One operation of a JSON patch on a VM.\<close>

datatype patch_value =
    PString string
  | PVolume volume
  | PDisk disk
  | PVolumes "volume list"
  | PDisks "disk list"

datatype patch_op = PatchOp (patch_verb: string) (patch_path: string) (patch_val: patch_value)

record list_options =
  LabelSelector :: string
  Limit :: int64
  Continue :: string

definition empty_options :: list_options where
  "empty_options = \<lparr>LabelSelector = '''', Limit = 0, Continue = ''''\<rparr>"

section \<open>The API servers\<close>

text \<open>One typed client; \<open>clist\<close> answers the items and the continue token of the list.\<close>

record ('w, 'o) client =
  cget :: "string \<Rightarrow> string \<Rightarrow> ('w, 'o) request"
  clist :: "string \<Rightarrow> list_options \<Rightarrow> ('w, 'o list \<times> string) request"
  ccreate :: "'o \<Rightarrow> ('w, 'o) request"
  cupdate :: "'o \<Rightarrow> ('w, 'o) request"
  cdelete :: "string \<Rightarrow> string \<Rightarrow> ('w, unit) request"

text \<open>
  \<open>ticks\<close> reads how many ticks a wait gets before its deadline, and \<open>mapOrder\<close> the order in
  which a \<open>range\<close> over a map visits the given keys: both are the Go runtime's choice.
\<close>

record 'w api =
  pvcs :: "('w, pvc) client"
  storageclasses :: "('w, storageclass) client"
  snapshots :: "('w, snapshot) client"
  vrbs :: "('w, vrb) client"
  vrrs :: "('w, vrr) client"
  settings :: "('w, setting) client"
  networkfss :: "('w, networkfs) client"
  lhvolumes :: "('w, pv) client"
  vms :: "('w, vm) client"
  vmis :: "('w, vmi) client"
  hostVAs :: "('w, va) client"
  hostPods :: "('w, pod) client"
  guestVAs :: "('w, va) client"
  guestPVs :: "('w, pv) client"
  guestNodes :: "('w, node) client"
  guestPodsByIndex :: "string \<Rightarrow> string \<Rightarrow> ('w, pod list) request"
  vmPatch :: "string \<Rightarrow> string \<Rightarrow> patch_op list \<Rightarrow> ('w, vm) request"
  vmAddVolume :: "string \<Rightarrow> string \<Rightarrow> volume \<Rightarrow> disk \<Rightarrow> ('w, unit) request"
  vmRemoveVolume :: "string \<Rightarrow> string \<Rightarrow> string \<Rightarrow> ('w, unit) request"
  vmiRemoveVolume :: "string \<Rightarrow> string \<Rightarrow> string \<Rightarrow> ('w, unit) request"
  ticks :: "'w \<Rightarrow> nat \<times> 'w"
  mapOrder :: "string list \<Rightarrow> 'w \<Rightarrow> string list \<times> 'w"

text \<open>The calls, logged.\<close>

definition kGet :: "kind \<Rightarrow> ('w, 'o) client \<Rightarrow> string \<Rightarrow> string \<Rightarrow> ('w, 'o) io" where
  "kGet k c ns n = perform VGet k ns n (cget c ns n)"

definition kList ::
  "kind \<Rightarrow> ('w, 'o) client \<Rightarrow> string \<Rightarrow> list_options \<Rightarrow> ('w, 'o list \<times> string) io" where
  "kList k c ns lo = perform VList k ns '''' (clist c ns lo)"

definition kCreate ::
  "kind \<Rightarrow> ('w, 'x objectmeta_scheme) client \<Rightarrow> 'x objectmeta_scheme \<Rightarrow>
   ('w, 'x objectmeta_scheme) io" where
  "kCreate k c obj = perform VCreate k (Namespace obj) (Name obj) (ccreate c obj)"

definition kUpdate ::
  "kind \<Rightarrow> ('w, 'x objectmeta_scheme) client \<Rightarrow> 'x objectmeta_scheme \<Rightarrow>
   ('w, 'x objectmeta_scheme) io" where
  "kUpdate k c obj = perform VUpdate k (Namespace obj) (Name obj) (cupdate c obj)"

definition kDelete :: "kind \<Rightarrow> ('w, 'o) client \<Rightarrow> string \<Rightarrow> string \<Rightarrow> ('w, unit) io" where
  "kDelete k c ns n = perform VDelete k ns n (cdelete c ns n)"

text \<open>\<open>ResourceList.Storage().Value()\<close>: the quantity under the key \<open>storage\<close>, 0 when absent.\<close>

definition Storage :: "resource_list option \<Rightarrow> int64" where
  "Storage rl =
     (case rl of
        None \<Rightarrow> 0
      | Some m \<Rightarrow> (case m ''storage'' of Some q \<Rightarrow> q | None \<Rightarrow> 0))"

text \<open>The empty \<open>ObjectMeta\<close>, and one with just a namespace and a name.\<close>

definition meta :: "string \<Rightarrow> string \<Rightarrow> objectmeta" where
  "meta ns n = \<lparr>Namespace = ns, Name = n, ResourceVersion = '''', Labels = None,
     Annotations = None, CreationTimestamp = None, DeletionTimestamp = None\<rparr>"

text \<open>Reading a Go map that may be nil.\<close>

definition map_get :: "(string \<rightharpoonup> string) option \<Rightarrow> string \<Rightarrow> string option" where
  "map_get m k = (case m of None \<Rightarrow> None | Some f \<Rightarrow> f k)"

text \<open>\<open>m[k]\<close> without the second result: the empty string when the key is absent.\<close>

definition map_index :: "(string \<rightharpoonup> string) option \<Rightarrow> string \<Rightarrow> string" where
  "map_index m k = (case map_get m k of None \<Rightarrow> '''' | Some v \<Rightarrow> v)"

section \<open>Laws of a client\<close>

text \<open>
  Documented behaviour of an API server, as hypotheses for the theorems that need it.
  \<open>lookup w ns n\<close> stands for the object the server holds.

  \<^item> \<open>get_law\<close>: a read does not change the object, a successful read answers it, and a read
    that answers NotFound means there is none.
  \<^item> \<open>delete_law\<close>: after a successful delete there is no such object (a server that keeps it
    for its finalizers is modelled by counting a terminating object as deleted), and a delete
    that answers NotFound means there is none. A failed delete changes nothing.
  \<^item> \<open>create_law\<close>: a create succeeds only when there is no such object yet, and stores an
    object that is related to the given one by \<open>admits\<close> (the server fills in defaults); a
    failed create changes nothing.
  \<^item> \<open>update_law\<close>: an update replaces an object that exists, or fails and changes nothing.
\<close>

definition get_law ::
  "('w, 'o) client \<Rightarrow> ('w \<Rightarrow> string \<Rightarrow> string \<Rightarrow> 'o option) \<Rightarrow> bool" where
  "get_law c lookup \<longleftrightarrow>
     (\<forall>ns n w r w'. cget c ns n w = (r, w') \<longrightarrow>
        lookup w' = lookup w \<and>
        (case r of
           Inr x \<Rightarrow> lookup w ns n = Some x
         | Inl e \<Rightarrow> IsNotFound e \<longrightarrow> lookup w ns n = None))"

definition delete_law ::
  "('w, 'o) client \<Rightarrow> ('w \<Rightarrow> string \<Rightarrow> string \<Rightarrow> 'o option) \<Rightarrow> bool" where
  "delete_law c lookup \<longleftrightarrow>
     (\<forall>ns n w r w'. cdelete c ns n w = (r, w') \<longrightarrow>
        (case r of
           Inr _ \<Rightarrow> lookup w' = (lookup w)(ns := (lookup w ns)(n := None))
         | Inl e \<Rightarrow> lookup w' = lookup w \<and> (IsNotFound e \<longrightarrow> lookup w ns n = None)))"

definition create_law ::
  "('w, 'x objectmeta_scheme) client \<Rightarrow> ('w \<Rightarrow> string \<Rightarrow> string \<Rightarrow> 'x objectmeta_scheme option) \<Rightarrow>
   ('x objectmeta_scheme \<Rightarrow> 'x objectmeta_scheme \<Rightarrow> bool) \<Rightarrow> bool" where
  "create_law c lookup admits \<longleftrightarrow>
     (\<forall>obj w r w'. ccreate c obj w = (r, w') \<longrightarrow>
        (case r of
           Inr x \<Rightarrow>
             lookup w (Namespace obj) (Name obj) = None \<and> admits obj x \<and>
             lookup w' =
               (lookup w)(Namespace obj := (lookup w (Namespace obj))(Name obj := Some x))
         | Inl e \<Rightarrow> lookup w' = lookup w))"

definition update_law ::
  "('w, 'x objectmeta_scheme) client \<Rightarrow> ('w \<Rightarrow> string \<Rightarrow> string \<Rightarrow> 'x objectmeta_scheme option) \<Rightarrow>
   ('x objectmeta_scheme \<Rightarrow> 'x objectmeta_scheme \<Rightarrow> bool) \<Rightarrow> bool" where
  "update_law c lookup admits \<longleftrightarrow>
     (\<forall>obj w r w'. cupdate c obj w = (r, w') \<longrightarrow>
        (case r of
           Inr x \<Rightarrow>
             lookup w (Namespace obj) (Name obj) \<noteq> None \<and> admits obj x \<and>
             lookup w' =
               (lookup w)(Namespace obj := (lookup w (Namespace obj))(Name obj := Some x))
         | Inl e \<Rightarrow> lookup w' = lookup w))"

text \<open>A list without options names what the server holds in a namespace, no more and no less.\<close>

definition list_law ::
  "('w, 'x objectmeta_scheme) client \<Rightarrow>
   ('w \<Rightarrow> string \<Rightarrow> string \<Rightarrow> 'x objectmeta_scheme option) \<Rightarrow> bool" where
  "list_law c lookup \<longleftrightarrow>
     (\<forall>ns w items cont w'. ns \<noteq> '''' \<longrightarrow> clist c ns empty_options w = (Inr (items, cont), w') \<longrightarrow>
        (\<forall>x. x \<in> set items \<longleftrightarrow> lookup w ns (Name x) = Some x))"

text \<open>A server holds each object under its own namespace and name.\<close>

definition keyed :: "('w \<Rightarrow> string \<Rightarrow> string \<Rightarrow> 'x objectmeta_scheme option) \<Rightarrow> bool" where
  "keyed lookup \<longleftrightarrow>
     (\<forall>w ns n x. lookup w ns n = Some x \<longrightarrow> Namespace x = ns \<and> Name x = n)"

text \<open>A read that fails only because the object is missing, and always then.\<close>

definition get_available ::
  "('w, 'o) client \<Rightarrow> ('w \<Rightarrow> string \<Rightarrow> string \<Rightarrow> 'o option) \<Rightarrow> bool" where
  "get_available c lookup \<longleftrightarrow>
     (\<forall>ns n w. case fst (cget c ns n w) of
        Inr x \<Rightarrow> lookup w ns n = Some x | Inl e \<Rightarrow> IsNotFound e \<and> lookup w ns n = None)"

text \<open>The objects without one of them.\<close>

abbreviation removed ::
  "(string \<Rightarrow> string \<Rightarrow> 'o option) \<Rightarrow> string \<Rightarrow> string \<Rightarrow> string \<Rightarrow> string \<Rightarrow> 'o option" where
  "removed f ns n \<equiv> f(ns := (f ns)(n := None))"

text \<open>The objects with one of them replaced.\<close>

abbreviation stored ::
  "(string \<Rightarrow> string \<Rightarrow> 'o option) \<Rightarrow> string \<Rightarrow> string \<Rightarrow> 'o \<Rightarrow> string \<Rightarrow> string \<Rightarrow> 'o option" where
  "stored f ns n x \<equiv> f(ns := (f ns)(n := Some x))"

text \<open>A request leaves some part of the world as it is.\<close>

definition keeps :: "('w \<Rightarrow> 'v) \<Rightarrow> ('w \<Rightarrow> 'a \<times> 'w) \<Rightarrow> bool" where
  "keeps view f \<longleftrightarrow> (\<forall>w. view (snd (f w)) = view w)"

text \<open>All calls of a client leave it: the client of another kind of object.\<close>

definition client_keeps :: "('w \<Rightarrow> 'v) \<Rightarrow> ('w, 'o) client \<Rightarrow> bool" where
  "client_keeps view c \<longleftrightarrow>
     (\<forall>ns n. keeps view (cget c ns n) \<and> keeps view (cdelete c ns n)) \<and>
     (\<forall>ns lo. keeps view (clist c ns lo)) \<and>
     (\<forall>obj. keeps view (ccreate c obj) \<and> keeps view (cupdate c obj))"

text \<open>\<open>leaves view m\<close>: the handler \<open>m\<close> leaves some part of the world as it is.\<close>

definition leaves :: "('w \<Rightarrow> 'v) \<Rightarrow> ('w, 'a) io \<Rightarrow> bool" where
  "leaves view m \<longleftrightarrow> (\<forall>s. view (world (snd (m s))) = view (world s))"

section \<open>Facts on the calls\<close>

lemmas kcall_defs = kGet_def kList_def kCreate_def kUpdate_def kDelete_def

lemma kGet_returns [returns_iff]:
  "kGet k c ns n s = (r, s') \<longleftrightarrow>
     (\<exists>x. cget c ns n (world s) = (Inr x, world s') \<and> r = Ok x \<and>
        calls s' = calls s @ [Call VGet k ns n None]) \<or>
     (\<exists>e. cget c ns n (world s) = (Inl e, world s') \<and> r = Err e \<and>
        calls s' = calls s @ [Call VGet k ns n (Some e)])"
  by (simp add: kGet_def perform_returns)

lemma kDelete_returns [returns_iff]:
  "kDelete k c ns n s = (r, s') \<longleftrightarrow>
     (\<exists>x. cdelete c ns n (world s) = (Inr x, world s') \<and> r = Ok x \<and>
        calls s' = calls s @ [Call VDelete k ns n None]) \<or>
     (\<exists>e. cdelete c ns n (world s) = (Inl e, world s') \<and> r = Err e \<and>
        calls s' = calls s @ [Call VDelete k ns n (Some e)])"
  by (simp add: kDelete_def perform_returns)

lemma kList_returns [returns_iff]:
  "kList k c ns lo s = (r, s') \<longleftrightarrow>
     (\<exists>x. clist c ns lo (world s) = (Inr x, world s') \<and> r = Ok x \<and>
        calls s' = calls s @ [Call VList k ns '''' None]) \<or>
     (\<exists>e. clist c ns lo (world s) = (Inl e, world s') \<and> r = Err e \<and>
        calls s' = calls s @ [Call VList k ns '''' (Some e)])"
  by (simp add: kList_def perform_returns)

lemma kCreate_returns [returns_iff]:
  "kCreate k c obj s = (r, s') \<longleftrightarrow>
     (\<exists>x. ccreate c obj (world s) = (Inr x, world s') \<and> r = Ok x \<and>
        calls s' = calls s @ [Call VCreate k (Namespace obj) (Name obj) None]) \<or>
     (\<exists>e. ccreate c obj (world s) = (Inl e, world s') \<and> r = Err e \<and>
        calls s' = calls s @ [Call VCreate k (Namespace obj) (Name obj) (Some e)])"
  by (simp add: kCreate_def perform_returns)

lemma kUpdate_returns [returns_iff]:
  "kUpdate k c obj s = (r, s') \<longleftrightarrow>
     (\<exists>x. cupdate c obj (world s) = (Inr x, world s') \<and> r = Ok x \<and>
        calls s' = calls s @ [Call VUpdate k (Namespace obj) (Name obj) None]) \<or>
     (\<exists>e. cupdate c obj (world s) = (Inl e, world s') \<and> r = Err e \<and>
        calls s' = calls s @ [Call VUpdate k (Namespace obj) (Name obj) (Some e)])"
  by (simp add: kUpdate_def perform_returns)

lemma issues_kGet [issues_intros]:
  "(\<And>e. P (Call VGet k ns n e)) \<Longrightarrow> issues P (kGet k c ns n)"
  by (simp add: kGet_def issues_perform)

lemma issues_kList [issues_intros]:
  "(\<And>e. P (Call VList k ns '''' e)) \<Longrightarrow> issues P (kList k c ns lo)"
  by (simp add: kList_def issues_perform)

lemma issues_kCreate [issues_intros]:
  "(\<And>e. P (Call VCreate k (Namespace obj) (Name obj) e)) \<Longrightarrow> issues P (kCreate k c obj)"
  by (simp add: kCreate_def issues_perform)

lemma issues_kUpdate [issues_intros]:
  "(\<And>e. P (Call VUpdate k (Namespace obj) (Name obj) e)) \<Longrightarrow> issues P (kUpdate k c obj)"
  by (simp add: kUpdate_def issues_perform)

lemma issues_kDelete [issues_intros]:
  "(\<And>e. P (Call VDelete k ns n e)) \<Longrightarrow> issues P (kDelete k c ns n)"
  by (simp add: kDelete_def issues_perform)

section \<open>Facts on the laws\<close>

lemma get_lawD:
  "get_law c lookup \<Longrightarrow> cget c ns n w = (r, w') \<Longrightarrow>
     lookup w' = lookup w \<and>
     (case r of
        Inr x \<Rightarrow> lookup w ns n = Some x
      | Inl e \<Rightarrow> IsNotFound e \<longrightarrow> lookup w ns n = None)"
  unfolding get_law_def by blast

lemma get_law_Ok:
  "get_law c lookup \<Longrightarrow> cget c ns n w = (Inr x, w') \<Longrightarrow>
     lookup w' = lookup w \<and> lookup w ns n = Some x"
  by (drule (1) get_lawD) simp

lemma get_law_NotFound:
  "get_law c lookup \<Longrightarrow> cget c ns n w = (Inl e, w') \<Longrightarrow> IsNotFound e \<Longrightarrow>
     lookup w' = lookup w \<and> lookup w ns n = None"
  by (drule (1) get_lawD) simp

lemma keepsI: "(\<And>w r w'. f w = (r, w') \<Longrightarrow> view w' = view w) \<Longrightarrow> keeps view f"
  by (simp add: keeps_def prod_eq_iff)

lemma keepsD: "keeps view f \<Longrightarrow> f w = (r, w') \<Longrightarrow> view w' = view w"
  by (auto simp: keeps_def dest: spec [of _ w])

lemma get_law_keeps: "get_law c lookup \<Longrightarrow> keeps lookup (cget c ns n)"
  by (rule keepsI) (drule (1) get_lawD, simp)

lemma delete_lawD:
  "delete_law c lookup \<Longrightarrow> cdelete c ns n w = (r, w') \<Longrightarrow>
     (case r of
        Inr _ \<Rightarrow> lookup w' = (lookup w)(ns := (lookup w ns)(n := None))
      | Inl e \<Rightarrow> lookup w' = lookup w \<and> (IsNotFound e \<longrightarrow> lookup w ns n = None))"
  unfolding delete_law_def by blast

lemma delete_law_Ok:
  "delete_law c lookup \<Longrightarrow> cdelete c ns n w = (Inr u, w') \<Longrightarrow>
     lookup w' = (lookup w)(ns := (lookup w ns)(n := None))"
  by (drule (1) delete_lawD) simp

lemma delete_law_Err:
  "delete_law c lookup \<Longrightarrow> cdelete c ns n w = (Inl e, w') \<Longrightarrow>
     lookup w' = lookup w \<and> (IsNotFound e \<longrightarrow> lookup w ns n = None)"
  by (drule (1) delete_lawD) simp

lemma create_law_Ok:
  "create_law c lookup admits \<Longrightarrow> ccreate c obj w = (Inr x, w') \<Longrightarrow>
     lookup w (Namespace obj) (Name obj) = None \<and> admits obj x \<and>
     lookup w' = (lookup w)(Namespace obj := (lookup w (Namespace obj))(Name obj := Some x))"
  unfolding create_law_def by fastforce

lemma create_law_Err:
  "create_law c lookup admits \<Longrightarrow> ccreate c obj w = (Inl e, w') \<Longrightarrow> lookup w' = lookup w"
  unfolding create_law_def by fastforce

lemma update_law_Ok:
  "update_law c lookup admits \<Longrightarrow> cupdate c obj w = (Inr x, w') \<Longrightarrow>
     lookup w (Namespace obj) (Name obj) \<noteq> None \<and> admits obj x \<and>
     lookup w' = (lookup w)(Namespace obj := (lookup w (Namespace obj))(Name obj := Some x))"
  unfolding update_law_def by fastforce

lemma update_law_Err:
  "update_law c lookup admits \<Longrightarrow> cupdate c obj w = (Inl e, w') \<Longrightarrow> lookup w' = lookup w"
  unfolding update_law_def by fastforce

lemma leavesI:
  "(\<And>s r s'. m s = (r, s') \<Longrightarrow> view (world s') = view (world s)) \<Longrightarrow> leaves view m"
  by (simp add: leaves_def prod_eq_iff)

lemma leavesD: "leaves view m \<Longrightarrow> m s = (r, s') \<Longrightarrow> view (world s') = view (world s)"
  by (auto simp: leaves_def dest: spec [of _ s])

lemma leaves_perform [leaves_intros]:
  "keeps view f \<Longrightarrow> leaves view (perform v k ns n f)"
  by (rule leavesI) (auto simp: perform_returns dest: keepsD)

lemma leaves_ret [leaves_intros]: "leaves view (ret x)"
  by (simp add: leaves_def ret_def)

lemma leaves_fail [leaves_intros]: "leaves view (fail e)"
  by (simp add: leaves_def fail_def)

lemma leaves_panic [leaves_intros]: "leaves view panic"
  by (simp add: leaves_def panic_def)

lemma leaves_lift_result [leaves_intros]: "leaves view (lift_result r)"
  by (cases r) (simp_all add: leaves_ret leaves_fail)

lemma leaves_handle [leaves_intros]:
  "leaves view m \<Longrightarrow> (\<And>e. leaves view (h e)) \<Longrightarrow> (\<And>x. leaves view (k x)) \<Longrightarrow>
     leaves view (handle m h k)"
  by (rule leavesI) (auto simp: handle_returns, (metis leavesD)+)

lemma leaves_andThen [leaves_intros]:
  "leaves view m \<Longrightarrow> (\<And>x. leaves view (k x)) \<Longrightarrow> leaves view (andThen m k)"
  by (simp add: andThen_def leaves_handle leaves_fail)

lemma leaves_if [leaves_intros]:
  "(b \<Longrightarrow> leaves view m) \<Longrightarrow> (\<not> b \<Longrightarrow> leaves view m') \<Longrightarrow> leaves view (if b then m else m')"
  by simp

lemma leaves_case_option [leaves_intros]:
  "(x = None \<Longrightarrow> leaves view m) \<Longrightarrow> (\<And>y. x = Some y \<Longrightarrow> leaves view (k y)) \<Longrightarrow>
     leaves view (case x of None \<Rightarrow> m | Some y \<Rightarrow> k y)"
  by (cases x) simp_all

lemma leaves_case_prod [leaves_intros]:
  "(\<And>a b. x = (a, b) \<Longrightarrow> leaves view (k a b)) \<Longrightarrow> leaves view (case x of (a, b) \<Rightarrow> k a b)"
  by (cases x) simp

lemma leaves_Let [leaves_intros]: "leaves view (k v) \<Longrightarrow> leaves view (let x = v in k x)"
  by simp

lemma leaves_lift [leaves_intros]: "leaves view (lift r)"
  by (simp add: leaves_def lift_def)

lemma leaves_observe [leaves_intros]: "keeps view f \<Longrightarrow> leaves view (observe f)"
  by (rule leavesI) (auto simp: observe_returns dest: keepsD)

lemma leaves_kGet [leaves_intros]: "keeps view (cget c ns n) \<Longrightarrow> leaves view (kGet k c ns n)"
  by (simp add: kGet_def leaves_perform)

lemma leaves_kList [leaves_intros]: "keeps view (clist c ns lo) \<Longrightarrow> leaves view (kList k c ns lo)"
  by (simp add: kList_def leaves_perform)

lemma leaves_kCreate [leaves_intros]: "keeps view (ccreate c x) \<Longrightarrow> leaves view (kCreate k c x)"
  by (simp add: kCreate_def leaves_perform)

lemma leaves_kUpdate [leaves_intros]: "keeps view (cupdate c x) \<Longrightarrow> leaves view (kUpdate k c x)"
  by (simp add: kUpdate_def leaves_perform)

lemma leaves_kDelete [leaves_intros]: "keeps view (cdelete c ns n) \<Longrightarrow> leaves view (kDelete k c ns n)"
  by (simp add: kDelete_def leaves_perform)

lemma client_keepsD:
  assumes "client_keeps view c"
  shows "keeps view (cget c ns n)" and "keeps view (clist c ns lo)"
    and "keeps view (ccreate c x)" and "keeps view (cupdate c x)" and "keeps view (cdelete c ns n)"
  using assms by (auto simp: client_keeps_def)

lemma map_get_simps [simp]: "map_get None k = None" "map_get (Some m) k = m k"
  by (simp_all add: map_get_def)

lemma meta_simps [simp]:
  "Namespace (meta ns n) = ns" "Name (meta ns n) = n" "Labels (meta ns n) = None"
  "Annotations (meta ns n) = None" "DeletionTimestamp (meta ns n) = None"
  by (simp_all add: meta_def)

lemma Storage_simps [simp]:
  "Storage None = 0" "Storage (Some m) = (case m ''storage'' of Some q \<Rightarrow> q | None \<Rightarrow> 0)"
  by (simp_all add: Storage_def)

lemma list_lawD:
  "list_law c lookup \<Longrightarrow> ns \<noteq> '''' \<Longrightarrow> clist c ns empty_options w = (Inr (items, cont), w') \<Longrightarrow>
     x \<in> set items \<longleftrightarrow> lookup w ns (Name x) = Some x"
  unfolding list_law_def by blast

lemma keyedD: "keyed lookup \<Longrightarrow> lookup w ns n = Some x \<Longrightarrow> Namespace x = ns \<and> Name x = n"
  by (auto simp: keyed_def)

lemma get_available_None:
  assumes "get_available c lookup" and "lookup w ns n = None"
  obtains e w' where "cget c ns n w = (Inl e, w')" "IsNotFound e"
proof (cases "cget c ns n w")
  case (Pair r w')
  from assms(1) have "case fst (cget c ns n w) of
      Inr x \<Rightarrow> lookup w ns n = Some x | Inl e \<Rightarrow> IsNotFound e \<and> lookup w ns n = None"
    by (simp add: get_available_def)
  with Pair assms(2) show thesis by (cases r) (auto intro: that)
qed

lemma kGet_available_None:
  assumes "get_available c lookup" and "lookup (world s) ns n = None"
  obtains e s' where "kGet k c ns n s = (Err e, s')" "IsNotFound e"
    "cget c ns n (world s) = (Inl e, world s')"
proof -
  from assms obtain e w' where c: "cget c ns n (world s) = (Inl e, w')" "IsNotFound e"
    by (rule get_available_None)
  then show thesis
    by (intro that [of e "\<lparr>world = w', calls = calls s @ [Call VGet k ns n (Some e)]\<rparr>"])
      (simp_all add: kGet_def perform_def)
qed

lemma removed_absent: "f ns n = None \<Longrightarrow> removed f ns n = f"
  by (intro ext) simp

lemma stored_same: "f ns n = Some x \<Longrightarrow> stored f ns n x = f"
  by (intro ext) simp

lemma kGet_available_Some:
  assumes law: "get_law c lookup" and "get_available c lookup" and some: "lookup (world s) ns n = Some x"
  obtains s' where "kGet k c ns n s = (Ok x, s')" "lookup (world s') = lookup (world s)"
    "calls s' = calls s @ [Call VGet k ns n None]"
proof (cases "cget c ns n (world s)")
  case (Pair r w)
  from assms(2) have "case fst (cget c ns n (world s)) of
      Inr x \<Rightarrow> lookup (world s) ns n = Some x | Inl e \<Rightarrow> IsNotFound e \<and> lookup (world s) ns n = None"
    by (simp add: get_available_def)
  with Pair some have r: "r = Inr x" by (cases r) auto
  with get_law_Ok [OF law] Pair have "lookup w = lookup (world s)" by blast
  with Pair r show thesis
    by (intro that [of "\<lparr>world = w, calls = calls s @ [Call VGet k ns n None]\<rparr>"])
      (simp_all add: kGet_def perform_def)
qed

end
