(* ===== verification/Csi_Types.thy ===== *)
theory Csi_Types
  imports Prelude
begin

text \<open>
  The CSI messages of the vendored protocol package, with the fields the driver reads or
  sets. A message field that may be unset is an \<open>option\<close>; a \<open>oneof\<close> is an optional value of
  a datatype. A repeated field is a list: the gRPC decoder leaves an empty one nil, so the
  sources' test for nil is the test for the empty list.
\<close>

datatype access_mode =
    UNKNOWN | SINGLE_NODE_WRITER | SINGLE_NODE_READER_ONLY | MULTI_NODE_READER_ONLY
  | MULTI_NODE_SINGLE_WRITER | MULTI_NODE_MULTI_WRITER | SINGLE_NODE_SINGLE_WRITER
  | SINGLE_NODE_MULTI_WRITER

record mount_volume =
  FsType :: string
  MountFlags :: "string list"

datatype access_type = Mount mount_volume | Block

record volcap =
  AccessType :: "access_type option"
  AccessMode :: "access_mode option"

datatype content_source = SnapshotSource string | VolumeSource string

record capacity_range =
  RequiredBytes :: int64
  LimitBytes :: int64

datatype rpc_type =
    RPC_UNKNOWN | CREATE_DELETE_VOLUME | PUBLISH_UNPUBLISH_VOLUME | LIST_VOLUMES | GET_CAPACITY
  | CREATE_DELETE_SNAPSHOT | LIST_SNAPSHOTS | CLONE_VOLUME | PUBLISH_READONLY | EXPAND_VOLUME
  | LIST_VOLUMES_PUBLISHED_NODES | VOLUME_CONDITION | GET_VOLUME | RPC_SINGLE_NODE_MULTI_WRITER
  | MODIFY_VOLUME

record create_volume_request =
  cvName :: string
  cvCapacityRange :: "capacity_range option"
  cvCapabilities :: "volcap list"
  cvParameters :: "(string \<rightharpoonup> string) option"
  cvContentSource :: "content_source option option"

record csi_volume =
  VolumeId :: string
  CapacityBytes :: int64
  VolumeContext :: "string \<rightharpoonup> string"
  ContentSource :: "content_source option option"

record validate_request =
  vvVolumeId :: string
  vvContext :: "(string \<rightharpoonup> string) option"
  vvCapabilities :: "volcap list"
  vvParameters :: "(string \<rightharpoonup> string) option"

record publish_request =
  puVolumeId :: string
  puNodeId :: string
  puCapability :: "volcap option"

record unpublish_request =
  unVolumeId :: string
  unNodeId :: string

record csi_snapshot =
  SnapshotId :: string
  SourceVolumeId :: string
  SizeBytes :: int64
  csiCreationTime :: "int option"
  csiReadyToUse :: bool

record create_snapshot_request =
  csName :: string
  csSourceVolumeId :: string
  csParameters :: "(string \<rightharpoonup> string) option"

record list_snapshots_request =
  lsMaxEntries :: "32 word"
  lsStartingToken :: string
  lsSourceVolumeId :: string
  lsSnapshotId :: string

record list_snapshots_response =
  Entries :: "csi_snapshot list"
  NextToken :: string

record ctrl_expand_request =
  ceVolumeId :: string
  ceCapacityRange :: "capacity_range option"
  ceCapability :: "volcap option"

record expand_response =
  exCapacityBytes :: int64
  exNodeExpansionRequired :: bool

record node_expand_request =
  neVolumeId :: string
  neVolumePath :: string
  neCapacityRange :: "capacity_range option"
  neCapability :: "volcap option"

text \<open>The nil-safe getters of the generated code.\<close>

definition GetMount :: "volcap \<Rightarrow> mount_volume option" where
  "GetMount c = (case AccessType c of Some (Mount m) \<Rightarrow> Some m | _ \<Rightarrow> None)"

definition GetBlock :: "volcap \<Rightarrow> unit option" where
  "GetBlock c = (case AccessType c of Some Block \<Rightarrow> Some () | _ \<Rightarrow> None)"

definition GetMode :: "volcap \<Rightarrow> access_mode" where
  "GetMode c = (case AccessMode c of Some m \<Rightarrow> m | None \<Rightarrow> UNKNOWN)"

definition GetRequiredBytes :: "capacity_range option \<Rightarrow> int64" where
  "GetRequiredBytes r = (case r of Some c \<Rightarrow> RequiredBytes c | None \<Rightarrow> 0)"

definition GetSnapshot :: "content_source option option \<Rightarrow> string option" where
  "GetSnapshot vcs = (case vcs of Some (Some (SnapshotSource sid)) \<Rightarrow> Some sid | _ \<Rightarrow> None)"

definition GetVolume :: "content_source option option \<Rightarrow> string option" where
  "GetVolume vcs = (case vcs of Some (Some (VolumeSource vid)) \<Rightarrow> Some vid | _ \<Rightarrow> None)"

fun mode_String :: "access_mode \<Rightarrow> string" where
  "mode_String UNKNOWN = ''UNKNOWN''"
| "mode_String SINGLE_NODE_WRITER = ''SINGLE_NODE_WRITER''"
| "mode_String SINGLE_NODE_READER_ONLY = ''SINGLE_NODE_READER_ONLY''"
| "mode_String MULTI_NODE_READER_ONLY = ''MULTI_NODE_READER_ONLY''"
| "mode_String MULTI_NODE_SINGLE_WRITER = ''MULTI_NODE_SINGLE_WRITER''"
| "mode_String MULTI_NODE_MULTI_WRITER = ''MULTI_NODE_MULTI_WRITER''"
| "mode_String SINGLE_NODE_SINGLE_WRITER = ''SINGLE_NODE_SINGLE_WRITER''"
| "mode_String SINGLE_NODE_MULTI_WRITER = ''SINGLE_NODE_MULTI_WRITER''"

fun rpc_String :: "rpc_type \<Rightarrow> string" where
  "rpc_String RPC_UNKNOWN = ''UNKNOWN''"
| "rpc_String CREATE_DELETE_VOLUME = ''CREATE_DELETE_VOLUME''"
| "rpc_String PUBLISH_UNPUBLISH_VOLUME = ''PUBLISH_UNPUBLISH_VOLUME''"
| "rpc_String LIST_VOLUMES = ''LIST_VOLUMES''"
| "rpc_String GET_CAPACITY = ''GET_CAPACITY''"
| "rpc_String CREATE_DELETE_SNAPSHOT = ''CREATE_DELETE_SNAPSHOT''"
| "rpc_String LIST_SNAPSHOTS = ''LIST_SNAPSHOTS''"
| "rpc_String CLONE_VOLUME = ''CLONE_VOLUME''"
| "rpc_String PUBLISH_READONLY = ''PUBLISH_READONLY''"
| "rpc_String EXPAND_VOLUME = ''EXPAND_VOLUME''"
| "rpc_String LIST_VOLUMES_PUBLISHED_NODES = ''LIST_VOLUMES_PUBLISHED_NODES''"
| "rpc_String VOLUME_CONDITION = ''VOLUME_CONDITION''"
| "rpc_String GET_VOLUME = ''GET_VOLUME''"
| "rpc_String RPC_SINGLE_NODE_MULTI_WRITER = ''SINGLE_NODE_MULTI_WRITER''"
| "rpc_String MODIFY_VOLUME = ''MODIFY_VOLUME''"

lemma GetSnapshot_Some [simp]:
  "GetSnapshot vcs = Some sid \<longleftrightarrow> vcs = Some (Some (SnapshotSource sid))"
  by (auto simp: GetSnapshot_def split: option.splits content_source.splits)

lemma GetVolume_Some [simp]:
  "GetVolume vcs = Some v \<longleftrightarrow> vcs = Some (Some (VolumeSource v))"
  by (auto simp: GetVolume_def split: option.splits content_source.splits)

lemma GetMount_Block_cases:
  obtains (mount) m where "AccessType c = Some (Mount m)" "GetMount c = Some m" "GetBlock c = None"
  | (block) "AccessType c = Some Block" "GetMount c = None" "GetBlock c = Some ()"
  | (neither) "AccessType c = None" "GetMount c = None" "GetBlock c = None"
  by (cases "AccessType c"; cases "the (AccessType c)") (auto simp: GetMount_def GetBlock_def)

end
