(* ===== verification/Csi_Util.thy ===== *)
theory Csi_Util
  imports Csi_Types
begin

text \<open>
  The helpers of \<open>pkg/csi/util.go\<close> that touch no file system, and \<open>pkg/utils/util.go\<close>.

  Sizes are 64-bit words with Go's signed comparison and wrap-around. The identifiers of
  backup snapshots are the codec between the CSI snapshot service and the two kinds of
  Kubernetes object behind it; the locale \<open>snapshot_id_codec\<close> is the contract its clients
  use.
\<close>

section \<open>pkg/utils/util.go\<close>

definition SizeAlignment :: int64 where
  "SizeAlignment = 2 * 1024 * 1024"

definition MinimalVolumeSize :: int64 where
  "MinimalVolumeSize = 10 * 1024 * 1024"

definition AnnStorageProvisioner :: string where
  "AnnStorageProvisioner = ''volume.kubernetes.io/storage-provisioner''"

definition RoundUpSize :: "int64 \<Rightarrow> int64" where
  "RoundUpSize sz =
     (if int64_le sz 0 then SizeAlignment
      else let r = int64_rem sz SizeAlignment
           in if r = 0 then sz else sz - r + SizeAlignment)"

section \<open>pkg/csi/util.go\<close>

definition fsTypeExt4 :: string where
  "fsTypeExt4 = ''ext4''"

definition fsTypeXFS :: string where
  "fsTypeXFS = ''xfs''"

definition LHName :: string where
  "LHName = ''Longhorn''"

definition missingVolumeInfoErr :: string where
  "missingVolumeInfoErr = ''Missing required volume information in request''"

definition validateCtrlExpandReq :: "ctrl_expand_request \<Rightarrow> gerror + unit" where
  "validateCtrlExpandReq req =
     (if ceVolumeId req = '''' \<or> ceCapability req = None
      then Inl (status_Error InvalidArgument missingVolumeInfoErr)
      else Inr ())"

definition GetMode_opt :: "volcap option \<Rightarrow> access_mode" where
  "GetMode_opt c = (case c of None \<Rightarrow> UNKNOWN | Some cap \<Rightarrow> GetMode cap)"

definition ctrlExpandRWX :: "ctrl_expand_request \<Rightarrow> bool" where
  "ctrlExpandRWX req \<longleftrightarrow> GetMode_opt (ceCapability req) = MULTI_NODE_MULTI_WRITER"

definition validateNodeExpandReq :: "node_expand_request \<Rightarrow> gerror + unit" where
  "validateNodeExpandReq req =
     (if neVolumeId req = '''' \<or> neVolumePath req = '''' \<or> neCapability req = None
      then Inl (status_Error InvalidArgument missingVolumeInfoErr)
      else Inr ())"

definition nodeExpandRWX :: "node_expand_request \<Rightarrow> bool" where
  "nodeExpandRWX req \<longleftrightarrow> GetMode_opt (neCapability req) = MULTI_NODE_MULTI_WRITER"

definition getNodeFsType :: "node_expand_request \<Rightarrow> gerror + string" where
  "getNodeFsType req =
     (let cap = neCapability req in
      if Option.bind cap GetBlock \<noteq> None
      then Inl (status_Error InvalidArgument ''Volume capability is block'')
      else let fsType = (case Option.bind cap GetMount of None \<Rightarrow> '''' | Some m \<Rightarrow> FsType m)
           in if fsType = '''' then Inr fsTypeExt4 else Inr fsType)"

definition formatBackupSnapshotID :: "string \<Rightarrow> string \<Rightarrow> string" where
  "formatBackupSnapshotID ns name = Sprintf ''backup:%s/%s'' [ns, name]"

definition parseSnapshotID :: "string \<Rightarrow> bool \<times> string \<times> string" where
  "parseSnapshotID snapshotID =
     (case CutPrefix snapshotID ''backup:'' of
        Some after \<Rightarrow>
          (let parts = SplitN2 after ''/'' in
           if length parts = 2 then (True, parts ! 0, parts ! 1)
           else (False, '''', snapshotID))
      | None \<Rightarrow> (False, '''', snapshotID))"

section \<open>The codec of snapshot identifiers\<close>

text \<open>
  What the snapshot handlers rely on: an encoded identifier decodes to what was encoded when
  the namespace has no slash (a Kubernetes name never has one), and a decoded backup
  identifier is the encoding of its parts.
\<close>

locale snapshot_id_codec =
  fixes encode :: "string \<Rightarrow> string \<Rightarrow> string"
    and decode :: "string \<Rightarrow> bool \<times> string \<times> string"
  assumes decode_encode: "CHR ''/'' \<notin> set ns \<Longrightarrow> decode (encode ns name) = (True, ns, name)"
    and decode_backup: "decode i = (True, ns, name) \<Longrightarrow> i = encode ns name \<and> CHR ''/'' \<notin> set ns"
    and decode_plain: "decode i = (False, ns, name) \<Longrightarrow> ns = [] \<and> name = i"
begin

lemma encode_injective:
  assumes "CHR ''/'' \<notin> set ns" and "CHR ''/'' \<notin> set ns'"
  shows "encode ns name = encode ns' name' \<longleftrightarrow> ns = ns' \<and> name = name'"
  using decode_encode [OF assms(1)] decode_encode [OF assms(2)] by (metis prod.inject)

lemma decode_is_backup_iff:
  "fst (decode i) \<longleftrightarrow> (\<exists>ns name. CHR ''/'' \<notin> set ns \<and> i = encode ns name)"
proof
  obtain b ns name where d: "decode i = (b, ns, name)" by (cases "decode i")
  assume "fst (decode i)"
  with d decode_backup [of i ns name]
  show "\<exists>ns name. CHR ''/'' \<notin> set ns \<and> i = encode ns name" by auto
next
  assume "\<exists>ns name. CHR ''/'' \<notin> set ns \<and> i = encode ns name"
  then show "fst (decode i)" using decode_encode by auto
qed

lemma decode_name_determines:
  assumes "decode i = decode j"
  shows "i = j"
proof -
  obtain b ns name where d: "decode i = (b, ns, name)" by (cases "decode i")
  show ?thesis
  proof (cases b)
    case True
    with d assms decode_backup [of i ns name] decode_backup [of j ns name] show ?thesis by simp
  next
    case False
    with d assms decode_plain [of i ns name] decode_plain [of j ns name] show ?thesis by simp
  qed
qed

end

section \<open>Lemmas\<close>

lemma formatBackupSnapshotID_eq:
  "formatBackupSnapshotID ns name = ''backup:'' @ ns @ ''/'' @ name"
  by (simp add: formatBackupSnapshotID_def Sprintf.simps)

lemma parseSnapshotID_backup:
  assumes "CHR ''/'' \<notin> set ns"
  shows "parseSnapshotID (''backup:'' @ ns @ ''/'' @ name) = (True, ns, name)"
proof -
  have "CutPrefix (''backup:'' @ ns @ ''/'' @ name) ''backup:'' = Some (ns @ ''/'' @ name)"
    by (simp only: CutPrefix_Some_iff)
  moreover have "SplitN2 (ns @ ''/'' @ name) ''/'' = [ns, name]"
    using SplitN2_append [OF assms] by simp
  ultimately show ?thesis by (simp add: parseSnapshotID_def del: append_Cons)
qed

lemma parseSnapshotID_cases:
  obtains (backup) ns name where "i = ''backup:'' @ ns @ ''/'' @ name" "CHR ''/'' \<notin> set ns"
      "parseSnapshotID i = (True, ns, name)"
  | (plain) "parseSnapshotID i = (False, [], i)"
proof (cases "CutPrefix i ''backup:''")
  case None
  then show ?thesis by (intro plain) (simp add: parseSnapshotID_def)
next
  case (Some rest)
  show ?thesis
  proof (cases rule: SplitN2_cases [of "CHR ''/''" rest])
    case one
    with Some show ?thesis
      by (intro plain) (simp add: parseSnapshotID_def)
  next
    case (two a b)
    have "i = ''backup:'' @ a @ ''/'' @ b"
      using Some two(1) by (simp add: CutPrefix_Some_iff)
    with two(2) show ?thesis
      by (intro backup [of a b]) (simp_all only: parseSnapshotID_backup not_False_eq_True simp_thms)
  qed
qed

interpretation snapid: snapshot_id_codec formatBackupSnapshotID parseSnapshotID
proof unfold_locales
  show "parseSnapshotID (formatBackupSnapshotID ns name) = (True, ns, name)"
    if "CHR ''/'' \<notin> set ns" for ns name
    using parseSnapshotID_backup [OF that] by (simp only: formatBackupSnapshotID_eq)
  show "i = formatBackupSnapshotID ns name \<and> CHR ''/'' \<notin> set ns"
    if "parseSnapshotID i = (True, ns, name)" for i ns name
    using that by (cases rule: parseSnapshotID_cases [of i])
      (simp_all add: formatBackupSnapshotID_eq)
  show "ns = [] \<and> name = i" if "parseSnapshotID i = (False, ns, name)" for i ns name
    using that by (cases rule: parseSnapshotID_cases [of i]) simp_all
qed

section \<open>Sizes\<close>

lemma sint_SizeAlignment: "sint SizeAlignment = 2097152"
  by (simp add: SizeAlignment_def)

lemma RoundUpSize_remainder:
  assumes "0 < sint sz"
  shows "sint (int64_rem sz SizeAlignment) = sint sz mod 2097152"
  using assms by (simp add: sint_int64_rem sint_SizeAlignment)

lemma RoundUpSize_aligned:
  assumes "0 < sint sz" and "2097152 dvd sint sz"
  shows "RoundUpSize sz = sz"
proof -
  have "int64_rem sz SizeAlignment = 0"
    using RoundUpSize_remainder [OF assms(1)] assms(2) by (simp add: dvd_eq_mod_eq_0 signed_eq_0_iff)
  with assms(1) show ?thesis by (simp add: RoundUpSize_def int64_le_def)
qed

lemma RoundUpSize_unaligned:
  assumes "0 < sint sz" and "\<not> 2097152 dvd sint sz"
  shows "RoundUpSize sz = sz - int64_rem sz SizeAlignment + SizeAlignment"
    and "sint (sz - int64_rem sz SizeAlignment) = sint sz - sint sz mod 2097152"
proof -
  have r: "sint (int64_rem sz SizeAlignment) = sint sz mod 2097152"
    by (rule RoundUpSize_remainder [OF assms(1)])
  with assms(2) have "int64_rem sz SizeAlignment \<noteq> 0" by (auto simp: dvd_eq_mod_eq_0)
  with assms(1) show "RoundUpSize sz = sz - int64_rem sz SizeAlignment + SizeAlignment"
    by (simp add: RoundUpSize_def int64_le_def)
  have "0 \<le> sint sz mod 2097152" "sint sz mod 2097152 \<le> sint sz"
    using assms(1) by (simp_all add: zmod_le_nonneg_dividend)
  with r show "sint (sz - int64_rem sz SizeAlignment) = sint sz - sint sz mod 2097152"
    using int64_bounds [of sz] by (subst sint_int64_diff) simp_all
qed


lemma RoundUpSize_bracket:
  assumes "0 < sint sz" and "sint sz \<le> 2 ^ 63 - 2097152"
  shows "2097152 dvd sint (RoundUpSize sz)"
    and "sint sz \<le> sint (RoundUpSize sz)"
    and "sint (RoundUpSize sz) < sint sz + 2097152"
proof -
  let ?A = "2097152 :: int"
  have "?A dvd sint (RoundUpSize sz) \<and> sint sz \<le> sint (RoundUpSize sz) \<and>
     sint (RoundUpSize sz) < sint sz + ?A"
  proof (cases "?A dvd sint sz")
    case True
    then show ?thesis using assms RoundUpSize_aligned by simp
  next
    case False
    let ?q = "sint sz - sint sz mod ?A"
    have q: "?q = ?A * (sint sz div ?A)" by (simp add: minus_mod_eq_mult_div)
    have m: "0 < sint sz mod ?A" "sint sz mod ?A < ?A"
      using False by (auto simp: dvd_eq_mod_eq_0 less_le)
    have "?q + ?A < 2 ^ 63" 
    proof -
      have "sint sz \<noteq> 2 ^ 63 - ?A" using False by auto
      with assms(2) have "sint sz div ?A < (2 ^ 63 - ?A) div ?A"
        using m by (simp add: minus_mod_eq_mult_div)
      then show ?thesis by (simp add: q)
    qed
    moreover have "0 \<le> ?q" using q assms(1) by (simp add: pos_imp_zdiv_nonneg_iff)
    ultimately have "sint (RoundUpSize sz) = ?q + ?A"
      by (simp add: RoundUpSize_unaligned [OF assms(1) False] sint_int64_add sint_SizeAlignment)
    moreover have "?A dvd ?q + ?A" by (simp add: q)
    ultimately show ?thesis using m by simp
  qed
  then show "2097152 dvd sint (RoundUpSize sz)"
    and "sint sz \<le> sint (RoundUpSize sz)"
    and "sint (RoundUpSize sz) < sint sz + 2097152" by simp_all
qed

lemma RoundUpSize_wraps:
  assumes "2 ^ 63 - 2097152 < sint sz"
  shows "sint (RoundUpSize sz) = - (2 ^ 63)"
proof -
  let ?A = "2097152 :: int"
  have div: "sint sz div ?A = 4398046511103"
    using assms int64_bounds [of sz] by simp
  have q: "sint sz - sint sz mod ?A = 2 ^ 63 - ?A"
    using div by (simp add: minus_mod_eq_mult_div)
  with assms have nd: "\<not> ?A dvd sint sz" by (auto simp: dvd_eq_mod_eq_0)
  have pos: "0 < sint sz" using assms by simp
  show ?thesis
    using q by (simp add: RoundUpSize_unaligned [OF pos nd] sint_word_add sint_SizeAlignment signed_take_bit_eq_if_negative)
qed

text \<open>
  C38: for every positive size up to the largest aligned one, \<open>RoundUpSize\<close> gives the least
  multiple of 2 MiB that is not below the size.
\<close>

theorem RoundUpSize_least:
  assumes "0 < sint sz" and "sint sz \<le> 2 ^ 63 - 2097152"
  shows "2097152 dvd sint (RoundUpSize sz) \<and> sint sz \<le> sint (RoundUpSize sz) \<and>
    (\<forall>k. 2097152 dvd k \<longrightarrow> sint sz \<le> k \<longrightarrow> sint (RoundUpSize sz) \<le> k)"
proof (intro conjI allI impI)
  fix k :: int
  assume k: "2097152 dvd k" "sint sz \<le> k"
  show "sint (RoundUpSize sz) \<le> k"
  proof (rule ccontr)
    assume "\<not> sint (RoundUpSize sz) \<le> k"
    with k(1) RoundUpSize_bracket(1) [OF assms] have "2097152 \<le> sint (RoundUpSize sz) - k"
      by (intro zdvd_imp_le dvd_diff) simp_all
    with k(2) RoundUpSize_bracket(3) [OF assms] show False by linarith
  qed
qed (use RoundUpSize_bracket [OF assms] in simp_all)

theorem RoundUpSize_least_witness:
  "sint (RoundUpSize 10485761) = 12582912 \<and> 2097152 dvd sint (RoundUpSize 10485761) \<and>
   sint (10485761 :: int64) \<le> sint (RoundUpSize 10485761)"
  using RoundUpSize_least [of 10485761]
  by (simp add: RoundUpSize_def int64_le_def int64_rem_def SizeAlignment_def)

text \<open>
  C39: above the largest aligned size the sum in \<open>RoundUpSize\<close> wraps around: the result is the
  smallest \<open>int64\<close>, a negative size.
\<close>

theorem RoundUpSize_overflow:
  assumes "2 ^ 63 - 2097152 < sint sz"
  shows "sint (RoundUpSize sz) = - (2 ^ 63)"
  using assms by (rule RoundUpSize_wraps)

theorem RoundUpSize_overflow_witness:
  "sint (RoundUpSize 9223372036854775807) = - (2 ^ 63)"
  using RoundUpSize_overflow [of 9223372036854775807] by simp

end
