(* ===== verification/Controller_Base.thy ===== *)
theory Controller_Base
  imports Kube_Api Csi_Util
begin

text \<open>
  The controller server's state and the helpers that all of its services share
  (\<open>pkg/csi/controller_server.go\<close>): construction, capability checks, the thin client
  wrappers, the storage class rules, the wait loops and the label check of snapshots.

  The two wait loops have the contract of the locale \<open>bounded_wait\<close>: they succeed only when
  the last poll did, and issue only the calls of the poll.
\<close>

section \<open>State and construction\<close>

datatype service_cap = RpcCap (cap_type: rpc_type)
datatype access_mode_msg = AccessModeMsg (msg_mode: access_mode)

record controller_server =
  cs_namespace :: string
  hostStorageClass :: string
  useDeclarativeHotplug :: bool
  caps :: "service_cap list"
  accessModes :: "access_mode_msg list"

definition HarvesterNS :: string where "HarvesterNS = ''harvester-system''"
definition LonghornNS :: string where "LonghornNS = ''longhorn-system''"
definition longhornProvisioner :: string where "longhornProvisioner = ''driver.longhorn.io''"
definition paramHostSC :: string where "paramHostSC = ''hostStorageClass''"
definition paramHostVolMode :: string where "paramHostVolMode = ''hostVolumeMode''"
definition labelSnapHostSC :: string where "labelSnapHostSC = ''harvesterhci.io/snapHostSC''"
definition labelSnapHostVolumeMode :: string where
  "labelSnapHostVolumeMode = ''harvesterhci.io/snapHostVolumeMode''"
definition labelBackupSrcVol :: string where
  "labelBackupSrcVol = ''harvesterhci.io/backupSourceVolume''"
definition VolumeSnapshotKind :: string where "VolumeSnapshotKind = ''VolumeSnapshot''"
definition annoFSVolumeForVM :: string where
  "annoFSVolumeForVM = ''harvesterhci.io/volumeForVirtualMachine''"

text \<open>\<open>corev1\<close> constants.\<close>

definition PersistentVolumeBlock :: string where "PersistentVolumeBlock = ''Block''"
definition PersistentVolumeFilesystem :: string where
  "PersistentVolumeFilesystem = ''Filesystem''"
definition ReadWriteMany :: string where "ReadWriteMany = ''ReadWriteMany''"
definition ClaimBound :: string where "ClaimBound = ''Bound''"

text \<open>States of a network file system, of its vendored package.\<close>

definition NetworkFSStateEnabled :: string where "NetworkFSStateEnabled = ''Enabled''"
definition NetworkFSStateEnabling :: string where "NetworkFSStateEnabling = ''Enabling''"
definition NetworkFSStateDisabling :: string where "NetworkFSStateDisabling = ''Disabling''"
definition NetworkFSStateDisabled :: string where "NetworkFSStateDisabled = ''Disabled''"

text \<open>The setting that allows expansion of a volume in use, a constant of \<open>manager.go\<close>.\<close>

definition csiOnlineExpandValidation :: string where
  "csiOnlineExpandValidation = ''csi-online-expand-validation''"

fun getControllerServiceCapabilities :: "rpc_type list \<Rightarrow> service_cap list" where
  "getControllerServiceCapabilities [] = []"
| "getControllerServiceCapabilities (c # cl) = RpcCap c # getControllerServiceCapabilities cl"

fun getVolumeCapabilityAccessModes :: "access_mode list \<Rightarrow> access_mode_msg list" where
  "getVolumeCapabilityAccessModes [] = []"
| "getVolumeCapabilityAccessModes (m # vc) = AccessModeMsg m # getVolumeCapabilityAccessModes vc"

definition NewControllerServer ::
  "'w api \<Rightarrow> string \<Rightarrow> string \<Rightarrow> bool \<Rightarrow> ('w, controller_server) io" where
  "NewControllerServer api ns hostSC declarative =
     andThen
       (handle (kList NetworkFilesystems (networkfss api) HarvesterNS empty_options)
         (\<lambda>err. ret [SINGLE_NODE_WRITER])
         (\<lambda>_. ret [SINGLE_NODE_WRITER, MULTI_NODE_MULTI_WRITER]))
       (\<lambda>accessMode.
     andThen
       (handle (kList LonghornVolumes (lhvolumes api) LonghornNS empty_options)
         (\<lambda>err. ret ()) (\<lambda>_. ret ()))
       (\<lambda>_.
     ret \<lparr>cs_namespace = ns, hostStorageClass = hostSC, useDeclarativeHotplug = declarative,
        caps = getControllerServiceCapabilities
          [CREATE_DELETE_VOLUME, PUBLISH_UNPUBLISH_VOLUME, EXPAND_VOLUME,
           CREATE_DELETE_SNAPSHOT, LIST_SNAPSHOTS],
        accessModes = getVolumeCapabilityAccessModes accessMode\<rparr>))"

section \<open>Client wrappers\<close>

definition getHostSnap :: "'w api \<Rightarrow> string \<Rightarrow> string \<Rightarrow> ('w, snapshot) io" where
  "getHostSnap api ns hostSnap = kGet VolumeSnapshots (snapshots api) ns hostSnap"

definition createHostSnap :: "'w api \<Rightarrow> snapshot \<Rightarrow> ('w, snapshot) io" where
  "createHostSnap api hostSnap = kCreate VolumeSnapshots (snapshots api) hostSnap"

definition listHostSnaps ::
  "'w api \<Rightarrow> string \<Rightarrow> list_options \<Rightarrow> ('w, snapshot list \<times> string) io" where
  "listHostSnaps api ns lo = kList VolumeSnapshots (snapshots api) ns lo"

definition deleteHostSnap :: "'w api \<Rightarrow> string \<Rightarrow> string \<Rightarrow> ('w, unit) io" where
  "deleteHostSnap api ns name = kDelete VolumeSnapshots (snapshots api) ns name"

definition getHostSC :: "'w api \<Rightarrow> string \<Rightarrow> ('w, storageclass) io" where
  "getHostSC api sc = kGet StorageClasses (storageclasses api) '''' sc"

definition getHostPVC :: "'w api \<Rightarrow> string \<Rightarrow> string \<Rightarrow> ('w, pvc) io" where
  "getHostPVC api ns vol = kGet PVCs (pvcs api) ns vol"

definition createHostPVC :: "'w api \<Rightarrow> pvc \<Rightarrow> ('w, pvc) io" where
  "createHostPVC api hostPVC = kCreate PVCs (pvcs api) hostPVC"

definition createHostVolumeRemoteBackup :: "'w api \<Rightarrow> vrb \<Rightarrow> ('w, vrb) io" where
  "createHostVolumeRemoteBackup api hostVrb = kCreate VolumeRemoteBackups (vrbs api) hostVrb"

definition getHostVolumeRemoteBackup :: "'w api \<Rightarrow> string \<Rightarrow> string \<Rightarrow> ('w, vrb) io" where
  "getHostVolumeRemoteBackup api ns hostVrb = kGet VolumeRemoteBackups (vrbs api) ns hostVrb"

definition deleteHostVolumeRemoteBackup :: "'w api \<Rightarrow> string \<Rightarrow> string \<Rightarrow> ('w, unit) io" where
  "deleteHostVolumeRemoteBackup api ns name = kDelete VolumeRemoteBackups (vrbs api) ns name"

definition listHostVolumeRemoteBackups ::
  "'w api \<Rightarrow> string \<Rightarrow> list_options \<Rightarrow> ('w, vrb list \<times> string) io" where
  "listHostVolumeRemoteBackups api ns lo = kList VolumeRemoteBackups (vrbs api) ns lo"

definition createHostVolumeRemoteRestore :: "'w api \<Rightarrow> vrr \<Rightarrow> ('w, vrr) io" where
  "createHostVolumeRemoteRestore api hostVrr = kCreate VolumeRemoteRestores (vrrs api) hostVrr"

definition getHostVolumeRemoteRestore :: "'w api \<Rightarrow> string \<Rightarrow> string \<Rightarrow> ('w, vrr) io" where
  "getHostVolumeRemoteRestore api ns hostVrr = kGet VolumeRemoteRestores (vrrs api) ns hostVrr"

definition deleteHostVolumeRemoteRestore :: "'w api \<Rightarrow> string \<Rightarrow> string \<Rightarrow> ('w, unit) io" where
  "deleteHostVolumeRemoteRestore api ns name = kDelete VolumeRemoteRestores (vrrs api) ns name"

definition getHarvCSIConfig :: "'w api \<Rightarrow> ('w, setting) io" where
  "getHarvCSIConfig api = kGet Settings (settings api) '''' ''csi-driver-config''"

section \<open>Capabilities\<close>

fun validateControllerServiceRequest_loop ::
  "rpc_type \<Rightarrow> service_cap list \<Rightarrow> gerror + unit" where
  "validateControllerServiceRequest_loop c [] =
     Inl (status_Errorf InvalidArgument ''unsupported capability %s'' [rpc_String c])"
| "validateControllerServiceRequest_loop c (x # xs) =
     (if c = cap_type x then Inr () else validateControllerServiceRequest_loop c xs)"

definition validateControllerServiceRequest ::
  "controller_server \<Rightarrow> rpc_type \<Rightarrow> gerror + unit" where
  "validateControllerServiceRequest cs c =
     (if c = RPC_UNKNOWN then Inr () else validateControllerServiceRequest_loop c (caps cs))"

fun supportedMode :: "access_mode \<Rightarrow> access_mode_msg list \<Rightarrow> bool" where
  "supportedMode m [] = False"
| "supportedMode m (x # xs) = (if m = msg_mode x then True else supportedMode m xs)"

fun validateVolumeCapabilities_loop ::
  "access_mode_msg list \<Rightarrow> volcap list \<Rightarrow> unit result" where
  "validateVolumeCapabilities_loop modes [] = Ok ()"
| "validateVolumeCapabilities_loop modes (c # cs) =
     (if GetMount c = None \<and> GetBlock c = None then
        Err (status_Error InvalidArgument
          ''cannot have both mount and block access type be undefined'')
      else if GetMount c \<noteq> None \<and> GetBlock c \<noteq> None then
        Err (status_Error InvalidArgument ''cannot have both block and mount access type'')
      else if \<not> supportedMode (GetMode c) modes then
        (case AccessMode c of
           None \<Rightarrow> Panic
         | Some m \<Rightarrow>
             Err (status_Errorf InvalidArgument ''access mode %v is not supported''
               [mode_String m]))
      else validateVolumeCapabilities_loop modes cs)"

definition validateVolumeCapabilities ::
  "controller_server \<Rightarrow> volcap list \<Rightarrow> unit result" where
  "validateVolumeCapabilities cs volumeCaps =
     (if volumeCaps = [] then
        Err (status_Error InvalidArgument ''Volume Capabilities cannot be empty'')
      else validateVolumeCapabilities_loop (accessModes cs) volumeCaps)"

section \<open>Storage classes and volume modes\<close>

definition validStorageClass :: "'w api \<Rightarrow> string \<Rightarrow> ('w, storageclass option) io" where
  "validStorageClass api storageClassName =
     handle (getHostSC api storageClassName)
       (\<lambda>err.
          if ReasonForError err = ''Forbidden'' then ret None
          else if ReasonForError err = ''NotFound'' then fail (status_Error NotFound (Error err))
          else fail (status_Error Internal (Error err)))
       (\<lambda>sc. ret (Some sc))"

text \<open>The target storage class and its provisioner.\<close>

definition getStorageClass ::
  "'w api \<Rightarrow> controller_server \<Rightarrow> (string \<rightharpoonup> string) \<Rightarrow> ('w, string \<times> string) io" where
  "getStorageClass api cs volParameters =
     (case volParameters paramHostSC of
        Some val \<Rightarrow>
          andThen (validStorageClass api val) (\<lambda>sc.
            ret (val, case sc of Some c \<Rightarrow> Provisioner c | None \<Rightarrow> longhornProvisioner))
      | None \<Rightarrow> ret (hostStorageClass cs, longhornProvisioner))"

fun getVolumeMode :: "volcap list \<Rightarrow> string" where
  "getVolumeMode [] = ''''"
| "getVolumeMode (c # cs) =
     (if GetMode c = MULTI_NODE_MULTI_WRITER then PersistentVolumeFilesystem
      else if GetMode c = SINGLE_NODE_WRITER then PersistentVolumeBlock
      else getVolumeMode cs)"

text \<open>
  \<open>isLHRWXVolume\<close>: a failed lookup of the storage class is logged and leaves the empty object,
  whose provisioner is the empty string, so the loop goes on.
\<close>

fun isLHRWXVolume_loop :: "'w api \<Rightarrow> string option \<Rightarrow> string list \<Rightarrow> ('w, bool) io" where
  "isLHRWXVolume_loop api scName [] = ret False"
| "isLHRWXVolume_loop api scName (mode # modes) =
     (if mode \<noteq> ReadWriteMany then isLHRWXVolume_loop api scName modes
      else case scName of
             None \<Rightarrow> panic
           | Some sc \<Rightarrow>
               handle (getHostSC api sc)
                 (\<lambda>err. isLHRWXVolume_loop api scName modes)
                 (\<lambda>c. if Provisioner c = longhornProvisioner then ret True
                      else isLHRWXVolume_loop api scName modes))"

definition isLHRWXVolume :: "'w api \<Rightarrow> pvc \<Rightarrow> ('w, bool) io" where
  "isLHRWXVolume api pvc =
     (if VolumeMode pvc \<noteq> Some PersistentVolumeFilesystem then ret False
      else if AccessModes pvc = [] then ret False
      else isLHRWXVolume_loop api (StorageClassName pvc) (AccessModes pvc))"

section \<open>Pods\<close>

fun pods_use :: "string \<Rightarrow> pod list \<Rightarrow> bool" where
  "pods_use volumeID [] = False"
| "pods_use volumeID (p # ps) =
     (if Some volumeID \<in> set (podClaims p) then True else pods_use volumeID ps)"

definition isVolumeInUse ::
  "'w api \<Rightarrow> controller_server \<Rightarrow> string \<Rightarrow> ('w, bool) io" where
  "isVolumeInUse api cs volumeID =
     handle (kList HostPods (hostPods api) (cs_namespace cs) empty_options)
       (\<lambda>err. fail (Wrapped (Sprintf ''error listing pods: %w'' [Error err]) err))
       (\<lambda>(podList, cont). ret (pods_use volumeID podList))"

section \<open>Snapshot labels\<close>

definition requiredLabels :: "string list" where
  "requiredLabels = [labelSnapHostSC, labelSnapHostVolumeMode]"

text \<open>Go prints a list of strings in brackets, separated by blanks.\<close>

fun print_strings :: "string list \<Rightarrow> string" where
  "print_strings [] = ''''"
| "print_strings [x] = x"
| "print_strings (x # y # xs) = x @ '' '' @ print_strings (y # xs)"

definition validateHostSnapLabels :: "snapshot \<Rightarrow> gerror + unit" where
  "validateHostSnapLabels hostSnap =
     (case Labels hostSnap of
        None \<Rightarrow>
          Inl (ErrorString (Sprintf ''host snapshot %s is missing required labels''
            [Name hostSnap]))
      | Some labels \<Rightarrow>
          (let missingLabels = filter (\<lambda>l. labels l = None) requiredLabels in
           if missingLabels \<noteq> [] then
             Inl (ErrorString (Sprintf ''host snapshot %s is missing required labels: %v''
               [Name hostSnap, ''['' @ print_strings missingLabels @ '']'']))
           else Inr ()))"

section \<open>Wait loops\<close>

text \<open>
  \<open>for { select { case <-timeout: return false; case <-tick: body } }\<close>, where the body
  continues (\<open>None\<close>) or returns (\<open>Some b\<close>). The first argument is the number of ticks that the
  select takes before the timeout.
\<close>

fun select_loop :: "nat \<Rightarrow> ('w, bool option) io \<Rightarrow> ('w, bool) io" where
  "select_loop 0 body = ret False"
| "select_loop (Suc n) body =
     andThen body (\<lambda>r. case r of Some b \<Rightarrow> ret b | None \<Rightarrow> select_loop n body)"

text \<open>\<open>wait.PollUntilContextTimeout\<close> of the vendored apimachinery package.\<close>

fun pollLoop :: "nat \<Rightarrow> ('w, bool) io \<Rightarrow> ('w, unit) io" where
  "pollLoop 0 condition = fail (ErrorString ''context deadline exceeded'')"
| "pollLoop (Suc n) condition =
     andThen condition (\<lambda>ok. if ok then ret () else pollLoop n condition)"

definition PollUntilContextTimeout ::
  "'w api \<Rightarrow> bool \<Rightarrow> ('w, bool) io \<Rightarrow> ('w, unit) io" where
  "PollUntilContextTimeout api immediate condition =
     (let poll = andThen (observe (ticks api)) (\<lambda>n. pollLoop n condition) in
      if immediate then andThen condition (\<lambda>ok. if ok then ret () else poll)
      else poll)"

definition waitForPVCState ::
  "'w api \<Rightarrow> controller_server \<Rightarrow> string \<Rightarrow> (pvc \<Rightarrow> bool) \<Rightarrow> ('w, bool) io" where
  "waitForPVCState api cs name predicate =
     andThen (observe (ticks api)) (\<lambda>n.
       select_loop n
         (handle (kGet PVCs (pvcs api) (cs_namespace cs) name)
           (\<lambda>err. ret None)
           (\<lambda>existVol. ret (if predicate existVol then Some True else None))))"

definition waitForLHVolumeName ::
  "'w api \<Rightarrow> controller_server \<Rightarrow> string \<Rightarrow> ('w, bool) io" where
  "waitForLHVolumeName api cs pvcName =
     andThen (observe (ticks api)) (\<lambda>n.
       select_loop n
         (handle (kGet PVCs (pvcs api) (cs_namespace cs) pvcName)
           (\<lambda>err. ret (Some False))
           (\<lambda>resPVC. ret (if VolumeName resPVC = '''' then None else Some True))))"

section \<open>The contract of a wait loop\<close>

locale bounded_wait =
  fixes wait :: "nat \<Rightarrow> ('w, 'b) io \<Rightarrow> ('w, 'r) io"
    and hit :: "'b \<Rightarrow> bool"
    and good :: "'r result \<Rightarrow> bool"
  assumes wait_zero: "\<not> good (fst (wait 0 c s))"
    and wait_hit: "wait n c s = (r, s') \<Longrightarrow> good r \<Longrightarrow> \<exists>s1 b. c s1 = (Ok b, s') \<and> hit b"
    and wait_issues: "issues P c \<Longrightarrow> issues P (wait n c)"
begin

lemma wait_establishes:
  assumes "wait n c s = (r, s')" and "good r"
    and "\<And>s1 b s2. c s1 = (Ok b, s2) \<Longrightarrow> hit b \<Longrightarrow> Q s2"
  shows "Q s'"
  using wait_hit [OF assms(1,2)] assms(3) by blast

lemma wait_good_polls: "good (fst (wait n c s)) \<Longrightarrow> 0 < n"
  using wait_zero by (cases n) auto

lemma never_hit_never_good:
  assumes "\<And>s1 b s2. c s1 = (Ok b, s2) \<Longrightarrow> \<not> hit b"
  shows "\<not> good (fst (wait n c s))"
  using wait_hit [of n c s "fst (wait n c s)" "snd (wait n c s)"] assms by auto

end

section \<open>The contract of a get-or-create operation\<close>

text \<open>
  Restores, snapshots and backups are made the same way: look for an existing object, give up
  on any error but NotFound, create otherwise.
\<close>

locale get_or_create =
  fixes run :: "('w, 'r) io"
    and existing :: "('w, 'r) io"
    and create_new :: "('w, 'r) io"
  assumes run_eq: "run = handle existing (\<lambda>e. if \<not> IsNotFound e then fail e else create_new) ret"
begin

lemma found: "existing s = (Ok x, s') \<Longrightarrow> run s = (Ok x, s')"
  by (simp add: run_eq handle_run ret_run)

lemma lookup_failed: "existing s = (Err e, s') \<Longrightarrow> \<not> IsNotFound e \<Longrightarrow> run s = (Err e, s')"
  by (simp add: run_eq handle_run fail_run)

lemma missing: "existing s = (Err e, s') \<Longrightarrow> IsNotFound e \<Longrightarrow> run s = create_new s'"
  by (simp add: run_eq handle_run)

lemma run_returns:
  assumes "run s = (r, s')"
  obtains (found) "existing s = (r, s')" "\<And>e. r = Err e \<Longrightarrow> \<not> IsNotFound e"
  | (created) e s1 where "existing s = (Err e, s1)" "IsNotFound e" "create_new s1 = (r, s')"
  using assms by (auto simp: run_eq handle_returns ret_run fail_run split: if_splits)

lemma run_issues: "issues P existing \<Longrightarrow> issues P create_new \<Longrightarrow> issues P run"
  by (auto simp: run_eq intro!: issues_intros)

text \<open>A call that the lookup never issues happens only after the lookup answered NotFound.\<close>

lemma creates_only_when_missing:
  assumes "run s = (r, s')" and "issues P existing"
    and "calls s' = calls s @ tr" and "c \<in> set tr" and "\<not> P c"
  shows "\<exists>e s1. existing s = (Err e, s1) \<and> IsNotFound e"
  using assms(1)
proof (cases rule: run_returns)
  case found
  from issuesD [OF assms(2) found(1)] assms(3,4,5) show ?thesis
    by (metis same_append_eq)
qed blast

end

section \<open>Lemmas\<close>

lemma select_loop_hit:
  "select_loop n c s = (Ok True, s') \<Longrightarrow> \<exists>s1. c s1 = (Ok (Some True), s')"
proof (induction n arbitrary: s)
  case (Suc n)
  from Suc.prems obtain r s1 where c: "c s = (Ok r, s1)"
    and rest: "(case r of Some b \<Rightarrow> ret b | None \<Rightarrow> select_loop n c) s1 = (Ok True, s')"
    by (auto simp: andThen_returns)
  from rest c Suc.IH show ?case by (cases r) (auto simp: ret_run)
qed (simp add: ret_run)

lemma select_loop_issues: "issues P c \<Longrightarrow> issues P (select_loop n c)"
  by (induction n) (auto intro!: issues_intros)

lemma pollLoop_hit: "pollLoop n c s = (Ok (), s') \<Longrightarrow> \<exists>s1. c s1 = (Ok True, s')"
proof (induction n arbitrary: s)
  case (Suc n)
  from Suc.prems obtain r s1 where c: "c s = (Ok r, s1)"
    and rest: "(if r then ret () else pollLoop n c) s1 = (Ok (), s')"
    by (auto simp: andThen_returns)
  from rest c Suc.IH show ?case by (cases r) (auto simp: ret_run)
qed (simp add: fail_run)

lemma pollLoop_issues: "issues P c \<Longrightarrow> issues P (pollLoop n c)"
  by (induction n) (auto intro!: issues_intros)

interpretation sel: bounded_wait select_loop "\<lambda>b. b = Some True" "\<lambda>r. r = Ok True"
proof unfold_locales
  show "\<exists>s1 b. c s1 = (Ok b, s') \<and> b = Some True"
    if "select_loop n c s = (r, s')" "r = Ok True" for n c s r s'
    using select_loop_hit [of n c s s'] that by blast
qed (simp_all add: ret_run select_loop_issues)

interpretation poll: bounded_wait pollLoop "\<lambda>b. b" "\<lambda>r. r = Ok ()"
proof unfold_locales
  show "\<exists>s1 b. c s1 = (Ok b, s') \<and> b" if "pollLoop n c s = (r, s')" "r = Ok ()" for n c s r s'
    using pollLoop_hit [of n c s s'] that by blast
qed (simp_all add: fail_run pollLoop_issues)

lemma PollUntilContextTimeout_hit:
  assumes "PollUntilContextTimeout api immediate c s = (Ok (), s')"
  shows "\<exists>s1. c s1 = (Ok True, s')"
  using assms
  by (auto simp: PollUntilContextTimeout_def returns_iff Let_def split: if_splits
      dest: pollLoop_hit)

lemma issues_PollUntilContextTimeout [issues_intros]:
  "issues P c \<Longrightarrow> issues P (PollUntilContextTimeout api immediate c)"
  by (auto simp: PollUntilContextTimeout_def Let_def intro!: issues_intros poll.wait_issues)

lemma leaves_select_loop [leaves_intros]: "leaves view c \<Longrightarrow> leaves view (select_loop n c)"
  by (induction n) (auto intro!: leaves_intros)

lemma leaves_pollLoop: "leaves view c \<Longrightarrow> leaves view (pollLoop n c)"
  by (induction n) (auto intro!: leaves_intros)

lemma leaves_PollUntilContextTimeout [leaves_intros]:
  "leaves view c \<Longrightarrow> keeps view (ticks api) \<Longrightarrow>
     leaves view (PollUntilContextTimeout api immediate c)"
  by (auto simp: PollUntilContextTimeout_def Let_def intro!: leaves_intros leaves_pollLoop)

lemma leaves_isLHRWXVolume [leaves_intros]:
  assumes "client_keeps view (storageclasses api)"
  shows "leaves view (isLHRWXVolume api p)"
proof -
  have "leaves view (isLHRWXVolume_loop api sc modes)" for sc modes
    using assms
    by (induction modes) (auto simp: getHostSC_def intro!: leaves_intros client_keepsD)
  then show ?thesis by (auto simp: isLHRWXVolume_def intro!: leaves_intros)
qed

lemma leaves_getStorageClass [leaves_intros]:
  "client_keeps view (storageclasses api) \<Longrightarrow> leaves view (getStorageClass api cs vp)"
  by (auto simp: getStorageClass_def validStorageClass_def getHostSC_def
      intro!: leaves_intros client_keepsD)

lemma leaves_waitForLHVolumeName [leaves_intros]:
  "keeps view (ticks api) \<Longrightarrow> (\<And>ns n. keeps view (cget (pvcs api) ns n)) \<Longrightarrow>
     leaves view (waitForLHVolumeName api cs n)"
  by (auto simp: waitForLHVolumeName_def intro!: leaves_intros)

lemma leaves_waitForPVCState [leaves_intros]:
  "keeps view (ticks api) \<Longrightarrow> (\<And>ns n. keeps view (cget (pvcs api) ns n)) \<Longrightarrow>
     leaves view (waitForPVCState api cs n pred)"
  by (auto simp: waitForPVCState_def intro!: leaves_intros)

lemma validateControllerServiceRequest_iff:
  "validateControllerServiceRequest cs c = Inr () \<longleftrightarrow> c = RPC_UNKNOWN \<or> RpcCap c \<in> set (caps cs)"
proof -
  have "validateControllerServiceRequest_loop c xs = Inr () \<longleftrightarrow> RpcCap c \<in> set xs" for xs
  proof (induction xs)
    case (Cons x xs)
    then show ?case by (cases x) auto
  qed simp
  then show ?thesis by (simp add: validateControllerServiceRequest_def)
qed

lemma supportedMode_iff [simp]: "supportedMode m xs \<longleftrightarrow> m \<in> msg_mode ` set xs"
  by (induction xs) auto

lemma pods_use_iff [simp]:
  "pods_use volumeID ps \<longleftrightarrow> (\<exists>p \<in> set ps. Some volumeID \<in> set (podClaims p))"
  by (induction ps) auto

lemma validateVolumeCapabilities_Ok_iff:
  "validateVolumeCapabilities cs vc = Ok () \<longleftrightarrow>
     vc \<noteq> [] \<and> (\<forall>c \<in> set vc. AccessType c \<noteq> None \<and> GetMode c \<in> msg_mode ` set (accessModes cs))"
proof -
  have "validateVolumeCapabilities_loop modes vc = Ok () \<longleftrightarrow>
     (\<forall>c \<in> set vc. AccessType c \<noteq> None \<and> GetMode c \<in> msg_mode ` set modes)" for modes
  proof (induction vc)
    case (Cons c vc)
    then show ?case
      by (cases rule: GetMount_Block_cases [of c]) (auto split: option.splits)
  qed simp
  then show ?thesis by (auto simp: validateVolumeCapabilities_def)
qed

lemma validateHostSnapLabels_iff:
  "validateHostSnapLabels hs = Inr () \<longleftrightarrow>
     (\<exists>labels. Labels hs = Some labels \<and> labels labelSnapHostSC \<noteq> None \<and>
        labels labelSnapHostVolumeMode \<noteq> None)"
  by (auto simp: validateHostSnapLabels_def requiredLabels_def split: option.splits)

lemma issues_isLHRWXVolume [issues_intros]:
  assumes "\<And>n e. P (Call VGet StorageClasses '''' n e)"
  shows "issues P (isLHRWXVolume api p)"
proof -
  have "issues P (isLHRWXVolume_loop api sc modes)" for sc modes
    using assms by (induction modes) (auto simp: getHostSC_def intro!: issues_intros)
  then show ?thesis by (auto simp: isLHRWXVolume_def intro!: issues_intros)
qed

lemma issues_validStorageClass [issues_intros]:
  assumes "\<And>n e. P (Call VGet StorageClasses '''' n e)"
  shows "issues P (validStorageClass api sc)"
  using assms by (auto simp: validStorageClass_def getHostSC_def intro!: issues_intros)

lemma issues_getStorageClass [issues_intros]:
  assumes "\<And>n e. P (Call VGet StorageClasses '''' n e)"
  shows "issues P (getStorageClass api cs vp)"
  using assms by (auto simp: getStorageClass_def intro!: issues_intros)

lemma issues_waitForLHVolumeName [issues_intros]:
  assumes "\<And>e. P (Call VGet PVCs (cs_namespace cs) n e)"
  shows "issues P (waitForLHVolumeName api cs n)"
  using assms by (auto simp: waitForLHVolumeName_def intro!: issues_intros sel.wait_issues)

lemma issues_waitForPVCState [issues_intros]:
  assumes "\<And>e. P (Call VGet PVCs (cs_namespace cs) n e)"
  shows "issues P (waitForPVCState api cs n pred)"
  using assms by (auto simp: waitForPVCState_def intro!: issues_intros sel.wait_issues)

lemma issues_isVolumeInUse [issues_intros]:
  assumes "\<And>e. P (Call VList HostPods (cs_namespace cs) '''' e)"
  shows "issues P (isVolumeInUse api cs v)"
  using assms by (auto simp: isVolumeInUse_def intro!: issues_intros)

end
