(* ===== verification/Vm_Patch.thy ===== *)
theory Vm_Patch
  imports Kube_Api
begin

text \<open>
  What a JSON patch (RFC 6902) does to a virtual machine, for the operations and paths the
  driver sends: \<open>test\<close> of the resource version, \<open>add\<close> at the end of the volume and disk
  lists, \<open>replace\<close> of both lists. KubeVirt omits an empty list from the document, so \<open>add\<close>
  and \<open>replace\<close> find no target there and the patch fails; a failed operation fails the whole
  patch.

  The patches that remove volumes, sent by the controller server and by the node controller,
  have the contract of the locale \<open>patch_removal\<close>: applied to the machine they were computed
  from they drop exactly the chosen names, and they are refused by any machine with another
  resource version.
\<close>

definition rvPath :: string where
  "rvPath = ''/metadata/resourceVersion''"

definition volumesPath :: string where
  "volumesPath = ''/spec/template/spec/volumes''"

definition disksPath :: string where
  "disksPath = ''/spec/template/spec/domain/devices/disks''"

definition apply_template_op :: "patch_op \<Rightarrow> template \<Rightarrow> template option" where
  "apply_template_op p t =
     (case patch_val p of
        PString _ \<Rightarrow> None
      | PVolume x \<Rightarrow>
          if patch_verb p = ''add'' \<and> patch_path p = volumesPath @ ''/-'' \<and> Volumes t \<noteq> []
          then Some (t\<lparr>Volumes := Volumes t @ [x]\<rparr>) else None
      | PDisk x \<Rightarrow>
          if patch_verb p = ''add'' \<and> patch_path p = disksPath @ ''/-'' \<and> Disks t \<noteq> []
          then Some (t\<lparr>Disks := Disks t @ [x]\<rparr>) else None
      | PVolumes xs \<Rightarrow>
          if patch_verb p = ''replace'' \<and> patch_path p = volumesPath \<and> Volumes t \<noteq> []
          then Some (t\<lparr>Volumes := xs\<rparr>) else None
      | PDisks xs \<Rightarrow>
          if patch_verb p = ''replace'' \<and> patch_path p = disksPath \<and> Disks t \<noteq> []
          then Some (t\<lparr>Disks := xs\<rparr>) else None)"

definition apply_op :: "patch_op \<Rightarrow> vm \<Rightarrow> vm option" where
  "apply_op p v =
     (if patch_verb p = ''test'' \<and> patch_path p = rvPath then
        (if patch_val p = PString (ResourceVersion v) then Some v else None)
      else
        Option.bind (Template v) (\<lambda>t.
        Option.bind (apply_template_op p t) (\<lambda>t'. Some (v\<lparr>Template := Some t'\<rparr>))))"

fun apply_ops :: "patch_op list \<Rightarrow> vm \<Rightarrow> vm option" where
  "apply_ops [] v = Some v"
| "apply_ops (p # ps) v = Option.bind (apply_op p v) (apply_ops ps)"

text \<open>
  The server's side of a patch: it succeeds only when the operations apply to the object it
  holds, which becomes the result with a resource version of the server's choice; a failed
  patch changes nothing.
\<close>

definition patch_law :: "'w api \<Rightarrow> ('w \<Rightarrow> string \<Rightarrow> string \<Rightarrow> vm option) \<Rightarrow> bool" where
  "patch_law api lookup \<longleftrightarrow>
     (\<forall>ns n ops w r w'. vmPatch api ns n ops w = (r, w') \<longrightarrow>
        (case r of
           Inr v \<Rightarrow> \<exists>v0 v1 rv. lookup w ns n = Some v0 \<and> apply_ops ops v0 = Some v1 \<and>
             v = v1\<lparr>ResourceVersion := rv\<rparr> \<and>
             lookup w' = (lookup w)(ns := (lookup w ns)(n := Some v))
         | Inl e \<Rightarrow> lookup w' = lookup w))"

definition kPatchVM ::
  "'w api \<Rightarrow> string \<Rightarrow> string \<Rightarrow> patch_op list \<Rightarrow> ('w, vm) io" where
  "kPatchVM api ns n ops = perform VPatch VMs ns n (vmPatch api ns n ops)"

section \<open>Patches that remove volumes\<close>

locale patch_removal =
  fixes ops :: "vm \<Rightarrow> template \<Rightarrow> patch_op list"
    and gone :: "template \<Rightarrow> string \<Rightarrow> bool"
  assumes ops_shape: "ops v t =
    [PatchOp ''test'' rvPath (PString (ResourceVersion v)),
     PatchOp ''replace'' volumesPath
       (PVolumes (filter (\<lambda>x. \<not> gone t (volName x)) (Volumes t))),
     PatchOp ''replace'' disksPath
       (PDisks (filter (\<lambda>d. \<not> gone t (diskName d)) (Disks t)))]"
begin

lemma removal_applies_iff:
  "apply_ops (ops v t) v0 = Some v1 \<longleftrightarrow>
     ResourceVersion v0 = ResourceVersion v \<and>
     (\<exists>t0. Template v0 = Some t0 \<and> Volumes t0 \<noteq> [] \<and> Disks t0 \<noteq> [] \<and>
        v1 = v0\<lparr>Template := Some (t0\<lparr>
          Volumes := filter (\<lambda>x. \<not> gone t (volName x)) (Volumes t),
          Disks := filter (\<lambda>d. \<not> gone t (diskName d)) (Disks t)\<rparr>)\<rparr>)"
  by (auto simp: ops_shape apply_op_def apply_template_op_def volumesPath_def disksPath_def
      rvPath_def split: bind_splits if_splits)

text \<open>A machine that changed since it was read refuses the patch; so what is removed is
  removed from the machine as it is now.\<close>

lemma removal_loses_no_update:
  assumes "apply_ops (ops v t) v0 = Some v1" and "Template v = Some t"
    and "ResourceVersion v0 = ResourceVersion v \<Longrightarrow> v0 = v"
  shows "v0 = v \<and> v1 = v0\<lparr>Template := Some (t\<lparr>
     Volumes := filter (\<lambda>x. \<not> gone t (volName x)) (Volumes t),
     Disks := filter (\<lambda>d. \<not> gone t (diskName d)) (Disks t)\<rparr>)\<rparr>"
  using assms by (auto simp: removal_applies_iff)

end

section \<open>Facts\<close>

lemma patch_law_Ok:
  "patch_law api lookup \<Longrightarrow> vmPatch api ns n ops w = (Inr v, w') \<Longrightarrow>
     \<exists>v0 v1 rv. lookup w ns n = Some v0 \<and> apply_ops ops v0 = Some v1 \<and>
       v = v1\<lparr>ResourceVersion := rv\<rparr> \<and>
       lookup w' = (lookup w)(ns := (lookup w ns)(n := Some v))"
  unfolding patch_law_def by fastforce

lemma kPatchVM_returns [returns_iff]:
  "kPatchVM api ns n ops s = (r, s') \<longleftrightarrow>
     (\<exists>x. vmPatch api ns n ops (world s) = (Inr x, world s') \<and> r = Ok x \<and>
        calls s' = calls s @ [Call VPatch VMs ns n None]) \<or>
     (\<exists>e. vmPatch api ns n ops (world s) = (Inl e, world s') \<and> r = Err e \<and>
        calls s' = calls s @ [Call VPatch VMs ns n (Some e)])"
  by (simp add: kPatchVM_def perform_returns)

lemma issues_kPatchVM [issues_intros]:
  "(\<And>e. P (Call VPatch VMs ns n e)) \<Longrightarrow> issues P (kPatchVM api ns n ops)"
  by (simp add: kPatchVM_def issues_perform)

end
