(* ===== verification/Mem_Api.thy ===== *)
theory Mem_Api
  imports Vm_Patch
begin

text \<open>
  A host and guest cluster held in memory: one list of objects per kind, clients that read and
  write it, JSON patches applied to it. It satisfies the laws of the API servers, and the
  concrete runs of the development use it.
\<close>

section \<open>A client over a list of objects\<close>

definition has_key :: "string \<Rightarrow> string \<Rightarrow> 'x objectmeta_scheme \<Rightarrow> bool" where
  "has_key ns n o' \<longleftrightarrow> Namespace o' = ns \<and> Name o' = n"

fun look :: "'x objectmeta_scheme list \<Rightarrow> string \<Rightarrow> string \<Rightarrow> 'x objectmeta_scheme option" where
  "look [] ns n = None"
| "look (x # xs) ns n = (if has_key ns n x then Some x else look xs ns n)"

text \<open>The objects that \<open>look\<close> finds: the first one of each key.\<close>

fun firsts :: "'x objectmeta_scheme list \<Rightarrow> 'x objectmeta_scheme list" where
  "firsts [] = []"
| "firsts (x # xs) = x # filter (\<lambda>y. \<not> has_key (Namespace x) (Name x) y) (firsts xs)"

definition notFound :: "string \<Rightarrow> gerror" where
  "notFound n = APIStatus ''NotFound'' 404 (n @ '' not found'')"

definition alreadyExists :: "string \<Rightarrow> gerror" where
  "alreadyExists n = APIStatus ''AlreadyExists'' 409 (n @ '' already exists'')"

text \<open>\<open>sel\<close> and \<open>upd\<close> read and write the list of one kind in the world.\<close>

definition mem_client ::
  "('w \<Rightarrow> 'x objectmeta_scheme list) \<Rightarrow> ('x objectmeta_scheme list \<Rightarrow> 'w \<Rightarrow> 'w) \<Rightarrow>
   ('w, 'x objectmeta_scheme) client" where
  "mem_client sel upd =
     \<lparr>cget = (\<lambda>ns n w. case look (sel w) ns n of
         Some x \<Rightarrow> (Inr x, w) | None \<Rightarrow> (Inl (notFound n), w)),
      clist = (\<lambda>ns lo w. (Inr (filter (\<lambda>x. ns = '''' \<or> Namespace x = ns) (firsts (sel w)), ''''), w)),
      ccreate = (\<lambda>x w. case look (sel w) (Namespace x) (Name x) of
         Some _ \<Rightarrow> (Inl (alreadyExists (Name x)), w)
       | None \<Rightarrow> (Inr x, upd (sel w @ [x]) w)),
      cupdate = (\<lambda>x w. case look (sel w) (Namespace x) (Name x) of
         None \<Rightarrow> (Inl (notFound (Name x)), w)
       | Some _ \<Rightarrow>
           (Inr x, upd (map (\<lambda>y. if has_key (Namespace x) (Name x) y then x else y) (sel w)) w)),
      cdelete = (\<lambda>ns n w. case look (sel w) ns n of
         None \<Rightarrow> (Inl (notFound n), w)
       | Some _ \<Rightarrow> (Inr (), upd (filter (\<lambda>y. \<not> has_key ns n y) (sel w)) w))\<rparr>"

section \<open>The cluster\<close>

record mem =
  mPVCs :: "pvc list"
  mSCs :: "storageclass list"
  mSnaps :: "snapshot list"
  mVRBs :: "vrb list"
  mVRRs :: "vrr list"
  mSettings :: "setting list"
  mNFSs :: "networkfs list"
  mLHVols :: "pv list"
  mVMs :: "vm list"
  mVMIs :: "vmi list"
  mHostVAs :: "va list"
  mHostPods :: "pod list"
  mGuestVAs :: "va list"
  mGuestPVs :: "pv list"
  mNodes :: "node list"
  mIndexedPods :: "(string \<times> pod) list"

definition empty_mem :: mem where
  "empty_mem = \<lparr>mPVCs = [], mSCs = [], mSnaps = [], mVRBs = [], mVRRs = [], mSettings = [],
     mNFSs = [], mLHVols = [], mVMs = [], mVMIs = [], mHostVAs = [], mHostPods = [],
     mGuestVAs = [], mGuestPVs = [], mNodes = [], mIndexedPods = []\<rparr>"

definition patch_failed :: gerror where
  "patch_failed = APIStatus ''Invalid'' 422 ''the server rejected our request''"

definition mem_patch :: "string \<Rightarrow> string \<Rightarrow> patch_op list \<Rightarrow> (mem, vm) request" where
  "mem_patch ns n ops w =
     (case look (mVMs w) ns n of
        None \<Rightarrow> (Inl (notFound n), w)
      | Some v \<Rightarrow>
          (case apply_ops ops v of
             None \<Rightarrow> (Inl patch_failed, w)
           | Some v' \<Rightarrow>
               (let v'' = v'\<lparr>ResourceVersion := ResourceVersion v' @ ''+''\<rparr> in
                if has_key ns n v''
                then (Inr v'', w\<lparr>mVMs := map (\<lambda>y. if has_key ns n y then v'' else y) (mVMs w)\<rparr>)
                else (Inl patch_failed, w))))"

text \<open>The subresource calls: a volume enters and leaves the machine and its instance.\<close>

definition mem_add_volume ::
  "string \<Rightarrow> string \<Rightarrow> volume \<Rightarrow> disk \<Rightarrow> (mem, unit) request" where
  "mem_add_volume ns n v d w =
     (case look (mVMs w) ns n of
        None \<Rightarrow> (Inl (notFound n), w)
      | Some m \<Rightarrow>
          (Inr (), w\<lparr>mVMs := map (\<lambda>y. if has_key ns n y then
             y\<lparr>Template := map_option (\<lambda>t. t\<lparr>Volumes := Volumes t @ [v],
               Disks := Disks t @ [d\<lparr>diskName := volName v\<rparr>]\<rparr>) (Template y)\<rparr> else y) (mVMs w),
           mVMIs := map (\<lambda>y. if has_key ns n y then
             y\<lparr>VolumeStatus := VolumeStatus y @ [\<lparr>vsName = volName v, vsHotplug = True,
               vsPhase = ''Ready'', vsTarget = ''sda''\<rparr>]\<rparr> else y) (mVMIs w)\<rparr>))"

definition mem_vm_remove_volume :: "string \<Rightarrow> string \<Rightarrow> string \<Rightarrow> (mem, unit) request" where
  "mem_vm_remove_volume ns n v w =
     (case look (mVMs w) ns n of
        None \<Rightarrow> (Inl (notFound n), w)
      | Some m \<Rightarrow>
          (Inr (), w\<lparr>mVMs := map (\<lambda>y. if has_key ns n y then
             y\<lparr>Template := map_option (\<lambda>t.
               t\<lparr>Volumes := filter (\<lambda>x. volName x \<noteq> v) (Volumes t),
                 Disks := filter (\<lambda>x. diskName x \<noteq> v) (Disks t)\<rparr>) (Template y)\<rparr>
             else y) (mVMs w)\<rparr>))"

definition mem_vmi_remove_volume :: "string \<Rightarrow> string \<Rightarrow> string \<Rightarrow> (mem, unit) request" where
  "mem_vmi_remove_volume ns n v w =
     (case look (mVMIs w) ns n of
        None \<Rightarrow> (Inl (notFound n), w)
      | Some m \<Rightarrow>
          (Inr (), w\<lparr>mVMIs := map (\<lambda>y. if has_key ns n y then
             y\<lparr>VolumeStatus := filter (\<lambda>x. vsName x \<noteq> v) (VolumeStatus y)\<rparr> else y) (mVMIs w)\<rparr>))"

definition mem_api :: "mem api" where
  "mem_api =
     \<lparr>pvcs = mem_client mPVCs (\<lambda>x w. w\<lparr>mPVCs := x\<rparr>),
      storageclasses = mem_client mSCs (\<lambda>x w. w\<lparr>mSCs := x\<rparr>),
      snapshots = mem_client mSnaps (\<lambda>x w. w\<lparr>mSnaps := x\<rparr>),
      vrbs = mem_client mVRBs (\<lambda>x w. w\<lparr>mVRBs := x\<rparr>),
      vrrs = mem_client mVRRs (\<lambda>x w. w\<lparr>mVRRs := x\<rparr>),
      settings = mem_client mSettings (\<lambda>x w. w\<lparr>mSettings := x\<rparr>),
      networkfss = mem_client mNFSs (\<lambda>x w. w\<lparr>mNFSs := x\<rparr>),
      lhvolumes = mem_client mLHVols (\<lambda>x w. w\<lparr>mLHVols := x\<rparr>),
      vms = mem_client mVMs (\<lambda>x w. w\<lparr>mVMs := x\<rparr>),
      vmis = mem_client mVMIs (\<lambda>x w. w\<lparr>mVMIs := x\<rparr>),
      hostVAs = mem_client mHostVAs (\<lambda>x w. w\<lparr>mHostVAs := x\<rparr>),
      hostPods = mem_client mHostPods (\<lambda>x w. w\<lparr>mHostPods := x\<rparr>),
      guestVAs = mem_client mGuestVAs (\<lambda>x w. w\<lparr>mGuestVAs := x\<rparr>),
      guestPVs = mem_client mGuestPVs (\<lambda>x w. w\<lparr>mGuestPVs := x\<rparr>),
      guestNodes = mem_client mNodes (\<lambda>x w. w\<lparr>mNodes := x\<rparr>),
      guestPodsByIndex =
        (\<lambda>idx key w. (Inr (map snd (filter (\<lambda>p. fst p = key) (mIndexedPods w))), w)),
      vmPatch = mem_patch,
      vmAddVolume = mem_add_volume,
      vmRemoveVolume = mem_vm_remove_volume,
      vmiRemoveVolume = mem_vmi_remove_volume,
      ticks = (\<lambda>w. (5, w)),
      mapOrder = (\<lambda>ks w. (ks, w))\<rparr>"

definition in_mem :: "mem \<Rightarrow> mem st" where
  "in_mem w = \<lparr>world = w, calls = []\<rparr>"

section \<open>The cluster satisfies the laws\<close>

lemma look_append:
  "look (xs @ ys) ns n = (case look xs ns n of None \<Rightarrow> look ys ns n | Some x \<Rightarrow> Some x)"
  by (induction xs) auto

lemma look_filter:
  "look (filter (\<lambda>y. \<not> has_key ns n y) xs) ns' n' =
     (if ns' = ns \<and> n' = n then None else look xs ns' n')"
  by (induction xs) (auto simp: has_key_def)

lemma look_map:
  "has_key ns n x \<Longrightarrow> look xs ns n \<noteq> None \<Longrightarrow>
   look (map (\<lambda>y. if has_key ns n y then x else y) xs) ns' n' =
     (if ns' = ns \<and> n' = n then Some x else look xs ns' n')"
proof -
  assume x: "has_key ns n x" and some: "look xs ns n \<noteq> None"
  have "look (map (\<lambda>y. if has_key ns n y then x else y) xs) ns n = Some x"
    using x some by (induction xs) (auto split: if_splits)
  moreover have "look (map (\<lambda>y. if has_key ns n y then x else y) xs) ns' n' = look xs ns' n'"
    if "ns' = ns \<Longrightarrow> n' \<noteq> n"
    using x that by (induction xs) (auto simp: has_key_def)
  ultimately show ?thesis by auto
qed

lemma has_key_self [simp]: "has_key (Namespace x) (Name x) x"
  by (simp add: has_key_def)

lemma look_fun_upd:
  "(\<lambda>ns' n'. if ns' = ns \<and> n' = n then v else f ns' n') = f(ns := (f ns)(n := v))"
  by (intro ext) simp

lemma mem_get_law:
  "get_law (mem_client sel upd) (\<lambda>w. look (sel w))"
  by (auto simp: get_law_def mem_client_def split: option.splits)

lemma mem_delete_law:
  assumes "\<And>x w. sel (upd x w) = x"
  shows "delete_law (mem_client sel upd) (\<lambda>w. look (sel w))"
  using assms
  by (auto simp: delete_law_def mem_client_def look_filter look_fun_upd [symmetric]
      fun_eq_iff split: option.splits)

lemma mem_create_law:
  assumes "\<And>x w. sel (upd x w) = x" and "\<And>x. admits x x"
  shows "create_law (mem_client sel upd) (\<lambda>w. look (sel w)) admits"
  using assms
  by (auto simp: create_law_def mem_client_def look_append fun_eq_iff
      has_key_def split: option.splits)

lemma mem_update_law:
  assumes "\<And>x w. sel (upd x w) = x" and "\<And>x. admits x x"
  shows "update_law (mem_client sel upd) (\<lambda>w. look (sel w)) admits"
  using assms
  by (auto simp: update_law_def mem_client_def look_map fun_eq_iff
      split: option.splits)

lemma firsts_look: "x \<in> set (firsts xs) \<longleftrightarrow> look xs (Namespace x) (Name x) = Some x"
  by (induction xs) (auto simp: has_key_def)

lemma look_key: "look xs ns n = Some x \<Longrightarrow> Namespace x = ns \<and> Name x = n"
  by (induction xs) (auto simp: has_key_def split: if_splits)

lemma mem_list_law: "list_law (mem_client sel upd) (\<lambda>w. look (sel w))"
  by (auto simp: list_law_def mem_client_def firsts_look dest: look_key)

lemma mem_client_keeps:
  "(\<And>x w. view (upd x w) = view w) \<Longrightarrow> client_keeps view (mem_client sel upd)"
  by (auto simp: client_keeps_def keeps_def mem_client_def split: option.splits)

lemma mem_api_ticks [simp]: "keeps view (ticks mem_api)"
  by (simp add: keeps_def mem_api_def)

lemmas mem_laws = mem_get_law mem_delete_law mem_create_law mem_update_law mem_client_keeps

lemma mem_patch_law: "patch_law mem_api (\<lambda>w. look (mVMs w))"
  by (auto simp: patch_law_def mem_api_def mem_patch_def look_map Let_def fun_eq_iff
      split: option.splits if_splits)

lemma mem_keyed: "keyed (\<lambda>w. look (sel w))"
  by (auto simp: keyed_def dest: look_key)

lemma in_mem_simps [simp]: "calls (in_mem w) = []" "world (in_mem w) = w"
  by (simp_all add: in_mem_def)

end
