(* ===== verification/Controller_Volume.thy ===== *)
theory Controller_Volume
  imports Controller_Base Mem_Api
begin

text \<open>
  The volume services of the controller server: \<open>CreateVolume\<close> (from nothing, from a snapshot
  or from a backup), \<open>DeleteVolume\<close>, \<open>ValidateVolumeCapabilities\<close> and the calls that are not
  implemented (\<open>pkg/csi/controller_server.go\<close>).
\<close>

section \<open>CreateVolume\<close>

fun has_rwx :: "volcap list \<Rightarrow> bool" where
  "has_rwx [] = False"
| "has_rwx (v # vc) = (if GetMode v = MULTI_NODE_MULTI_WRITER then True else has_rwx vc)"

definition validateVolumeContentSource ::
  "content_source option option \<Rightarrow> volcap list \<Rightarrow> gerror + unit" where
  "validateVolumeContentSource vcs vc =
     (if vcs = None then Inr ()
      else if GetVolume vcs \<noteq> None then
        Inl (status_Error InvalidArgument ''Volume cloning from another volume is not supported,'')
      else case GetSnapshot vcs of
             None \<Rightarrow> Inr ()
           | Some snapshotId \<Rightarrow>
               if snapshotId = '''' then
                 Inl (status_Error InvalidArgument
                   ''Snapshot source is specified but SnapshotId is empty'')
               else if has_rwx vc then
                 Inl (status_Error InvalidArgument
                   ''Creating RWX volumes from snapshots is not supported'')
               else Inr ())"

text \<open>The size a request asks for, at least the minimal one.\<close>

definition requested_size :: "create_volume_request \<Rightarrow> int64" where
  "requested_size req =
     (let volSizeBytes =
        (case cvCapacityRange req of None \<Rightarrow> MinimalVolumeSize | Some r \<Rightarrow> RequiredBytes r)
      in if int64_less volSizeBytes MinimalVolumeSize then MinimalVolumeSize else volSizeBytes)"

definition validateCreateVolReq ::
  "controller_server \<Rightarrow> create_volume_request \<Rightarrow> ((string \<rightharpoonup> string) \<times> int64) result" where
  "validateCreateVolReq cs req =
     (case validateControllerServiceRequest cs CREATE_DELETE_VOLUME of
        Inl err \<Rightarrow>
          Err (status_Errorf InvalidArgument ''invalid create volume req: %v'' [Error err])
      | Inr _ \<Rightarrow>
     (if cvName req = '''' then
        Err (status_Error InvalidArgument ''Volume Name cannot be empty'')
      else
     (case validateVolumeCapabilities cs (cvCapabilities req) of
        Err err \<Rightarrow> Err err
      | Panic \<Rightarrow> Panic
      | Ok _ \<Rightarrow>
     (case validateVolumeContentSource (cvContentSource req) (cvCapabilities req) of
        Inl err \<Rightarrow> Err err
      | Inr _ \<Rightarrow>
          (let volumeParameters =
             (case cvParameters req of None \<Rightarrow> Map.empty | Some p \<Rightarrow> p)
           in Ok (volumeParameters, requested_size req))))))"

text \<open>A PVC with just a namespace and a name.\<close>

definition new_pvc :: "string \<Rightarrow> string \<Rightarrow> pvc" where
  "new_pvc ns name = \<lparr>Namespace = ns, Name = name, ResourceVersion = '''', Labels = None,
     Annotations = None, CreationTimestamp = None, DeletionTimestamp = None,
     AccessModes = [], VolumeMode = None, StorageClassName = None, VolumeName = '''',
     Requests = None, DataSource = None, Phase = '''', Capacity = None\<rparr>"

definition buildHostPVCFromSnap ::
  "'w api \<Rightarrow> controller_server \<Rightarrow> string \<Rightarrow> string \<Rightarrow> int64 \<Rightarrow> ('w, pvc) io" where
  "buildHostPVCFromSnap api cs name snapshotId sz =
     andThen (getHostSnap api (cs_namespace cs) snapshotId) (\<lambda>hostSnap.
     andThen (lift_result (validateHostSnapLabels hostSnap)) (\<lambda>_.
     let storageClassName = map_index (Labels hostSnap) labelSnapHostSC;
         volumeModeStr = map_index (Labels hostSnap) labelSnapHostVolumeMode in
     andThen (getHostSC api storageClassName) (\<lambda>_.
     if volumeModeStr \<noteq> PersistentVolumeBlock \<and> volumeModeStr \<noteq> PersistentVolumeFilesystem then
       fail (status_Errorf Internal ''Invalid volume mode %s in snapshot labels'' [volumeModeStr])
     else
       ret ((new_pvc (cs_namespace cs) name)
         \<lparr>AccessModes := [ReadWriteMany],
          VolumeMode := Some volumeModeStr,
          StorageClassName := Some storageClassName,
          Requests := Some [''storage'' \<mapsto> sz],
          DataSource := Some \<lparr>APIGroup = Some ''snapshot.storage.k8s.io'',
            RefKind = VolumeSnapshotKind, RefName = Name hostSnap\<rparr>\<rparr>))))"

definition buildHostPVCFromScratch ::
  "'w api \<Rightarrow> controller_server \<Rightarrow> string \<Rightarrow> volcap list \<Rightarrow> (string \<rightharpoonup> string) \<Rightarrow> int64 \<Rightarrow>
   ('w, pvc) io" where
  "buildHostPVCFromScratch api cs name vc vp sz =
     andThen (getStorageClass api cs vp) (\<lambda>(targetSC, targetProvisioner).
     let volumeMode =
           (if vp paramHostVolMode = Some ''filesystem'' then PersistentVolumeFilesystem
            else getVolumeMode vc);
         annotations =
           (if volumeMode = PersistentVolumeFilesystem \<and> targetProvisioner \<noteq> longhornProvisioner
            then Some [annoFSVolumeForVM \<mapsto> ''true''] else None) in
     ret ((new_pvc (cs_namespace cs) name)
       \<lparr>AccessModes := [ReadWriteMany],
        Annotations := annotations,
        VolumeMode := Some volumeMode,
        StorageClassName := (if targetSC \<noteq> '''' then Some targetSC else None),
        Requests := Some [''storage'' \<mapsto> RoundUpSize sz]\<rparr>))"

definition buildHostPVC ::
  "'w api \<Rightarrow> controller_server \<Rightarrow> create_volume_request \<Rightarrow> (string \<rightharpoonup> string) \<Rightarrow> int64 \<Rightarrow>
   ('w, pvc) io" where
  "buildHostPVC api cs req vp sz =
     (if cvContentSource req = None then
        buildHostPVCFromScratch api cs (cvName req) (cvCapabilities req) vp sz
      else case GetSnapshot (cvContentSource req) of
             Some snapshotId \<Rightarrow> buildHostPVCFromSnap api cs (cvName req) snapshotId sz
           | None \<Rightarrow>
               fail (status_Error InvalidArgument
                 ''Only snapshot content source is supported for now''))"

definition isBackupSnapshotRestore :: "create_volume_request \<Rightarrow> bool" where
  "isBackupSnapshotRestore req =
     (case GetSnapshot (cvContentSource req) of
        None \<Rightarrow> False
      | Some snapshotID \<Rightarrow> fst (parseSnapshotID snapshotID))"

definition generateHostVolumeRemoteRestore ::
  "'w api \<Rightarrow> controller_server \<Rightarrow> string \<Rightarrow> vrb \<Rightarrow> ('w, vrr) io" where
  "generateHostVolumeRemoteRestore api cs name vrb =
     createHostVolumeRemoteRestore api
       \<lparr>Namespace = cs_namespace cs, Name = name, ResourceVersion = '''', Labels = None,
        Annotations = None, CreationTimestamp = None, DeletionTimestamp = None,
        vrrType = ''lh'', vrrFrom = Sprintf ''%s/%s'' [Namespace vrb, Name vrb],
        vrrSuccess = False\<rparr>"

definition getOrCreateVolumeRemoteRestore ::
  "'w api \<Rightarrow> controller_server \<Rightarrow> string \<Rightarrow> vrb \<Rightarrow> ('w, vrr) io" where
  "getOrCreateVolumeRemoteRestore api cs name vrb =
     handle (getHostVolumeRemoteRestore api (cs_namespace cs) name)
       (\<lambda>err. if \<not> IsNotFound err then fail err
              else generateHostVolumeRemoteRestore api cs name vrb)
       (\<lambda>existingVrr. ret existingVrr)"

definition checkVolumeRemoteRestoreReadiness ::
  "'w api \<Rightarrow> controller_server \<Rightarrow> string \<Rightarrow> ('w, bool) io" where
  "checkVolumeRemoteRestoreReadiness api cs name =
     handle (getHostVolumeRemoteRestore api (cs_namespace cs) name)
       (\<lambda>err. ret False)
       (\<lambda>vrr. ret (vrrSuccess vrr))"

definition buildHostVolumeRemoteRestoreFromBackup ::
  "'w api \<Rightarrow> controller_server \<Rightarrow> string \<Rightarrow> vrb \<Rightarrow> ('w, vrr) io" where
  "buildHostVolumeRemoteRestoreFromBackup api cs name vrb =
     andThen (getOrCreateVolumeRemoteRestore api cs name vrb) (\<lambda>vrr.
     andThen (checkVolumeRemoteRestoreReadiness api cs (Name vrr)) (\<lambda>ready.
     if \<not> ready then
       fail (status_Errorf Internal ''VolumeRemoteRestore %s is not ready'' [Name vrr])
     else ret vrr))"

definition buildHostVolumeRemoteRestore ::
  "'w api \<Rightarrow> controller_server \<Rightarrow> create_volume_request \<Rightarrow> (string \<rightharpoonup> string) \<Rightarrow>
   ('w, csi_volume) io" where
  "buildHostVolumeRemoteRestore api cs req volumeParameters =
     (let snapshotID =
        (case GetSnapshot (cvContentSource req) of None \<Rightarrow> '''' | Some sid \<Rightarrow> sid) in
      case parseSnapshotID snapshotID of (isBackup, vrbNs, vrbName) \<Rightarrow>
      if \<not> isBackup then
        fail (status_Error InvalidArgument ''Invalid backup snapshot ID format'')
      else
      andThen (getHostVolumeRemoteBackup api vrbNs vrbName) (\<lambda>vrb.
      andThen (buildHostVolumeRemoteRestoreFromBackup api cs (cvName req) vrb) (\<lambda>vrr.
      ret \<lparr>VolumeId = Name vrr, CapacityBytes = Storage (SourceRequests vrb),
           VolumeContext = volumeParameters, ContentSource = cvContentSource req\<rparr>)))"

definition createNetworkFilesystem :: "'w api \<Rightarrow> string \<Rightarrow> ('w, unit) io" where
  "createNetworkFilesystem api volumeName =
     handle
       (kCreate NetworkFilesystems (networkfss api)
         \<lparr>Namespace = HarvesterNS, Name = volumeName, ResourceVersion = '''', Labels = None,
          Annotations = None, CreationTimestamp = None, DeletionTimestamp = None,
          NetworkFSName = volumeName, DesiredState = NetworkFSStateDisabled, NFSProvisioner = LHName,
          NFSState = '''', NFSEndpoint = '''', NFSStatus = '''', MountOpts = ''''\<rparr>)
       (\<lambda>err. if \<not> IsAlreadyExists err then fail err else ret ())
       (\<lambda>_. ret ())"

text \<open>The part of \<open>CreateVolume\<close> after the PVC exists: a Longhorn RWX volume also gets its
  network file system.\<close>

definition ensureNetworkFilesystem ::
  "'w api \<Rightarrow> controller_server \<Rightarrow> pvc \<Rightarrow> ('w, unit) io" where
  "ensureNetworkFilesystem api cs resHostPVC =
     andThen (isLHRWXVolume api resHostPVC) (\<lambda>rwx.
     if \<not> rwx then ret ()
     else
     andThen (waitForLHVolumeName api cs (Name resHostPVC)) (\<lambda>ready.
     if \<not> ready then
       fail (status_Errorf DeadlineExceeded ''Failed to create volume %s'' [Name resHostPVC])
     else
     handle (kGet PVCs (pvcs api) (cs_namespace cs) (Name resHostPVC))
       (\<lambda>err. fail (status_Errorf Internal ''Failed to get PVC %s: %v'' ['''', Error err]))
       (\<lambda>resPVC.
     handle (createNetworkFilesystem api (VolumeName resPVC))
       (\<lambda>err. fail (status_Errorf Internal
          ''Failed to create NetworkFileSystem for volume %s: %v'' [Name resPVC, Error err]))
       (\<lambda>_. ret ()))))"

definition CreateVolume ::
  "'w api \<Rightarrow> controller_server \<Rightarrow> create_volume_request \<Rightarrow> ('w, csi_volume) io" where
  "CreateVolume api cs req =
     andThen (lift (validateCreateVolReq cs req)) (\<lambda>(volumeParameters, volSizeBytes).
     if isBackupSnapshotRestore req then buildHostVolumeRemoteRestore api cs req volumeParameters
     else
     andThen (buildHostPVC api cs req volumeParameters volSizeBytes) (\<lambda>hostPVC.
     handle (createHostPVC api hostPVC)
       (\<lambda>err. fail (status_Error Internal (Error err)))
       (\<lambda>resHostPVC.
     andThen (ensureNetworkFilesystem api cs resHostPVC) (\<lambda>_.
     ret \<lparr>VolumeId = Name resHostPVC, CapacityBytes = volSizeBytes,
          VolumeContext = volumeParameters, ContentSource = cvContentSource req\<rparr>))))"

section \<open>DeleteVolume\<close>

definition deleteVolumeRemoteRestoreIfExists ::
  "'w api \<Rightarrow> controller_server \<Rightarrow> string \<Rightarrow> ('w, bool) io" where
  "deleteVolumeRemoteRestoreIfExists api cs volumeID =
     handle (getHostVolumeRemoteRestore api (cs_namespace cs) volumeID)
       (\<lambda>err. if IsNotFound err then ret False else fail err)
       (\<lambda>pr.
     andThen (deleteHostVolumeRemoteRestore api (cs_namespace cs) volumeID) (\<lambda>_.
     ret True))"

text \<open>The removal of the network file system of a Longhorn RWX volume.\<close>

definition removeNetworkFilesystem :: "'w api \<Rightarrow> string \<Rightarrow> ('w, unit) io" where
  "removeNetworkFilesystem api volumeName =
     handle (kGet NetworkFilesystems (networkfss api) HarvesterNS volumeName)
       (\<lambda>err. if \<not> IsNotFound err then
                fail (status_Errorf Internal ''Failed to get NetworkFileSystem %s: %v''
                  [volumeName, Error err])
              else ret ())
       (\<lambda>_.
     handle (kDelete NetworkFilesystems (networkfss api) HarvesterNS volumeName)
       (\<lambda>err. fail (status_Errorf Internal ''Failed to delete NetworkFileSystem %s: %v''
          [volumeName, Error err]))
       (\<lambda>_. ret ()))"

text \<open>The deletion of the claim that was found.\<close>

definition deletePVC :: "'w api \<Rightarrow> controller_server \<Rightarrow> string \<Rightarrow> pvc \<Rightarrow> ('w, unit) io" where
  "deletePVC api cs volumeId resPVC =
     andThen (isLHRWXVolume api resPVC) (\<lambda>rwx.
     andThen (if rwx then removeNetworkFilesystem api (VolumeName resPVC) else ret ()) (\<lambda>_.
     handle (kDelete PVCs (pvcs api) (cs_namespace cs) volumeId)
       (\<lambda>err. if IsNotFound err then ret ()
              else fail (status_Errorf Internal ''Failed to delete PVC %v: %v''
                [volumeId, Error err]))
       (\<lambda>_. ret ())))"

definition DeleteVolume :: "'w api \<Rightarrow> controller_server \<Rightarrow> string \<Rightarrow> ('w, unit) io" where
  "DeleteVolume api cs volumeId =
     (if volumeId = '''' then
        fail (status_Error InvalidArgument ''Volume ID missing in request'')
      else case validateControllerServiceRequest cs CREATE_DELETE_VOLUME of
        Inl err \<Rightarrow>
          fail (status_Errorf Internal ''Invalid delete volume req: %v'' [Error err])
      | Inr _ \<Rightarrow>
     andThen (deleteVolumeRemoteRestoreIfExists api cs volumeId) (\<lambda>deleted.
     if deleted then ret ()
     else
     handle (kGet PVCs (pvcs api) (cs_namespace cs) volumeId)
       (\<lambda>err. if IsNotFound err then ret ()
              else fail (status_Errorf Internal ''Failed to get PVC %s: %v''
                [volumeId, Error err]))
       (\<lambda>resPVC.
     deletePVC api cs volumeId resPVC)))"

section \<open>The other volume calls\<close>

definition ControllerGetCapabilities :: "controller_server \<Rightarrow> service_cap list" where
  "ControllerGetCapabilities cs = caps cs"

record validate_response =
  confirmedContext :: "(string \<rightharpoonup> string) option"
  confirmedCapabilities :: "volcap list"
  confirmedParameters :: "(string \<rightharpoonup> string) option"

definition ValidateVolumeCapabilities ::
  "'w api \<Rightarrow> controller_server \<Rightarrow> validate_request \<Rightarrow> ('w, validate_response) io" where
  "ValidateVolumeCapabilities api cs req =
     handle (kGet PVCs (pvcs api) (cs_namespace cs) (vvVolumeId req))
       (\<lambda>err. if IsNotFound err then
                fail (status_Errorf NotFound ''The PVC %s does not exist'' [vvVolumeId req])
              else
                fail (status_Errorf Internal ''Failed to get PVC %s: %v''
                  [vvVolumeId req, Error err]))
       (\<lambda>_.
     andThen (lift (validateVolumeCapabilities cs (vvCapabilities req))) (\<lambda>_.
     ret \<lparr>confirmedContext = vvContext req, confirmedCapabilities = vvCapabilities req,
          confirmedParameters = vvParameters req\<rparr>))"

definition ControllerGetVolume :: "('w, unit) io" where
  "ControllerGetVolume = fail (status_Error Unimplemented '''')"

definition ListVolumes :: "('w, unit) io" where
  "ListVolumes = fail (status_Error Unimplemented '''')"

definition GetCapacity :: "('w, unit) io" where
  "GetCapacity = fail (status_Error Unimplemented '''')"

definition ControllerModifyVolume :: "('w, unit) io" where
  "ControllerModifyVolume = fail (status_Error Unimplemented '''')"

section \<open>What the servers promise\<close>

text \<open>
  The laws of the server of claims and of the server of restores that the theorems on effects
  assume: those of \<open>Kube_Api\<close>, and that calls on other kinds of object leave it alone. The
  object a create stores has the name, size, modes and data source that were asked for.
\<close>

definition pvc_admits :: "pvc \<Rightarrow> pvc \<Rightarrow> bool" where
  "pvc_admits obj x \<longleftrightarrow>
     Namespace x = Namespace obj \<and> Name x = Name obj \<and> Requests x = Requests obj \<and>
     AccessModes x = AccessModes obj \<and> VolumeMode x = VolumeMode obj \<and>
     DataSource x = DataSource obj \<and>
     (StorageClassName obj \<noteq> None \<longrightarrow> StorageClassName x = StorageClassName obj)"

text \<open>The laws of the claims' client, and that the other clients of \<open>CreateVolume\<close> and
  \<open>DeleteVolume\<close> leave the claims alone.\<close>

definition pvc_server :: "'w api \<Rightarrow> ('w \<Rightarrow> string \<Rightarrow> string \<Rightarrow> pvc option) \<Rightarrow> bool" where
  "pvc_server api lookup \<longleftrightarrow>
     get_law (pvcs api) lookup \<and> create_law (pvcs api) lookup pvc_admits \<and>
     delete_law (pvcs api) lookup \<and>
     client_keeps lookup (storageclasses api) \<and> client_keeps lookup (snapshots api) \<and>
     client_keeps lookup (networkfss api) \<and> client_keeps lookup (vrrs api) \<and>
     keeps lookup (ticks api)"

text \<open>What an API server keeps of a remote restore that is created.\<close>

definition vrr_admits :: "vrr \<Rightarrow> vrr \<Rightarrow> bool" where
  "vrr_admits obj x \<longleftrightarrow> Namespace x = Namespace obj \<and> Name x = Name obj \<and>
     vrrType x = vrrType obj \<and> vrrFrom x = vrrFrom obj"

text \<open>The laws of the remote restores' client, and that the others leave the restores alone.\<close>

definition vrr_server :: "'w api \<Rightarrow> ('w \<Rightarrow> string \<Rightarrow> string \<Rightarrow> vrr option) \<Rightarrow> bool" where
  "vrr_server api lookup \<longleftrightarrow>
     get_law (vrrs api) lookup \<and> create_law (vrrs api) lookup vrr_admits \<and>
     delete_law (vrrs api) lookup \<and>
     client_keeps lookup (storageclasses api) \<and> client_keeps lookup (networkfss api) \<and>
     client_keeps lookup (vrbs api) \<and> client_keeps lookup (pvcs api)"

text \<open>A call that restoring a backup may issue.\<close>

definition restore_call :: "controller_server \<Rightarrow> create_volume_request \<Rightarrow> call \<Rightarrow> bool" where
  "restore_call cs req c \<longleftrightarrow>
     call_verb c = VGet \<and> call_kind c \<in> {VolumeRemoteBackups, VolumeRemoteRestores} \<or>
     call_verb c = VCreate \<and> call_kind c = VolumeRemoteRestores \<and>
       call_ns c = cs_namespace cs \<and> call_name c = cvName req"

text \<open>Every call on claims but a read is the deletion of the claim, the last call of the log, after a
  remote restore of the name was found missing and the claim was found.\<close>

definition delete_shape :: "controller_server \<Rightarrow> string \<Rightarrow> call list \<Rightarrow> bool" where
  "delete_shape cs vid tr \<longleftrightarrow>
     (\<forall>c \<in> set tr. call_kind c = PVCs \<longrightarrow> call_verb c \<noteq> VGet \<longrightarrow>
       (\<exists>e d mid. IsNotFound e \<and> c = Call VDelete PVCs (cs_namespace cs) vid d \<and>
          (\<forall>m \<in> set mid. call_kind m \<in> {StorageClasses, NetworkFilesystems}) \<and>
          tr = Call VGet VolumeRemoteRestores (cs_namespace cs) vid (Some e) #
               Call VGet PVCs (cs_namespace cs) vid None # mid @ [c]))"

section \<open>Lemmas\<close>

lemma has_rwx_iff: "has_rwx vc \<longleftrightarrow> (\<exists>c \<in> set vc. GetMode c = MULTI_NODE_MULTI_WRITER)"
  by (induction vc) auto

lemma validateVolumeContentSource_iff:
  "validateVolumeContentSource vcs vc = Inr () \<longleftrightarrow>
     GetVolume vcs = None \<and>
     (\<forall>sid. GetSnapshot vcs = Some sid \<longrightarrow>
        sid \<noteq> '''' \<and> (\<forall>c \<in> set vc. GetMode c \<noteq> MULTI_NODE_MULTI_WRITER))"
  by (auto simp: validateVolumeContentSource_def has_rwx_iff GetVolume_def GetSnapshot_def
      split: option.splits content_source.splits)

lemma validateCreateVolReq_Ok:
  "validateCreateVolReq cs req = Ok (vp, sz) \<longleftrightarrow>
     RpcCap CREATE_DELETE_VOLUME \<in> set (caps cs) \<and> cvName req \<noteq> '''' \<and>
     validateVolumeCapabilities cs (cvCapabilities req) = Ok () \<and>
     validateVolumeContentSource (cvContentSource req) (cvCapabilities req) = Inr () \<and>
     vp = (case cvParameters req of None \<Rightarrow> Map.empty | Some p \<Rightarrow> p) \<and> sz = requested_size req"
  using validateControllerServiceRequest_iff [of cs CREATE_DELETE_VOLUME]
  by (auto simp: validateCreateVolReq_def Let_def split: sum.splits result.splits option.splits if_splits)

lemma requested_size_bounds:
  "sint MinimalVolumeSize \<le> sint (requested_size req)"
  "cvCapacityRange req = Some r \<Longrightarrow> sint (RequiredBytes r) \<le> sint (requested_size req)"
  by (auto simp: requested_size_def int64_less_def Let_def split: option.splits)

lemma CreateVolume_pvc_inversion:
  assumes "CreateVolume api cs req s = (Ok v, s')" and "\<not> isBackupSnapshotRestore req"
  obtains vp hostPVC res s1 s2 where
    "validateCreateVolReq cs req = Ok (vp, requested_size req)"
    "buildHostPVC api cs req vp (requested_size req) s = (Ok hostPVC, s1)"
    "kCreate PVCs (pvcs api) hostPVC s1 = (Ok res, s2)"
    "ensureNetworkFilesystem api cs res s2 = (Ok (), s')"
    "v = \<lparr>VolumeId = Name res, CapacityBytes = requested_size req, VolumeContext = vp,
       ContentSource = cvContentSource req\<rparr>"
proof -
  from assms(1) obtain vp sz s1 where val: "validateCreateVolReq cs req = Ok (vp, sz)"
    and rest: "andThen (buildHostPVC api cs req vp sz) (\<lambda>hostPVC.
     handle (createHostPVC api hostPVC)
       (\<lambda>err. fail (status_Error Internal (Error err)))
       (\<lambda>resHostPVC.
     andThen (ensureNetworkFilesystem api cs resHostPVC) (\<lambda>_.
     ret \<lparr>VolumeId = Name resHostPVC, CapacityBytes = sz,
          VolumeContext = vp, ContentSource = cvContentSource req\<rparr>))) s = (Ok v, s')"
    using assms(2) by (auto simp: CreateVolume_def andThen_returns [of "lift _"] lift_run)
  moreover have "sz = requested_size req" using val by (simp add: validateCreateVolReq_Ok)
  ultimately show thesis
    by (auto simp: andThen_returns handle_returns ret_run fail_run createHostPVC_def intro: that)
qed

lemma pvc_serverD:
  assumes "pvc_server api lookup"
  shows "get_law (pvcs api) lookup" "create_law (pvcs api) lookup pvc_admits"
    "delete_law (pvcs api) lookup" "keeps lookup (cget (pvcs api) ns n)"
    "client_keeps lookup (storageclasses api)" "client_keeps lookup (snapshots api)"
    "client_keeps lookup (networkfss api)" "client_keeps lookup (vrrs api)"
    "keeps lookup (ticks api)"
  using assms by (simp_all add: pvc_server_def get_law_keeps)

lemma leaves_ensureNetworkFilesystem [leaves_intros]:
  "pvc_server api lookup \<Longrightarrow> leaves lookup (ensureNetworkFilesystem api cs p)"
  unfolding ensureNetworkFilesystem_def createNetworkFilesystem_def
  by (intro leaves_intros client_keepsD pvc_serverD) (assumption | erule pvc_serverD)+

lemma leaves_buildHostPVC [leaves_intros]:
  "pvc_server api lookup \<Longrightarrow> leaves lookup (buildHostPVC api cs req vp sz)"
  unfolding buildHostPVC_def buildHostPVCFromScratch_def buildHostPVCFromSnap_def getHostSnap_def
    getHostSC_def
  by (intro leaves_intros client_keepsD pvc_serverD) (assumption | erule pvc_serverD)+

lemma buildHostPVC_identity:
  assumes "buildHostPVC api cs req vp sz s = (Ok p, s')"
  shows "Namespace p = cs_namespace cs" "Name p = cvName req" "AccessModes p = [ReadWriteMany]"
  using assms
  by (auto simp: buildHostPVC_def buildHostPVCFromScratch_def buildHostPVCFromSnap_def Let_def
      returns_iff new_pvc_def split: if_splits option.splits)

lemma mem_pvc_server: "pvc_server mem_api (\<lambda>w. look (mPVCs w))"
  unfolding pvc_server_def
  by (intro conjI mem_api_ticks) (simp_all add: mem_api_def mem_laws pvc_admits_def)

lemma CreateVolume_stores:
  assumes srv: "pvc_server api lookup"
    and ok: "CreateVolume api cs req s = (Ok v, s')" and "\<not> isBackupSnapshotRestore req"
  obtains vp hostPVC res s1 where
    "validateCreateVolReq cs req = Ok (vp, requested_size req)"
    "buildHostPVC api cs req vp (requested_size req) s = (Ok hostPVC, s1)"
    "pvc_admits hostPVC res" "lookup (world s) (cs_namespace cs) (cvName req) = None"
    "lookup (world s') = (lookup (world s))
       (cs_namespace cs := (lookup (world s) (cs_namespace cs))(cvName req := Some res))"
    "v = \<lparr>VolumeId = cvName req, CapacityBytes = requested_size req, VolumeContext = vp,
       ContentSource = cvContentSource req\<rparr>"
proof -
  from ok assms(3) obtain vp hostPVC res s1 s2 where
    *: "validateCreateVolReq cs req = Ok (vp, requested_size req)"
      "buildHostPVC api cs req vp (requested_size req) s = (Ok hostPVC, s1)"
      "kCreate PVCs (pvcs api) hostPVC s1 = (Ok res, s2)"
      "ensureNetworkFilesystem api cs res s2 = (Ok (), s')"
      "v = \<lparr>VolumeId = Name res, CapacityBytes = requested_size req, VolumeContext = vp,
         ContentSource = cvContentSource req\<rparr>"
    by (rule CreateVolume_pvc_inversion)
  note id = buildHostPVC_identity [OF *(2)]
  have "lookup (world s1) = lookup (world s)"
    by (rule leavesD [OF leaves_buildHostPVC [OF srv] *(2)])
  moreover have "lookup (world s') = lookup (world s2)"
    by (rule leavesD [OF leaves_ensureNetworkFilesystem [OF srv] *(4)])
  moreover from *(3) have "ccreate (pvcs api) hostPVC (world s1) = (Inr res, world s2)"
    by (simp add: kCreate_returns)
  note create_law_Ok [OF pvc_serverD(2) [OF srv] this]
  ultimately show thesis
    using * id by (intro that [of vp hostPVC s1 res]) (simp_all add: pvc_admits_def)
qed

lemma kDelete_ignoring_NotFound:
  "handle (kDelete k c ns n) (\<lambda>err. if IsNotFound err then ret () else fail (F err)) ret s
     = (r, s') \<Longrightarrow> \<exists>d. calls s' = calls s @ [Call VDelete k ns n d]"
  by (auto simp: handle_returns kDelete_returns ret_run fail_run split: if_splits)

lemma issues_removeNetworkFilesystem [issues_intros]:
  assumes "\<And>v n e. P (Call v NetworkFilesystems HarvesterNS n e)"
  shows "issues P (removeNetworkFilesystem api n)"
  using assms by (auto simp: removeNetworkFilesystem_def intro!: issues_intros)

lemma deletePVC_trace:
  assumes "deletePVC api cs vid p s = (r, s')"
  obtains mid where "calls s' = calls s @ mid"
      "\<forall>m \<in> set mid. call_kind m \<in> {StorageClasses, NetworkFilesystems}"
  | mid d where "calls s' = calls s @ mid @ [Call VDelete PVCs (cs_namespace cs) vid d]"
      "\<forall>m \<in> set mid. call_kind m \<in> {StorageClasses, NetworkFilesystems}"
proof -
  let ?K = "\<lambda>c. call_kind c \<in> {StorageClasses, NetworkFilesystems}"
  let ?m = "andThen (isLHRWXVolume api p)
    (\<lambda>rwx. if rwx then removeNetworkFilesystem api (VolumeName p) else ret ())"
  have "issues ?K ?m" by (auto intro!: issues_intros)
  obtain q s1 where q: "?m s = (q, s1)" by (cases "?m s")
  from issuesD [OF \<open>issues ?K ?m\<close> q] obtain mid where
    mid: "calls s1 = calls s @ mid" "\<forall>m \<in> set mid. ?K m" by blast
  have "deletePVC api cs vid p = andThen ?m (\<lambda>_. handle (kDelete PVCs (pvcs api) (cs_namespace cs) vid)
       (\<lambda>err. if IsNotFound err then ret ()
              else fail (status_Errorf Internal ''Failed to delete PVC %v: %v''
                [vid, Error err]))
       (\<lambda>_. ret ()))"
    by (rule ext) (auto simp: deletePVC_def andThen_run split: prod.splits result.splits)
  with assms q consider "s' = s1" | "\<exists>d. calls s' = calls s1 @ [Call VDelete PVCs (cs_namespace cs) vid d]"
    by (auto simp: andThen_returns dest: kDelete_ignoring_NotFound)
  then show thesis using mid that by cases auto
qed

lemma DeleteVolume_cases:
  assumes "DeleteVolume api cs vid s = (r, s')"
  obtains (rejected) e where "s' = s" "r = Err e"
  | (restore_error) e where "kGet VolumeRemoteRestores (vrrs api) (cs_namespace cs) vid s = (Err e, s')"
      "\<not> IsNotFound e" "r = Err e"
  | (restore) x s1 where
      "kGet VolumeRemoteRestores (vrrs api) (cs_namespace cs) vid s = (Ok x, s1)"
      "kDelete VolumeRemoteRestores (vrrs api) (cs_namespace cs) vid s1 = (r, s')" "r \<noteq> Panic"
  | (claim_error) e e' s1 where
      "kGet VolumeRemoteRestores (vrrs api) (cs_namespace cs) vid s = (Err e, s1)" "IsNotFound e"
      "kGet PVCs (pvcs api) (cs_namespace cs) vid s1 = (Err e', s')"
      "IsNotFound e' \<and> r = Ok () \<or> \<not> IsNotFound e' \<and> (\<exists>e''. r = Err e'')"
  | (claim) e p s1 s2 where
      "kGet VolumeRemoteRestores (vrrs api) (cs_namespace cs) vid s = (Err e, s1)" "IsNotFound e"
      "kGet PVCs (pvcs api) (cs_namespace cs) vid s1 = (Ok p, s2)"
      "deletePVC api cs vid p s2 = (r, s')"
proof -
  let ?g = "kGet VolumeRemoteRestores (vrrs api) (cs_namespace cs) vid s"
  obtain q s1 where g: "?g = (q, s1)" by (cases ?g)
  show thesis
  proof (cases "vid = '''' \<or> validateControllerServiceRequest cs CREATE_DELETE_VOLUME \<noteq> Inr ()")
    case True
    with assms show thesis
      by (auto simp: DeleteVolume_def fail_run split: sum.splits if_splits intro: rejected)
  next
    case False
    note run = assms [unfolded DeleteVolume_def deleteVolumeRemoteRestoreIfExists_def
        getHostVolumeRemoteRestore_def deleteHostVolumeRemoteRestore_def]
    have np: "q \<noteq> Panic" using g by (auto simp: kGet_returns)
    show thesis
    proof (cases q)
      case (Ok x)
      obtain d s2 where d: "kDelete VolumeRemoteRestores (vrrs api) (cs_namespace cs) vid s1 = (d, s2)"
        by (cases "kDelete VolumeRemoteRestores (vrrs api) (cs_namespace cs) vid s1")
      then have "d \<noteq> Panic" by (auto simp: kDelete_returns)
      with d run False g Ok have "r = d \<and> s' = s2"
        by (cases d) (auto simp: andThen_run handle_run ret_run fail_run)
      with d g Ok \<open>d \<noteq> Panic\<close> show thesis by (intro restore [of x s1]) simp_all
    next
      case (Err e)
      obtain d s2 where d: "kGet PVCs (pvcs api) (cs_namespace cs) vid s1 = (d, s2)"
        by (cases "kGet PVCs (pvcs api) (cs_namespace cs) vid s1")
      then have "d \<noteq> Panic" by (auto simp: kGet_returns)
      with run False g Err d show thesis
        by (cases d; cases "IsNotFound e")
          (auto simp: andThen_run handle_run ret_run fail_run split: if_splits
            intro: restore_error claim_error claim)
    qed (use np in simp)
  qed
qed

lemma vrr_serverD:
  assumes "vrr_server api lookup"
  shows "get_law (vrrs api) lookup" "create_law (vrrs api) lookup vrr_admits"
    "delete_law (vrrs api) lookup" "keeps lookup (cget (vrrs api) ns n)"
    "client_keeps lookup (storageclasses api)" "client_keeps lookup (networkfss api)"
    "client_keeps lookup (vrbs api)" "client_keeps lookup (pvcs api)"
  using assms by (simp_all add: vrr_server_def get_law_keeps)

lemma mem_vrr_server: "vrr_server mem_api (\<lambda>w. look (mVRRs w))"
  unfolding vrr_server_def
  by (intro conjI) (simp_all add: mem_api_def mem_laws vrr_admits_def)

lemma leaves_removeNetworkFilesystem [leaves_intros]:
  "client_keeps view (networkfss api) \<Longrightarrow> leaves view (removeNetworkFilesystem api v)"
  by (auto simp: removeNetworkFilesystem_def intro!: leaves_intros client_keepsD)

lemma deletePVC_effect:
  assumes srv: "pvc_server api lookup" and run: "deletePVC api cs vid p s = (r, s')"
  shows "lookup (world s') = (if r = Ok () then removed (lookup (world s)) (cs_namespace cs) vid
    else lookup (world s))"
proof -
  have a: "lookup (world s1) = lookup (world s)" if "isLHRWXVolume api p s = (q, s1)" for q s1
    using that leavesD leaves_isLHRWXVolume pvc_serverD(5) [OF srv] by metis
  have b: "lookup (world s2) = lookup (world s1)"
    if "(if rwx then removeNetworkFilesystem api (VolumeName p) else ret ()) s1 = (q, s2)"
    for rwx q s1 s2
    using that leavesD [OF leaves_removeNetworkFilesystem [OF pvc_serverD(7) [OF srv]]]
    by (auto simp: ret_run split: if_splits)
  have c: "lookup (world s') = (if r = Ok () then removed (lookup (world s2)) (cs_namespace cs) vid
      else lookup (world s2))"
    if "handle (kDelete PVCs (pvcs api) (cs_namespace cs) vid)
       (\<lambda>err. if IsNotFound err then ret ()
              else fail (status_Errorf Internal ''Failed to delete PVC %v: %v''
                [vid, Error err]))
       ret s2 = (r, s')" for s2
    using that delete_law_Ok [OF pvc_serverD(3) [OF srv], of "cs_namespace cs" vid "world s2"]
      delete_law_Err [OF pvc_serverD(3) [OF srv], of "cs_namespace cs" vid "world s2"]
    by (auto simp: handle_returns kDelete_returns ret_run fail_run removed_absent split: if_splits)
  from run show ?thesis
    unfolding deletePVC_def by (auto simp: andThen_returns dest!: a b c)
qed

lemma deletePVC_leaves_restores:
  assumes "vrr_server api lookup" and "deletePVC api cs vid p s = (r, s')"
  shows "lookup (world s') = lookup (world s)"
proof -
  have "leaves lookup (deletePVC api cs vid p)"
    unfolding deletePVC_def using assms(1)
    by (intro leaves_intros client_keepsD vrr_serverD) (assumption | erule vrr_serverD)+
  then show ?thesis using assms(2) by (rule leavesD)
qed

lemma DeleteVolume_absent:
  assumes "pvc_server api claims" and "vrr_server api restores"
    and "get_available (pvcs api) claims" and "get_available (vrrs api) restores"
    and "RpcCap CREATE_DELETE_VOLUME \<in> set (caps cs)" and "vid \<noteq> ''''"
    and "restores (world s) (cs_namespace cs) vid = None"
    and "claims (world s) (cs_namespace cs) vid = None"
  shows "fst (DeleteVolume api cs vid s) = Ok ()"
proof -
  from assms(4,7) obtain e s1 where
    r: "kGet VolumeRemoteRestores (vrrs api) (cs_namespace cs) vid s = (Err e, s1)" "IsNotFound e"
      "cget (vrrs api) (cs_namespace cs) vid (world s) = (Inl e, world s1)"
    by (rule kGet_available_None)
  have "claims (world s1) = claims (world s)"
    by (rule keepsD [OF client_keepsD(1) [OF pvc_serverD(8) [OF assms(1)]] r(3)])
  with assms(8) have "claims (world s1) (cs_namespace cs) vid = None" by simp
  with assms(3) obtain e' s2 where
    "kGet PVCs (pvcs api) (cs_namespace cs) vid s1 = (Err e', s2)" "IsNotFound e'"
    by (rule kGet_available_None)
  with r assms(5,6) validateControllerServiceRequest_iff [of cs CREATE_DELETE_VOLUME] show ?thesis
    by (simp add: DeleteVolume_def deleteVolumeRemoteRestoreIfExists_def
        getHostVolumeRemoteRestore_def andThen_run handle_run ret_run split: sum.splits)
qed

lemma removed_here [simp]: "removed f ns n ns n = None"
  by simp

interpretation vrr_goc: get_or_create "getOrCreateVolumeRemoteRestore api cs name b"
  "getHostVolumeRemoteRestore api (cs_namespace cs) name"
  "generateHostVolumeRemoteRestore api cs name b" for api cs name b
  by unfold_locales (simp add: getOrCreateVolumeRemoteRestore_def)

lemma getOrCreateVolumeRemoteRestore_post:
  assumes srv: "vrr_server api restores" and key: "keyed restores"
    and run: "getOrCreateVolumeRemoteRestore api cs name b s = (Ok x, s')"
  shows "restores (world s') (cs_namespace cs) name = Some x \<and> Name x = name \<and>
    (restores (world s) (cs_namespace cs) name = None \<longrightarrow>
       vrrFrom x = Sprintf ''%s/%s'' [Namespace b, Name b])"
  using run
proof (cases rule: vrr_goc.run_returns)
  case found
  then have "cget (vrrs api) (cs_namespace cs) name (world s) = (Inr x, world s')"
    by (simp add: getHostVolumeRemoteRestore_def kGet_returns)
  from get_law_Ok [OF vrr_serverD(1) [OF srv] this] keyedD [OF key] show ?thesis by auto
next
  case (created e s1)
  from created(3) show ?thesis
    unfolding generateHostVolumeRemoteRestore_def createHostVolumeRemoteRestore_def
    by (auto simp: kCreate_returns vrr_admits_def dest!: create_law_Ok [OF vrr_serverD(2) [OF srv]])
qed

lemma isBackupSnapshotRestore_iff:
  "isBackupSnapshotRestore req \<longleftrightarrow>
     (\<exists>ns n. CHR ''/'' \<notin> set ns \<and>
        cvContentSource req = Some (Some (SnapshotSource (formatBackupSnapshotID ns n))))"
  by (auto simp: isBackupSnapshotRestore_def snapid.decode_is_backup_iff GetSnapshot_def
      split: option.splits content_source.splits)

lemma CreateVolume_backup_inversion:
  assumes "CreateVolume api cs req s = (Ok v, s')"
    and "cvContentSource req = Some (Some (SnapshotSource (formatBackupSnapshotID ns n)))"
    and "CHR ''/'' \<notin> set ns"
  obtains b x s1 s2 where
    "kGet VolumeRemoteBackups (vrbs api) ns n s = (Ok b, s1)"
    "getOrCreateVolumeRemoteRestore api cs (cvName req) b s1 = (Ok x, s2)"
    "checkVolumeRemoteRestoreReadiness api cs (Name x) s2 = (Ok True, s')"
    "VolumeId v = Name x" "CapacityBytes v = Storage (SourceRequests b)"
proof -
  have "isBackupSnapshotRestore req" using assms(2,3) by (auto simp: isBackupSnapshotRestore_iff)
  with assms show thesis
    by (auto simp: CreateVolume_def buildHostVolumeRemoteRestore_def Let_def
        snapid.decode_encode buildHostVolumeRemoteRestoreFromBackup_def returns_iff
        getHostVolumeRemoteBackup_def GetSnapshot_def
        split: if_splits intro: that)
qed

lemma checkVolumeRemoteRestoreReadiness_True:
  assumes "vrr_server api restores"
    and "checkVolumeRemoteRestoreReadiness api cs n s = (Ok True, s')"
  shows "restores (world s') = restores (world s) \<and>
    (\<exists>x. restores (world s') (cs_namespace cs) n = Some x \<and> vrrSuccess x)"
  using assms(2) get_law_Ok [OF vrr_serverD(1) [OF assms(1)]]
  by (auto simp: checkVolumeRemoteRestoreReadiness_def getHostVolumeRemoteRestore_def returns_iff)

lemma DeleteVolume_post:
  assumes "pvc_server api claims" and "vrr_server api restores"
    and "DeleteVolume api cs vid s = (Ok (), s')"
  shows "if restores (world s) (cs_namespace cs) vid \<noteq> None
    then restores (world s') = removed (restores (world s)) (cs_namespace cs) vid \<and>
      claims (world s') = claims (world s)
    else restores (world s') = restores (world s) \<and>
      claims (world s') = removed (claims (world s)) (cs_namespace cs) vid"
  using assms(3)
proof (cases rule: DeleteVolume_cases)
  case (restore x s1)
  then show ?thesis
    using get_law_Ok [OF vrr_serverD(1) [OF assms(2)]] delete_law_Ok [OF vrr_serverD(3) [OF assms(2)]]
      keepsD [OF client_keepsD(1) [OF pvc_serverD(8) [OF assms(1)]]]
      keepsD [OF client_keepsD(5) [OF pvc_serverD(8) [OF assms(1)]]]
    by (auto simp: kGet_returns kDelete_returns)
next
  case (claim_error e e' s1)
  then have g: "cget (vrrs api) (cs_namespace cs) vid (world s) = (Inl e, world s1)"
    "cget (pvcs api) (cs_namespace cs) vid (world s1) = (Inl e', world s')" and "IsNotFound e'"
    by (auto simp: kGet_returns)
  note get_law_NotFound [OF vrr_serverD(1) [OF assms(2)] g(1) claim_error(2)]
    get_law_NotFound [OF pvc_serverD(1) [OF assms(1)] g(2) \<open>IsNotFound e'\<close>]
    keepsD [OF client_keepsD(1) [OF pvc_serverD(8) [OF assms(1)]] g(1)]
    keepsD [OF client_keepsD(1) [OF vrr_serverD(8) [OF assms(2)]] g(2)]
  then show ?thesis by (simp add: removed_absent)
next
  case (claim e p s1 s2)
  then show ?thesis
    using get_law_NotFound [OF vrr_serverD(1) [OF assms(2)]] get_law_Ok [OF pvc_serverD(1) [OF assms(1)]]
      keepsD [OF client_keepsD(1) [OF pvc_serverD(8) [OF assms(1)]]]
      keepsD [OF client_keepsD(1) [OF vrr_serverD(8) [OF assms(2)]]]
      deletePVC_effect [OF assms(1) claim(4)] deletePVC_leaves_restores [OF assms(2) claim(4)]
    by (auto simp: kGet_returns)
qed simp_all

section \<open>A concrete server\<close>

definition demo_cs :: controller_server where
  "demo_cs = \<lparr>cs_namespace = ''default'', hostStorageClass = ''longhorn'',
     useDeclarativeHotplug = True,
     caps = getControllerServiceCapabilities [CREATE_DELETE_VOLUME, EXPAND_VOLUME],
     accessModes = getVolumeCapabilityAccessModes [SINGLE_NODE_WRITER, MULTI_NODE_MULTI_WRITER]\<rparr>"

lemma demo_cs_namespace [simp]: "cs_namespace demo_cs = ''default''"
  by (simp add: demo_cs_def)

text \<open>A request for a volume, one to restore a backup, and servers that hold a claim or a restore.\<close>

definition demo_req :: create_volume_request where
  "demo_req = \<lparr>cvName = ''pvc-1'',
     cvCapacityRange = Some \<lparr>RequiredBytes = 10485761, LimitBytes = 0\<rparr>,
     cvCapabilities = [\<lparr>AccessType = Some Block, AccessMode = Some SINGLE_NODE_WRITER\<rparr>],
     cvParameters = None, cvContentSource = None\<rparr>"

text \<open>A claim, a restore that is done, and a backup.\<close>

definition demo_claim :: pvc where
  "demo_claim = (new_pvc ''default'' ''pvc-1'')
     \<lparr>AccessModes := [ReadWriteMany], VolumeMode := Some PersistentVolumeBlock,
      StorageClassName := Some ''longhorn''\<rparr>"

definition demo_restore :: vrr where
  "demo_restore = \<lparr>Namespace = ''default'', Name = ''pvc-1'', ResourceVersion = '''',
     Labels = None, Annotations = None, CreationTimestamp = None, DeletionTimestamp = None,
     vrrType = ''lh'', vrrFrom = ''vault/b1'', vrrSuccess = True\<rparr>"

definition demo_backup :: vrb where
  "demo_backup = \<lparr>Namespace = ''vault'', Name = ''b1'', ResourceVersion = '''',
     Labels = None, Annotations = None, CreationTimestamp = None, DeletionTimestamp = None,
     vrbType = ''lh'', vrbSource = ''pvc-0'', SourceRequests = Some [''storage'' \<mapsto> 20971520],
     vrbSuccess = True\<rparr>"

definition demo_restore_req :: create_volume_request where
  "demo_restore_req = demo_req\<lparr>cvContentSource :=
     Some (Some (SnapshotSource (formatBackupSnapshotID ''vault'' ''b1'')))\<rparr>"

definition claim_mem :: mem where
  "claim_mem = empty_mem\<lparr>mPVCs := [demo_claim]\<rparr>"

definition restore_mem :: mem where
  "restore_mem = empty_mem\<lparr>mVRBs := [demo_backup], mVRRs := [demo_restore]\<rparr>"

lemma mem_available: "get_available (mem_client sel upd) (\<lambda>w. look (sel w))"
  by (auto simp: get_available_def mem_client_def notFound_def split: option.splits)

lemma mem_api_available:
  "get_available (pvcs mem_api) (\<lambda>w. look (mPVCs w))"
  "get_available (vrrs mem_api) (\<lambda>w. look (mVRRs w))"
  by (simp_all add: mem_api_def mem_available)

section \<open>Properties\<close>

text \<open>
  C1: \<open>CreateVolume\<close> without a content source stores exactly one new claim, under the name
  asked for and only if that name was free, whose size is the requested one (at least 10 MiB)
  rounded up to 2 MiB and whose mode follows the parameters and capabilities; it answers the
  name and the requested size.
\<close>

theorem CreateVolume_provisions:
  assumes "pvc_server api lookup"
    and "CreateVolume api cs req s = (Ok v, s')" and "cvContentSource req = None"
  shows "VolumeId v = cvName req \<and> CapacityBytes v = requested_size req \<and>
    sint MinimalVolumeSize \<le> sint (CapacityBytes v) \<and>
    lookup (world s) (cs_namespace cs) (cvName req) = None \<and>
    (\<exists>p. lookup (world s') = (lookup (world s))
       (cs_namespace cs := (lookup (world s) (cs_namespace cs))(cvName req := Some p)) \<and>
      Storage (Requests p) = RoundUpSize (requested_size req) \<and>
      VolumeMode p = Some (if VolumeContext v paramHostVolMode = Some ''filesystem''
        then PersistentVolumeFilesystem else getVolumeMode (cvCapabilities req)) \<and>
      AccessModes p = [ReadWriteMany] \<and> DataSource p = None)"
proof -
  have nb: "\<not> isBackupSnapshotRestore req"
    using assms(3) by (simp add: isBackupSnapshotRestore_def GetSnapshot_def)
  from assms(1,2) nb obtain vp hostPVC res s1 where
    *: "buildHostPVC api cs req vp (requested_size req) s = (Ok hostPVC, s1)"
      "pvc_admits hostPVC res" "lookup (world s) (cs_namespace cs) (cvName req) = None"
      "lookup (world s') = (lookup (world s))
         (cs_namespace cs := (lookup (world s) (cs_namespace cs))(cvName req := Some res))"
      "v = \<lparr>VolumeId = cvName req, CapacityBytes = requested_size req, VolumeContext = vp,
         ContentSource = cvContentSource req\<rparr>"
    by (rule CreateVolume_stores)
  from *(1) assms(3) have "Storage (Requests hostPVC) = RoundUpSize (requested_size req)"
      "VolumeMode hostPVC = Some (if vp paramHostVolMode = Some ''filesystem''
         then PersistentVolumeFilesystem else getVolumeMode (cvCapabilities req))"
      "DataSource hostPVC = None" "AccessModes hostPVC = [ReadWriteMany]"
    by (auto simp: buildHostPVC_def buildHostPVCFromScratch_def Let_def returns_iff new_pvc_def)
  with * show ?thesis using requested_size_bounds(1) [of req] by (auto simp: pvc_admits_def)
qed

theorem CreateVolume_provisions_witness:
  "\<exists>v s' p. CreateVolume mem_api demo_cs demo_req (in_mem empty_mem) = (Ok v, s') \<and>
     VolumeId v = ''pvc-1'' \<and> CapacityBytes v = 10485761 \<and>
     look (mPVCs (world s')) ''default'' ''pvc-1'' = Some p \<and>
     Storage (Requests p) = 12582912 \<and> VolumeMode p = Some ''Block''"
proof -
  have "is_Ok (fst (CreateVolume mem_api demo_cs demo_req (in_mem empty_mem)))" by code_simp
  then obtain v s' where
    run: "CreateVolume mem_api demo_cs demo_req (in_mem empty_mem) = (Ok v, s')"
    by (rule is_Ok_run)
  have r: "requested_size demo_req = 10485761" "RoundUpSize 10485761 = 12582912"
    "getVolumeMode (cvCapabilities demo_req) = ''Block''" by code_simp+
  have "VolumeContext v paramHostVolMode = None"
    using run by (rule CreateVolume_pvc_inversion)
      (simp_all add: validateCreateVolReq_Ok demo_req_def isBackupSnapshotRestore_def GetSnapshot_def)
  with run r CreateVolume_provisions [OF mem_pvc_server run] show ?thesis
    by (auto simp: demo_req_def demo_cs_def)
qed



text \<open>
  C28: \<open>CreateVolume\<close> from a backup succeeds only when the backup exists and the restore of the
  volume's name is done; a new restore points to the backup, and the answer has the volume's
  name and the size that was backed up.
\<close>

theorem CreateVolume_from_backup:
  assumes "vrr_server api restores" and "keyed restores" and "get_law (vrbs api) backups"
    and "cvContentSource req = Some (Some (SnapshotSource (formatBackupSnapshotID ns n)))"
    and "CHR ''/'' \<notin> set ns" and "CreateVolume api cs req s = (Ok v, s')"
  shows "VolumeId v = cvName req \<and>
    (\<exists>b x. backups (world s) ns n = Some b \<and> CapacityBytes v = Storage (SourceRequests b) \<and>
       restores (world s') (cs_namespace cs) (cvName req) = Some x \<and> vrrSuccess x \<and>
       (restores (world s) (cs_namespace cs) (cvName req) = None \<longrightarrow>
          vrrFrom x = Sprintf ''%s/%s'' [Namespace b, Name b]))"
proof -
  from assms(6,4,5) obtain b x s1 s2 where *:
    "kGet VolumeRemoteBackups (vrbs api) ns n s = (Ok b, s1)"
    "getOrCreateVolumeRemoteRestore api cs (cvName req) b s1 = (Ok x, s2)"
    "checkVolumeRemoteRestoreReadiness api cs (Name x) s2 = (Ok True, s')"
    "VolumeId v = Name x" "CapacityBytes v = Storage (SourceRequests b)"
    by (rule CreateVolume_backup_inversion)
  from *(1) have g: "cget (vrbs api) ns n (world s) = (Inr b, world s1)"
    by (simp add: kGet_returns)
  have "restores (world s1) = restores (world s)"
    by (rule keepsD [OF client_keepsD(1) [OF vrr_serverD(7) [OF assms(1)]] g])
  with get_law_Ok [OF assms(3) g] getOrCreateVolumeRemoteRestore_post [OF assms(1,2) *(2)]
    checkVolumeRemoteRestoreReadiness_True [OF assms(1) *(3)] *(4,5)
  show ?thesis by auto
qed

theorem CreateVolume_from_backup_witness:
  "\<exists>v s'. CreateVolume mem_api demo_cs demo_restore_req (in_mem restore_mem) = (Ok v, s') \<and>
     VolumeId v = ''pvc-1'' \<and> CapacityBytes v = 20971520"
proof -
  have "is_Ok (fst (CreateVolume mem_api demo_cs demo_restore_req (in_mem restore_mem)))"
    by code_simp
  then obtain v s' where
    run: "CreateVolume mem_api demo_cs demo_restore_req (in_mem restore_mem) = (Ok v, s')"
    by (rule is_Ok_run)
  have src: "cvContentSource demo_restore_req =
      Some (Some (SnapshotSource (formatBackupSnapshotID ''vault'' ''b1'')))"
    by (simp add: demo_restore_req_def)
  have law: "get_law (vrbs mem_api) (\<lambda>w. look (mVRBs w))" by (simp add: mem_api_def mem_get_law)
  have "look (mVRBs (world (in_mem restore_mem))) ''vault'' ''b1'' = Some demo_backup"
    by (simp add: in_mem_def restore_mem_def demo_backup_def has_key_def)
  with CreateVolume_from_backup [OF mem_vrr_server mem_keyed law src _ run] run show ?thesis
    by (auto simp: demo_restore_req_def demo_req_def demo_backup_def)
qed

text \<open>
  \<open>CreateVolume\<close> from a backup creates no claim: it only reads backups and restores and
  creates at most restores of the volume's name.
\<close>

lemma CreateVolume_backup_calls:
  assumes "isBackupSnapshotRestore req"
  shows "issues (restore_call cs req) (CreateVolume api cs req)"
  unfolding CreateVolume_def
  using assms
  by (auto simp: buildHostVolumeRemoteRestore_def Let_def getHostVolumeRemoteBackup_def
      buildHostVolumeRemoteRestoreFromBackup_def getOrCreateVolumeRemoteRestore_def
      getHostVolumeRemoteRestore_def generateHostVolumeRemoteRestore_def restore_call_def
      createHostVolumeRemoteRestore_def checkVolumeRemoteRestoreReadiness_def
      intro!: issues_intros)

lemma CreateVolume_backup_calls_witness:
  "issues (restore_call demo_cs demo_restore_req) (CreateVolume mem_api demo_cs demo_restore_req)"
proof -
  have "isBackupSnapshotRestore demo_restore_req" by code_simp
  then show ?thesis by (rule CreateVolume_backup_calls)
qed

text \<open>
  C9: whatever the servers answer, \<open>DeleteVolume\<close> changes claims in one way only: as its last
  call it deletes the claim of that name, after it saw that there is no restore of that name
  and that the claim exists, with nothing but storage class and network file system calls in
  between.
\<close>

theorem DeleteVolume_trace:
  assumes "DeleteVolume api cs vid s = (r, s')"
  shows "\<exists>tr. calls s' = calls s @ tr \<and> delete_shape cs vid tr"
  using assms
proof (cases rule: DeleteVolume_cases)
  case (claim e p s1 s2)
  from claim(4) show ?thesis
  proof (cases rule: deletePVC_trace)
    case (1 mid)
    then show ?thesis using claim(1-3)
      by (auto simp: kGet_returns delete_shape_def)
  next
    case (2 mid d)
    let ?tr = "Call VGet VolumeRemoteRestores (cs_namespace cs) vid (Some e) #
               Call VGet PVCs (cs_namespace cs) vid None # mid @
               [Call VDelete PVCs (cs_namespace cs) vid d]"
    have "calls s' = calls s @ ?tr" using 2 claim(1,3) by (auto simp: kGet_returns)
    moreover have "delete_shape cs vid ?tr"
      unfolding delete_shape_def using 2(2) claim(2) by auto
    ultimately show ?thesis by blast
  qed
qed (auto simp: kGet_returns kDelete_returns delete_shape_def)

theorem DeleteVolume_trace_witness:
  "calls (snd (DeleteVolume mem_api demo_cs ''pvc-1'' (in_mem claim_mem))) \<noteq> [] \<and>
   delete_shape demo_cs ''pvc-1''
     (calls (snd (DeleteVolume mem_api demo_cs ''pvc-1'' (in_mem claim_mem)))) \<and>
   Call VDelete PVCs ''default'' ''pvc-1'' None \<in>
     set (calls (snd (DeleteVolume mem_api demo_cs ''pvc-1'' (in_mem claim_mem))))"
proof -
  have "Call VDelete PVCs ''default'' ''pvc-1'' None \<in>
     set (calls (snd (DeleteVolume mem_api demo_cs ''pvc-1'' (in_mem claim_mem))))" by code_simp
  moreover obtain r s' where run: "DeleteVolume mem_api demo_cs ''pvc-1'' (in_mem claim_mem) = (r, s')"
    by (cases "DeleteVolume mem_api demo_cs ''pvc-1'' (in_mem claim_mem)")
  ultimately show ?thesis using DeleteVolume_trace [OF run] by (auto simp: in_mem_def)
qed



text \<open>
  C26: \<open>DeleteVolume\<close> is idempotent: after it succeeded for a volume that is a restore or a
  claim, calling it again succeeds.
\<close>

theorem DeleteVolume_idempotent:
  assumes "pvc_server api claims" and "vrr_server api restores"
    and "get_available (pvcs api) claims" and "get_available (vrrs api) restores"
    and "DeleteVolume api cs vid s = (Ok (), s')"
    and "restores (world s) (cs_namespace cs) vid = None \<or> claims (world s) (cs_namespace cs) vid = None"
  shows "fst (DeleteVolume api cs vid s') = Ok ()"
proof (rule DeleteVolume_absent [OF assms(1-4)])
  show "RpcCap CREATE_DELETE_VOLUME \<in> set (caps cs)" "vid \<noteq> []"
    using assms(5) validateControllerServiceRequest_iff [of cs CREATE_DELETE_VOLUME]
    by (auto simp: DeleteVolume_def fail_run split: if_splits sum.splits)
qed (use DeleteVolume_post [OF assms(1,2,5)] assms(6) in \<open>auto split: if_splits\<close>)

theorem DeleteVolume_idempotent_witness:
  "\<exists>s'. DeleteVolume mem_api demo_cs ''pvc-1'' (in_mem claim_mem) = (Ok (), s') \<and>
     fst (DeleteVolume mem_api demo_cs ''pvc-1'' s') = Ok ()"
proof -
  have "is_Ok (fst (DeleteVolume mem_api demo_cs ''pvc-1'' (in_mem claim_mem)))" by code_simp
  then obtain s' where run: "DeleteVolume mem_api demo_cs ''pvc-1'' (in_mem claim_mem) = (Ok (), s')"
    by (rule is_Ok_run) simp
  have "look (mVRRs (world (in_mem claim_mem))) (cs_namespace demo_cs) ''pvc-1'' = None"
    by (simp add: in_mem_def claim_mem_def empty_mem_def)
  with DeleteVolume_idempotent [OF mem_pvc_server mem_vrr_server mem_api_available run] run
  show ?thesis by blast
qed

end
