(* ===== verification/Controller_Publish.thy ===== *)
theory Controller_Publish
  imports Controller_Volume
begin

text \<open>
  Attaching and detaching of volumes (\<open>pkg/csi/controller_server.go\<close>):
  \<open>ControllerPublishVolume\<close> and \<open>ControllerUnpublishVolume\<close> with the declarative hotplug (a
  JSON patch on the virtual machine), the legacy hotplug (KubeVirt's subresources), the checks
  of volume attachments, and the network file systems of Longhorn RWX volumes.

  Marshalling the patches cannot fail (they hold strings, booleans and lists of them), so the
  sources' branch for that error is left out.
\<close>

section \<open>Where a volume is\<close>

text \<open>\<open>vm.Spec.Template\<close> is a pointer: following a nil one panics.\<close>

definition vm_template :: "vm \<Rightarrow> ('w, template) io" where
  "vm_template v = (case Template v of None \<Rightarrow> panic | Some t \<Rightarrow> ret t)"

fun volume_named :: "string \<Rightarrow> volume list \<Rightarrow> bool" where
  "volume_named volumeID [] = False"
| "volume_named volumeID (v # vs) =
     (if volName v = volumeID then True else volume_named volumeID vs)"

fun disk_named :: "string \<Rightarrow> disk list \<Rightarrow> bool" where
  "disk_named volumeID [] = False"
| "disk_named volumeID (d # ds) =
     (if diskName d = volumeID then True else disk_named volumeID ds)"

fun hotplug_status :: "string \<Rightarrow> volume_status list \<Rightarrow> bool" where
  "hotplug_status volumeID [] = False"
| "hotplug_status volumeID (v # vs) =
     (if vsName v = volumeID \<and> vsHotplug v then True else hotplug_status volumeID vs)"

definition checkVolumeExistsInVM ::
  "'w api \<Rightarrow> controller_server \<Rightarrow> string \<Rightarrow> string \<Rightarrow> ('w, bool) io" where
  "checkVolumeExistsInVM api cs nodeID volumeID =
     handle (kGet VMs (vms api) (cs_namespace cs) nodeID)
       (\<lambda>err. if IsNotFound err then ret False
              else fail (Wrapped (Sprintf ''failed to get VM %s: %w'' [nodeID, Error err]) err))
       (\<lambda>vm. andThen (vm_template vm) (\<lambda>t. ret (volume_named volumeID (Volumes t))))"

definition checkVolumeExistsInVMI ::
  "'w api \<Rightarrow> controller_server \<Rightarrow> string \<Rightarrow> string \<Rightarrow> ('w, bool) io" where
  "checkVolumeExistsInVMI api cs nodeID volumeID =
     handle (kGet VMIs (vmis api) (cs_namespace cs) nodeID)
       (\<lambda>err. if IsNotFound err then ret False
              else fail (Wrapped (Sprintf ''failed to get VMI %s: %w'' [nodeID, Error err]) err))
       (\<lambda>vmi. ret (hotplug_status volumeID (VolumeStatus vmi)))"

definition isVolAttached ::
  "'w api \<Rightarrow> controller_server \<Rightarrow> string \<Rightarrow> string \<Rightarrow> ('w, bool) io" where
  "isVolAttached api cs nodeID volumeID =
     andThen (checkVolumeExistsInVM api cs nodeID volumeID) (\<lambda>volInVM.
     andThen (checkVolumeExistsInVMI api cs nodeID volumeID) (\<lambda>volInVMI.
     ret (volInVM \<and> volInVMI)))"

section \<open>Hotplug\<close>

definition hotplug_volume :: "string \<Rightarrow> volume" where
  "hotplug_volume volumeID =
     \<lparr>volName = volumeID, volPVC = Some \<lparr>ClaimName = volumeID, Hotpluggable = True\<rparr>\<rparr>"

definition hotplug_disk :: "string \<Rightarrow> disk" where
  "hotplug_disk volumeID = \<lparr>diskName = volumeID, diskBus = Some ''scsi''\<rparr>"

definition addVolumeOps :: "string \<Rightarrow> vm \<Rightarrow> template \<Rightarrow> patch_op list" where
  "addVolumeOps volumeID vm t =
     [PatchOp ''test'' rvPath (PString (ResourceVersion vm))] @
     (if \<not> volume_named volumeID (Volumes t)
      then [PatchOp ''add'' (volumesPath @ ''/-'') (PVolume (hotplug_volume volumeID))] else []) @
     (if \<not> disk_named volumeID (Disks t)
      then [PatchOp ''add'' (disksPath @ ''/-'') (PDisk (hotplug_disk volumeID))] else [])"

definition addVolumeToVM ::
  "'w api \<Rightarrow> controller_server \<Rightarrow> string \<Rightarrow> string \<Rightarrow> ('w, unit) io" where
  "addVolumeToVM api cs nodeID volumeID =
     handle (kGet VMs (vms api) (cs_namespace cs) nodeID)
       (\<lambda>err. fail (Wrapped (Sprintf ''failed to get VM %s: %w'' [nodeID, Error err]) err))
       (\<lambda>vm.
     andThen (vm_template vm) (\<lambda>t.
     if volume_named volumeID (Volumes t) \<and> disk_named volumeID (Disks t) then ret ()
     else
     handle (kPatchVM api (cs_namespace cs) nodeID (addVolumeOps volumeID vm t))
       (\<lambda>err. fail (Wrapped (Sprintf ''failed to patch VM %s: %w'' [nodeID, Error err]) err))
       (\<lambda>_. ret ())))"

definition removeVolumeOps :: "string \<Rightarrow> vm \<Rightarrow> template \<Rightarrow> patch_op list" where
  "removeVolumeOps volumeID vm t =
     (let volumes = filter (\<lambda>v. volName v \<noteq> volumeID) (Volumes t);
          disks = filter (\<lambda>d. diskName d \<noteq> volumeID) (Disks t) in
      [PatchOp ''test'' rvPath (PString (ResourceVersion vm)),
       PatchOp ''replace'' volumesPath (PVolumes volumes),
       PatchOp ''replace'' disksPath (PDisks disks)])"

definition removeVolumeFromVM ::
  "'w api \<Rightarrow> controller_server \<Rightarrow> string \<Rightarrow> string \<Rightarrow> ('w, unit) io" where
  "removeVolumeFromVM api cs nodeID volumeID =
     handle (kGet VMs (vms api) (cs_namespace cs) nodeID)
       (\<lambda>err. fail (Wrapped (Sprintf ''failed to get VM %s: %w'' [nodeID, Error err]) err))
       (\<lambda>vm.
     andThen (vm_template vm) (\<lambda>t.
     handle (kPatchVM api (cs_namespace cs) nodeID (removeVolumeOps volumeID vm t))
       (\<lambda>err. fail (Wrapped (Sprintf ''failed to patch VM %s: %w'' [nodeID, Error err]) err))
       (\<lambda>_. ret ())))"

text \<open>KubeVirt's subresources.\<close>

definition kAddVolume ::
  "'w api \<Rightarrow> string \<Rightarrow> string \<Rightarrow> volume \<Rightarrow> disk \<Rightarrow> ('w, unit) io" where
  "kAddVolume api ns n v d = perform VAddVolume VMs ns n (vmAddVolume api ns n v d)"

definition kRemoveVolume :: "'w api \<Rightarrow> string \<Rightarrow> string \<Rightarrow> string \<Rightarrow> ('w, unit) io" where
  "kRemoveVolume api ns n vol = perform VRemoveVolume VMs ns n (vmRemoveVolume api ns n vol)"

definition kRemoveVolumeVMI :: "'w api \<Rightarrow> string \<Rightarrow> string \<Rightarrow> string \<Rightarrow> ('w, unit) io" where
  "kRemoveVolumeVMI api ns n vol = perform VRemoveVolume VMIs ns n (vmiRemoveVolume api ns n vol)"

definition addVolumeToVMLegacy ::
  "'w api \<Rightarrow> controller_server \<Rightarrow> string \<Rightarrow> string \<Rightarrow> ('w, unit) io" where
  "addVolumeToVMLegacy api cs nodeID volumeID =
     kAddVolume api (cs_namespace cs) nodeID
       \<lparr>volName = volumeID, volPVC = Some \<lparr>ClaimName = volumeID, Hotpluggable = False\<rparr>\<rparr>
       \<lparr>diskName = '''', diskBus = Some ''scsi''\<rparr>"

definition hotplugVolumeToVM ::
  "'w api \<Rightarrow> controller_server \<Rightarrow> string \<Rightarrow> string \<Rightarrow> ('w, unit) io" where
  "hotplugVolumeToVM api cs nodeID volumeID =
     (if useDeclarativeHotplug cs then addVolumeToVM api cs nodeID volumeID
      else addVolumeToVMLegacy api cs nodeID volumeID)"

definition unplugVolumeFromVMLegacy ::
  "'w api \<Rightarrow> controller_server \<Rightarrow> string \<Rightarrow> string \<Rightarrow> bool \<Rightarrow> bool \<Rightarrow> ('w, bool) io" where
  "unplugVolumeFromVMLegacy api cs nodeID volumeID volumeInVM volumeInVMI =
     (if volumeInVMI then
        handle (kRemoveVolumeVMI api (cs_namespace cs) nodeID volumeID)
          (\<lambda>err. fail (Wrapped (Sprintf ''failed to remove volume %s from VMI %s: %w''
             [volumeID, nodeID, Error err]) err))
          (\<lambda>_. ret True)
      else if volumeInVM then
        handle (kRemoveVolume api (cs_namespace cs) nodeID volumeID)
          (\<lambda>err. fail (Wrapped (Sprintf ''failed to remove volume %s from VM %s: %w''
             [volumeID, nodeID, Error err]) err))
          (\<lambda>_. ret True)
      else ret False)"

definition unplugVolumeFromVM ::
  "'w api \<Rightarrow> controller_server \<Rightarrow> string \<Rightarrow> string \<Rightarrow> bool \<Rightarrow> bool \<Rightarrow> ('w, bool) io" where
  "unplugVolumeFromVM api cs nodeID volumeID volumeInVM volumeInVMI =
     (if useDeclarativeHotplug cs then
        handle (removeVolumeFromVM api cs nodeID volumeID)
          (\<lambda>err. fail (Wrapped (Sprintf ''failed to remove volume %s from VM %s: %w''
             [volumeID, nodeID, Error err]) err))
          (\<lambda>_. ret True)
      else unplugVolumeFromVMLegacy api cs nodeID volumeID volumeInVM volumeInVMI)"

definition removeVolumeFromHostVM ::
  "'w api \<Rightarrow> controller_server \<Rightarrow> string \<Rightarrow> string \<Rightarrow> ('w, bool) io" where
  "removeVolumeFromHostVM api cs nodeID volumeID =
     andThen (checkVolumeExistsInVMI api cs nodeID volumeID) (\<lambda>volumeInVMI.
     andThen (checkVolumeExistsInVM api cs nodeID volumeID) (\<lambda>volumeInVM.
     if \<not> volumeInVM \<and> \<not> volumeInVMI then ret False
     else
     andThen (unplugVolumeFromVM api cs nodeID volumeID volumeInVM volumeInVMI) (\<lambda>_.
     ret True)))"

section \<open>Volume attachments\<close>

fun checkHostVA_loop :: "string \<Rightarrow> string \<Rightarrow> va list \<Rightarrow> bool result" where
  "checkHostVA_loop hostVolumeID targetHostNodeID [] = Ok True"
| "checkHostVA_loop hostVolumeID targetHostNodeID (va # vas) =
     (case vaPVName va of
        None \<Rightarrow> Panic
      | Some pv \<Rightarrow>
          if pv = hostVolumeID \<and> vaNodeName va \<noteq> targetHostNodeID then Ok False
          else checkHostVA_loop hostVolumeID targetHostNodeID vas)"

definition checkHostVA ::
  "'w api \<Rightarrow> controller_server \<Rightarrow> pvc \<Rightarrow> string \<Rightarrow> va list \<Rightarrow> ('w, bool) io" where
  "checkHostVA api cs pvc nodeID hostVAList =
     handle (kGet VMIs (vmis api) (cs_namespace cs) nodeID)
       (\<lambda>err. fail (status_Errorf Internal ''Failed to get VMI %s: %v'' [nodeID, Error err]))
       (\<lambda>vmi. lift (checkHostVA_loop (VolumeName pvc) (VMINodeName vmi) hostVAList))"

fun checkGuestVA_loop :: "string \<Rightarrow> string \<Rightarrow> va list \<Rightarrow> bool result" where
  "checkGuestVA_loop guestVolumeID nodeID [] = Ok True"
| "checkGuestVA_loop guestVolumeID nodeID (va # vas) =
     (if vaAttached va then
        (case vaPVName va of
           None \<Rightarrow> Panic
         | Some pv \<Rightarrow>
             if pv = guestVolumeID \<and> vaNodeName va \<noteq> nodeID then Ok False
             else checkGuestVA_loop guestVolumeID nodeID vas)
      else checkGuestVA_loop guestVolumeID nodeID vas)"

definition checkGuestVA ::
  "'w api \<Rightarrow> controller_server \<Rightarrow> pvc \<Rightarrow> string \<Rightarrow> ('w, bool) io" where
  "checkGuestVA api cs pvc nodeID =
     handle (kList GuestVolumeAttachments (guestVAs api) '''' empty_options)
       (\<lambda>err. fail (status_Errorf Internal ''Failed to list guest VolumeAttachments: %v''
          [Error err]))
       (\<lambda>(items, cont). lift (checkGuestVA_loop (Name pvc) nodeID items))"

definition waitForVASettled ::
  "'w api \<Rightarrow> controller_server \<Rightarrow> pvc \<Rightarrow> string \<Rightarrow> ('w, bool) io" where
  "waitForVASettled api cs pvc nodeID =
     handle (kList HostVolumeAttachments (hostVAs api) '''' empty_options)
       (\<lambda>err. ret True)
       (\<lambda>(items, cont).
     if VolumeMode pvc = None \<or> VolumeMode pvc = Some PersistentVolumeFilesystem then ret True
     else
     andThen (checkHostVA api cs pvc nodeID items) (\<lambda>settled.
     if \<not> settled then ret settled
     else checkGuestVA api cs pvc nodeID))"

section \<open>Network file systems\<close>

text \<open>What the client answers together with an error: the empty object.\<close>

definition zero_networkfs :: networkfs where
  "zero_networkfs = \<lparr>Namespace = '''', Name = '''', ResourceVersion = '''', Labels = None,
     Annotations = None, CreationTimestamp = None, DeletionTimestamp = None,
     NetworkFSName = '''', DesiredState = '''', NFSProvisioner = '''', NFSState = '''',
     NFSEndpoint = '''', NFSStatus = '''', MountOpts = ''''\<rparr>"

definition updateNetworkFS :: "'w api \<Rightarrow> networkfs \<Rightarrow> ('w, networkfs) io" where
  "updateNetworkFS api nfs =
     perform VUpdate NetworkFilesystems HarvesterNS (Name nfs) (cupdate (networkfss api) nfs)"

definition enableNetworkFS :: "'w api \<Rightarrow> pvc \<Rightarrow> networkfs \<Rightarrow> ('w, unit) io" where
  "enableNetworkFS api pvc networkfs =
     (if DesiredState networkfs = NetworkFSStateEnabled \<or>
         NFSState networkfs = NetworkFSStateEnabling then ret ()
      else
        handle (updateNetworkFS api (networkfs\<lparr>DesiredState := NetworkFSStateEnabled\<rparr>))
          (\<lambda>err. fail (status_Errorf Internal ''Failed to enable NetworkFileSystem %s: %v''
             [VolumeName pvc, Error err]))
          (\<lambda>_. ret ()))"

definition publishRWXVolume :: "'w api \<Rightarrow> pvc \<Rightarrow> ('w, unit) io" where
  "publishRWXVolume api pvc =
     handle (kGet NetworkFilesystems (networkfss api) HarvesterNS (VolumeName pvc))
       (\<lambda>err.
          if \<not> IsNotFound err then
            fail (status_Errorf Internal ''Failed to get NetworkFileSystem %s: %v''
              [VolumeName pvc, Error err])
          else if DeletionTimestamp pvc = None then
            handle (createNetworkFilesystem api (VolumeName pvc))
              (\<lambda>err'. fail (status_Errorf Internal
                 ''Failed to create NetworkFileSystem for volume %s: %v''
                 [Name pvc, Error err']))
              (\<lambda>_. fail (status_Errorf Internal
                 ''NetworkFileSystem %s is being recreated, retry in next reconciliation''
                 [VolumeName pvc]))
          else enableNetworkFS api pvc zero_networkfs)
       (\<lambda>networkfs. enableNetworkFS api pvc networkfs)"

definition IndexPodByPVC :: string where
  "IndexPodByPVC = ''indexPodByPVC''"

definition podsByIndex :: "'w api \<Rightarrow> string \<Rightarrow> ('w, pod list) io" where
  "podsByIndex api idx =
     perform VList GuestPods '''' idx (guestPodsByIndex api IndexPodByPVC idx)"

definition disableNetworkFS :: "'w api \<Rightarrow> pvc \<Rightarrow> networkfs \<Rightarrow> ('w, unit) io" where
  "disableNetworkFS api pvc networkfs =
     handle (updateNetworkFS api (networkfs\<lparr>DesiredState := NetworkFSStateDisabled\<rparr>))
       (\<lambda>err. fail (status_Errorf Internal ''Failed to disable NetworkFileSystem %s: %v''
          [VolumeName pvc, Error err]))
       (\<lambda>_. ret ())"

definition unpublishRWXVolume :: "'w api \<Rightarrow> pvc \<Rightarrow> ('w, unit) io" where
  "unpublishRWXVolume api pvc =
     handle (kGet NetworkFilesystems (networkfss api) HarvesterNS (VolumeName pvc))
       (\<lambda>err. fail (status_Errorf Internal ''Failed to get NetworkFileSystem %s: %v''
          [VolumeName pvc, Error err]))
       (\<lambda>networkfs.
     if DesiredState networkfs = NetworkFSStateDisabled \<or>
        NFSState networkfs = NetworkFSStateDisabling then ret ()
     else
     handle (kGet GuestPVs (guestPVs api) '''' (Name pvc))
       (\<lambda>err. fail (status_Errorf Internal ''Failed to get local PV %s: %v''
          [VolumeName pvc, Error err]))
       (\<lambda>localPV.
     case ClaimRef localPV of
       None \<Rightarrow> panic
     | Some (localPVCNS, localPVCName) \<Rightarrow>
         handle (podsByIndex api (Sprintf ''%s-%s'' [localPVCNS, localPVCName]))
           (\<lambda>err. disableNetworkFS api pvc networkfs)
           (\<lambda>pods. if pods \<noteq> [] then ret () else disableNetworkFS api pvc networkfs)))"

section \<open>ControllerPublishVolume and ControllerUnpublishVolume\<close>

definition volumeAttachedCheck ::
  "'w api \<Rightarrow> controller_server \<Rightarrow> string \<Rightarrow> string \<Rightarrow> ('w, bool) io" where
  "volumeAttachedCheck api cs nodeID volumeID =
     handle (isVolAttached api cs nodeID volumeID) (\<lambda>err. ret False) (\<lambda>attached. ret attached)"

definition waitForVolumeAttached ::
  "'w api \<Rightarrow> controller_server \<Rightarrow> string \<Rightarrow> string \<Rightarrow> ('w, unit) io" where
  "waitForVolumeAttached api cs nodeID volumeID =
     handle (PollUntilContextTimeout api False (volumeAttachedCheck api cs nodeID volumeID))
       (\<lambda>err. fail (status_Errorf Aborted ''Volume %s not yet attached to VM/VMI %s, err: %v''
          [volumeID, nodeID, Error err]))
       (\<lambda>_. ret ())"

definition attachVolume ::
  "'w api \<Rightarrow> controller_server \<Rightarrow> pvc \<Rightarrow> string \<Rightarrow> string \<Rightarrow> ('w, unit) io" where
  "attachVolume api cs pvc nodeID volumeID =
     handle (PollUntilContextTimeout api True (waitForVASettled api cs pvc nodeID))
       (\<lambda>err. fail (status_Errorf DeadlineExceeded
          ''Failed to wait the volume %s status to settled, err: %v'' [volumeID, Error err]))
       (\<lambda>_.
     handle (isVolAttached api cs nodeID volumeID)
       (\<lambda>err. fail (status_Errorf Internal ''Failed to check volume %s in VM/VMI %s: %v''
          [volumeID, nodeID, Error err]))
       (\<lambda>attached.
     if attached then ret ()
     else
     handle (hotplugVolumeToVM api cs nodeID volumeID)
       (\<lambda>err. fail (status_Errorf Internal ''Failed to add volume to node %v: %v''
          [nodeID, Error err]))
       (\<lambda>_. waitForVolumeAttached api cs nodeID volumeID)))"

definition ControllerPublishVolume ::
  "'w api \<Rightarrow> controller_server \<Rightarrow> publish_request \<Rightarrow> ('w, unit) io" where
  "ControllerPublishVolume api cs req =
     (if puNodeId req = '''' then
        fail (status_Error InvalidArgument ''missing node id in request'')
      else case puCapability req of
        None \<Rightarrow> fail (status_Error InvalidArgument ''Missing volume capability in request'')
      | Some volumeCapability \<Rightarrow>
     handle (kGet PVCs (pvcs api) (cs_namespace cs) (puVolumeId req))
       (\<lambda>err. fail (status_Errorf Internal ''Failed to get PVC %s: %v''
          [puVolumeId req, Error err]))
       (\<lambda>pvc.
     if Phase pvc \<noteq> ClaimBound then
       fail (status_Errorf Aborted ''The PVC %s in phase %v is not ready to be attached''
         [puVolumeId req, Phase pvc])
     else if GetMode volumeCapability = MULTI_NODE_MULTI_WRITER then
       andThen (isLHRWXVolume api pvc) (\<lambda>rwx.
       if rwx then publishRWXVolume api pvc else ret ())
     else attachVolume api cs pvc (puNodeId req) (puVolumeId req)))"

definition ControllerUnpublishVolume ::
  "'w api \<Rightarrow> controller_server \<Rightarrow> unpublish_request \<Rightarrow> ('w, unit) io" where
  "ControllerUnpublishVolume api cs req =
     (if unVolumeId req = '''' then
        fail (status_Error InvalidArgument ''Missing volume ID in request'')
      else
     handle (kGet PVCs (pvcs api) (cs_namespace cs) (unVolumeId req))
       (\<lambda>err. fail (status_Errorf Internal ''Failed to get PVC %s: %v''
          [unVolumeId req, Error err]))
       (\<lambda>pvc.
     if Phase pvc \<noteq> ClaimBound then
       fail (status_Errorf Aborted ''The PVC %s is in phase %v'' [unVolumeId req, Phase pvc])
     else
     andThen (isLHRWXVolume api pvc) (\<lambda>rwx.
     if rwx then unpublishRWXVolume api pvc
     else
     handle (removeVolumeFromHostVM api cs (unNodeId req) (unVolumeId req))
       (\<lambda>err. fail (status_Errorf Internal ''Failed to remove volume %s from host VM/VMI: %v''
          [unVolumeId req, Error err]))
       (\<lambda>volRemoving.
     if volRemoving then
       fail (status_Errorf Aborted
         ''Volume %s removal in progress from VM/VMI %s, waiting for completion''
         [unVolumeId req, unNodeId req])
     else ret ()))))"

section \<open>What the theorems speak of\<close>

text \<open>A patched machine: the template is new and the server chose a resource version.\<close>

definition with_template :: "vm \<Rightarrow> string \<Rightarrow> template \<Rightarrow> vm" where
  "with_template v rv t = v\<lparr>Template := Some t, ResourceVersion := rv\<rparr>"

text \<open>The machine's template with the volume: what is missing of volume and disk is added at the end.\<close>

definition plugged :: "string \<Rightarrow> template \<Rightarrow> template" where
  "plugged vid t = t\<lparr>
     Volumes := Volumes t @ (if vid \<in> volName ` set (Volumes t) then [] else [hotplug_volume vid]),
     Disks := Disks t @ (if vid \<in> diskName ` set (Disks t) then [] else [hotplug_disk vid])\<rparr>"

text \<open>The template without the volume and its disk.\<close>

definition unplugged :: "string \<Rightarrow> template \<Rightarrow> template" where
  "unplugged vid t = t\<lparr>
     Volumes := filter (\<lambda>v. volName v \<noteq> vid) (Volumes t),
     Disks := filter (\<lambda>d. diskName d \<noteq> vid) (Disks t)\<rparr>"

text \<open>What \<open>waitForVASettled\<close> waits for, read off the servers' answers in a world: no list of the host's
  attachments at all, a volume of the file system mode, or no attachment of the volume that points
  to another host or to another guest node.\<close>

definition settled :: "'w api \<Rightarrow> controller_server \<Rightarrow> pvc \<Rightarrow> string \<Rightarrow> 'w \<Rightarrow> bool" where
  "settled api cs p node w \<longleftrightarrow>
     (case clist (hostVAs api) '''' empty_options w of
        (Inl e, w1) \<Rightarrow> True
      | (Inr (items, tok), w1) \<Rightarrow>
          VolumeMode p = None \<or> VolumeMode p = Some PersistentVolumeFilesystem \<or>
          (\<exists>i w2 gitems gtok w3.
             cget (vmis api) (cs_namespace cs) node w1 = (Inr i, w2) \<and>
             clist (guestVAs api) '''' empty_options w2 = (Inr (gitems, gtok), w3) \<and>
             (\<forall>va \<in> set items. vaPVName va = Some (VolumeName p) \<longrightarrow> vaNodeName va = VMINodeName i) \<and>
             (\<forall>va \<in> set gitems. vaAttached va \<longrightarrow> vaPVName va = Some (Name p) \<longrightarrow>
                vaNodeName va = node)))"

text \<open>The reads that go before an attachment, and the clock, leave some part of the world alone.\<close>

definition reads_keep :: "('w \<Rightarrow> 'v) \<Rightarrow> 'w api \<Rightarrow> bool" where
  "reads_keep view api \<longleftrightarrow>
     (\<forall>ns n. keeps view (cget (pvcs api) ns n) \<and> keeps view (cget (vmis api) ns n)) \<and>
     (\<forall>ns lo. keeps view (clist (hostVAs api) ns lo) \<and> keeps view (clist (guestVAs api) ns lo)) \<and>
     keeps view (ticks api)"

text \<open>At most one write, which detaches a volume from the machine.\<close>

definition removal_trace :: "controller_server \<Rightarrow> string \<Rightarrow> call list \<Rightarrow> bool" where
  "removal_trace cs node tr \<longleftrightarrow> length (writes tr) \<le> 1 \<and>
     (\<forall>c \<in> set (writes tr). call_ns c = cs_namespace cs \<and> call_name c = node \<and>
        call_verb c \<in> {VPatch, VRemoveVolume})"

text \<open>What an API server keeps of a network file system that is written: key and desired state.\<close>

definition nfs_admits :: "networkfs \<Rightarrow> networkfs \<Rightarrow> bool" where
  "nfs_admits obj x \<longleftrightarrow> Namespace x = Namespace obj \<and> Name x = Name obj \<and>
     DesiredState x = DesiredState obj"

text \<open>The laws of the network file systems' client that the theorems use.\<close>

definition nfs_server :: "'w api \<Rightarrow> ('w \<Rightarrow> string \<Rightarrow> string \<Rightarrow> networkfs option) \<Rightarrow> bool" where
  "nfs_server api lookup \<longleftrightarrow> keyed lookup \<and> get_law (networkfss api) lookup \<and>
     update_law (networkfss api) lookup nfs_admits"

text \<open>Enabled, or on the way to it.\<close>

definition enabled :: "networkfs \<Rightarrow> bool" where
  "enabled n \<longleftrightarrow> DesiredState n = NetworkFSStateEnabled \<or> NFSState n = NetworkFSStateEnabling"

section \<open>Lemmas\<close>

lemma volume_named_iff [simp]: "volume_named v vs \<longleftrightarrow> v \<in> volName ` set vs"
  by (induction vs) auto

lemma disk_named_iff [simp]: "disk_named v ds \<longleftrightarrow> v \<in> diskName ` set ds"
  by (induction ds) auto

lemma hotplug_status_iff [simp]:
  "hotplug_status v vs \<longleftrightarrow> (\<exists>x \<in> set vs. vsName x = v \<and> vsHotplug x)"
  by (induction vs) auto

interpretation vol_removal: patch_removal "removeVolumeOps vid" "\<lambda>t n. n = vid" for vid
  by unfold_locales (simp add: removeVolumeOps_def)

lemma vm_template_returns [returns_iff]:
  "vm_template v s = (r, s') \<longleftrightarrow>
     s' = s \<and> r = (case Template v of None \<Rightarrow> Panic | Some t \<Rightarrow> Ok t)"
  by (auto simp: vm_template_def returns_iff split: option.splits)

lemma issues_vm_template [issues_intros]: "issues P (vm_template v)"
  by (auto simp: vm_template_def intro!: issues_intros)

lemma addVolumeOps_apply:
  assumes "Template v = Some t"
  shows "apply_ops (addVolumeOps vid v t) v = Some v1 \<longleftrightarrow>
    (vid \<notin> volName ` set (Volumes t) \<longrightarrow> Volumes t \<noteq> []) \<and>
    (vid \<notin> diskName ` set (Disks t) \<longrightarrow> Disks t \<noteq> []) \<and>
    v1 = v\<lparr>Template := Some (t\<lparr>
      Volumes := Volumes t @ (if vid \<in> volName ` set (Volumes t) then [] else [hotplug_volume vid]),
      Disks := Disks t @ (if vid \<in> diskName ` set (Disks t) then [] else [hotplug_disk vid])\<rparr>)\<rparr>"
  using assms
  by (auto simp: addVolumeOps_def apply_op_def apply_template_op_def rvPath_def volumesPath_def
      disksPath_def)

lemma with_template_same:
  "Template v = Some t \<Longrightarrow> with_template v rv t = v\<lparr>ResourceVersion := rv\<rparr>"
  by (cases v) (simp add: with_template_def)

lemma with_template_twice [simp]:
  "with_template (with_template v rv t) rv' t' = with_template v rv' t'"
  by (simp add: with_template_def)

lemma addVolumeToVM_post:
  assumes get: "get_law (vms api) machines" and patch: "patch_law api machines"
    and run: "addVolumeToVM api cs node vid s = (Ok (), s')"
  shows "\<exists>v t rv. machines (world s) (cs_namespace cs) node = Some v \<and> Template v = Some t \<and>
    machines (world s') = stored (machines (world s)) (cs_namespace cs) node
      (with_template v rv (plugged vid t))"
proof -
  from run obtain v t s1 where
    g: "cget (vms api) (cs_namespace cs) node (world s) = (Inr v, world s1)" and
    t: "Template v = Some t" and
    rest: "(if vid \<in> volName ` set (Volumes t) \<and> vid \<in> diskName ` set (Disks t) then ret () else
      handle (kPatchVM api (cs_namespace cs) node (addVolumeOps vid v t))
       (\<lambda>err. fail (Wrapped (Sprintf ''failed to patch VM %s: %w'' [node, Error err]) err))
       (\<lambda>_. ret ())) s1 = (Ok (), s')"
    by (auto simp: addVolumeToVM_def handle_returns kGet_returns andThen_returns fail_run
        vm_template_returns split: option.splits)
  note l = get_law_Ok [OF get g]
  show ?thesis
  proof (cases "vid \<in> volName ` set (Volumes t) \<and> vid \<in> diskName ` set (Disks t)")
    case True
    with rest t have "s' = s1" "with_template v (ResourceVersion v) (plugged vid t) = v"
      by (auto simp: ret_run plugged_def with_template_def)
    with l t show ?thesis
      by (intro exI [of _ v] exI [of _ t] exI [of _ "ResourceVersion v"]) (simp add: stored_same)
  next
    case False
    with rest obtain v' where
      p: "vmPatch api (cs_namespace cs) node (addVolumeOps vid v t) (world s1) = (Inr v', world s')"
      by (auto simp: handle_returns kPatchVM_returns fail_run ret_run)
    from patch_law_Ok [OF patch p] l obtain v1 rv where
      "apply_ops (addVolumeOps vid v t) v = Some v1" "v' = v1\<lparr>ResourceVersion := rv\<rparr>"
      "machines (world s') = stored (machines (world s)) (cs_namespace cs) node v'"
      by auto
    with l t show ?thesis
      by (intro exI [of _ v] exI [of _ t] exI [of _ rv])
        (simp add: addVolumeOps_apply with_template_def plugged_def)
  qed
qed

lemma removeVolumeFromVM_post:
  assumes get: "get_law (vms api) machines" and patch: "patch_law api machines"
    and run: "removeVolumeFromVM api cs node vid s = (Ok (), s')"
  shows "\<exists>v t rv. machines (world s) (cs_namespace cs) node = Some v \<and> Template v = Some t \<and>
    machines (world s') = stored (machines (world s)) (cs_namespace cs) node
      (with_template v rv (unplugged vid t))"
proof -
  from run obtain v t w v' where
    g: "cget (vms api) (cs_namespace cs) node (world s) = (Inr v, w)" and
    t: "Template v = Some t" and
    p: "vmPatch api (cs_namespace cs) node (removeVolumeOps vid v t) w = (Inr v', world s')"
    by (auto simp: removeVolumeFromVM_def handle_returns kGet_returns andThen_returns fail_run
        vm_template_returns kPatchVM_returns ret_run split: option.splits)
  note l = get_law_Ok [OF get g]
  from patch_law_Ok [OF patch p] l obtain v1 rv where
    "apply_ops (removeVolumeOps vid v t) v = Some v1" "v' = v1\<lparr>ResourceVersion := rv\<rparr>"
    "machines (world s') = stored (machines (world s)) (cs_namespace cs) node v'"
    by auto
  with l t show ?thesis
    by (intro exI [of _ v] exI [of _ t] exI [of _ rv])
      (auto simp: vol_removal.removal_applies_iff with_template_def unplugged_def)
qed

lemma unplugged_plugged:
  assumes "vid \<notin> volName ` set (Volumes t)" and "vid \<notin> diskName ` set (Disks t)"
  shows "unplugged vid (plugged vid t) = t"
proof -
  have "filter (\<lambda>v. volName v \<noteq> vid) (Volumes t) = Volumes t"
    "filter (\<lambda>d. diskName d \<noteq> vid) (Disks t) = Disks t"
    using assms by (auto intro!: filter_True)
  with assms show ?thesis
    by (simp add: unplugged_def plugged_def hotplug_volume_def hotplug_disk_def)
qed

lemma issues_isVolAttached [issues_intros]:
  assumes "\<And>e. P (Call VGet VMs (cs_namespace cs) node e)"
    and "\<And>e. P (Call VGet VMIs (cs_namespace cs) node e)"
  shows "issues P (isVolAttached api cs node vid)"
  using assms
  by (auto simp: isVolAttached_def checkVolumeExistsInVM_def checkVolumeExistsInVMI_def
      intro!: issues_intros)

lemma issues_read_checks [issues_intros]:
  assumes "\<And>v k ns n e. v \<in> {VGet, VList} \<Longrightarrow> P (Call v k ns n e)"
  shows "issues P (waitForVASettled api cs p node)"
    and "issues P (checkVolumeExistsInVM api cs node vid)"
    and "issues P (checkVolumeExistsInVMI api cs node vid)"
  using assms
  by (auto simp: waitForVASettled_def checkHostVA_def checkGuestVA_def
      checkVolumeExistsInVM_def checkVolumeExistsInVMI_def intro!: issues_intros)

lemma checkHostVA_loop_True:
  "checkHostVA_loop vol target vas = Ok True \<longleftrightarrow>
     (\<forall>va \<in> set vas. vaPVName va \<noteq> None \<and> (vaPVName va = Some vol \<longrightarrow> vaNodeName va = target))"
  by (induction vas) (auto split: option.splits)

lemma checkGuestVA_loop_True:
  "checkGuestVA_loop vol node vas = Ok True \<longleftrightarrow>
     (\<forall>va \<in> set vas. vaAttached va \<longrightarrow>
        vaPVName va \<noteq> None \<and> (vaPVName va = Some vol \<longrightarrow> vaNodeName va = node))"
  by (induction vas) (auto split: option.splits)

lemma waitForVASettled_True:
  assumes "waitForVASettled api cs p node s = (Ok True, s')"
  shows "settled api cs p node (world s)"
  using assms
  by (auto simp: waitForVASettled_def settled_def checkHostVA_def checkGuestVA_def returns_iff
      checkHostVA_loop_True checkGuestVA_loop_True split: if_splits)

lemma issues_hotplug [issues_intros]:
  assumes "\<And>v e. P (Call v VMs (cs_namespace cs) node e)"
  shows "issues P (hotplugVolumeToVM api cs node vid)"
  using assms
  by (auto simp: hotplugVolumeToVM_def addVolumeToVM_def addVolumeToVMLegacy_def kAddVolume_def
      intro!: issues_intros)

lemma issues_waitForVolumeAttached [issues_intros]:
  assumes "\<And>v e. P (Call v VMs (cs_namespace cs) node e)"
    and "\<And>e. P (Call VGet VMIs (cs_namespace cs) node e)"
  shows "issues P (waitForVolumeAttached api cs node vid)"
  using assms
  by (auto simp: waitForVolumeAttached_def volumeAttachedCheck_def intro!: issues_intros)

lemma leaves_waitForVASettled:
  "reads_keep view api \<Longrightarrow> leaves view (waitForVASettled api cs p node)"
  by (auto simp: reads_keep_def waitForVASettled_def checkHostVA_def checkGuestVA_def intro!: leaves_intros)

lemma attachVolume_writes_when_settled:
  assumes "attachVolume api cs p node vid s = (r, s')"
    and "calls s' = calls s @ tr" "c \<in> set tr" "\<not> read_only c" and keep: "reads_keep view api"
  shows "\<exists>w. view w = view (world s) \<and> settled api cs p node w"
proof -
  let ?poll = "PollUntilContextTimeout api True (waitForVASettled api cs p node)"
  note leaves = leaves_waitForVASettled [OF keep]
  have "issues read_only ?poll" by (auto simp: read_only_def intro!: issues_intros)
  with assms(1)[unfolded attachVolume_def] assms(2-4) obtain s1 where poll: "?poll s = (Ok (), s1)"
    by (rule handle_reached [where Q = "\<lambda>_. True"]) (auto intro!: issues_intros)
  then obtain s2 where hit: "waitForVASettled api cs p node s2 = (Ok True, s1)"
    using PollUntilContextTimeout_hit by blast
  have "leaves view ?poll" using leaves keep by (auto simp: reads_keep_def intro!: leaves_intros)
  from leavesD [OF this poll] leavesD [OF leaves hit] have "view (world s2) = view (world s)" by simp
  with waitForVASettled_True [OF hit] show ?thesis by blast
qed

lemma ControllerPublishVolume_block:
  assumes "ControllerPublishVolume api cs req s = (r, s')" and "puCapability req = Some cap"
    and "GetMode cap \<noteq> MULTI_NODE_MULTI_WRITER"
  obtains (early) e tr where "r = Err e" "calls s' = calls s @ tr" "\<forall>c \<in> set tr. read_only c"
  | (attach) p s1 where "kGet PVCs (pvcs api) (cs_namespace cs) (puVolumeId req) s = (Ok p, s1)"
      "Phase p = ClaimBound" "attachVolume api cs p (puNodeId req) (puVolumeId req) s1 = (r, s')"
proof (cases "puNodeId req = ''''")
  case True
  with assms show thesis by (intro early [of _ "[]"]) (auto simp: ControllerPublishVolume_def fail_run)
next
  case False
  obtain q s1 where g: "kGet PVCs (pvcs api) (cs_namespace cs) (puVolumeId req) s = (q, s1)"
    by (cases "kGet PVCs (pvcs api) (cs_namespace cs) (puVolumeId req) s")
  then have "calls s1 = calls s @ [Call VGet PVCs (cs_namespace cs) (puVolumeId req)
      (case q of Err e \<Rightarrow> Some e | _ \<Rightarrow> None)]" "q \<noteq> Panic"
    by (auto simp: kGet_returns)
  with assms False g show thesis
    by (cases q) (auto simp: ControllerPublishVolume_def handle_run fail_run read_only_def
        split: if_splits intro: early attach)
qed

lemma isVolAttached_True:
  assumes run: "isVolAttached api cs node vid s = (Ok True, s')"
    and "get_law (vms api) machines" and "get_law (vmis api) instances"
    and "client_keeps machines (vmis api)"
  shows "(\<exists>v t. machines (world s') (cs_namespace cs) node = Some v \<and> Template v = Some t \<and>
       vid \<in> volName ` set (Volumes t)) \<and>
    (\<exists>i. instances (world s') (cs_namespace cs) node = Some i \<and>
       (\<exists>x \<in> set (VolumeStatus i). vsName x = vid \<and> vsHotplug x))"
proof -
  from run obtain v t i w where
    "cget (vms api) (cs_namespace cs) node (world s) = (Inr v, w)"
    "cget (vmis api) (cs_namespace cs) node w = (Inr i, world s')"
    "Template v = Some t" "vid \<in> volName ` set (Volumes t)"
    "\<exists>x \<in> set (VolumeStatus i). vsName x = vid \<and> vsHotplug x"
    by (auto simp: isVolAttached_def checkVolumeExistsInVM_def checkVolumeExistsInVMI_def
        handle_returns andThen_returns kGet_returns ret_run fail_run vm_template_returns
        split: option.splits if_splits)
  with get_law_Ok [OF assms(2)] get_law_Ok [OF assms(3)] keepsD [OF client_keepsD(1) [OF assms(4)]]
  show ?thesis by metis
qed

lemma attachVolume_attached:
  assumes "attachVolume api cs p node vid s = (Ok (), s')"
  shows "\<exists>s1. isVolAttached api cs node vid s1 = (Ok True, s')"
  using assms
  by (auto simp: attachVolume_def waitForVolumeAttached_def handle_returns fail_run ret_run
      volumeAttachedCheck_def dest!: PollUntilContextTimeout_hit split: if_splits) blast

lemma unplug_one_write:
  assumes "unplugVolumeFromVM api cs node vid inVM inVMI s = (r, s')"
  shows "\<exists>tr. calls s' = calls s @ tr \<and> length (writes tr) \<le> 1 \<and>
    (\<forall>c \<in> set (writes tr). call_ns c = cs_namespace cs \<and> call_name c = node \<and>
       call_verb c \<in> {VPatch, VRemoveVolume})"
proof (cases "useDeclarativeHotplug cs")
  case True
  then show ?thesis using assms
    by (auto simp: unplugVolumeFromVM_def removeVolumeFromVM_def handle_returns fail_run ret_run
        kGet_returns andThen_returns vm_template_returns kPatchVM_returns split: option.splits)
next
  case False
  then show ?thesis using assms
    by (auto simp: unplugVolumeFromVM_def unplugVolumeFromVMLegacy_def kRemoveVolume_def
        kRemoveVolumeVMI_def handle_returns fail_run ret_run perform_returns split: if_splits)
qed

lemma removeVolumeFromHostVM_cases:
  assumes "removeVolumeFromHostVM api cs node vid s = (r, s')"
  obtains (absent) s1 where "checkVolumeExistsInVMI api cs node vid s = (Ok False, s1)"
      "checkVolumeExistsInVM api cs node vid s1 = (Ok False, s')" "r = Ok False"
  | (failed) tr where "calls s' = calls s @ tr" "\<forall>c \<in> set tr. read_only c" "\<And>b. r \<noteq> Ok b"
  | (unplugged) s1 s2 inVM inVMI q where "checkVolumeExistsInVMI api cs node vid s = (Ok inVMI, s1)"
      "checkVolumeExistsInVM api cs node vid s1 = (Ok inVM, s2)" "inVM \<or> inVMI"
      "unplugVolumeFromVM api cs node vid inVM inVMI s2 = (q, s')" "r \<noteq> Ok False"
proof -
  have reads: "issues read_only (checkVolumeExistsInVMI api cs node vid)"
    "issues read_only (checkVolumeExistsInVM api cs node vid)"
    by (intro issues_intros; auto)+
  obtain a s1 where a: "checkVolumeExistsInVMI api cs node vid s = (a, s1)"
    by (cases "checkVolumeExistsInVMI api cs node vid s")
  from issuesD [OF reads(1) a] obtain t1 where t1: "calls s1 = calls s @ t1" "\<forall>c \<in> set t1. read_only c"
    by blast
  obtain b s2 where b: "checkVolumeExistsInVM api cs node vid s1 = (b, s2)"
    by (cases "checkVolumeExistsInVM api cs node vid s1")
  from issuesD [OF reads(2) b] obtain t2 where t2: "calls s2 = calls s1 @ t2" "\<forall>c \<in> set t2. read_only c"
    by blast
  show thesis
  proof (cases "is_Ok a \<and> is_Ok b")
    case False
    from assms a b False have "s' = s1 \<or> s' = s2" "\<And>b. r \<noteq> Ok b"
      by (cases a; cases b; auto simp: removeVolumeFromHostVM_def andThen_run)+
    moreover from this(1) t1 t2 have "\<exists>tr. calls s' = calls s @ tr \<and> (\<forall>c \<in> set tr. read_only c)"
      by (elim disjE) auto
    ultimately show thesis using failed by blast
  next
    case True
    then obtain inVMI inVM where ab: "a = Ok inVMI" "b = Ok inVM" by (cases a; cases b) auto
    obtain q s3 where q: "unplugVolumeFromVM api cs node vid inVM inVMI s2 = (q, s3)"
      by (cases "unplugVolumeFromVM api cs node vid inVM inVMI s2")
    show thesis
    proof (cases "inVM \<or> inVMI")
      case True
      with assms a b ab q have "s' = s3" "r \<noteq> Ok False"
        by (cases q; auto simp: removeVolumeFromHostVM_def andThen_run ret_run)+
      with a b ab q True show thesis by (intro unplugged) auto
    next
      case False
      with assms a b ab show thesis
        by (intro absent [of s1]) (auto simp: removeVolumeFromHostVM_def andThen_run ret_run)
    qed
  qed
qed

lemma absent_in_VMI:
  assumes "checkVolumeExistsInVMI api cs node vid s = (Ok False, s')"
    and "get_law (vmis api) instances"
  shows "instances (world s') = instances (world s) \<and>
    (\<forall>i. instances (world s) (cs_namespace cs) node = Some i \<longrightarrow>
       (\<forall>x \<in> set (VolumeStatus i). vsName x = vid \<longrightarrow> \<not> vsHotplug x))"
  using assms get_law_Ok [OF assms(2)] get_law_NotFound [OF assms(2)]
  by (auto simp: checkVolumeExistsInVMI_def handle_returns kGet_returns ret_run fail_run
      split: if_splits)

lemma absent_in_VM:
  assumes "checkVolumeExistsInVM api cs node vid s = (Ok False, s')"
    and "get_law (vms api) machines"
  shows "machines (world s') = machines (world s) \<and>
    (\<forall>v t. machines (world s) (cs_namespace cs) node = Some v \<longrightarrow> Template v = Some t \<longrightarrow>
       vid \<notin> volName ` set (Volumes t))"
  using assms get_law_Ok [OF assms(2)] get_law_NotFound [OF assms(2)]
  by (auto simp: checkVolumeExistsInVM_def handle_returns kGet_returns ret_run fail_run
      andThen_returns vm_template_returns split: if_splits option.splits)

text \<open>A claim that is not in file system mode is detached through the virtual machine.\<close>

lemma ControllerUnpublishVolume_block:
  assumes "ControllerUnpublishVolume api cs req s = (r, s')"
    and "get_law (pvcs api) claims"
    and "claims (world s) (cs_namespace cs) (unVolumeId req) = Some p"
    and "VolumeMode p \<noteq> Some PersistentVolumeFilesystem"
  obtains (early) e tr where "r = Err e" "calls s' = calls s @ tr" "\<forall>c \<in> set tr. read_only c"
  | (remove) s1 q where
      "cget (pvcs api) (cs_namespace cs) (unVolumeId req) (world s) = (Inr p, world s1)"
      "calls s1 = calls s @ [Call VGet PVCs (cs_namespace cs) (unVolumeId req) None]"
      "removeVolumeFromHostVM api cs (unNodeId req) (unVolumeId req) s1 = (q, s')"
      "q = Ok False \<and> r = Ok () \<or> q \<noteq> Ok False \<and> r \<noteq> Ok ()"
proof (cases "unVolumeId req = ''''")
  case True
  with assms(1) show thesis by (intro early [of _ "[]"]) (auto simp: ControllerUnpublishVolume_def fail_run)
next
  case False
  obtain q s1 where g: "kGet PVCs (pvcs api) (cs_namespace cs) (unVolumeId req) s = (q, s1)"
    by (cases "kGet PVCs (pvcs api) (cs_namespace cs) (unVolumeId req) s")
  then have c: "calls s1 = calls s @ [Call VGet PVCs (cs_namespace cs) (unVolumeId req)
      (case q of Err e \<Rightarrow> Some e | _ \<Rightarrow> None)]" "q \<noteq> Panic"
    by (auto simp: kGet_returns)
  show thesis
  proof (cases "q = Ok p \<and> Phase p = ClaimBound")
    case True
    obtain b s2 where b: "removeVolumeFromHostVM api cs (unNodeId req) (unVolumeId req) s1 = (b, s2)"
      by (cases "removeVolumeFromHostVM api cs (unNodeId req) (unVolumeId req) s1")
    with True assms(1,4) False g have "s' = s2" "b = Ok False \<and> r = Ok () \<or> b \<noteq> Ok False \<and> r \<noteq> Ok ()"
      by (cases b; auto simp: ControllerUnpublishVolume_def handle_run andThen_run isLHRWXVolume_def
          ret_run fail_run split: if_splits)+
    with b c True g show thesis by (intro remove [of s1 b]) (auto simp: kGet_returns)
  next
    case False': False
    with g assms(2,3) have "q \<noteq> Ok p \<Longrightarrow> \<exists>e. q = Err e"
      by (auto simp: kGet_returns dest!: get_law_Ok [OF assms(2)])
    with assms(1) False g c False' show thesis
      by (cases q) (auto simp: ControllerUnpublishVolume_def handle_run fail_run
          split: if_splits intro: early)
  qed
qed

lemma removeVolumeFromHostVM_trace:
  assumes "removeVolumeFromHostVM api cs node vid s = (r, s')"
  shows "\<exists>tr. calls s' = calls s @ tr \<and> removal_trace cs node tr \<and> (r = Ok False \<longrightarrow> writes tr = [])"
proof -
  have reads: "issues read_only (checkVolumeExistsInVMI api cs node vid)"
    "issues read_only (checkVolumeExistsInVM api cs node vid)"
    by (intro issues_intros; auto)+
  from assms show ?thesis
  proof (cases rule: removeVolumeFromHostVM_cases)
    case (absent s1)
    obtain t1 t2 where "calls s1 = calls s @ t1" "writes t1 = []" "calls s' = calls s1 @ t2" "writes t2 = []"
      by (rule read_trace [OF reads(1) absent(1)], rule read_trace [OF reads(2) absent(2)])
    then show ?thesis by (auto simp: removal_trace_def)
  next
    case (failed tr)
    then show ?thesis by (auto simp: removal_trace_def writes_none)
  next
    case (unplugged s1 s2 inVM inVMI q)
    obtain t1 t2 where t: "calls s1 = calls s @ t1" "writes t1 = []" "calls s2 = calls s1 @ t2" "writes t2 = []"
      by (rule read_trace [OF reads(1) unplugged(1)], rule read_trace [OF reads(2) unplugged(2)])
    from unplug_one_write [OF unplugged(4)] obtain t3 where
      "calls s' = calls s2 @ t3" "removal_trace cs node t3" by (auto simp: removal_trace_def)
    with t unplugged(5) show ?thesis
      by (intro exI [of _ "t1 @ t2 @ t3"]) (auto simp: removal_trace_def)
  qed
qed

lemma publishRWXVolume_post:
  assumes srv: "nfs_server api nfs" and "DeletionTimestamp p = None"
    and run: "publishRWXVolume api p s = (Ok (), s')"
  shows "\<exists>n. nfs (world s') HarvesterNS (VolumeName p) = Some n \<and> enabled n"
proof -
  from run assms(2) obtain n s1 where
    g: "cget (networkfss api) HarvesterNS (VolumeName p) (world s) = (Inr n, world s1)" and
    e: "enableNetworkFS api p n s1 = (Ok (), s')"
    by (auto simp: publishRWXVolume_def handle_returns kGet_returns fail_run split: if_splits)
  from srv have l: "nfs (world s1) HarvesterNS (VolumeName p) = Some n" "Namespace n = HarvesterNS"
      "Name n = VolumeName p"
    using get_law_Ok [OF _ g] keyedD [of nfs] by (auto simp: nfs_server_def)
  show ?thesis
  proof (cases "enabled n")
    case True
    with e l show ?thesis by (auto simp: enableNetworkFS_def enabled_def ret_run)
  next
    case False
    with e obtain x where
      "cupdate (networkfss api) (n\<lparr>DesiredState := NetworkFSStateEnabled\<rparr>) (world s1) = (Inr x, world s')"
      by (auto simp: enableNetworkFS_def enabled_def handle_returns updateNetworkFS_def perform_returns
          fail_run ret_run)
    from update_law_Ok [of "networkfss api" nfs nfs_admits, OF _ this] srv l show ?thesis
      by (auto simp: nfs_server_def nfs_admits_def enabled_def)
  qed
qed

section \<open>A concrete machine\<close>

definition demo_vm :: vm where
  "demo_vm = \<lparr>Namespace = ''default'', Name = ''node-1'', ResourceVersion = ''7'', Labels = None,
     Annotations = None, CreationTimestamp = None, DeletionTimestamp = None,
     Template = Some \<lparr>Volumes = [\<lparr>volName = ''root'', volPVC = None\<rparr>],
       Disks = [\<lparr>diskName = ''root'', diskBus = Some ''virtio''\<rparr>]\<rparr>,
     VMConditions = [], PrintableStatus = ''Running''\<rparr>"

definition demo_vmi :: vmi where
  "demo_vmi = \<lparr>Namespace = ''default'', Name = ''node-1'', ResourceVersion = ''3'', Labels = None,
     Annotations = None, CreationTimestamp = None, DeletionTimestamp = None,
     VMINodeName = ''host-1'', VolumeStatus = [], InterfaceMACs = []\<rparr>"

definition bound_claim :: pvc where
  "bound_claim = demo_claim\<lparr>Phase := ClaimBound, VolumeName := ''pv-1''\<rparr>"

definition plug_mem :: mem where
  "plug_mem = empty_mem\<lparr>mPVCs := [bound_claim], mVMs := [demo_vm], mVMIs := [demo_vmi]\<rparr>"

definition legacy_cs :: controller_server where
  "legacy_cs = demo_cs\<lparr>useDeclarativeHotplug := False\<rparr>"

definition demo_publish :: publish_request where
  "demo_publish = \<lparr>puVolumeId = ''pvc-1'', puNodeId = ''node-1'',
     puCapability = Some \<lparr>AccessType = Some Block, AccessMode = Some SINGLE_NODE_WRITER\<rparr>\<rparr>"

definition demo_nfs :: networkfs where
  "demo_nfs = zero_networkfs\<lparr>Namespace := HarvesterNS, Name := ''pv-1'',
     DesiredState := NetworkFSStateDisabled\<rparr>"

definition nfs_mem :: mem where
  "nfs_mem = plug_mem\<lparr>mNFSs := [demo_nfs],
     mGuestPVs := [\<lparr>Namespace = '''', Name = ''pvc-1'', ResourceVersion = '''', Labels = None,
       Annotations = None, CreationTimestamp = None, DeletionTimestamp = None,
       ClaimRef = Some (''apps'', ''data'')\<rparr>]\<rparr>"

definition enabled_mem :: mem where
  "enabled_mem = nfs_mem\<lparr>mNFSs := [demo_nfs\<lparr>DesiredState := NetworkFSStateEnabled\<rparr>]\<rparr>"

lemma mem_publish_laws:
  "get_law (pvcs mem_api) (\<lambda>w. look (mPVCs w))" "get_law (vms mem_api) (\<lambda>w. look (mVMs w))"
  "get_law (vmis mem_api) (\<lambda>w. look (mVMIs w))"
  "client_keeps (\<lambda>w. look (mVMs w)) (vmis mem_api)"
  "client_keeps (\<lambda>w. look (mVMIs w)) (vms mem_api)"
  by (simp_all add: mem_api_def mem_laws)

lemma mem_nfs_server: "nfs_server mem_api (\<lambda>w. look (mNFSs w))"
  unfolding nfs_server_def
  by (intro conjI mem_keyed) (simp_all add: mem_api_def mem_laws nfs_admits_def)

section \<open>Properties\<close>

text \<open>
  C2: when \<open>ControllerPublishVolume\<close> reports success for a volume that is not RWX, the volume
  is in the template of the node's virtual machine and hotplugged in its running instance.
\<close>

theorem publish_attached:
  assumes "get_law (vms api) machines" and "get_law (vmis api) instances"
    and "client_keeps machines (vmis api)"
    and "puCapability req = Some cap" and "GetMode cap \<noteq> MULTI_NODE_MULTI_WRITER"
    and "ControllerPublishVolume api cs req s = (Ok (), s')"
  shows "(\<exists>v t. machines (world s') (cs_namespace cs) (puNodeId req) = Some v \<and>
       Template v = Some t \<and> puVolumeId req \<in> volName ` set (Volumes t)) \<and>
    (\<exists>i. instances (world s') (cs_namespace cs) (puNodeId req) = Some i \<and>
       (\<exists>x \<in> set (VolumeStatus i). vsName x = puVolumeId req \<and> vsHotplug x))"
  using assms(6,4,5)
proof (cases rule: ControllerPublishVolume_block)
  case (attach p s1)
  with attachVolume_attached isVolAttached_True [OF _ assms(1-3)] show ?thesis by blast
qed simp

theorem publish_attached_witness:
  "\<exists>s' v t. ControllerPublishVolume mem_api legacy_cs demo_publish (in_mem plug_mem) = (Ok (), s') \<and>
     look (mVMs (world s')) ''default'' ''node-1'' = Some v \<and> Template v = Some t \<and>
     ''pvc-1'' \<in> volName ` set (Volumes t)"
proof -
  have "is_Ok (fst (ControllerPublishVolume mem_api legacy_cs demo_publish (in_mem plug_mem)))"
    by code_simp
  then obtain s' where
    run: "ControllerPublishVolume mem_api legacy_cs demo_publish (in_mem plug_mem) = (Ok (), s')"
    by (rule is_Ok_run) simp
  have "puCapability demo_publish = Some \<lparr>AccessType = Some Block, AccessMode = Some SINGLE_NODE_WRITER\<rparr>"
    by (simp add: demo_publish_def)
  from publish_attached [OF mem_publish_laws(2,3,4) this _ run] run show ?thesis
    by (simp add: GetMode_def legacy_cs_def demo_cs_def demo_publish_def)
qed

text \<open>
  C4: whatever the servers answer, \<open>ControllerPublishVolume\<close> of a volume that is not RWX
  changes only the node's virtual machine, and only when it found the claim bound and the volume
  attachments settled: no host attachment of the volume on another host than the machine's, no
  guest attachment of it on another node (or the host does not let the driver list attachments,
  or the volume is in file system mode). The attachments were settled in a world that agrees with
  the one at the start in all that the driver's reads do not change.
\<close>

theorem publish_writes_when_settled:
  assumes "ControllerPublishVolume api cs req s = (r, s')" and "puCapability req = Some cap"
    and "GetMode cap \<noteq> MULTI_NODE_MULTI_WRITER" and keep: "reads_keep view api"
    and "calls s' = calls s @ tr" and "c \<in> set tr" and "\<not> read_only c"
  shows "call_kind c = VMs \<and> call_ns c = cs_namespace cs \<and> call_name c = puNodeId req \<and>
    (\<exists>p w1 w. cget (pvcs api) (cs_namespace cs) (puVolumeId req) (world s) = (Inr p, w1) \<and>
       Phase p = ClaimBound \<and> view w = view (world s) \<and> settled api cs p (puNodeId req) w)"
  using assms(1-3)
proof (cases rule: ControllerPublishVolume_block)
  case (early e tr')
  with assms(5-7) show ?thesis by auto
next
  case (attach p s1)
  let ?P = "\<lambda>c. read_only c \<or> call_kind c = VMs \<and> call_ns c = cs_namespace cs \<and>
     call_name c = puNodeId req"
  have "issues ?P (attachVolume api cs p (puNodeId req) (puVolumeId req))"
    by (auto simp: attachVolume_def read_only_def intro!: issues_intros)
  from issuesD [OF this attach(3)] obtain t where t: "calls s' = calls s1 @ t" "\<forall>c \<in> set t. ?P c"
    by blast
  from attach(1) have get: "cget (pvcs api) (cs_namespace cs) (puVolumeId req) (world s) = (Inr p, world s1)"
    "calls s1 = calls s @ [Call VGet PVCs (cs_namespace cs) (puVolumeId req) None]"
    by (simp_all add: kGet_returns)
  with assms(5-7) t have c: "c \<in> set t" by (auto simp: read_only_def)
  from keep get(1) have "view (world s1) = view (world s)" by (auto simp: reads_keep_def dest: keepsD)
  with attachVolume_writes_when_settled [OF attach(3) t(1) c assms(7) keep] t(2) c assms(7) attach(2) get(1)
  show ?thesis by auto
qed

theorem publish_writes_when_settled_witness:
  "\<exists>s' p. ControllerPublishVolume mem_api legacy_cs demo_publish (in_mem plug_mem) = (Ok (), s') \<and>
     Call VAddVolume VMs ''default'' ''node-1'' None \<in> set (calls s') \<and>
     look (mPVCs plug_mem) ''default'' ''pvc-1'' = Some p \<and> Phase p = ClaimBound \<and>
     settled mem_api legacy_cs p ''node-1'' plug_mem"
proof -
  have "is_Ok (fst (ControllerPublishVolume mem_api legacy_cs demo_publish (in_mem plug_mem)))"
    by code_simp
  then obtain s' where
    run: "ControllerPublishVolume mem_api legacy_cs demo_publish (in_mem plug_mem) = (Ok (), s')"
    by (rule is_Ok_run) simp
  have "Call VAddVolume VMs ''default'' ''node-1'' None \<in>
      set (calls (snd (ControllerPublishVolume mem_api legacy_cs demo_publish (in_mem plug_mem))))"
    by code_simp
  with run have c: "Call VAddVolume VMs ''default'' ''node-1'' None \<in> set (calls s')" by simp
  have tr: "calls s' = calls (in_mem plug_mem) @ calls s'" by (simp add: in_mem_def)
  have req: "puCapability demo_publish = Some \<lparr>AccessType = Some Block, AccessMode = Some SINGLE_NODE_WRITER\<rparr>"
    "puNodeId demo_publish = ''node-1''" "puVolumeId demo_publish = ''pvc-1''" "cs_namespace legacy_cs = ''default''"
    by (simp_all add: demo_publish_def legacy_cs_def)
  have keep: "reads_keep (\<lambda>w. w) mem_api"
    by (auto simp: reads_keep_def keeps_def mem_api_def mem_client_def split: option.splits)
  from publish_writes_when_settled [OF run req(1) _ keep tr c] run c req
  show ?thesis
    by (auto simp: GetMode_def read_only_def mem_api_def mem_client_def split: option.splits)
qed

text \<open>
  C24: adding a volume to a virtual machine that does not have it and removing it again gives
  the machine back, up to its resource version, and leaves all other machines alone.
\<close>

theorem hotplug_roundtrip:
  assumes "get_law (vms api) machines" and "patch_law api machines"
    and "machines (world s) (cs_namespace cs) node = Some v" and "Template v = Some t"
    and "vid \<notin> volName ` set (Volumes t)" and "vid \<notin> diskName ` set (Disks t)"
    and "addVolumeToVM api cs node vid s = (Ok (), s1)"
    and "removeVolumeFromVM api cs node vid s1 = (Ok (), s2)"
  shows "\<exists>rv. machines (world s2) =
    stored (machines (world s)) (cs_namespace cs) node (v\<lparr>ResourceVersion := rv\<rparr>)"
proof -
  from addVolumeToVM_post [OF assms(1,2,7)] assms(3,4) obtain rv where
    add: "machines (world s1) = stored (machines (world s)) (cs_namespace cs) node
      (with_template v rv (plugged vid t))" by auto
  have "Template (with_template v rv (plugged vid t)) = Some (plugged vid t)"
    by (simp add: with_template_def)
  with removeVolumeFromVM_post [OF assms(1,2,8)] add obtain rv' where
    "machines (world s2) = stored (machines (world s)) (cs_namespace cs) node
      (with_template v rv' (unplugged vid (plugged vid t)))" by auto
  then show ?thesis by (auto simp: unplugged_plugged [OF assms(5,6)] with_template_same [OF assms(4)])
qed

theorem hotplug_roundtrip_witness:
  "\<exists>s1 s2 rv. addVolumeToVM mem_api demo_cs ''node-1'' ''pvc-1'' (in_mem plug_mem) = (Ok (), s1) \<and>
     removeVolumeFromVM mem_api demo_cs ''node-1'' ''pvc-1'' s1 = (Ok (), s2) \<and>
     look (mVMs (world s2)) ''default'' ''node-1'' = Some (demo_vm\<lparr>ResourceVersion := rv\<rparr>)"
proof -
  let ?add = "addVolumeToVM mem_api demo_cs ''node-1'' ''pvc-1''"
  let ?rem = "removeVolumeFromVM mem_api demo_cs ''node-1'' ''pvc-1''"
  have "is_Ok (fst (?add (in_mem plug_mem)))" by code_simp
  then obtain s1 where s1: "?add (in_mem plug_mem) = (Ok (), s1)" by (rule is_Ok_run) simp
  have "is_Ok (fst (?rem (snd (?add (in_mem plug_mem)))))" by code_simp
  with s1 have "is_Ok (fst (?rem s1))" by simp
  then obtain s2 where s2: "?rem s1 = (Ok (), s2)" by (rule is_Ok_run) simp
  have "look (mVMs (world (in_mem plug_mem))) (cs_namespace demo_cs) ''node-1'' = Some demo_vm"
    by (simp add: in_mem_def plug_mem_def demo_vm_def demo_cs_def has_key_def)
  from hotplug_roundtrip [OF mem_publish_laws(2) mem_patch_law this _ _ _ s1 s2] s1 s2 show ?thesis
    by (auto simp: demo_vm_def demo_cs_def)
qed

text \<open>
  C25: the removal patch is safe against concurrent changes: if it applies to the machine the
  server holds and resource versions identify states, that machine is the one that was read,
  and exactly the volumes and disks of that name disappear.
\<close>

theorem removeVolume_loses_no_update:
  assumes "apply_ops (removeVolumeOps vid v t) v0 = Some v1" and "Template v = Some t"
    and "ResourceVersion v0 = ResourceVersion v \<Longrightarrow> v0 = v"
  shows "v0 = v \<and> v1 = v0\<lparr>Template := Some (unplugged vid t)\<rparr>"
  using vol_removal.removal_loses_no_update [OF assms] by (simp add: unplugged_def)

theorem removeVolume_loses_no_update_witness:
  "apply_ops (removeVolumeOps ''root'' demo_vm (the (Template demo_vm))) demo_vm =
     Some (demo_vm\<lparr>Template := Some (unplugged ''root'' (the (Template demo_vm)))\<rparr>)"
proof -
  have ne: "apply_ops (removeVolumeOps ''root'' demo_vm (the (Template demo_vm))) demo_vm \<noteq> None"
    by code_simp
  then obtain v1 where v1: "apply_ops (removeVolumeOps ''root'' demo_vm (the (Template demo_vm))) demo_vm = Some v1"
    by blast
  from removeVolume_loses_no_update [OF v1] show ?thesis using v1 by (simp add: demo_vm_def)
qed

text \<open>
  C12: \<open>ControllerUnpublishVolume\<close> of a volume in block mode sends at most one removal, on the
  node's machine, and reports success only when it sent none: then the volume is neither in
  the machine's template nor hotplugged in its instance.
\<close>

theorem unpublish_detached:
  assumes "get_law (pvcs api) claims" and "get_law (vms api) machines"
    and "get_law (vmis api) instances" and "client_keeps instances (vms api)"
    and "claims (world s) (cs_namespace cs) (unVolumeId req) = Some p"
    and "VolumeMode p \<noteq> Some PersistentVolumeFilesystem"
    and "ControllerUnpublishVolume api cs req s = (r, s')"
  shows "\<exists>tr. calls s' = calls s @ tr \<and> removal_trace cs (unNodeId req) tr \<and>
    (r = Ok () \<longrightarrow> writes tr = [] \<and>
      (\<forall>v t. machines (world s') (cs_namespace cs) (unNodeId req) = Some v \<longrightarrow>
         Template v = Some t \<longrightarrow> unVolumeId req \<notin> volName ` set (Volumes t)) \<and>
      (\<forall>i. instances (world s') (cs_namespace cs) (unNodeId req) = Some i \<longrightarrow>
         (\<forall>x \<in> set (VolumeStatus i). vsName x = unVolumeId req \<longrightarrow> \<not> vsHotplug x)))"
  using assms(7,1,5,6)
proof (cases rule: ControllerUnpublishVolume_block)
  case (early e tr)
  then show ?thesis by (auto simp: writes_none removal_trace_def)
next
  case (remove s1 q)
  from removeVolumeFromHostVM_trace [OF remove(3)] remove(2) obtain tr where
    tr: "calls s' = calls s @ tr" "removal_trace cs (unNodeId req) tr" "q = Ok False \<longrightarrow> writes tr = []"
    by (auto simp: removal_trace_def)
  show ?thesis
  proof (cases "r = Ok ()")
    case True
    with remove(4) have "q = Ok False" by auto
    with remove(3) obtain s2 where
      a: "checkVolumeExistsInVMI api cs (unNodeId req) (unVolumeId req) s1 = (Ok False, s2)"
        "checkVolumeExistsInVM api cs (unNodeId req) (unVolumeId req) s2 = (Ok False, s')"
      by (auto elim: removeVolumeFromHostVM_cases)
    have "leaves instances (checkVolumeExistsInVM api cs (unNodeId req) (unVolumeId req))"
      unfolding checkVolumeExistsInVM_def vm_template_def
      by (intro leaves_intros client_keepsD assms(4))
    from leavesD [OF this a(2)] absent_in_VMI [OF a(1) assms(3)] absent_in_VM [OF a(2) assms(2)]
      tr \<open>q = Ok False\<close>
    show ?thesis by (intro exI [of _ tr]) auto
  qed (use tr in auto)
qed

theorem unpublish_detached_witness:
  "\<exists>s'. ControllerUnpublishVolume mem_api demo_cs \<lparr>unVolumeId = ''pvc-1'', unNodeId = ''node-1''\<rparr>
     (in_mem plug_mem) = (Ok (), s') \<and> writes (calls s') = []"
proof -
  let ?run = "ControllerUnpublishVolume mem_api demo_cs \<lparr>unVolumeId = ''pvc-1'', unNodeId = ''node-1''\<rparr>"
  have "is_Ok (fst (?run (in_mem plug_mem)))" by code_simp
  then obtain s' where run: "?run (in_mem plug_mem) = (Ok (), s')" by (rule is_Ok_run) simp
  have "look (mPVCs (world (in_mem plug_mem))) (cs_namespace demo_cs) ''pvc-1'' = Some bound_claim"
    "VolumeMode bound_claim \<noteq> Some PersistentVolumeFilesystem" by (simp_all add: in_mem_def plug_mem_def
      bound_claim_def demo_claim_def new_pvc_def demo_cs_def has_key_def PersistentVolumeBlock_def
      PersistentVolumeFilesystem_def)
  with unpublish_detached [OF mem_publish_laws(1-3,5) _ _ run] run show ?thesis
    by (auto simp: in_mem_def)
qed

text \<open>
  Publishing a Longhorn RWX volume whose claim is not being deleted succeeds only when
  its network file system exists and is enabled or being enabled.
\<close>

lemma publishRWX_enables:
  assumes "nfs_server api nfs" and "DeletionTimestamp p = None"
    and "publishRWXVolume api p s = (Ok (), s')"
  shows "\<exists>n. nfs (world s') HarvesterNS (VolumeName p) = Some n \<and> enabled n"
  using assms by (rule publishRWXVolume_post)

lemma publishRWX_enables_witness:
  "\<exists>s' n. publishRWXVolume mem_api bound_claim (in_mem nfs_mem) = (Ok (), s') \<and>
     look (mNFSs (world s')) HarvesterNS ''pv-1'' = Some n \<and> enabled n"
proof -
  have "is_Ok (fst (publishRWXVolume mem_api bound_claim (in_mem nfs_mem)))" by code_simp
  then obtain s' where run: "publishRWXVolume mem_api bound_claim (in_mem nfs_mem) = (Ok (), s')"
    by (rule is_Ok_run) simp
  from publishRWX_enables [OF mem_nfs_server _ this] run show ?thesis
    by (auto simp: bound_claim_def demo_claim_def new_pvc_def)
qed



text \<open>
  Unpublishing a Longhorn RWX volume whose network file system is gone fails with
  Internal; the branch that would accept it is never reached.
\<close>

lemma unpublishRWX_missing_fails:
  assumes "cget (networkfss api) HarvesterNS (VolumeName p) (world s) = (Inl e, w)" and "IsNotFound e"
  shows "\<exists>msg s'. unpublishRWXVolume api p s = (Err (GRPCStatus Internal msg), s')"
  using assms by (auto simp: unpublishRWXVolume_def handle_run kGet_def perform_run fail_run
      status_Errorf_def)

lemma unpublishRWX_missing_fails_witness:
  "\<exists>msg s'. unpublishRWXVolume mem_api bound_claim (in_mem plug_mem) =
     (Err (GRPCStatus Internal msg), s')"
proof -
  have "cget (networkfss mem_api) HarvesterNS (VolumeName bound_claim) (world (in_mem plug_mem)) =
     (Inl (notFound (VolumeName bound_claim)), plug_mem)"
    by (simp add: mem_api_def mem_client_def in_mem_def plug_mem_def empty_mem_def)
  then show ?thesis by (rule unpublishRWX_missing_fails) (simp add: notFound_def)
qed

end
