(* ===== verification/Json.thy ===== *)
theory Json
  imports Prelude
begin

text \<open>
  \<open>json.Unmarshal\<close> of Go's standard library, as far as the snapshot code uses it: the scanner
  that checks the whole input byte by byte, with the library's error texts, and the decoding
  into a map from strings to the struct \<open>settings.CSIDriverInfo\<close>.

  The scanner is a state machine with a stack, as in the library; here it also collects the
  value. It reads the input once, so it needs no fuel.
\<close>

section \<open>Values and states\<close>

datatype json =
    JNull
  | JBool bool
  | JNumber string
  | JString string
  | JArray "json list"
  | JObject "(string \<times> json) list"

text \<open>An open array, an open object, an object whose next key, or next key and colon, was read.\<close>

datatype frame =
    InArray "json list"
  | InObject "(string \<times> json) list"
  | AfterKey "(string \<times> json) list" string
  | AfterColon "(string \<times> json) list" string

datatype mode =
    BeginValue | BeginValueOrEmpty | BeginString | BeginStringOrEmpty | EndValue
  | EndTop json
  | InString string | InStringEsc string | InStringEscU string nat
  | Neg string | Int0 string | Int1 string | Dot string | Dot0 string
  | E string | ESign string | E0 string
  | Literal string string json

datatype scanner = Scan mode "frame list" | SyntaxError string

section \<open>Bytes\<close>

definition byte :: "char \<Rightarrow> nat" where
  "byte c = of_char c"

definition isSpace :: "char \<Rightarrow> bool" where
  "isSpace c \<longleftrightarrow> byte c \<in> {9, 10, 13, 32}"

definition isDigit :: "char \<Rightarrow> bool" where
  "isDigit c \<longleftrightarrow> 48 \<le> byte c \<and> byte c \<le> 57"

definition hexValue :: "char \<Rightarrow> nat option" where
  "hexValue c =
     (let b = byte c in
      if 48 \<le> b \<and> b \<le> 57 then Some (b - 48)
      else if 97 \<le> b \<and> b \<le> 102 then Some (b - 87)
      else if 65 \<le> b \<and> b \<le> 70 then Some (b - 55)
      else None)"

definition hexDigit :: "nat \<Rightarrow> char" where
  "hexDigit n = char_of (if n < 10 then 48 + n else 87 + n)"

text \<open>\<open>quoteChar\<close>: the byte as a rune, in the notation of \<open>strconv.Quote\<close>.\<close>

definition utf8 :: "nat \<Rightarrow> string" where
  "utf8 r = map char_of
     (if r < 128 then [r]
      else if r < 2048 then [192 + r div 64, 128 + r mod 64]
      else if r < 65536 then [224 + r div 4096, 128 + r div 64 mod 64, 128 + r mod 64]
      else [240 + r div 262144, 128 + r div 4096 mod 64, 128 + r div 64 mod 64, 128 + r mod 64])"

definition quoteChar :: "char \<Rightarrow> string" where
  "quoteChar c =
     (let b = byte c; q = [char_of (39::nat)] in
      if b = 39 then q @ [char_of (92::nat)] @ q @ q
      else q @
        (if b = 34 then [c]
         else if b = 92 then [c, c]
         else if b = 7 then [char_of (92::nat)] @ ''a''
         else if b = 8 then [char_of (92::nat)] @ ''b''
         else if b = 12 then [char_of (92::nat)] @ ''f''
         else if b = 10 then [char_of (92::nat)] @ ''n''
         else if b = 13 then [char_of (92::nat)] @ ''r''
         else if b = 9 then [char_of (92::nat)] @ ''t''
         else if b = 11 then [char_of (92::nat)] @ ''v''
         else if b < 32 \<or> b = 127 then
           [char_of (92::nat)] @ ''x'' @ [hexDigit (b div 16), hexDigit (b mod 16)]
         else if b < 127 then [c]
         else if b < 160 \<or> b = 160 \<or> b = 173 then
           [char_of (92::nat)] @ ''u00'' @ [hexDigit (b div 16), hexDigit (b mod 16)]
         else utf8 b) @ q)"

definition scan_error :: "char \<Rightarrow> string \<Rightarrow> scanner" where
  "scan_error c context = SyntaxError (''invalid character '' @ quoteChar c @ '' '' @ context)"

section \<open>Strings\<close>

definition runeError :: nat where
  "runeError = 65533"

definition continuation :: "char \<Rightarrow> bool" where
  "continuation c \<longleftrightarrow> 128 \<le> byte c \<and> byte c < 192"

text \<open>\<open>utf8.DecodeRune\<close> of a byte sequence that starts with a byte above 127: the rune and its
  width; anything that is not the shortest encoding of a valid rune is the error rune of
  width 1.\<close>

definition decodeRune :: "string \<Rightarrow> nat \<times> nat" where
  "decodeRune s =
     (case s of
        a # b # rest \<Rightarrow>
          (let x = byte a; y = byte b in
           if 194 \<le> x \<and> x < 224 \<and> continuation b then ((x - 192) * 64 + (y - 128), 2)
           else if 224 \<le> x \<and> x < 240 \<and> continuation b then
             (case rest of
                c # _ \<Rightarrow>
                  (let r = (x - 224) * 4096 + (y - 128) * 64 + (byte c - 128) in
                   if continuation c \<and> 2048 \<le> r \<and> \<not> (55296 \<le> r \<and> r < 57344) then (r, 3)
                   else (runeError, 1))
              | [] \<Rightarrow> (runeError, 1))
           else if 240 \<le> x \<and> x < 245 \<and> continuation b then
             (case rest of
                c # d # _ \<Rightarrow>
                  (let r = (x - 240) * 262144 + (y - 128) * 4096 + (byte c - 128) * 64 +
                         (byte d - 128) in
                   if continuation c \<and> continuation d \<and> 65536 \<le> r \<and> r < 1114112 then (r, 4)
                   else (runeError, 1))
              | _ \<Rightarrow> (runeError, 1))
           else (runeError, 1))
      | _ \<Rightarrow> (runeError, 1))"

text \<open>\<open>getu4\<close>: the value of an escape \<open>\uXXXX\<close> at the start of the text.\<close>

definition getu4 :: "string \<Rightarrow> nat option" where
  "getu4 s =
     (case s of
        bs # u # a # b # c # d # _ \<Rightarrow>
          if byte bs = 92 \<and> u = CHR ''u'' then
            (case (hexValue a, hexValue b, hexValue c, hexValue d) of
               (Some w, Some x, Some y, Some z) \<Rightarrow> Some (w * 4096 + x * 256 + y * 16 + z)
             | _ \<Rightarrow> None)
          else None
      | _ \<Rightarrow> None)"

definition isSurrogate :: "nat \<Rightarrow> bool" where
  "isSurrogate r \<longleftrightarrow> 55296 \<le> r \<and> r < 57344"

definition escaped :: "char \<Rightarrow> char" where
  "escaped c =
     (if c = CHR ''b'' then char_of (8::nat)
      else if c = CHR ''f'' then char_of (12::nat)
      else if c = CHR ''n'' then char_of (10::nat)
      else if c = CHR ''r'' then char_of (13::nat)
      else if c = CHR ''t'' then char_of (9::nat)
      else c)"

text \<open>One step of \<open>unquoteBytes\<close>: the bytes written and the number of bytes read.\<close>

definition unquote_step :: "string \<Rightarrow> string \<times> nat" where
  "unquote_step s =
     (case s of
        [] \<Rightarrow> ('''', 1)
      | c # rest \<Rightarrow>
          if byte c = 92 then
            (case getu4 s of
               Some r \<Rightarrow>
                 if isSurrogate r then
                   (case getu4 (drop 6 s) of
                      Some r1 \<Rightarrow>
                        if r < 56320 \<and> 56320 \<le> r1 \<and> r1 < 57344
                        then (utf8 (65536 + (r - 55296) * 1024 + (r1 - 56320)), 12)
                        else (utf8 runeError, 6)
                    | None \<Rightarrow> (utf8 runeError, 6))
                 else (utf8 r, 6)
             | None \<Rightarrow> (case rest of [] \<Rightarrow> ('''', 1) | e # _ \<Rightarrow> ([escaped e], 2)))
          else if byte c < 128 then ([c], 1)
          else (case decodeRune s of (r, w) \<Rightarrow> (utf8 r, w)))"

lemma unquote_step_width: "0 < snd (unquote_step s)"
  by (auto simp: unquote_step_def decodeRune_def Let_def split: list.splits option.splits)

function unquote :: "string \<Rightarrow> string" where
  "unquote s =
     (if s = [] then []
      else case unquote_step s of (out, w) \<Rightarrow> out @ unquote (drop w s))"
  by pat_completeness auto
termination
proof (relation "measure length")
  fix s out w
  assume "s \<noteq> []" and "(out, w) = unquote_step s"
  with unquote_step_width [of s] show "(drop w s, s) \<in> measure length"
    by (cases "unquote_step s") auto
qed simp

declare unquote.simps [simp del]

section \<open>The scanner\<close>

definition maxNestingDepth :: nat where
  "maxNestingDepth = 10000"

definition push :: "char \<Rightarrow> mode \<Rightarrow> frame \<Rightarrow> frame list \<Rightarrow> scanner" where
  "push c m f st =
     (if length st < maxNestingDepth then Scan m (f # st)
      else scan_error c ''exceeded max depth'')"

text \<open>A value is complete; in an object that waits for a key, the value is the key.\<close>

fun complete :: "json \<Rightarrow> frame list \<Rightarrow> scanner" where
  "complete v [] = Scan (EndTop v) []"
| "complete v (InArray vs # st) = Scan EndValue (InArray (vs @ [v]) # st)"
| "complete v (AfterColon ps k # st) = Scan EndValue (InObject (ps @ [(k, v)]) # st)"
| "complete v (InObject ps # st) =
     Scan EndValue (AfterKey ps (case v of JString k \<Rightarrow> k | _ \<Rightarrow> '''') # st)"
| "complete v (AfterKey ps k # st) = Scan EndValue (AfterKey ps k # st)"

definition stateEndValue :: "frame list \<Rightarrow> char \<Rightarrow> scanner" where
  "stateEndValue stack c =
     (if isSpace c then Scan EndValue stack
      else case stack of
        [] \<Rightarrow> scan_error c ''after top-level value''
      | AfterKey ps k # st \<Rightarrow>
          if c = CHR '':'' then Scan BeginValue (AfterColon ps k # st)
          else scan_error c ''after object key''
      | InObject ps # st \<Rightarrow>
          if c = CHR '','' then Scan BeginString (InObject ps # st)
          else if c = CHR ''}'' then complete (JObject ps) st
          else scan_error c ''after object key:value pair''
      | InArray vs # st \<Rightarrow>
          if c = CHR '','' then Scan BeginValue (InArray vs # st)
          else if c = CHR '']'' then complete (JArray vs) st
          else scan_error c ''after array element''
      | AfterColon ps k # st \<Rightarrow> scan_error c '''')"

definition stateBeginValue :: "frame list \<Rightarrow> char \<Rightarrow> scanner" where
  "stateBeginValue st c =
     (if isSpace c then Scan BeginValue st
      else if c = CHR ''{'' then push c BeginStringOrEmpty (InObject []) st
      else if c = CHR ''['' then push c BeginValueOrEmpty (InArray []) st
      else if byte c = 34 then Scan (InString '''') st
      else if c = CHR ''-'' then Scan (Neg [c]) st
      else if c = CHR ''0'' then Scan (Int0 [c]) st
      else if c = CHR ''t'' then Scan (Literal ''true'' ''rue'' (JBool True)) st
      else if c = CHR ''f'' then Scan (Literal ''false'' ''alse'' (JBool False)) st
      else if c = CHR ''n'' then Scan (Literal ''null'' ''ull'' JNull) st
      else if isDigit c then Scan (Int1 [c]) st
      else scan_error c ''looking for beginning of value'')"

definition stateBeginString :: "frame list \<Rightarrow> char \<Rightarrow> scanner" where
  "stateBeginString st c =
     (if isSpace c then Scan BeginString st
      else if byte c = 34 then Scan (InString '''') st
      else scan_error c ''looking for beginning of object key string'')"

text \<open>A number ends at the first byte that cannot belong to it.\<close>

definition end_number :: "string \<Rightarrow> frame list \<Rightarrow> char \<Rightarrow> scanner" where
  "end_number acc st c =
     (case complete (JNumber acc) st of
        Scan (EndTop v) st' \<Rightarrow>
          if isSpace c then Scan (EndTop v) st' else scan_error c ''after top-level value''
      | Scan m st' \<Rightarrow> stateEndValue st' c
      | SyntaxError e \<Rightarrow> SyntaxError e)"

definition state0 :: "string \<Rightarrow> frame list \<Rightarrow> char \<Rightarrow> scanner" where
  "state0 acc st c =
     (if c = CHR ''.'' then Scan (Dot (acc @ [c])) st
      else if c = CHR ''e'' \<or> c = CHR ''E'' then Scan (E (acc @ [c])) st
      else end_number acc st c)"

definition stateESign :: "string \<Rightarrow> frame list \<Rightarrow> char \<Rightarrow> scanner" where
  "stateESign acc st c =
     (if isDigit c then Scan (E0 (acc @ [c])) st
      else scan_error c ''in exponent of numeric literal'')"

fun step :: "mode \<Rightarrow> frame list \<Rightarrow> char \<Rightarrow> scanner" where
  "step BeginValue st c = stateBeginValue st c"
| "step BeginValueOrEmpty st c =
     (if isSpace c then Scan BeginValueOrEmpty st
      else if c = CHR '']'' then stateEndValue st c
      else stateBeginValue st c)"
| "step BeginString st c = stateBeginString st c"
| "step BeginStringOrEmpty st c =
     (if isSpace c then Scan BeginStringOrEmpty st
      else if c = CHR ''}'' then stateEndValue st c
      else stateBeginString st c)"
| "step EndValue st c = stateEndValue st c"
| "step (EndTop v) st c =
     (if isSpace c then Scan (EndTop v) st else scan_error c ''after top-level value'')"
| "step (InString acc) st c =
     (if byte c = 34 then complete (JString (unquote acc)) st
      else if byte c = 92 then Scan (InStringEsc (acc @ [c])) st
      else if byte c < 32 then scan_error c ''in string literal''
      else Scan (InString (acc @ [c])) st)"
| "step (InStringEsc acc) st c =
     (if c \<in> {CHR ''b'', CHR ''f'', CHR ''n'', CHR ''r'', CHR ''t'', CHR ''/''} \<or>
         byte c = 92 \<or> byte c = 34 then Scan (InString (acc @ [c])) st
      else if c = CHR ''u'' then Scan (InStringEscU (acc @ [c]) 3) st
      else scan_error c ''in string escape code'')"
| "step (InStringEscU acc n) st c =
     (if hexValue c = None then
        scan_error c (''in '' @ [char_of (92::nat)] @ ''u hexadecimal character escape'')
      else if n = 0 then Scan (InString (acc @ [c])) st
      else Scan (InStringEscU (acc @ [c]) (n - 1)) st)"
| "step (Neg acc) st c =
     (if c = CHR ''0'' then Scan (Int0 (acc @ [c])) st
      else if isDigit c then Scan (Int1 (acc @ [c])) st
      else scan_error c ''in numeric literal'')"
| "step (Int1 acc) st c =
     (if isDigit c then Scan (Int1 (acc @ [c])) st else state0 acc st c)"
| "step (Int0 acc) st c = state0 acc st c"
| "step (Dot acc) st c =
     (if isDigit c then Scan (Dot0 (acc @ [c])) st
      else scan_error c ''after decimal point in numeric literal'')"
| "step (Dot0 acc) st c =
     (if isDigit c then Scan (Dot0 (acc @ [c])) st
      else if c = CHR ''e'' \<or> c = CHR ''E'' then Scan (E (acc @ [c])) st
      else end_number acc st c)"
| "step (E acc) st c =
     (if c = CHR ''+'' \<or> c = CHR ''-'' then Scan (ESign (acc @ [c])) st
      else stateESign acc st c)"
| "step (ESign acc) st c = stateESign acc st c"
| "step (E0 acc) st c =
     (if isDigit c then Scan (E0 (acc @ [c])) st else end_number acc st c)"
| "step (Literal name rest v) st c =
     (case rest of
        [] \<Rightarrow> stateEndValue st c
      | x # xs \<Rightarrow>
          if c = x then (if xs = [] then complete v st else Scan (Literal name xs v) st)
          else scan_error c
            (''in literal '' @ name @ '' (expecting '' @ [char_of (39::nat), x, char_of (39::nat)] @
             '')''))"

fun scan :: "string \<Rightarrow> scanner \<Rightarrow> scanner" where
  "scan (c # cs) (Scan m st) = scan cs (step m st c)"
| "scan cs sc = sc"

text \<open>The end of the input counts as one more blank.\<close>

definition parse :: "string \<Rightarrow> string + json" where
  "parse s =
     (case scan (s @ '' '') (Scan BeginValue []) of
        Scan (EndTop v) st \<Rightarrow> Inr v
      | Scan m st \<Rightarrow> Inl ''unexpected end of JSON input''
      | SyntaxError e \<Rightarrow> Inl e)"

section \<open>Decoding\<close>

record CSIDriverInfo =
  snapClass :: string
  backupSnapClass :: string

definition empty_info :: CSIDriverInfo where
  "empty_info = \<lparr>snapClass = '''', backupSnapClass = ''''\<rparr>"

text \<open>\<open>foldName\<close>: upper case, and the two runes outside ASCII whose folding is an ASCII letter
  (the long s and the Kelvin sign).\<close>

fun foldName :: "string \<Rightarrow> string" where
  "foldName (a # b # c # s) =
     (if byte a = 226 \<and> byte b = 132 \<and> byte c = 170 then CHR ''K'' # foldName s
      else if byte a = 197 \<and> byte b = 191 then CHR ''S'' # foldName (c # s)
      else if 97 \<le> byte a \<and> byte a \<le> 122 then char_of (byte a - 32) # foldName (b # c # s)
      else a # foldName (b # c # s))"
| "foldName [a, b] =
     (if byte a = 197 \<and> byte b = 191 then [CHR ''S'']
      else if 97 \<le> byte a \<and> byte a \<le> 122 then char_of (byte a - 32) # foldName [b]
      else a # foldName [b])"
| "foldName [a] = (if 97 \<le> byte a \<and> byte a \<le> 122 then [char_of (byte a - 32)] else [a])"
| "foldName [] = []"

definition field_names :: "string list" where
  "field_names = [''volumeSnapshotClassName'', ''backupVolumeSnapshotClassName'']"

definition find_field :: "string \<Rightarrow> string option" where
  "find_field key =
     (if key \<in> set field_names then Some key
      else find (\<lambda>n. foldName n = foldName key) field_names)"

fun json_kind :: "json \<Rightarrow> string" where
  "json_kind JNull = ''null''"
| "json_kind (JBool b) = ''bool''"
| "json_kind (JNumber n) = ''number''"
| "json_kind (JString s) = ''string''"
| "json_kind (JArray vs) = ''array''"
| "json_kind (JObject ps) = ''object''"

text \<open>The first type error is kept and decoding goes on.\<close>

type_synonym type_error = "string option"

definition saveError :: "type_error \<Rightarrow> string \<Rightarrow> type_error" where
  "saveError e msg = (case e of None \<Rightarrow> Some msg | Some m \<Rightarrow> Some m)"

definition set_field ::
  "string \<Rightarrow> json \<Rightarrow> CSIDriverInfo \<times> type_error \<Rightarrow> CSIDriverInfo \<times> type_error" where
  "set_field name v st =
     (case st of (info, e) \<Rightarrow>
       case v of
         JNull \<Rightarrow> (info, e)
       | JString s \<Rightarrow>
           (if name = ''volumeSnapshotClassName'' then (info\<lparr>snapClass := s\<rparr>, e)
            else (info\<lparr>backupSnapClass := s\<rparr>, e))
       | _ \<Rightarrow> (info, saveError e (''json: cannot unmarshal '' @ json_kind v @
             '' into Go struct field CSIDriverInfo.'' @ name @ '' of type string'')))"

fun decode_fields ::
  "(string \<times> json) list \<Rightarrow> CSIDriverInfo \<times> type_error \<Rightarrow> CSIDriverInfo \<times> type_error" where
  "decode_fields [] st = st"
| "decode_fields ((key, v) # ps) st =
     decode_fields ps
       (case find_field key of None \<Rightarrow> st | Some name \<Rightarrow> set_field name v st)"

definition decode_info :: "json \<Rightarrow> type_error \<Rightarrow> CSIDriverInfo \<times> type_error" where
  "decode_info v e =
     (case v of
        JNull \<Rightarrow> (empty_info, e)
      | JObject ps \<Rightarrow> decode_fields ps (empty_info, e)
      | _ \<Rightarrow> (empty_info, saveError e (''json: cannot unmarshal '' @ json_kind v @
            '' into Go value of type settings.CSIDriverInfo'')))"

fun decode_map ::
  "(string \<times> json) list \<Rightarrow> (string \<rightharpoonup> CSIDriverInfo) \<times> type_error \<Rightarrow>
   (string \<rightharpoonup> CSIDriverInfo) \<times> type_error" where
  "decode_map [] st = st"
| "decode_map ((key, v) # ps) (m, e) =
     (case decode_info v e of (info, e') \<Rightarrow> decode_map ps (m(key \<mapsto> info), e'))"

definition Unmarshal_info :: "string \<Rightarrow> gerror + (string \<rightharpoonup> CSIDriverInfo)" where
  "Unmarshal_info data =
     (case parse data of
        Inl msg \<Rightarrow> Inl (ErrorString msg)
      | Inr v \<Rightarrow>
          (case v of
             JNull \<Rightarrow> Inr Map.empty
           | JObject ps \<Rightarrow>
               (case decode_map ps (Map.empty, None) of
                  (m, None) \<Rightarrow> Inr m
                | (m, Some msg) \<Rightarrow> Inl (ErrorString msg))
           | _ \<Rightarrow> Inl (ErrorString (''json: cannot unmarshal '' @ json_kind v @
                 '' into Go value of type map[string]settings.CSIDriverInfo''))))"

end
