(* ===== verification/Controller_Snapshot.thy ===== *)
theory Controller_Snapshot
  imports Controller_Publish Json
begin

text \<open>
  The snapshot services (\<open>pkg/csi/controller_server.go\<close>): \<open>CreateSnapshot\<close>,
  \<open>DeleteSnapshot\<close> and \<open>ListSnapshots\<close> over the two kinds of snapshot: local ones (a
  \<open>VolumeSnapshot\<close> on the host) and backups (a \<open>VolumeRemoteBackup\<close>).

  Both ways to create one are get-or-create operations (the locale \<open>get_or_create\<close>); both
  ways to list them filter and convert the host's objects (the locale \<open>snapshot_lister\<close>).
\<close>

section \<open>The snapshot class\<close>

definition csiDriverConfigDefault :: string where
  \<open>csiDriverConfigDefault = ''{"driver.longhorn.io":{"volumeSnapshotClassName":"longhorn-snapshot","backupVolumeSnapshotClassName":"longhorn"}}''\<close>

definition class_of_provisioner :: "(string \<rightharpoonup> CSIDriverInfo) \<Rightarrow> string \<Rightarrow> string option" where
  "class_of_provisioner csiInfo provisioner =
     (case csiInfo provisioner of
        Some info \<Rightarrow> (if snapClass info \<noteq> '''' then Some (snapClass info) else None)
      | None \<Rightarrow> None)"

definition unmarshal_config :: "string \<Rightarrow> gerror + (string \<rightharpoonup> CSIDriverInfo)" where
  "unmarshal_config data =
     (case Unmarshal_info data of
        Inl err \<Rightarrow>
          Inl (Wrapped (Sprintf ''unmarshal failed, error: %w, value: %s''
            [Error err, csiDriverConfigDefault]) err)
      | Inr m \<Rightarrow> Inr m)"

definition getHostSnapClass :: "'w api \<Rightarrow> pvc \<Rightarrow> ('w, string) io" where
  "getHostSnapClass api hostPVC =
     andThen (getHarvCSIConfig api) (\<lambda>csiConfig.
     andThen (lift_result (unmarshal_config (SettingDefault csiConfig))) (\<lambda>csiInfo.
     let provisioner = map_index (Annotations hostPVC) AnnStorageProvisioner in
     case class_of_provisioner csiInfo provisioner of
       Some c \<Rightarrow> ret c
     | None \<Rightarrow>
     andThen (lift_result (unmarshal_config (SettingValue csiConfig))) (\<lambda>csiInfo'.
     case class_of_provisioner csiInfo' provisioner of
       Some c \<Rightarrow> ret c
     | None \<Rightarrow>
         fail (ErrorString (Sprintf ''no VolumeSnapshotClassName found for provisioner %s''
           [provisioner])))))"

definition generateHostSnapManifest ::
  "controller_server \<Rightarrow> string \<Rightarrow> string \<Rightarrow> pvc \<Rightarrow> gerror + snapshot" where
  "generateHostSnapManifest cs name hostSnapClass hostPVC =
     (case StorageClassName hostPVC of
        None \<Rightarrow> Inl (ErrorString ''host PVC is nil or does not have a StorageClassName'')
      | Some sc \<Rightarrow>
          (let volumeMode =
             (case VolumeMode hostPVC of None \<Rightarrow> PersistentVolumeBlock | Some m \<Rightarrow> m) in
           Inr \<lparr>Namespace = cs_namespace cs, Name = name, ResourceVersion = '''',
             Labels = Some [labelSnapHostSC \<mapsto> sc, labelSnapHostVolumeMode \<mapsto> volumeMode],
             Annotations = None, CreationTimestamp = None, DeletionTimestamp = None,
             SourcePVCName = Some (Name hostPVC), VolumeSnapshotClassName = Some hostSnapClass,
             SnapStatus = None\<rparr>))"

section \<open>Conversion to CSI\<close>

definition convertVolumeSnapshotToCSI :: "snapshot \<Rightarrow> string \<Rightarrow> csi_snapshot result" where
  "convertVolumeSnapshotToCSI hostSnap vol =
     (if Name hostSnap = '''' then Err (ErrorString ''snapshot name cannot be empty'')
      else if vol = '''' then Err (ErrorString ''source volume ID cannot be empty'')
      else case SnapStatus hostSnap of
        None \<Rightarrow> Panic
      | Some status \<Rightarrow>
          Ok \<lparr>SnapshotId = Name hostSnap, SourceVolumeId = vol,
              SizeBytes = (case RestoreSize status of None \<Rightarrow> 0 | Some q \<Rightarrow> q),
              csiCreationTime = CreationTime status,
              csiReadyToUse = (case ReadyToUse status of None \<Rightarrow> False | Some b \<Rightarrow> b)\<rparr>)"

definition convertVolumeRemoteBackupToCSI :: "vrb \<Rightarrow> string \<Rightarrow> csi_snapshot result" where
  "convertVolumeRemoteBackupToCSI vrb vol =
     (if Name vrb = '''' then Err (ErrorString ''VolumeRemoteBackup name cannot be empty'')
      else if vol = '''' then Err (ErrorString ''source volume ID cannot be empty'')
      else Ok \<lparr>SnapshotId = formatBackupSnapshotID (Namespace vrb) (Name vrb),
              SourceVolumeId = vol, SizeBytes = Storage (SourceRequests vrb),
              csiCreationTime = CreationTimestamp vrb, csiReadyToUse = vrbSuccess vrb\<rparr>)"

section \<open>CreateSnapshot\<close>

text \<open>The log line of a snapshot that failed reads its error message, that of a ready one its
  size: both panic on nil.\<close>

definition checkSnapsReadiness ::
  "'w api \<Rightarrow> controller_server \<Rightarrow> string \<Rightarrow> ('w, bool) io" where
  "checkSnapsReadiness api cs hostSnap =
     handle (getHostSnap api (cs_namespace cs) hostSnap)
       (\<lambda>err. ret False)
       (\<lambda>currentHostSnap.
     case SnapStatus currentHostSnap of
       None \<Rightarrow> ret False
     | Some status \<Rightarrow>
         (case SnapError status of
            Some message \<Rightarrow> (if message = None then panic else ret False)
          | None \<Rightarrow>
              if ReadyToUse status = Some True then
                (if RestoreSize status = None then panic else ret True)
              else ret False))"

definition prepareSnapshotResponse ::
  "'w api \<Rightarrow> controller_server \<Rightarrow> string \<Rightarrow> string \<Rightarrow> ('w, csi_snapshot) io" where
  "prepareSnapshotResponse api cs hostSnap vol =
     andThen (checkSnapsReadiness api cs hostSnap) (\<lambda>ready.
     if \<not> ready then fail (status_Errorf Internal ''host snap %s is not ready'' [hostSnap])
     else
     andThen (getHostSnap api (cs_namespace cs) hostSnap) (\<lambda>readyHostSnap.
     andThen (lift_result (validateHostSnapLabels readyHostSnap)) (\<lambda>_.
     lift (convertVolumeSnapshotToCSI readyHostSnap vol))))"

definition validateCreateSnapshotRequest :: "create_snapshot_request \<Rightarrow> gerror + unit" where
  "validateCreateSnapshotRequest req =
     (if csName req = '''' then
        Inl (status_Error InvalidArgument ''Snapshot name cannot be empty'')
      else if csSourceVolumeId req = '''' then
        Inl (status_Error InvalidArgument ''Source volume ID cannot be empty'')
      else Inr ())"

definition checkVolumeRemoteBackupReadiness ::
  "'w api \<Rightarrow> controller_server \<Rightarrow> string \<Rightarrow> ('w, bool) io" where
  "checkVolumeRemoteBackupReadiness api cs name =
     handle (getHostVolumeRemoteBackup api (cs_namespace cs) name)
       (\<lambda>err. ret False)
       (\<lambda>vrb. ret (vrbSuccess vrb))"

definition prepareBackupSnapResponse ::
  "'w api \<Rightarrow> controller_server \<Rightarrow> string \<Rightarrow> string \<Rightarrow> ('w, csi_snapshot) io" where
  "prepareBackupSnapResponse api cs name sourceVolumeID =
     andThen (checkVolumeRemoteBackupReadiness api cs name) (\<lambda>ready.
     if \<not> ready then
       fail (status_Errorf Internal ''VolumeRemoteBackup %s is not ready'' [name])
     else
     handle (getHostVolumeRemoteBackup api (cs_namespace cs) name)
       (\<lambda>err. fail (status_Errorf Internal ''Failed to get VolumeRemoteBackup %s: %v''
          [name, Error err]))
       (\<lambda>readyVrb. lift (convertVolumeRemoteBackupToCSI readyVrb sourceVolumeID)))"

definition buildHostVolumeRemoteBackup ::
  "controller_server \<Rightarrow> string \<Rightarrow> string \<Rightarrow> string \<Rightarrow> vrb" where
  "buildHostVolumeRemoteBackup cs name sourceVolumeID backupType =
     \<lparr>Namespace = cs_namespace cs, Name = name, ResourceVersion = '''',
      Labels = Some [labelBackupSrcVol \<mapsto> sourceVolumeID], Annotations = None,
      CreationTimestamp = None, DeletionTimestamp = None,
      vrbType = backupType, vrbSource = sourceVolumeID, SourceRequests = None,
      vrbSuccess = False\<rparr>"

definition LHBackup :: string where
  "LHBackup = ''lh''"

definition generateHostVolumeRemoteBackup ::
  "'w api \<Rightarrow> controller_server \<Rightarrow> string \<Rightarrow> string \<Rightarrow> ('w, vrb) io" where
  "generateHostVolumeRemoteBackup api cs name sourceVolumeID =
     createHostVolumeRemoteBackup api (buildHostVolumeRemoteBackup cs name sourceVolumeID LHBackup)"

definition createHostVolumeRemoteBackupFromReq ::
  "'w api \<Rightarrow> controller_server \<Rightarrow> string \<Rightarrow> string \<Rightarrow> ('w, csi_snapshot) io" where
  "createHostVolumeRemoteBackupFromReq api cs name sourceVolumeID =
     andThen (generateHostVolumeRemoteBackup api cs name sourceVolumeID) (\<lambda>createdVrb.
     prepareBackupSnapResponse api cs (Name createdVrb) sourceVolumeID)"

definition handleExistingBackupSnap ::
  "'w api \<Rightarrow> controller_server \<Rightarrow> string \<Rightarrow> string \<Rightarrow> ('w, csi_snapshot) io" where
  "handleExistingBackupSnap api cs name sourceVolumeID =
     andThen (getHostVolumeRemoteBackup api (cs_namespace cs) name) (\<lambda>existingVrb.
     prepareBackupSnapResponse api cs (Name existingVrb) sourceVolumeID)"

definition handleExistingLocalSnap ::
  "'w api \<Rightarrow> controller_server \<Rightarrow> string \<Rightarrow> string \<Rightarrow> ('w, csi_snapshot) io" where
  "handleExistingLocalSnap api cs name vol =
     andThen (getHostSnap api (cs_namespace cs) name) (\<lambda>existingHostSnap.
     andThen (lift_result (validateHostSnapLabels existingHostSnap)) (\<lambda>_.
     prepareSnapshotResponse api cs (Name existingHostSnap) vol))"

definition generateHostSnap ::
  "'w api \<Rightarrow> controller_server \<Rightarrow> string \<Rightarrow> pvc \<Rightarrow> ('w, snapshot) io" where
  "generateHostSnap api cs name hostPVC =
     andThen (getHostSnapClass api hostPVC) (\<lambda>hostSnapClass.
     andThen (lift_result (generateHostSnapManifest cs name hostSnapClass hostPVC)) (\<lambda>hostSnap.
     createHostSnap api hostSnap))"

definition createSnapFromVolume ::
  "'w api \<Rightarrow> controller_server \<Rightarrow> string \<Rightarrow> string \<Rightarrow> ('w, csi_snapshot) io" where
  "createSnapFromVolume api cs name vol =
     andThen (getHostPVC api (cs_namespace cs) vol) (\<lambda>hostPVC.
     andThen (generateHostSnap api cs name hostPVC) (\<lambda>createdHostSnap.
     prepareSnapshotResponse api cs (Name createdHostSnap) vol))"

definition handleBackupSnap ::
  "'w api \<Rightarrow> controller_server \<Rightarrow> string \<Rightarrow> string \<Rightarrow> ('w, csi_snapshot) io" where
  "handleBackupSnap api cs name sourceVolumeID =
     handle (handleExistingBackupSnap api cs name sourceVolumeID)
       (\<lambda>err. if \<not> IsNotFound err then fail err
              else createHostVolumeRemoteBackupFromReq api cs name sourceVolumeID)
       (\<lambda>response. ret response)"

definition handleLocalSnap ::
  "'w api \<Rightarrow> controller_server \<Rightarrow> string \<Rightarrow> string \<Rightarrow> ('w, csi_snapshot) io" where
  "handleLocalSnap api cs name sourceVolumeID =
     handle (handleExistingLocalSnap api cs name sourceVolumeID)
       (\<lambda>err. if \<not> IsNotFound err then fail err
              else createSnapFromVolume api cs name sourceVolumeID)
       (\<lambda>response. ret response)"

definition paramSnapshotType :: string where "paramSnapshotType = ''type''"
definition snapshotTypeBackup :: string where "snapshotTypeBackup = ''backup''"

definition isBackupSnapshot :: "create_snapshot_request \<Rightarrow> bool" where
  "isBackupSnapshot req \<longleftrightarrow>
     (case csParameters req of
        None \<Rightarrow> False
      | Some ps \<Rightarrow> map_index (Some ps) paramSnapshotType = snapshotTypeBackup)"

definition CreateSnapshot ::
  "'w api \<Rightarrow> controller_server \<Rightarrow> create_snapshot_request \<Rightarrow> ('w, csi_snapshot) io" where
  "CreateSnapshot api cs req =
     andThen (lift_result (validateCreateSnapshotRequest req)) (\<lambda>_.
     if isBackupSnapshot req then handleBackupSnap api cs (csName req) (csSourceVolumeId req)
     else handleLocalSnap api cs (csName req) (csSourceVolumeId req))"

section \<open>DeleteSnapshot\<close>

definition validateDeleteSnapshotRequest :: "string \<Rightarrow> gerror + unit" where
  "validateDeleteSnapshotRequest snapshotId =
     (if snapshotId = '''' then
        Inl (status_Error InvalidArgument ''Snapshot ID cannot be empty'')
      else Inr ())"

definition handleBackupSnapDeletion ::
  "'w api \<Rightarrow> string \<Rightarrow> string \<Rightarrow> ('w, unit) io" where
  "handleBackupSnapDeletion api ns name =
     handle (deleteHostVolumeRemoteBackup api ns name)
       (\<lambda>err. if IsNotFound err then ret ()
              else fail (status_Errorf Internal ''Failed to delete VolumeRemoteBackup %s/%s: %v''
                [ns, name, Error err]))
       (\<lambda>_. ret ())"

definition handleLocalSnapDeletion ::
  "'w api \<Rightarrow> controller_server \<Rightarrow> string \<Rightarrow> ('w, unit) io" where
  "handleLocalSnapDeletion api cs name =
     handle (deleteHostSnap api (cs_namespace cs) name)
       (\<lambda>err. if IsNotFound err then ret () else fail err)
       (\<lambda>_. fail (ErrorString (Sprintf ''host snapshot %s deletion not confirmed'' [name])))"

definition DeleteSnapshot :: "'w api \<Rightarrow> controller_server \<Rightarrow> string \<Rightarrow> ('w, unit) io" where
  "DeleteSnapshot api cs snapshotId =
     andThen (lift_result (validateDeleteSnapshotRequest snapshotId)) (\<lambda>_.
     case parseSnapshotID snapshotId of (isBackup, ns, name) \<Rightarrow>
       if isBackup then handleBackupSnapDeletion api ns name
       else handleLocalSnapDeletion api cs name)"

section \<open>ListSnapshots\<close>

text \<open>\<open>MaxEntries\<close> is an \<open>int32\<close>, widened with its sign.\<close>

definition validateListSnapshotsRequest :: "list_snapshots_request \<Rightarrow> gerror + list_options" where
  "validateListSnapshotsRequest req =
     (if sint (lsMaxEntries req) < 0 then
        Inl (status_Error InvalidArgument ''MaxEntries cannot be negative'')
      else
        (let listOptions = empty_options;
             listOptions =
               (if lsStartingToken req \<noteq> '''' then listOptions\<lparr>Continue := lsStartingToken req\<rparr>
                else listOptions);
             listOptions =
               (if 0 < sint (lsMaxEntries req)
                then listOptions\<lparr>Limit := scast (lsMaxEntries req)\<rparr> else listOptions) in
         Inr listOptions))"

definition shouldIncludeSnapshot :: "snapshot \<Rightarrow> list_snapshots_request \<Rightarrow> bool" where
  "shouldIncludeSnapshot hostSnap req =
     (case validateHostSnapLabels hostSnap of
        Inl err \<Rightarrow> False
      | Inr _ \<Rightarrow>
          if lsSnapshotId req \<noteq> '''' \<and> Name hostSnap \<noteq> lsSnapshotId req then False
          else if lsSourceVolumeId req \<noteq> '''' then
            SourcePVCName hostSnap = Some (lsSourceVolumeId req)
          else True)"

definition convertHostSnapshotToEntry :: "snapshot \<Rightarrow> csi_snapshot result" where
  "convertHostSnapshotToEntry hostSnap =
     (let vol = (case SourcePVCName hostSnap of None \<Rightarrow> '''' | Some v \<Rightarrow> v) in
      case convertVolumeSnapshotToCSI hostSnap vol of
        Err err \<Rightarrow>
          Err (Wrapped (Sprintf ''failed to convert snapshot %s to CSI format: %w''
            [Name hostSnap, Error err]) err)
      | r \<Rightarrow> r)"

fun processHostSnapshots ::
  "snapshot list \<Rightarrow> list_snapshots_request \<Rightarrow> csi_snapshot list result" where
  "processHostSnapshots [] req = Ok []"
| "processHostSnapshots (hostSnap # items) req =
     (if \<not> shouldIncludeSnapshot hostSnap req then processHostSnapshots items req
      else case convertHostSnapshotToEntry hostSnap of
        Err err \<Rightarrow> processHostSnapshots items req
      | Panic \<Rightarrow> Panic
      | Ok entry \<Rightarrow>
          (case processHostSnapshots items req of
             Ok entries \<Rightarrow> Ok (entry # entries)
           | r \<Rightarrow> r))"

definition shouldIncludeBackupSnapshot :: "vrb \<Rightarrow> list_snapshots_request \<Rightarrow> bool" where
  "shouldIncludeBackupSnapshot vrb req =
     (case Labels vrb of
        None \<Rightarrow> False
      | Some labels \<Rightarrow>
          (case labels labelBackupSrcVol of
             None \<Rightarrow> False
           | Some sourceVol \<Rightarrow>
               if lsSourceVolumeId req \<noteq> '''' \<and> sourceVol \<noteq> lsSourceVolumeId req then False
               else True))"

definition convertVolumeRemoteBackupToEntry :: "vrb \<Rightarrow> csi_snapshot result" where
  "convertVolumeRemoteBackupToEntry vrb =
     (let sourceVol = map_index (Labels vrb) labelBackupSrcVol in
      case convertVolumeRemoteBackupToCSI vrb sourceVol of
        Err err \<Rightarrow>
          Err (Wrapped (Sprintf ''failed to convert VolumeRemoteBackup %s to CSI format: %w''
            [Name vrb, Error err]) err)
      | r \<Rightarrow> r)"

fun processBackups :: "vrb list \<Rightarrow> list_snapshots_request \<Rightarrow> csi_snapshot list result" where
  "processBackups [] req = Ok []"
| "processBackups (vrb # items) req =
     (if \<not> shouldIncludeBackupSnapshot vrb req then processBackups items req
      else case convertVolumeRemoteBackupToEntry vrb of
        Err err \<Rightarrow> processBackups items req
      | Panic \<Rightarrow> Panic
      | Ok entry \<Rightarrow>
          (case processBackups items req of
             Ok entries \<Rightarrow> Ok (entry # entries)
           | r \<Rightarrow> r))"

definition processHostVolumeRemoteBackups ::
  "'w api \<Rightarrow> list_snapshots_request \<Rightarrow> ('w, csi_snapshot list) io" where
  "processHostVolumeRemoteBackups api req =
     (let listOptions =
        (if lsSourceVolumeId req \<noteq> ''''
         then empty_options\<lparr>LabelSelector :=
           Sprintf ''%s=%s'' [labelBackupSrcVol, lsSourceVolumeId req]\<rparr>
         else empty_options) in
      andThen (listHostVolumeRemoteBackups api '''' listOptions) (\<lambda>(items, cont).
      lift (processBackups items req)))"

definition listLocalSnaps ::
  "'w api \<Rightarrow> controller_server \<Rightarrow> list_options \<Rightarrow> list_snapshots_request \<Rightarrow>
   ('w, csi_snapshot list \<times> string) io" where
  "listLocalSnaps api cs listOptions req =
     handle (listHostSnaps api (cs_namespace cs) listOptions)
       (\<lambda>err. fail (status_Errorf Internal ''Failed to list host VolumeSnapshots: %v''
          [Error err]))
       (\<lambda>(items, cont).
     andThen (lift (processHostSnapshots items req)) (\<lambda>entries. ret (entries, cont)))"

definition listBackupSnaps ::
  "'w api \<Rightarrow> list_snapshots_request \<Rightarrow> ('w, csi_snapshot list) io" where
  "listBackupSnaps api req =
     handle (processHostVolumeRemoteBackups api req)
       (\<lambda>err. fail (status_Errorf Internal ''Failed to list host VolumeRemoteBackups: %v''
          [Error err]))
       (\<lambda>entries. ret entries)"

definition ListSnapshots ::
  "'w api \<Rightarrow> controller_server \<Rightarrow> list_snapshots_request \<Rightarrow> ('w, list_snapshots_response) io" where
  "ListSnapshots api cs req =
     andThen (lift_result (validateListSnapshotsRequest req)) (\<lambda>listOptions.
     andThen (listLocalSnaps api cs listOptions req) (\<lambda>(localSnaps, nextToken).
     andThen
       (handle (listBackupSnaps api req) (\<lambda>err. ret []) (\<lambda>backupSnaps. ret backupSnaps))
       (\<lambda>backupSnaps.
     ret \<lparr>Entries = localSnaps @ backupSnaps, NextToken = nextToken\<rparr>)))"

section \<open>The contract of a lister\<close>

locale snapshot_lister =
  fixes included :: "'o \<Rightarrow> bool"
    and convert :: "'o \<Rightarrow> 'e result"
    and process :: "'o list \<Rightarrow> 'e list result"
  assumes process_Nil: "process [] = Ok []"
    and process_Cons: "process (x # xs) =
      (if \<not> included x then process xs
       else case convert x of
         Err err \<Rightarrow> process xs
       | Panic \<Rightarrow> Panic
       | Ok entry \<Rightarrow> (case process xs of Ok entries \<Rightarrow> Ok (entry # entries) | r \<Rightarrow> r))"
begin

lemma process_eq:
  "process xs = (if \<exists>x \<in> set xs. included x \<and> convert x = Panic then Panic
     else Ok (concat (map (\<lambda>x. if included x then (case convert x of Ok e \<Rightarrow> [e] | _ \<Rightarrow> []) else []) xs)))"
  by (induction xs) (auto simp: process_Nil process_Cons split: result.splits)

lemma process_never_fails: "process xs \<noteq> Err e"
  by (simp add: process_eq)

lemma process_member:
  "process xs = Ok es \<Longrightarrow> e \<in> set es \<longleftrightarrow> (\<exists>x \<in> set xs. included x \<and> convert x = Ok e)"
proof (induction xs arbitrary: es)
  case (Cons x xs)
  then show ?case by (auto simp: process_Cons split: if_splits result.splits)
qed (simp add: process_Nil)

lemma process_length: "process xs = Ok es \<Longrightarrow> length es \<le> length xs"
proof (induction xs arbitrary: es)
  case (Cons x xs)
  then show ?case
    by (auto simp: process_Cons split: if_splits result.splits intro: le_SucI)
qed (simp add: process_Nil)

end

section \<open>What the theorems speak of\<close>

definition ready_snapshot :: "snapshot \<Rightarrow> bool" where
  "ready_snapshot x \<longleftrightarrow>
     (\<exists>st. SnapStatus x = Some st \<and> SnapError st = None \<and> ReadyToUse st = Some True \<and>
        RestoreSize st \<noteq> None)"

text \<open>What an API server keeps of a snapshot that is created: key, labels and source.\<close>

definition snap_admits :: "snapshot \<Rightarrow> snapshot \<Rightarrow> bool" where
  "snap_admits obj x \<longleftrightarrow> Namespace x = Namespace obj \<and> Name x = Name obj \<and>
     Labels x = Labels obj \<and> SourcePVCName x = SourcePVCName obj"

text \<open>The laws of the snapshots' client that the theorems use.\<close>

definition snap_server :: "'w api \<Rightarrow> ('w \<Rightarrow> string \<Rightarrow> string \<Rightarrow> snapshot option) \<Rightarrow> bool" where
  "snap_server api snaps \<longleftrightarrow> keyed snaps \<and> get_law (snapshots api) snaps \<and>
     create_law (snapshots api) snaps snap_admits \<and> delete_law (snapshots api) snaps"

text \<open>The one write of \<open>CreateSnapshot\<close>: a snapshot, or for a backup a remote backup, of the requested
  name in the server's namespace.\<close>

definition snapshot_write :: "controller_server \<Rightarrow> create_snapshot_request \<Rightarrow> call \<Rightarrow> bool" where
  "snapshot_write cs req c \<longleftrightarrow>
     call_verb c = VCreate \<and> call_ns c = cs_namespace cs \<and> call_name c = csName req \<and>
     call_kind c = (if isBackupSnapshot req then VolumeRemoteBackups else VolumeSnapshots)"

text \<open>The lookup of \<open>CreateSnapshot\<close>.\<close>

definition snapshot_lookup ::
  "'w api \<Rightarrow> controller_server \<Rightarrow> create_snapshot_request \<Rightarrow> ('w, csi_snapshot) io" where
  "snapshot_lookup api cs req =
     (if isBackupSnapshot req then handleExistingBackupSnap api cs (csName req) (csSourceVolumeId req)
      else handleExistingLocalSnap api cs (csName req) (csSourceVolumeId req))"

text \<open>The server answered these objects to some list call.\<close>

definition listed :: "('w, 'o) client \<Rightarrow> string \<Rightarrow> 'o list \<Rightarrow> bool" where
  "listed c ns items \<longleftrightarrow> (\<exists>lo tok w w'. clist c ns lo w = (Inr (items, tok), w'))"

section \<open>Lemmas\<close>

interpretation snap_lister: snapshot_lister "\<lambda>x. shouldIncludeSnapshot x req"
  convertHostSnapshotToEntry "\<lambda>xs. processHostSnapshots xs req" for req
  by unfold_locales simp_all

interpretation backup_lister: snapshot_lister "\<lambda>x. shouldIncludeBackupSnapshot x req"
  convertVolumeRemoteBackupToEntry "\<lambda>xs. processBackups xs req" for req
  by unfold_locales simp_all

interpretation local_goc: get_or_create "handleLocalSnap api cs n v"
  "handleExistingLocalSnap api cs n v" "createSnapFromVolume api cs n v" for api cs n v
  by unfold_locales (simp add: handleLocalSnap_def)

interpretation backup_goc: get_or_create "handleBackupSnap api cs n v"
  "handleExistingBackupSnap api cs n v" "createHostVolumeRemoteBackupFromReq api cs n v"
  for api cs n v
  by unfold_locales (simp add: handleBackupSnap_def)

lemma checkSnapsReadiness_True:
  assumes "checkSnapsReadiness api cs n s = (Ok True, s')" and "get_law (snapshots api) snaps"
  shows "snaps (world s') = snaps (world s) \<and>
    (\<exists>x. snaps (world s) (cs_namespace cs) n = Some x \<and> ready_snapshot x)"
proof -
  let ?body = "\<lambda>x. case SnapStatus x of
       None \<Rightarrow> ret False
     | Some status \<Rightarrow>
         (case SnapError status of
            Some message \<Rightarrow> (if message = None then panic else ret False)
          | None \<Rightarrow>
              if ReadyToUse status = Some True then
                (if RestoreSize status = None then panic else ret True)
              else ret False)"
  from assms(1) obtain x s1 where
    g: "kGet VolumeSnapshots (snapshots api) (cs_namespace cs) n s = (Ok x, s1)" and
    b: "?body x s1 = (Ok True, s')"
    by (auto simp: checkSnapsReadiness_def getHostSnap_def handle_returns ret_run)
  from b have "s1 = s' \<and> ready_snapshot x"
    by (auto simp: ready_snapshot_def ret_run panic_run split: option.splits if_splits)
  with g get_law_Ok [OF assms(2)] show ?thesis by (auto simp: kGet_returns)
qed

lemma prepareSnapshotResponse_Ok:
  assumes "prepareSnapshotResponse api cs n vol s = (Ok r, s')" and "get_law (snapshots api) snaps"
  shows "snaps (world s') = snaps (world s) \<and>
    (\<exists>x. snaps (world s) (cs_namespace cs) n = Some x \<and> ready_snapshot x \<and>
       validateHostSnapLabels x = Inr () \<and> convertVolumeSnapshotToCSI x vol = Ok r)"
proof -
  from assms(1) obtain s1 x where
    c: "checkSnapsReadiness api cs n s = (Ok True, s1)" and
    g: "cget (snapshots api) (cs_namespace cs) n (world s1) = (Inr x, world s')" and
    "validateHostSnapLabels x = Inr ()" "convertVolumeSnapshotToCSI x vol = Ok r"
    by (auto simp: prepareSnapshotResponse_def getHostSnap_def returns_iff split: if_splits)
  with checkSnapsReadiness_True [OF c assms(2)] get_law_Ok [OF assms(2) g] show ?thesis by auto
qed

lemma prepareSnapshotResponse_run:
  assumes law: "get_law (snapshots api) snaps" "get_available (snapshots api) snaps"
    and x: "snaps (world s) (cs_namespace cs) n = Some x" "ready_snapshot x"
      "validateHostSnapLabels x = Inr ()" "convertVolumeSnapshotToCSI x vol = Ok r"
  obtains s' tr where "prepareSnapshotResponse api cs n vol s = (Ok r, s')"
    "calls s' = calls s @ tr" "writes tr = []"
proof -
  obtain s1 where s1: "kGet VolumeSnapshots (snapshots api) (cs_namespace cs) n s = (Ok x, s1)"
    "snaps (world s1) = snaps (world s)"
    "calls s1 = calls s @ [Call VGet VolumeSnapshots (cs_namespace cs) n None]"
    by (rule kGet_available_Some [OF law x(1)])
  from s1(2) x(1) have "snaps (world s1) (cs_namespace cs) n = Some x" by simp
  then obtain s2 where s2: "kGet VolumeSnapshots (snapshots api) (cs_namespace cs) n s1 = (Ok x, s2)"
    "calls s2 = calls s1 @ [Call VGet VolumeSnapshots (cs_namespace cs) n None]"
    by (rule kGet_available_Some [OF law])
  from s1 s2 x show thesis
    by (intro that [of s2 "replicate 2 (Call VGet VolumeSnapshots (cs_namespace cs) n None)"])
      (auto simp: prepareSnapshotResponse_def checkSnapsReadiness_def getHostSnap_def
        ready_snapshot_def andThen_run handle_run ret_run lift_run numeral_2_eq_2)
qed

lemma handleLocalSnap_prepared:
  assumes srv: "snap_server api snaps" and run: "handleLocalSnap api cs name vol s = (Ok r, s')"
  shows "\<exists>s1. prepareSnapshotResponse api cs name vol s1 = (Ok r, s')"
  using run
proof (cases rule: local_goc.run_returns)
  case found
  from found(1) obtain x w s1 where
    "cget (snapshots api) (cs_namespace cs) name (world s) = (Inr x, w)"
    "prepareSnapshotResponse api cs (Name x) vol s1 = (Ok r, s')"
    by (auto simp: handleExistingLocalSnap_def getHostSnap_def returns_iff)
  moreover from this(1) srv have "Name x = name"
    using get_law_Ok [of "snapshots api" snaps] keyedD [of snaps] unfolding snap_server_def by blast
  ultimately show ?thesis by auto
next
  case (created e s1)
  from created(3) obtain p hs x w3 cls s4 where
    g: "generateHostSnapManifest cs name cls p = Inr hs" and
    c: "ccreate (snapshots api) hs w3 = (Inr x, world s4)" and
    pr: "prepareSnapshotResponse api cs (Name x) vol s4 = (Ok r, s')"
    by (auto simp: createSnapFromVolume_def generateHostSnap_def createHostSnap_def returns_iff)
  from create_law_Ok [of "snapshots api" snaps snap_admits, OF _ c] srv have "Name x = Name hs"
    by (auto simp: snap_server_def snap_admits_def)
  moreover from g have "Name hs = name"
    by (auto simp: generateHostSnapManifest_def Let_def split: option.splits)
  ultimately show ?thesis using pr by auto
qed

lemma issues_prepare [issues_intros]:
  assumes "\<And>e. P (Call VGet VolumeSnapshots (cs_namespace cs) n e)"
  shows "issues P (prepareSnapshotResponse api cs n vol)"
  using assms
  by (auto simp: prepareSnapshotResponse_def checkSnapsReadiness_def getHostSnap_def
      intro!: issues_intros)

lemma issues_prepare_backup [issues_intros]:
  assumes "\<And>e. P (Call VGet VolumeRemoteBackups (cs_namespace cs) n e)"
  shows "issues P (prepareBackupSnapResponse api cs n vol)"
  using assms
  by (auto simp: prepareBackupSnapResponse_def checkVolumeRemoteBackupReadiness_def
      getHostVolumeRemoteBackup_def intro!: issues_intros)

lemma existing_reads:
  "issues read_only (handleExistingLocalSnap api cs n v)"
  "issues read_only (handleExistingBackupSnap api cs n v)"
  by (auto simp: handleExistingLocalSnap_def handleExistingBackupSnap_def getHostSnap_def
      getHostVolumeRemoteBackup_def intro!: issues_intros)

lemma generateHostSnapManifest_key:
  "generateHostSnapManifest cs name cls p = Inr hs \<Longrightarrow>
     Namespace hs = cs_namespace cs \<and> Name hs = name"
  by (auto simp: generateHostSnapManifest_def Let_def split: option.splits)

lemma issues_createSnapFromVolume:
  "issues (\<lambda>c. read_only c \<or> call_verb c = VCreate \<and> call_ns c = cs_namespace cs \<and>
     call_name c = n \<and> call_kind c = VolumeSnapshots) (createSnapFromVolume api cs n v)"
proof -
  let ?P = "\<lambda>c. read_only c \<or> call_verb c = VCreate \<and> call_ns c = cs_namespace cs \<and>
     call_name c = n \<and> call_kind c = VolumeSnapshots"
  have m: "issues ?P (andThen (lift_result (generateHostSnapManifest cs n cls p)) (createHostSnap api))"
    for cls p
  proof (cases "generateHostSnapManifest cs n cls p")
    case (Inr hs)
    with generateHostSnapManifest_key [OF Inr] have "issues ?P (createHostSnap api hs)"
      by (auto simp: createHostSnap_def intro!: issues_intros)
    with Inr show ?thesis by (auto simp: issues_def andThen_run ret_run)
  qed (simp add: issues_def andThen_run fail_run)
  show ?thesis
    unfolding createSnapFromVolume_def generateHostSnap_def
    by (auto simp: getHostPVC_def getHostSnapClass_def getHarvCSIConfig_def Let_def
        intro!: issues_intros m)
qed

lemma issues_createBackup:
  "issues (\<lambda>c. read_only c \<or> call_verb c = VCreate \<and> call_ns c = cs_namespace cs \<and>
     call_name c = n \<and> call_kind c = VolumeRemoteBackups) (createHostVolumeRemoteBackupFromReq api cs n v)"
  by (auto simp: createHostVolumeRemoteBackupFromReq_def generateHostVolumeRemoteBackup_def
      createHostVolumeRemoteBackup_def buildHostVolumeRemoteBackup_def intro!: issues_intros)

lemma handleBackupSnapDeletion_trace:
  assumes "handleBackupSnapDeletion api ns n s = (r, s')"
  shows "\<exists>e. calls s' = calls s @ [Call VDelete VolumeRemoteBackups ns n e] \<and>
    (r = Ok () \<longleftrightarrow> (\<forall>x. e = Some x \<longrightarrow> IsNotFound x))"
proof (cases "cdelete (vrbs api) ns n (world s)")
  case (Pair q w)
  with assms show ?thesis
    by (cases q) (auto simp: handleBackupSnapDeletion_def deleteHostVolumeRemoteBackup_def kDelete_def
        handle_run perform_run ret_run fail_run split: if_splits)
qed

lemma handleLocalSnapDeletion_trace:
  assumes "handleLocalSnapDeletion api cs n s = (r, s')"
  shows "\<exists>e. calls s' = calls s @ [Call VDelete VolumeSnapshots (cs_namespace cs) n e] \<and>
    (r = Ok () \<longleftrightarrow> (\<exists>x. e = Some x \<and> IsNotFound x))"
proof (cases "cdelete (snapshots api) (cs_namespace cs) n (world s)")
  case (Pair q w)
  with assms show ?thesis
    by (cases q) (auto simp: handleLocalSnapDeletion_def deleteHostSnap_def kDelete_def
        handle_run perform_run ret_run fail_run split: if_splits)
qed

lemma DeleteSnapshot_cases:
  assumes "DeleteSnapshot api cs i s = (r, s')" and "i \<noteq> []"
  obtains (backup) ns n where "i = formatBackupSnapshotID ns n" "CHR ''/'' \<notin> set ns"
      "handleBackupSnapDeletion api ns n s = (r, s')"
  | (plain) "\<not> fst (parseSnapshotID i)" "handleLocalSnapDeletion api cs i s = (r, s')"
proof -
  obtain b ns n where p: "parseSnapshotID i = (b, ns, n)" by (cases "parseSnapshotID i")
  have val: "validateDeleteSnapshotRequest i = Inr ()"
    using assms(2) by (simp add: validateDeleteSnapshotRequest_def)
  show thesis
  proof (cases b)
    case True
    with assms(1) p val snapid.decode_backup [of i ns n] show thesis
      by (intro backup [of ns n]) (simp_all add: DeleteSnapshot_def andThen_run ret_run)
  next
    case False
    with assms(1) p val snapid.decode_plain [of i ns n] show thesis
      by (intro plain) (simp_all add: DeleteSnapshot_def andThen_run ret_run)
  qed
qed

lemma entry_of_backup:
  assumes "convertVolumeRemoteBackupToEntry b = Ok e"
  shows "SnapshotId e = formatBackupSnapshotID (Namespace b) (Name b)"
    "SourceVolumeId e = map_index (Labels b) labelBackupSrcVol"
  using assms by (auto simp: convertVolumeRemoteBackupToEntry_def convertVolumeRemoteBackupToCSI_def
      Let_def split: if_splits)

lemma entry_of_snapshot:
  assumes "convertHostSnapshotToEntry x = Ok e"
  shows "SnapshotId e = Name x" "SourcePVCName x = Some (SourceVolumeId e)"
  using assms by (auto simp: convertHostSnapshotToEntry_def convertVolumeSnapshotToCSI_def
      Let_def split: if_splits option.splits)

lemma listedI: "clist c ns lo w = (Inr (items, tok), w') \<Longrightarrow> listed c ns items"
  by (auto simp: listed_def)

lemma listBackupSnaps_Ok:
  assumes "listBackupSnaps api req s = (Ok bs, s')"
  shows "\<exists>backups. listed (vrbs api) '''' backups \<and> processBackups backups req = Ok bs"
  using assms
  by (auto simp: listBackupSnaps_def processHostVolumeRemoteBackups_def Let_def returns_iff
      listHostVolumeRemoteBackups_def intro: listedI)

lemma ListSnapshots_Ok:
  assumes "ListSnapshots api cs req s = (Ok resp, s')"
  obtains items backups es bs where
    "listed (snapshots api) (cs_namespace cs) items" "processHostSnapshots items req = Ok es"
    "backups = [] \<or> listed (vrbs api) '''' backups" "processBackups backups req = Ok bs"
    "Entries resp = es @ bs"
proof -
  from assms obtain lo es tok s1 bs s2 where
    l: "listLocalSnaps api cs lo req s = (Ok (es, tok), s1)" and
    b: "handle (listBackupSnaps api req) (\<lambda>err. ret []) (\<lambda>backupSnaps. ret backupSnaps) s1 = (Ok bs, s2)" and
    resp: "resp = \<lparr>Entries = es @ bs, NextToken = tok\<rparr>"
    by (auto simp: ListSnapshots_def andThen_returns lift_result_returns ret_run)
  from l obtain items where
    i: "listed (snapshots api) (cs_namespace cs) items" "processHostSnapshots items req = Ok es"
    by (auto simp: listLocalSnaps_def listHostSnaps_def returns_iff intro: listedI)
  have "\<exists>backups. (backups = [] \<or> listed (vrbs api) '''' backups) \<and> processBackups backups req = Ok bs"
  proof (cases "bs = []")
    case True
    then show ?thesis by (intro exI [of _ "[]"]) simp
  next
    case False
    with b have "listBackupSnaps api req s1 = (Ok bs, s2)" by (auto simp: handle_returns ret_run)
    from listBackupSnaps_Ok [OF this] show ?thesis by blast
  qed
  with i resp that show thesis by fastforce
qed

lemma included_snapshot:
  assumes "shouldIncludeSnapshot x req" and "convertHostSnapshotToEntry x = Ok e"
  shows "lsSnapshotId req \<noteq> '''' \<longrightarrow> SnapshotId e = lsSnapshotId req"
    and "lsSourceVolumeId req \<noteq> '''' \<longrightarrow> SourceVolumeId e = lsSourceVolumeId req"
  using assms(1) entry_of_snapshot [OF assms(2)]
  by (auto simp: shouldIncludeSnapshot_def split: sum.splits if_splits)

lemma included_backup:
  assumes "shouldIncludeBackupSnapshot b req" and "convertVolumeRemoteBackupToEntry b = Ok e"
  shows "lsSourceVolumeId req \<noteq> '''' \<longrightarrow> SourceVolumeId e = lsSourceVolumeId req"
  using assms(1) entry_of_backup [OF assms(2)]
  by (auto simp: shouldIncludeBackupSnapshot_def map_index_def split: option.splits if_splits)

section \<open>A concrete snapshot\<close>

definition demo_snap :: snapshot where
  "demo_snap = \<lparr>Namespace = ''default'', Name = ''snap-1'', ResourceVersion = '''',
     Labels = Some [labelSnapHostSC \<mapsto> ''longhorn'', labelSnapHostVolumeMode \<mapsto> ''Block''],
     Annotations = None, CreationTimestamp = None, DeletionTimestamp = None,
     SourcePVCName = Some ''pvc-1'', VolumeSnapshotClassName = Some ''longhorn-snapshot'',
     SnapStatus = Some \<lparr>CreationTime = None, ReadyToUse = Some True,
       RestoreSize = Some 10485760, SnapError = None\<rparr>\<rparr>"

text \<open>A Longhorn claim, the driver's setting for its snapshot class, and requests.\<close>

definition demo_sc :: storageclass where
  "demo_sc = \<lparr>Namespace = '''', Name = ''longhorn'', ResourceVersion = '''', Labels = None,
     Annotations = None, CreationTimestamp = None, DeletionTimestamp = None,
     Provisioner = longhornProvisioner\<rparr>"

definition demo_setting :: setting where
  "demo_setting = \<lparr>Namespace = '''', Name = ''csi-driver-config'', ResourceVersion = '''',
     Labels = None, Annotations = None, CreationTimestamp = None, DeletionTimestamp = None,
     SettingDefault = csiDriverConfigDefault, SettingValue = ''{}''\<rparr>"

definition snap_claim :: pvc where
  "snap_claim = bound_claim\<lparr>Annotations := Some [AnnStorageProvisioner \<mapsto> longhornProvisioner]\<rparr>"

definition snap_mem :: mem where
  "snap_mem = empty_mem\<lparr>mSnaps := [demo_snap], mSCs := [demo_sc], mPVCs := [snap_claim],
     mSettings := [demo_setting],
     mVRBs := [demo_backup\<lparr>Labels := Some [labelBackupSrcVol \<mapsto> ''pvc-0'']\<rparr>]\<rparr>"

definition snap_req :: "string \<Rightarrow> create_snapshot_request" where
  "snap_req name = \<lparr>csName = name, csSourceVolumeId = ''pvc-1'', csParameters = None\<rparr>"

definition list_req :: list_snapshots_request where
  "list_req = \<lparr>lsMaxEntries = 0, lsStartingToken = '''', lsSourceVolumeId = '''', lsSnapshotId = ''''\<rparr>"

lemma mem_snap_server: "snap_server mem_api (\<lambda>w. look (mSnaps w))"
  unfolding snap_server_def
  by (intro conjI mem_keyed) (simp_all add: mem_api_def mem_laws snap_admits_def)

lemma mem_snap_available: "get_available (snapshots mem_api) (\<lambda>w. look (mSnaps w))"
  by (simp add: mem_api_def mem_available)

section \<open>Properties\<close>

text \<open>
  C14: whatever the servers answer, the only thing \<open>CreateSnapshot\<close> ever writes is one kind of
  object (a backup or a snapshot, by the request's type) of the requested name, and only after
  looking it up answered NotFound.
\<close>

theorem CreateSnapshot_creates_when_missing:
  assumes "CreateSnapshot api cs req s = (r, s')" and "calls s' = calls s @ tr"
    and "c \<in> set tr" and "\<not> read_only c"
  shows "snapshot_write cs req c \<and> (\<exists>e s1. snapshot_lookup api cs req s = (Err e, s1) \<and> IsNotFound e)"
proof (cases "validateCreateSnapshotRequest req")
  case (Inl e)
  with assms show ?thesis by (simp add: CreateSnapshot_def andThen_run fail_run)
next
  case (Inr u)
  show ?thesis
  proof (cases "isBackupSnapshot req")
    case True
    with assms(1) Inr have run: "handleBackupSnap api cs (csName req) (csSourceVolumeId req) s = (r, s')"
      by (simp add: CreateSnapshot_def andThen_run ret_run)
    from issuesD [OF backup_goc.run_issues [OF issues_or_mono [OF existing_reads(2)] issues_createBackup] run]
      assms(2-4) have "snapshot_write cs req c"
      unfolding snapshot_write_def using True by (metis same_append_eq)
    with backup_goc.creates_only_when_missing [OF run existing_reads(2) assms(2-4)] True
    show ?thesis by (simp add: snapshot_lookup_def)
  next
    case False
    with assms(1) Inr have run: "handleLocalSnap api cs (csName req) (csSourceVolumeId req) s = (r, s')"
      by (simp add: CreateSnapshot_def andThen_run ret_run)
    from issuesD [OF local_goc.run_issues [OF issues_or_mono [OF existing_reads(1)] issues_createSnapFromVolume] run]
      assms(2-4) have "snapshot_write cs req c"
      unfolding snapshot_write_def using False by (metis same_append_eq)
    with local_goc.creates_only_when_missing [OF run existing_reads(1) assms(2-4)] False
    show ?thesis by (simp add: snapshot_lookup_def)
  qed
qed

theorem CreateSnapshot_creates_when_missing_witness:
  "\<exists>s' e s1. CreateSnapshot mem_api demo_cs (snap_req ''snap-2'') (in_mem snap_mem) = s' \<and>
     Call VCreate VolumeSnapshots ''default'' ''snap-2'' None \<in> set (calls (snd s')) \<and>
     snapshot_lookup mem_api demo_cs (snap_req ''snap-2'') (in_mem snap_mem) = (Err e, s1) \<and> IsNotFound e"
proof -
  let ?run = "CreateSnapshot mem_api demo_cs (snap_req ''snap-2'') (in_mem snap_mem)"
  have c: "Call VCreate VolumeSnapshots ''default'' ''snap-2'' None \<in> set (calls (snd ?run))"
    by code_simp
  have "?run = (fst ?run, snd ?run)" "calls (snd ?run) = calls (in_mem snap_mem) @ calls (snd ?run)"
    by (simp_all add: in_mem_def)
  from CreateSnapshot_creates_when_missing [OF this c] c show ?thesis by fastforce
qed

text \<open>
  C15: \<open>CreateSnapshot\<close> of a local snapshot is idempotent: after it succeeded, the same request
  succeeds with the same answer and writes nothing.
\<close>

theorem CreateSnapshot_idempotent:
  assumes srv: "snap_server api snaps" and avail: "get_available (snapshots api) snaps"
    and "\<not> isBackupSnapshot req" and run: "CreateSnapshot api cs req s = (Ok r, s')"
  shows "\<exists>s'' tr. CreateSnapshot api cs req s' = (Ok r, s'') \<and> calls s'' = calls s' @ tr \<and> writes tr = []"
proof -
  let ?n = "csName req" and ?v = "csSourceVolumeId req" and ?ns = "cs_namespace cs"
  from run assms(3) have valid: "validateCreateSnapshotRequest req = Inr ()" and
    l: "handleLocalSnap api cs ?n ?v s = (Ok r, s')"
    by (auto simp: CreateSnapshot_def returns_iff)
  from srv have law: "get_law (snapshots api) snaps" and key: "keyed snaps"
    by (simp_all add: snap_server_def)
  from handleLocalSnap_prepared [OF srv l] prepareSnapshotResponse_Ok [OF _ law] obtain x where
    x: "snaps (world s') ?ns ?n = Some x" "ready_snapshot x" "validateHostSnapLabels x = Inr ()"
      "convertVolumeSnapshotToCSI x ?v = Ok r" by metis
  obtain s1 where s1: "kGet VolumeSnapshots (snapshots api) ?ns ?n s' = (Ok x, s1)"
      "snaps (world s1) = snaps (world s')"
      "calls s1 = calls s' @ [Call VGet VolumeSnapshots ?ns ?n None]"
    by (rule kGet_available_Some [OF law avail x(1)])
  with x obtain s2 tr where "prepareSnapshotResponse api cs ?n ?v s1 = (Ok r, s2)"
    "calls s2 = calls s1 @ tr" "writes tr = []"
    by (metis prepareSnapshotResponse_run [OF law avail])
  with s1 x valid keyedD [OF key x(1)] assms(3) show ?thesis
    by (intro exI [of _ s2] exI [of _ "Call VGet VolumeSnapshots ?ns ?n None # tr"])
      (simp add: CreateSnapshot_def handleLocalSnap_def handleExistingLocalSnap_def getHostSnap_def
        andThen_run handle_run ret_run lift_run)
qed

theorem CreateSnapshot_idempotent_witness:
  "\<exists>r s' s'' tr. CreateSnapshot mem_api demo_cs (snap_req ''snap-1'') (in_mem snap_mem) = (Ok r, s') \<and>
     CreateSnapshot mem_api demo_cs (snap_req ''snap-1'') s' = (Ok r, s'') \<and>
     calls s'' = calls s' @ tr \<and> writes tr = []"
proof -
  have "is_Ok (fst (CreateSnapshot mem_api demo_cs (snap_req ''snap-1'') (in_mem snap_mem)))"
    by code_simp
  then obtain r s' where
    run: "CreateSnapshot mem_api demo_cs (snap_req ''snap-1'') (in_mem snap_mem) = (Ok r, s')"
    by (rule is_Ok_run)
  have "\<not> isBackupSnapshot (snap_req ''snap-1'')" by code_simp
  from CreateSnapshot_idempotent [OF mem_snap_server mem_snap_available this run] run
  show ?thesis by blast
qed



text \<open>
  The snapshot class is that of the claim's provisioner in the setting's default when it
  has one, otherwise that of the setting's value, otherwise there is none.
\<close>

lemma getHostSnapClass_precedence:
  assumes "cget (settings api) '''' ''csi-driver-config'' (world s) = (Inr cfg, w)"
    and "Unmarshal_info (SettingDefault cfg) = Inr dflt"
    and "Unmarshal_info (SettingValue cfg) = Inr val"
    and "map_index (Annotations p) AnnStorageProvisioner = prov"
  shows "fst (getHostSnapClass api p s) =
    (case class_of_provisioner dflt prov of
       Some c \<Rightarrow> Ok c
     | None \<Rightarrow> (case class_of_provisioner val prov of
         Some c \<Rightarrow> Ok c
       | None \<Rightarrow> Err (ErrorString
           (Sprintf ''no VolumeSnapshotClassName found for provisioner %s'' [prov]))))"
proof -
  from assms(1) obtain s1 where g: "getHarvCSIConfig api s = (Ok cfg, s1)"
    by (simp add: getHarvCSIConfig_def kGet_def perform_run)
  show ?thesis
    unfolding getHostSnapClass_def andThen_run [of "getHarvCSIConfig api"] g
    using assms(2,3)
    by (simp add: assms(4) unmarshal_config_def andThen_run ret_run fail_run Let_def split: option.split)
qed

lemma getHostSnapClass_precedence_witness:
  "fst (getHostSnapClass mem_api snap_claim (in_mem snap_mem)) = Ok ''longhorn-snapshot''"
proof -
  have g: "cget (settings mem_api) '''' ''csi-driver-config'' (world (in_mem snap_mem)) =
      (Inr demo_setting, snap_mem)"
    by (simp add: mem_api_def mem_client_def snap_mem_def demo_setting_def has_key_def)
  have "\<exists>dflt. Unmarshal_info (SettingDefault demo_setting) = Inr dflt \<and>
      class_of_provisioner dflt longhornProvisioner = Some ''longhorn-snapshot''"
  proof -
    have "(case Unmarshal_info (SettingDefault demo_setting) of
        Inr m \<Rightarrow> class_of_provisioner m longhornProvisioner | Inl _ \<Rightarrow> None) = Some ''longhorn-snapshot''"
      by code_simp
    then show ?thesis by (auto split: sum.splits)
  qed
  moreover have "\<exists>val. Unmarshal_info (SettingValue demo_setting) = Inr val"
  proof -
    have "(case Unmarshal_info (SettingValue demo_setting) of Inr m \<Rightarrow> True | Inl _ \<Rightarrow> False)" by code_simp
    then show ?thesis by (auto split: sum.splits)
  qed
  moreover have "map_index (Annotations snap_claim) AnnStorageProvisioner = longhornProvisioner"
    by (simp add: snap_claim_def map_index_def)
  ultimately show ?thesis using getHostSnapClass_precedence [OF g] by auto
qed

text \<open>
  C32: deleting the identifier that was made for a backup sends exactly one delete, of that
  backup in its own namespace, and succeeds exactly when it was deleted or is not there.
\<close>

theorem DeleteSnapshot_backup:
  assumes "DeleteSnapshot api cs (formatBackupSnapshotID ns n) s = (r, s')" and "CHR ''/'' \<notin> set ns"
  shows "\<exists>e. calls s' = calls s @ [Call VDelete VolumeRemoteBackups ns n e] \<and>
    (r = Ok () \<longleftrightarrow> (\<forall>x. e = Some x \<longrightarrow> IsNotFound x))"
proof -
  have "formatBackupSnapshotID ns n \<noteq> []" by (simp add: formatBackupSnapshotID_eq)
  from assms(1) this show ?thesis
  proof (cases rule: DeleteSnapshot_cases)
    case (backup ns' n')
    with snapid.encode_injective [OF assms(2), of ns' n n'] handleBackupSnapDeletion_trace
    show ?thesis by blast
  next
    case plain
    with snapid.decode_encode [OF assms(2), of n] show ?thesis by simp
  qed
qed

theorem DeleteSnapshot_backup_witness:
  "\<exists>e. calls (snd (DeleteSnapshot mem_api demo_cs (formatBackupSnapshotID ''vault'' ''b1'')
     (in_mem snap_mem))) = [Call VDelete VolumeRemoteBackups ''vault'' ''b1'' e]"
proof -
  obtain r s' where run: "DeleteSnapshot mem_api demo_cs (formatBackupSnapshotID ''vault'' ''b1'')
     (in_mem snap_mem) = (r, s')"
    by (cases "DeleteSnapshot mem_api demo_cs (formatBackupSnapshotID ''vault'' ''b1'') (in_mem snap_mem)")
  from DeleteSnapshot_backup [OF run] show ?thesis by (auto simp: run)
qed



text \<open>
  C34: every entry of \<open>ListSnapshots\<close> comes from a snapshot that the host listed in the
  driver's namespace, and then honours the filter on identifiers, or from a listed backup; all
  entries honour the filter on the source volume.
\<close>

theorem ListSnapshots_sound:
  assumes "ListSnapshots api cs req s = (Ok resp, s')" and "e \<in> set (Entries resp)"
  shows "(lsSourceVolumeId req \<noteq> '''' \<longrightarrow> SourceVolumeId e = lsSourceVolumeId req) \<and>
    ((\<exists>items. listed (snapshots api) (cs_namespace cs) items \<and>
        (\<exists>x \<in> set items. SnapshotId e = Name x \<and> SourcePVCName x = Some (SourceVolumeId e)) \<and>
        (lsSnapshotId req \<noteq> '''' \<longrightarrow> SnapshotId e = lsSnapshotId req)) \<or>
     (\<exists>items. listed (vrbs api) '''' items \<and>
        (\<exists>b \<in> set items. SnapshotId e = formatBackupSnapshotID (Namespace b) (Name b))))"
proof -
  from assms(1) obtain items backups es bs where
    l: "listed (snapshots api) (cs_namespace cs) items" "processHostSnapshots items req = Ok es" and
    b: "backups = [] \<or> listed (vrbs api) '''' backups" "processBackups backups req = Ok bs" and
    "Entries resp = es @ bs"
    by (rule ListSnapshots_Ok)
  with assms(2) consider "e \<in> set es" | "e \<in> set bs" by auto
  then show ?thesis
  proof cases
    case 1
    with snap_lister.process_member [OF l(2)] obtain x where
      x: "x \<in> set items" "shouldIncludeSnapshot x req" "convertHostSnapshotToEntry x = Ok e" by auto
    with entry_of_snapshot [OF x(3)] included_snapshot [OF x(2,3)] l(1) show ?thesis by blast
  next
    case 2
    with backup_lister.process_member [OF b(2)] obtain x where
      x: "x \<in> set backups" "shouldIncludeBackupSnapshot x req"
        "convertVolumeRemoteBackupToEntry x = Ok e" by auto
    then have "listed (vrbs api) '''' backups" using b(1) by auto
    with entry_of_backup(1) [OF x(3)] included_backup [OF x(2,3)] x(1) show ?thesis by blast
  qed
qed

theorem ListSnapshots_sound_witness:
  "\<exists>resp s' e. ListSnapshots mem_api demo_cs (list_req\<lparr>lsSourceVolumeId := ''pvc-1''\<rparr>) (in_mem snap_mem) =
     (Ok resp, s') \<and> e \<in> set (Entries resp) \<and> SourceVolumeId e = ''pvc-1''"
proof -
  let ?run = "ListSnapshots mem_api demo_cs (list_req\<lparr>lsSourceVolumeId := ''pvc-1''\<rparr>) (in_mem snap_mem)"
  have "is_Ok (fst ?run)" by code_simp
  then obtain resp s' where run: "?run = (Ok resp, s')" by (rule is_Ok_run)
  have "(case fst ?run of Ok resp \<Rightarrow> Entries resp \<noteq> [] | _ \<Rightarrow> False)" by code_simp
  with run obtain e where "e \<in> set (Entries resp)" by (cases "Entries resp") auto
  with ListSnapshots_sound [OF run this] run show ?thesis by auto
qed

text \<open>
  \<open>ListSnapshots\<close> panics as soon as the host lists one of the driver's snapshots whose
  status is not set yet.
\<close>

lemma ListSnapshots_panics:
  assumes "clist (snapshots api) (cs_namespace cs) lo (world s) = (Inr (items, tok), w)"
    and "validateListSnapshotsRequest req = Inr lo"
    and "x \<in> set items" and "shouldIncludeSnapshot x req" and "SnapStatus x = None"
    and "Name x \<noteq> ''''" and "SourcePVCName x = Some v" and "v \<noteq> ''''"
  shows "fst (ListSnapshots api cs req s) = Panic"
proof -
  have "convertHostSnapshotToEntry x = Panic"
    using assms(5-8) by (simp add: convertHostSnapshotToEntry_def convertVolumeSnapshotToCSI_def)
  with assms(3,4) have "processHostSnapshots items req = Panic"
    using snap_lister.process_eq [of items req] by auto
  with assms(1,2) show ?thesis
    by (simp add: ListSnapshots_def listLocalSnaps_def listHostSnaps_def kList_def andThen_run
        ret_run handle_run perform_run lift_run)
qed

lemma ListSnapshots_panics_witness:
  "fst (ListSnapshots mem_api demo_cs list_req
     (in_mem (snap_mem\<lparr>mSnaps := [demo_snap\<lparr>SnapStatus := None\<rparr>]\<rparr>))) = Panic"
proof (rule ListSnapshots_panics [where v = "''pvc-1''"])
  show "validateListSnapshotsRequest list_req = Inr empty_options"
    by (simp add: validateListSnapshotsRequest_def list_req_def)
  show "clist (snapshots mem_api) (cs_namespace demo_cs) empty_options
      (world (in_mem (snap_mem\<lparr>mSnaps := [demo_snap\<lparr>SnapStatus := None\<rparr>]\<rparr>))) =
      (Inr ([demo_snap\<lparr>SnapStatus := None\<rparr>], ''''), snap_mem\<lparr>mSnaps := [demo_snap\<lparr>SnapStatus := None\<rparr>]\<rparr>)"
    by (simp add: mem_api_def mem_client_def demo_snap_def)
  show "shouldIncludeSnapshot (demo_snap\<lparr>SnapStatus := None\<rparr>) list_req" by code_simp
qed (simp_all add: demo_snap_def)

text \<open>
  \<open>CreateSnapshot\<close> answers an existing ready snapshot of that name with the requested
  source volume, whatever volume the snapshot was taken from.
\<close>

lemma CreateSnapshot_source_unchecked:
  assumes "snap_server api snaps" and "get_available (snapshots api) snaps"
    and "snaps (world s) (cs_namespace cs) (csName req) = Some x" and "ready_snapshot x"
    and "validateHostSnapLabels x = Inr ()" and "validateCreateSnapshotRequest req = Inr ()"
    and "\<not> isBackupSnapshot req"
  shows "\<exists>r s'. CreateSnapshot api cs req s = (Ok r, s') \<and> SourceVolumeId r = csSourceVolumeId req"
proof -
  let ?n = "csName req" and ?v = "csSourceVolumeId req" and ?ns = "cs_namespace cs"
  from assms(1) have law: "get_law (snapshots api) snaps" and key: "Name x = ?n"
    using keyedD [of snaps] assms(3) by (auto simp: snap_server_def)
  have "?n \<noteq> ''''" "?v \<noteq> ''''"
    using assms(6) by (auto simp: validateCreateSnapshotRequest_def split: if_splits)
  with key assms(4) obtain r where r: "convertVolumeSnapshotToCSI x ?v = Ok r" "SourceVolumeId r = ?v"
    by (auto simp: convertVolumeSnapshotToCSI_def ready_snapshot_def)
  obtain s1 where s1: "kGet VolumeSnapshots (snapshots api) ?ns ?n s = (Ok x, s1)"
      "snaps (world s1) = snaps (world s)"
    by (rule kGet_available_Some [OF law assms(2,3)])
  from s1(2) assms(3) have "snaps (world s1) ?ns ?n = Some x" by simp
  then obtain s2 where "prepareSnapshotResponse api cs ?n ?v s1 = (Ok r, s2)"
    using prepareSnapshotResponse_run [OF law assms(2) _ assms(4,5) r(1)] by metis
  with s1 assms(5-7) key r show ?thesis
    by (simp add: CreateSnapshot_def handleLocalSnap_def handleExistingLocalSnap_def getHostSnap_def
        andThen_run handle_run ret_run)
qed

lemma CreateSnapshot_source_unchecked_witness:
  "\<exists>r s'. CreateSnapshot mem_api demo_cs \<lparr>csName = ''snap-1'', csSourceVolumeId = ''pvc-9'', csParameters = None\<rparr>
     (in_mem snap_mem) = (Ok r, s') \<and> SourceVolumeId r = ''pvc-9'' \<and> SourcePVCName demo_snap = Some ''pvc-1''"
proof -
  let ?req = "\<lparr>csName = ''snap-1'', csSourceVolumeId = ''pvc-9'', csParameters = None\<rparr>"
  have x: "look (mSnaps (world (in_mem snap_mem))) (cs_namespace demo_cs) (csName ?req) = Some demo_snap"
    by (simp add: snap_mem_def demo_snap_def has_key_def)
  have c: "ready_snapshot demo_snap" by (simp add: ready_snapshot_def demo_snap_def)
  have "validateHostSnapLabels demo_snap = Inr ()" "validateCreateSnapshotRequest ?req = Inr ()"
    "\<not> isBackupSnapshot ?req" by code_simp+
  from CreateSnapshot_source_unchecked [OF mem_snap_server mem_snap_available x c this] show ?thesis
    by (simp add: demo_snap_def)
qed

end
