(* ===== verification/Controller_Expand.thy ===== *)
theory Controller_Expand
  imports Controller_Snapshot
begin

text \<open>
  Volume expansion on the controller side (\<open>pkg/csi/controller_server.go\<close>):
  \<open>ControllerExpandVolume\<close> and \<open>validateOnlineExpansion\<close>.
\<close>

definition validateOnlineExpansion ::
  "'w api \<Rightarrow> controller_server \<Rightarrow> pvc \<Rightarrow> ('w, unit) io" where
  "validateOnlineExpansion api cs pvc =
     andThen (isVolumeInUse api cs (Name pvc)) (\<lambda>inUse.
     if \<not> inUse then ret ()
     else
     handle (kGet Settings (settings api) '''' csiOnlineExpandValidation)
       (\<lambda>err. fail (status_Errorf Internal ''Failed to retrieve online expansion setting: %v''
          [Error err]))
       (\<lambda>_. ret ()))"

text \<open>The part of \<open>ControllerExpandVolume\<close> after the request was checked: write the new size
  (into a nil map: a panic), wait for it, look whether a pod uses the volume.\<close>

definition expandPVC ::
  "'w api \<Rightarrow> controller_server \<Rightarrow> ctrl_expand_request \<Rightarrow> pvc \<Rightarrow> int64 \<Rightarrow>
   ('w, expand_response) io" where
  "expandPVC api cs req pvc reqSize =
     (case Requests pvc of
        None \<Rightarrow> panic
      | Some requests \<Rightarrow>
     handle (kUpdate PVCs (pvcs api) (pvc\<lparr>Requests := Some (requests(''storage'' \<mapsto> reqSize))\<rparr>))
       (\<lambda>err. fail (status_Errorf Internal ''Failed to update PVC size: %v'' [Error err]))
       (\<lambda>_.
     andThen (waitForPVCState api cs (ceVolumeId req)
         (\<lambda>vol. int64_le reqSize (Storage (Capacity vol)))) (\<lambda>reached.
     if \<not> reached then fail (status_Errorf DeadlineExceeded ''PVC expansion timed out'' [])
     else
     handle (isVolumeInUse api cs (ceVolumeId req))
       (\<lambda>err. fail (status_Errorf Internal ''Failed to check if volume %s is in use: %v''
          [ceVolumeId req, Error err]))
       (\<lambda>inUse. ret \<lparr>exCapacityBytes = reqSize, exNodeExpansionRequired = inUse\<rparr>))))"

definition ControllerExpandVolume ::
  "'w api \<Rightarrow> controller_server \<Rightarrow> ctrl_expand_request \<Rightarrow> ('w, expand_response) io" where
  "ControllerExpandVolume api cs req =
     andThen (lift_result (validateCtrlExpandReq req)) (\<lambda>_.
     if ctrlExpandRWX req then
       fail (status_Errorf Internal ''rwx volume expansion is not supported'' [])
     else
     handle (kGet PVCs (pvcs api) (cs_namespace cs) (ceVolumeId req))
       (\<lambda>err. fail (status_Errorf NotFound ''PersistentVolumeClaim %s not found''
          [ceVolumeId req]))
       (\<lambda>pvc.
     if VolumeName pvc = '''' then
       fail (status_Errorf NotFound ''PersistentVolumeClaim %s not found'' [ceVolumeId req])
     else
     andThen (validateOnlineExpansion api cs pvc) (\<lambda>_.
     case ceCapacityRange req of
       None \<Rightarrow>
         fail (status_Error InvalidArgument ''Capacity range is missing in the request'')
     | Some capRange \<Rightarrow>
         (let reqSize = RequiredBytes capRange in
          if int64_less reqSize (Storage (Requests pvc)) then
            fail (status_Errorf FailedPrecondition ''Volume shrink is not supported'' [])
          else expandPVC api cs req pvc reqSize))))"

section \<open>What the theorems speak of\<close>

text \<open>The server of claims, with updates and with the reads of this service.\<close>

definition expand_server :: "'w api \<Rightarrow> ('w \<Rightarrow> string \<Rightarrow> string \<Rightarrow> pvc option) \<Rightarrow> bool" where
  "expand_server api claims \<longleftrightarrow> keyed claims \<and> get_law (pvcs api) claims \<and>
     update_law (pvcs api) claims pvc_admits \<and> client_keeps claims (hostPods api) \<and>
     client_keeps claims (settings api) \<and> keeps claims (ticks api)"

section \<open>Lemmas\<close>

lemma expand_serverD:
  assumes "expand_server api claims"
  shows "keyed claims" "get_law (pvcs api) claims" "update_law (pvcs api) claims pvc_admits"
    "client_keeps claims (hostPods api)" "client_keeps claims (settings api)"
    "keeps claims (ticks api)" "keeps claims (cget (pvcs api) ns n)"
  using assms by (simp_all add: expand_server_def get_law_keeps)

lemma leaves_isVolumeInUse [leaves_intros]:
  "client_keeps view (hostPods api) \<Longrightarrow> leaves view (isVolumeInUse api cs v)"
  by (auto simp: isVolumeInUse_def intro!: leaves_intros client_keepsD)

lemma leaves_validateOnlineExpansion [leaves_intros]:
  "client_keeps view (hostPods api) \<Longrightarrow> client_keeps view (settings api) \<Longrightarrow>
     leaves view (validateOnlineExpansion api cs p)"
  by (auto simp: validateOnlineExpansion_def intro!: leaves_intros client_keepsD)

lemma waitForPVCState_True:
  assumes "waitForPVCState api cs n pred s = (Ok True, s')" and "get_law (pvcs api) claims"
  shows "\<exists>p. claims (world s') (cs_namespace cs) n = Some p \<and> pred p"
proof -
  let ?body = "handle (kGet PVCs (pvcs api) (cs_namespace cs) n) (\<lambda>err. ret None)
    (\<lambda>existVol. ret (if pred existVol then Some True else None))"
  from assms(1) obtain m s0 where "select_loop m ?body s0 = (Ok True, s')"
    by (auto simp: waitForPVCState_def andThen_returns observe_returns)
  from select_loop_hit [OF this] obtain s1 where "?body s1 = (Ok (Some True), s')" by blast
  with get_law_Ok [OF assms(2)] show ?thesis
    by (auto simp: handle_returns kGet_returns ret_run split: if_splits)
qed

lemma ControllerExpandVolume_cases:
  assumes "ControllerExpandVolume api cs req s = (r, s')"
  obtains (rejected) e tr where "r = Err e \<or> r = Panic" "calls s' = calls s @ tr" "writes tr = []"
  | (expand) p capRange s1 s2 tr where
      "kGet PVCs (pvcs api) (cs_namespace cs) (ceVolumeId req) s = (Ok p, s1)"
      "validateOnlineExpansion api cs p s1 = (Ok (), s2)" "ceCapacityRange req = Some capRange"
      "sint (Storage (Requests p)) \<le> sint (RequiredBytes capRange)"
      "calls s2 = calls s @ tr" "writes tr = []"
      "expandPVC api cs req p (RequiredBytes capRange) s2 = (r, s')"
proof -
  have reads: "issues read_only (validateOnlineExpansion api cs p)" for p
    by (auto simp: validateOnlineExpansion_def intro!: issues_intros)
  obtain q s1 where g: "kGet PVCs (pvcs api) (cs_namespace cs) (ceVolumeId req) s = (q, s1)"
    by (cases "kGet PVCs (pvcs api) (cs_namespace cs) (ceVolumeId req) s")
  then obtain t1 where t1: "calls s1 = calls s @ t1" "writes t1 = []" by (auto simp: kGet_returns)
  show thesis
  proof (cases "\<exists>p. q = Ok p \<and> validateCtrlExpandReq req = Inr () \<and> \<not> ctrlExpandRWX req \<and>
      VolumeName p \<noteq> ''''")
    case False
    with assms g t1 rejected [of _ "[]"] rejected [of _ t1] show thesis
      by (cases q; cases "validateCtrlExpandReq req")
        (auto simp: ControllerExpandVolume_def andThen_run handle_run fail_run ret_run
          split: if_splits)
  next
    case True
    then obtain p where p: "q = Ok p" "validateCtrlExpandReq req = Inr ()" "\<not> ctrlExpandRWX req"
      "VolumeName p \<noteq> ''''" by blast
    obtain v s2 where v: "validateOnlineExpansion api cs p s1 = (v, s2)"
      by (cases "validateOnlineExpansion api cs p s1")
    obtain t2 where t2: "calls s2 = calls s1 @ t2" "writes t2 = []"
      by (rule read_trace [OF reads v])
    with t1 have t: "calls s2 = calls s @ (t1 @ t2)" "writes (t1 @ t2) = []" by simp_all
    show thesis
    proof (cases "\<exists>capRange. v = Ok () \<and> ceCapacityRange req = Some capRange \<and>
        \<not> int64_less (RequiredBytes capRange) (Storage (Requests p))")
      case False
      with assms g p v t rejected [of _ "t1 @ t2"] show thesis
        by (cases v) (auto simp: ControllerExpandVolume_def andThen_run handle_run fail_run ret_run
            Let_def split: if_splits option.splits)
    next
      case True
      then obtain capRange where "v = Ok ()" "ceCapacityRange req = Some capRange"
        "\<not> int64_less (RequiredBytes capRange) (Storage (Requests p))" by blast
      with assms g p v t expand [of p s1 s2 capRange "t1 @ t2"] show thesis
        by (auto simp: ControllerExpandVolume_def andThen_run handle_run ret_run Let_def
            int64_less_def)
    qed
  qed
qed

lemma expandPVC_Ok:
  assumes srv: "expand_server api claims"
    and run: "expandPVC api cs req p sz s = (Ok resp, s')"
    and p: "Namespace p = cs_namespace cs" "Name p = ceVolumeId req"
  shows "exCapacityBytes resp = sz \<and>
    (\<exists>q. claims (world s') = stored (claims (world s)) (cs_namespace cs) (ceVolumeId req) q \<and>
       Storage (Requests q) = sz \<and> sint sz \<le> sint (Storage (Capacity q)))"
proof -
  from run obtain rs x s1 s2 where
    u: "cupdate (pvcs api) (p\<lparr>Requests := Some (rs(''storage'' \<mapsto> sz))\<rparr>) (world s) = (Inr x, world s1)" and
    w: "waitForPVCState api cs (ceVolumeId req) (\<lambda>vol. int64_le sz (Storage (Capacity vol))) s1 = (Ok True, s2)" and
    i: "\<exists>b. isVolumeInUse api cs (ceVolumeId req) s2 = (Ok b, s')" and
    r: "exCapacityBytes resp = sz"
    by (auto simp: expandPVC_def handle_returns andThen_returns kUpdate_returns fail_run ret_run
        panic_run split: option.splits if_splits)
  from update_law_Ok [OF expand_serverD(3) [OF srv] u] p have st:
    "claims (world s1) = stored (claims (world s)) (cs_namespace cs) (ceVolumeId req) x"
    "Storage (Requests x) = sz" by (auto simp: pvc_admits_def)
  have l: "claims (world s2) = claims (world s1)"
    by (rule leavesD [OF leaves_waitForPVCState [OF expand_serverD(6,7) [OF srv]] w])
  have l': "claims (world s') = claims (world s2)"
    using i leavesD [OF leaves_isVolumeInUse [OF expand_serverD(4) [OF srv]]] by blast
  from waitForPVCState_True [OF w expand_serverD(2) [OF srv]] l st obtain
    "int64_le sz (Storage (Capacity x))" by auto
  with st l l' r show ?thesis by (auto simp: int64_le_def)
qed

section \<open>A concrete expansion\<close>

definition grown_claim :: pvc where
  "grown_claim = bound_claim\<lparr>Requests := Some [''storage'' \<mapsto> 10485760],
     Capacity := Some [''storage'' \<mapsto> 20971520]\<rparr>"

text \<open>A bound claim that no pod uses, and a request to expand it.\<close>

definition expand_mem :: mem where
  "expand_mem = empty_mem\<lparr>mPVCs := [grown_claim]\<rparr>"

definition demo_expand :: ctrl_expand_request where
  "demo_expand = \<lparr>ceVolumeId = ''pvc-1'',
     ceCapacityRange = Some \<lparr>RequiredBytes = 20971520, LimitBytes = 0\<rparr>,
     ceCapability = Some \<lparr>AccessType = Some Block, AccessMode = Some SINGLE_NODE_WRITER\<rparr>\<rparr>"

lemma mem_expand_server: "expand_server mem_api (\<lambda>w. look (mPVCs w))"
  unfolding expand_server_def
  by (intro conjI mem_keyed mem_api_ticks) (simp_all add: mem_api_def mem_laws pvc_admits_def)

section \<open>Properties\<close>



text \<open>
  \<open>ControllerExpandVolume\<close> writes at most once, an update of the claim, and not at all when
  the requested size is missing or below the claim's size, whatever happens afterwards.
\<close>

lemma expand_writes:
  assumes "ControllerExpandVolume api cs req s = (r, s')" and "get_law (pvcs api) claims"
    and "keyed claims"
    and "claims (world s) (cs_namespace cs) (ceVolumeId req) = Some p"
  shows "\<exists>tr. calls s' = calls s @ tr \<and> length (writes tr) \<le> 1 \<and>
    (\<forall>c \<in> set (writes tr). (\<exists>e. c = Call VUpdate PVCs (cs_namespace cs) (ceVolumeId req) e) \<and>
       (\<exists>capRange. ceCapacityRange req = Some capRange \<and>
          sint (Storage (Requests p)) \<le> sint (RequiredBytes capRange)))"
  using assms(1)
proof (cases rule: ControllerExpandVolume_cases)
  case (rejected e tr)
  then show ?thesis by (intro exI [of _ tr]) simp
next
  case (expand p' capRange s1 s2 tr)
  from expand(1) get_law_Ok [OF assms(2)] assms(4) have "p' = p" by (auto simp: kGet_returns)
  let ?tail = "\<lambda>sz. \<lambda>_. andThen (waitForPVCState api cs (ceVolumeId req)
         (\<lambda>vol. int64_le sz (Storage (Capacity vol)))) (\<lambda>reached.
     if \<not> reached then fail (status_Errorf DeadlineExceeded ''PVC expansion timed out'' [])
     else
     handle (isVolumeInUse api cs (ceVolumeId req))
       (\<lambda>err. fail (status_Errorf Internal ''Failed to check if volume %s is in use: %v''
          [ceVolumeId req, Error err]))
       (\<lambda>inUse. ret \<lparr>exCapacityBytes = sz, exNodeExpansionRequired = inUse\<rparr>))"
  have tail: "issues read_only (?tail sz y)" for sz and y :: pvc
    by (auto intro!: issues_intros)
  have "\<exists>t. calls s' = calls s2 @ t \<and> length (writes t) \<le> 1 \<and>
    (\<forall>c \<in> set (writes t). \<exists>e. c = Call VUpdate PVCs (cs_namespace cs) (ceVolumeId req) e)"
  proof (cases "Requests p'")
    case None
    with expand(7) show ?thesis by (simp add: expandPVC_def panic_run)
  next
    case (Some rs)
    let ?obj = "p'\<lparr>Requests := Some (rs(''storage'' \<mapsto> RequiredBytes capRange))\<rparr>"
    obtain q s3 where q: "kUpdate PVCs (pvcs api) ?obj s2 = (q, s3)"
      by (cases "kUpdate PVCs (pvcs api) ?obj s2")
    have key: "Namespace ?obj = cs_namespace cs" "Name ?obj = ceVolumeId req"
      using keyedD [OF assms(3,4)] \<open>p' = p\<close> by simp_all
    from q key obtain e where c: "calls s3 = calls s2 @ [Call VUpdate PVCs (cs_namespace cs) (ceVolumeId req) e]"
      by (auto simp: kUpdate_returns)
    have np: "q \<noteq> Panic" using q by (auto simp: kUpdate_returns)
    show ?thesis
    proof (cases q)
      case (Ok y)
      with expand(7) Some q have "?tail (RequiredBytes capRange) y s3 = (r, s')"
        by (simp add: expandPVC_def handle_run)
      then obtain t where "calls s' = calls s3 @ t" "writes t = []"
        by (rule read_trace [OF tail])
      with c show ?thesis by auto
    next
      case (Err e)
      with expand(7) Some q c show ?thesis by (auto simp: expandPVC_def handle_run fail_run)
    qed (use np in simp)
  qed
  then obtain t where "calls s' = calls s2 @ t" "length (writes t) \<le> 1"
    "\<forall>c \<in> set (writes t). \<exists>e. c = Call VUpdate PVCs (cs_namespace cs) (ceVolumeId req) e" by blast
  with expand(3-6) \<open>p' = p\<close> show ?thesis by (intro exI [of _ "tr @ t"]) auto
qed

lemma expand_writes_witness:
  "length (writes (calls (snd (ControllerExpandVolume mem_api demo_cs demo_expand (in_mem expand_mem))))) = 1"
proof -
  let ?run = "ControllerExpandVolume mem_api demo_cs demo_expand (in_mem expand_mem)"
  have run: "?run = (fst ?run, snd ?run)" by simp
  have "look (mPVCs (world (in_mem expand_mem))) (cs_namespace demo_cs) (ceVolumeId demo_expand) =
      Some grown_claim"
    by (simp add: expand_mem_def grown_claim_def bound_claim_def demo_claim_def new_pvc_def has_key_def
        demo_expand_def)
  from expand_writes [OF run mem_publish_laws(1) mem_keyed this]
  have "length (writes (calls (snd ?run))) \<le> 1" by auto
  moreover have "writes (calls (snd ?run)) \<noteq> []" by code_simp
  ultimately show ?thesis by (cases "writes (calls (snd ?run))") auto
qed

end
