(* ===== verification/Node_Controller.thy ===== *)
theory Node_Controller
  imports Controller_Expand
begin

text \<open>
  The guest node controller (\<open>pkg/controller/node/controller.go\<close>), which makes a non-graceful
  node shutdown safe for the volumes of the node: when neither the node nor its virtual machine
  is healthy it first puts the out-of-service taint on the node and then, on a later event,
  removes the hotplugged volumes from the virtual machine; it takes the taint off when both are
  healthy again.

  A handler answers a node, nil, or an error. The object that comes with an error is not
  modelled, since the framework that calls the handler drops it.
\<close>

section \<open>Conditions and taints\<close>

record controller =
  nodeName :: string
  namespace :: string
  ncDeclarativeHotplug :: bool

definition harvesterCSINodeHandlerName :: string where
  "harvesterCSINodeHandlerName = ''harvester-csi-node-controller''"

definition nonGracefulTaintKey :: string where
  "nonGracefulTaintKey = ''node.kubernetes.io/out-of-service''"

definition TaintEffectNoExecute :: string where
  "TaintEffectNoExecute = ''NoExecute''"

definition NodeReady :: string where
  "NodeReady = ''Ready''"

definition VirtualMachineReady :: string where
  "VirtualMachineReady = ''Ready''"

definition ConditionTrue :: string where
  "ConditionTrue = ''True''"

definition VirtualMachineStatusRunning :: string where
  "VirtualMachineStatusRunning = ''Running''"

fun getNodeCondition :: "condition list \<Rightarrow> string \<Rightarrow> condition option" where
  "getNodeCondition [] conditionType = None"
| "getNodeCondition (c # cs) conditionType =
     (if CondType c = conditionType then Some c else getNodeCondition cs conditionType)"

fun getNodeTaint :: "taint list \<Rightarrow> string \<Rightarrow> taint option" where
  "getNodeTaint [] taintKey = None"
| "getNodeTaint (t # ts) taintKey =
     (if TaintKey t = taintKey then Some t else getNodeTaint ts taintKey)"

fun getVMCondition :: "condition list \<Rightarrow> string \<Rightarrow> condition option" where
  "getVMCondition [] conditionType = None"
| "getVMCondition (c # cs) conditionType =
     (if CondType c = conditionType then Some c else getVMCondition cs conditionType)"

definition taintWithNoExecute :: "taint option \<Rightarrow> bool" where
  "taintWithNoExecute taint =
     (case taint of None \<Rightarrow> False | Some t \<Rightarrow> TaintEffect t = TaintEffectNoExecute)"

section \<open>Health\<close>

definition getNodeAndVMHealth ::
  "'w api \<Rightarrow> controller \<Rightarrow> node \<Rightarrow> ('w, bool \<times> bool \<times> vm) io" where
  "getNodeAndVMHealth api c node =
     (case getNodeCondition (NodeConditions node) NodeReady of
        None \<Rightarrow> fail (ErrorString (Sprintf ''can't find %s condition in node %s''
                  [NodeReady, Name node]))
      | Some cond \<Rightarrow>
          (let nodeHealthy = (CondStatus cond = ConditionTrue) in
           handle (kGet VMs (vms api) (namespace c) (Name node))
             (\<lambda>err. fail (Wrapped (Sprintf ''failed to get VM %s/%s: %w''
                [Namespace node, Name node, Error err]) err))
             (\<lambda>vm.
           case getVMCondition (VMConditions vm) VirtualMachineReady of
             None \<Rightarrow> fail (ErrorString (Sprintf ''can't find %s condition in VM %s/%s''
                       [VirtualMachineReady, Namespace vm, Name vm]))
           | Some vmCond \<Rightarrow>
               ret (nodeHealthy,
                    CondStatus vmCond = ConditionTrue \<and>
                      PrintableStatus vm = VirtualMachineStatusRunning,
                    vm))))"

section \<open>Taints\<close>

text \<open>\<open>make([]corev1.Taint, 0, len(nodeCpy.Spec.Taints)-1)\<close> panics on a negative capacity.\<close>

definition removeTaint :: "'w api \<Rightarrow> node \<Rightarrow> ('w, node option) io" where
  "removeTaint api node =
     (if Taints node = [] then panic
      else
        (let newTaints = filter (\<lambda>t. TaintKey t \<noteq> nonGracefulTaintKey) (Taints node) in
         andThen (kUpdate GuestNodes (guestNodes api) (node\<lparr>Taints := newTaints\<rparr>))
           (\<lambda>n. ret (Some n))))"

definition addTaint :: "'w api \<Rightarrow> node \<Rightarrow> ('w, node option) io" where
  "addTaint api node =
     (let newTaint = \<lparr>TaintKey = nonGracefulTaintKey, TaintValue = '''',
                      TaintEffect = TaintEffectNoExecute\<rparr> in
      andThen (kUpdate GuestNodes (guestNodes api) (node\<lparr>Taints := Taints node @ [newTaint]\<rparr>))
        (\<lambda>n. ret (Some n)))"

section \<open>Removal of the hotplugged volumes\<close>

definition hotpluggable :: "volume \<Rightarrow> bool" where
  "hotpluggable volume =
     (case volPVC volume of None \<Rightarrow> False | Some p \<Rightarrow> Hotpluggable p)"

text \<open>The keys of the map \<open>hotplugNames\<close>.\<close>

definition hotplugNames :: "template \<Rightarrow> string list" where
  "hotplugNames t = remdups (map volName (filter hotpluggable (Volumes t)))"

definition removeAllOps :: "vm \<Rightarrow> template \<Rightarrow> patch_op list" where
  "removeAllOps vm t =
     (let volumes = filter (\<lambda>v. volName v \<notin> set (hotplugNames t)) (Volumes t);
          disks = filter (\<lambda>d. diskName d \<notin> set (hotplugNames t)) (Disks t) in
      [PatchOp ''test'' rvPath (PString (ResourceVersion vm)),
       PatchOp ''replace'' volumesPath (PVolumes volumes),
       PatchOp ''replace'' disksPath (PDisks disks)])"

definition removeAllHotplugVolumesByPatch ::
  "'w api \<Rightarrow> controller \<Rightarrow> vm \<Rightarrow> template \<Rightarrow> ('w, unit) io" where
  "removeAllHotplugVolumesByPatch api c vm t =
     handle (kPatchVM api (namespace c) (Name vm) (removeAllOps vm t))
       (\<lambda>err. fail (Wrapped (Sprintf ''failed to patch VM %s/%s to remove hotplug volumes: %w''
          [Namespace vm, Name vm, Error err]) err))
       (\<lambda>_. ret ())"

text \<open>The body of the loop over the map, in the order the runtime visits the keys.\<close>

fun removeBySubresource_loop ::
  "'w api \<Rightarrow> controller \<Rightarrow> vm \<Rightarrow> string list \<Rightarrow> ('w, unit) io" where
  "removeBySubresource_loop api c vm [] = ret ()"
| "removeBySubresource_loop api c vm (name # names) =
     handle (kRemoveVolume api (namespace c) (Name vm) name)
       (\<lambda>err. fail (Wrapped (Sprintf ''failed to remove hotplug volume %s from VM %s/%s: %w''
          [name, Namespace vm, Name vm, Error err]) err))
       (\<lambda>_. removeBySubresource_loop api c vm names)"

definition removeAllHotplugVolumesBySubresource ::
  "'w api \<Rightarrow> controller \<Rightarrow> vm \<Rightarrow> string list \<Rightarrow> ('w, unit) io" where
  "removeAllHotplugVolumesBySubresource api c vm names =
     andThen (observe (mapOrder api names)) (removeBySubresource_loop api c vm)"

definition removeAllHotplugVolumes :: "'w api \<Rightarrow> controller \<Rightarrow> vm \<Rightarrow> ('w, unit) io" where
  "removeAllHotplugVolumes api c vm =
     handle (kGet VMs (vms api) (namespace c) (Name vm))
       (\<lambda>err. fail (Wrapped (Sprintf ''failed to get latest VM %s/%s: %w''
          [Namespace vm, Name vm, Error err]) err))
       (\<lambda>latestVM.
     andThen (vm_template latestVM) (\<lambda>t.
     if hotplugNames t = [] then ret ()
     else if ncDeclarativeHotplug c then removeAllHotplugVolumesByPatch api c latestVM t
     else removeAllHotplugVolumesBySubresource api c latestVM (hotplugNames t)))"

section \<open>The handler\<close>

definition handleNodeAndVMHealth ::
  "'w api \<Rightarrow> controller \<Rightarrow> node \<Rightarrow> vm \<Rightarrow> bool \<Rightarrow> bool \<Rightarrow> ('w, node option) io" where
  "handleNodeAndVMHealth api c node vm nodeHealthy vmHealthy =
     (let taint = getNodeTaint (Taints node) nonGracefulTaintKey;
          taHasNoExecute = taintWithNoExecute taint in
      if \<not> nodeHealthy \<and> vmHealthy then ret None
      else if nodeHealthy \<and> vmHealthy \<and> taHasNoExecute then removeTaint api node
      else if \<not> nodeHealthy \<and> \<not> vmHealthy \<and> \<not> taHasNoExecute then addTaint api node
      else if \<not> nodeHealthy \<and> \<not> vmHealthy then
        handle (removeAllHotplugVolumes api c vm)
          (\<lambda>err. fail (Wrapped (Sprintf ''failed to remove all hotplug volumes from VM %s/%s: %w''
             [Namespace node, Name node, Error err]) err))
          (\<lambda>_. ret None)
      else ret None)"

definition OnNodesChange ::
  "'w api \<Rightarrow> controller \<Rightarrow> node option \<Rightarrow> ('w, node option) io" where
  "OnNodesChange api c node =
     (case node of
        None \<Rightarrow> ret None
      | Some n \<Rightarrow>
          if DeletionTimestamp n \<noteq> None then ret (Some n)
          else
            andThen (getNodeAndVMHealth api c n) (\<lambda>(nodeHealthy, vmHealthy, vm).
            handleNodeAndVMHealth api c n vm nodeHealthy vmHealthy))"

text \<open>The handler that \<open>Register\<close> adds to the node informer, under its name.\<close>

definition Register ::
  "'w api \<Rightarrow> string \<Rightarrow> string \<Rightarrow> bool \<Rightarrow> string \<times> (node option \<Rightarrow> ('w, node option) io)" where
  "Register api nodeName' namespace' useDeclarative =
     (harvesterCSINodeHandlerName,
      OnNodesChange api \<lparr>nodeName = nodeName', namespace = namespace',
        ncDeclarativeHotplug = useDeclarative\<rparr>)"

section \<open>What the theorems speak of\<close>

text \<open>The node carries the out-of-service taint, as the handler reads it.\<close>

definition fenced :: "node \<Rightarrow> bool" where
  "fenced n \<longleftrightarrow> taintWithNoExecute (getNodeTaint (Taints n) nonGracefulTaintKey)"

text \<open>The taint the handler adds.\<close>

definition outOfService :: taint where
  "outOfService = \<lparr>TaintKey = nonGracefulTaintKey, TaintValue = '''',
     TaintEffect = TaintEffectNoExecute\<rparr>"

text \<open>What the handler should do: the table over the health of the node, the health of the
  machine and the taint.\<close>

datatype action = Nothing | Taint | Untaint | Detach

text \<open>The decision of the handler: node healthy, machine healthy, taint present.\<close>

fun decide :: "bool \<Rightarrow> bool \<Rightarrow> bool \<Rightarrow> action" where
  "decide True True True = Untaint"
| "decide False False False = Taint"
| "decide False False True = Detach"
| "decide _ _ _ = Nothing"

text \<open>What a decision may write on the node \<open>x\<close> and on the machine \<open>v\<close>.\<close>

fun action_writes :: "controller \<Rightarrow> node \<Rightarrow> vm \<Rightarrow> action \<Rightarrow> call list \<Rightarrow> bool" where
  "action_writes c x v Nothing cs = (cs = [])"
| "action_writes c x v Taint cs = (\<exists>e. cs = [Call VUpdate GuestNodes (Namespace x) (Name x) e])"
| "action_writes c x v Untaint cs = (\<exists>e. cs = [Call VUpdate GuestNodes (Namespace x) (Name x) e])"
| "action_writes c x v Detach cs =
     (\<forall>k \<in> set cs. call_kind k = VMs \<and> call_ns k = namespace c \<and>
        call_verb k = (if ncDeclarativeHotplug c then VPatch else VRemoveVolume))"

text \<open>
  The laws of the guest's node objects: the object an update stores has the taints, conditions
  and deletion mark of the object that was sent, and no call on virtual machines touches them.
\<close>

definition node_admits :: "node \<Rightarrow> node \<Rightarrow> bool" where
  "node_admits obj x \<longleftrightarrow> Namespace x = Namespace obj \<and> Name x = Name obj \<and>
     Taints x = Taints obj \<and> NodeConditions x = NodeConditions obj \<and>
     DeletionTimestamp x = DeletionTimestamp obj"

text \<open>The laws of the nodes' client, and that the other calls of the handler leave the nodes alone.\<close>

definition node_api :: "'w api \<Rightarrow> ('w \<Rightarrow> string \<Rightarrow> string \<Rightarrow> node option) \<Rightarrow> bool" where
  "node_api api nodes \<longleftrightarrow> keyed nodes \<and> update_law (guestNodes api) nodes node_admits \<and>
     client_keeps nodes (vms api) \<and> (\<forall>ns n ops. keeps nodes (vmPatch api ns n ops)) \<and>
     (\<forall>ns n v. keeps nodes (vmRemoveVolume api ns n v)) \<and> (\<forall>ks. keeps nodes (mapOrder api ks))"

text \<open>
  The life of one node. A state is the outside with the log of the controller's calls, and the
  versions of the node that have existed so far. The informer's cache may lag behind, so the
  controller handles any of those versions; other actors change anything but do not put the
  out-of-service taint on the node.
\<close>

inductive fencing ::
  "'w api \<Rightarrow> controller \<Rightarrow> ('w \<Rightarrow> string \<Rightarrow> string \<Rightarrow> node option) \<Rightarrow> string \<Rightarrow> 'w st \<Rightarrow> node set \<Rightarrow> bool"
  for api :: "'w api" and c :: controller and nodes and n :: string where
  start: "nodes w '''' n = Some x \<Longrightarrow> \<not> fenced x \<Longrightarrow>
    fencing api c nodes n \<lparr>world = w, calls = []\<rparr> {x}"
| reconcile: "fencing api c nodes n s seen \<Longrightarrow> x \<in> seen \<Longrightarrow>
    OnNodesChange api c (Some x) s = (r, s') \<Longrightarrow>
    fencing api c nodes n s' (seen \<union> set_option (nodes (world s') '''' n))"
| others: "fencing api c nodes n s seen \<Longrightarrow>
    (\<And>y. nodes w '''' n = Some y \<Longrightarrow> fenced y \<Longrightarrow> \<exists>x \<in> seen. fenced x) \<Longrightarrow>
    fencing api c nodes n (s\<lparr>world := w\<rparr>) (seen \<union> set_option (nodes w '''' n))"

text \<open>Every write to a virtual machine in a log comes after a successful update of the node.\<close>

definition taint_first :: "string \<Rightarrow> call list \<Rightarrow> bool" where
  "taint_first n tr \<longleftrightarrow>
     (\<forall>pre k post. tr = pre @ k # post \<longrightarrow> call_kind k = VMs \<longrightarrow> \<not> read_only k \<longrightarrow>
        Call VUpdate GuestNodes '''' n None \<in> set pre)"

text \<open>An update of an object that exists is accepted, and so is a patch that applies.\<close>

definition update_available ::
  "('w, 'x objectmeta_scheme) client \<Rightarrow> ('w \<Rightarrow> string \<Rightarrow> string \<Rightarrow> 'x objectmeta_scheme option) \<Rightarrow> bool" where
  "update_available c lookup \<longleftrightarrow>
     (\<forall>obj w. lookup w (Namespace obj) (Name obj) \<noteq> None \<longrightarrow> (\<exists>x w'. cupdate c obj w = (Inr x, w')))"

text \<open>A patch whose operations apply succeeds.\<close>

definition patch_available :: "'w api \<Rightarrow> ('w \<Rightarrow> string \<Rightarrow> string \<Rightarrow> vm option) \<Rightarrow> bool" where
  "patch_available api lookup \<longleftrightarrow>
     (\<forall>ns n ops w v0. lookup w ns n = Some v0 \<longrightarrow> apply_ops ops v0 \<noteq> None \<longrightarrow>
        (\<exists>v w'. vmPatch api ns n ops w = (Inr v, w')))"

text \<open>The laws of the machines' client, and that writing a node leaves the machines alone.\<close>

definition vm_api :: "'w api \<Rightarrow> ('w \<Rightarrow> string \<Rightarrow> string \<Rightarrow> vm option) \<Rightarrow> bool" where
  "vm_api api machines \<longleftrightarrow> keyed machines \<and> get_law (vms api) machines \<and>
     get_available (vms api) machines \<and> patch_law api machines \<and> patch_available api machines \<and>
     client_keeps machines (guestNodes api)"

text \<open>Neither the node nor its virtual machine is healthy.\<close>

definition down :: "node \<Rightarrow> vm \<Rightarrow> bool" where
  "down x v \<longleftrightarrow>
     (\<exists>cond. getNodeCondition (NodeConditions x) NodeReady = Some cond \<and>
        CondStatus cond \<noteq> ConditionTrue) \<and>
     (\<exists>cond. getVMCondition (VMConditions v) VirtualMachineReady = Some cond \<and>
        \<not> (CondStatus cond = ConditionTrue \<and> PrintableStatus v = VirtualMachineStatusRunning))"

text \<open>A template without its hotplugged volumes.\<close>

definition unplug_all :: "template \<Rightarrow> template" where
  "unplug_all t = t\<lparr>
     Volumes := filter (\<lambda>v. volName v \<notin> set (hotplugNames t)) (Volumes t),
     Disks := filter (\<lambda>d. diskName d \<notin> set (hotplugNames t)) (Disks t)\<rparr>"

section \<open>Lemmas\<close>

lemma getNodeTaint_Some:
  "getNodeTaint ts k = Some t \<Longrightarrow> t \<in> set ts \<and> TaintKey t = k"
  by (induction ts) (auto split: if_splits)

lemma getNodeTaint_None: "getNodeTaint ts k = None \<longleftrightarrow> (\<forall>t \<in> set ts. TaintKey t \<noteq> k)"
  by (induction ts) auto

lemma getNodeTaint_append:
  "getNodeTaint (ts @ us) k =
     (case getNodeTaint ts k of None \<Rightarrow> getNodeTaint us k | Some t \<Rightarrow> Some t)"
  by (induction ts) auto

lemma fenced_taints: "fenced n \<Longrightarrow> Taints n \<noteq> []"
  by (auto simp: fenced_def taintWithNoExecute_def)

lemma removeTaint_run:
  "fenced n \<Longrightarrow> removeTaint api n =
     andThen (kUpdate GuestNodes (guestNodes api)
       (n\<lparr>Taints := filter (\<lambda>t. TaintKey t \<noteq> nonGracefulTaintKey) (Taints n)\<rparr>)) (\<lambda>x. ret (Some x))"
  by (simp add: removeTaint_def fenced_taints)

lemma handle_decide:
  "handleNodeAndVMHealth api c n v healthy running =
     (case decide healthy running (fenced n) of
        Nothing \<Rightarrow> ret None
      | Taint \<Rightarrow> addTaint api n
      | Untaint \<Rightarrow> removeTaint api n
      | Detach \<Rightarrow>
          handle (removeAllHotplugVolumes api c v)
            (\<lambda>err. fail (Wrapped (Sprintf ''failed to remove all hotplug volumes from VM %s/%s: %w''
               [Namespace n, Name n, Error err]) err))
            (\<lambda>_. ret None))"
  by (cases healthy; cases running; cases "fenced n")
    (simp_all add: handleNodeAndVMHealth_def fenced_def)

lemma reads_getNodeAndVMHealth: "issues read_only (getNodeAndVMHealth api c n)"
  by (auto simp: getNodeAndVMHealth_def intro!: issues_intros)

lemma decide_Untaint: "decide a b f = Untaint \<Longrightarrow> f"
  by (cases a; cases b; cases f) simp_all

lemma decide_Detach: "decide a b f = Detach \<Longrightarrow> f"
  by (cases a; cases b; cases f) simp_all

text \<open>A node event: the reads, then the action of the table.\<close>

lemma OnNodesChange_cases:
  assumes "OnNodesChange api c (Some n) s = (r, s')"
  obtains (gone) "DeletionTimestamp n \<noteq> None" "s' = s" "r = Ok (Some n)"
  | (unknown) e where "getNodeAndVMHealth api c n s = (Err e, s')" "r = Err e"
  | (act) cond v vcond s1 where "DeletionTimestamp n = None"
      "getNodeCondition (NodeConditions n) NodeReady = Some cond"
      "kGet VMs (vms api) (namespace c) (Name n) s = (Ok v, s1)"
      "getVMCondition (VMConditions v) VirtualMachineReady = Some vcond"
      "handleNodeAndVMHealth api c n v (CondStatus cond = ConditionTrue)
         (CondStatus vcond = ConditionTrue \<and> PrintableStatus v = VirtualMachineStatusRunning) s1 = (r, s')"
proof (cases "DeletionTimestamp n = None")
  case False
  with assms show thesis by (intro gone) (auto simp: OnNodesChange_def ret_run)
next
  case True
  obtain q s1 where q: "getNodeAndVMHealth api c n s = (q, s1)" by (cases "getNodeAndVMHealth api c n s")
  show thesis
  proof (cases q)
    case (Ok x)
    obtain a b v where x: "x = (a, b, v)" by (cases x)
    from q Ok x obtain cond vcond where
      "getNodeCondition (NodeConditions n) NodeReady = Some cond" "a = (CondStatus cond = ConditionTrue)"
      "kGet VMs (vms api) (namespace c) (Name n) s = (Ok v, s1)"
      "getVMCondition (VMConditions v) VirtualMachineReady = Some vcond"
      "b = (CondStatus vcond = ConditionTrue \<and> PrintableStatus v = VirtualMachineStatusRunning)"
      by (auto simp: getNodeAndVMHealth_def Let_def handle_returns fail_run ret_run split: option.splits)
    with assms True q Ok x show thesis
      by (intro act) (auto simp: OnNodesChange_def andThen_run)
  next
    case (Err e)
    with assms True q show thesis
      by (intro unknown [of e]) (auto simp: OnNodesChange_def andThen_run)
  next
    case Panic
    with q show thesis
      by (auto simp: getNodeAndVMHealth_def Let_def handle_returns fail_run ret_run kGet_returns
          split: option.splits)
  qed
qed

lemma issues_removeBySubresource_loop:
  assumes "\<And>e. P (Call VRemoveVolume VMs (namespace c) (Name v) e)"
  shows "issues P (removeBySubresource_loop api c v names)"
  using assms by (induction names) (auto simp: kRemoveVolume_def intro!: issues_intros)

lemma issues_removeAll:
  "issues (\<lambda>k. read_only k \<or> call_kind k = VMs \<and> call_ns k = namespace c \<and>
     call_verb k = (if ncDeclarativeHotplug c then VPatch else VRemoveVolume))
     (removeAllHotplugVolumes api c v)"
  unfolding removeAllHotplugVolumes_def
  by (intro issues_intros)
    (auto simp: removeAllHotplugVolumesByPatch_def removeAllHotplugVolumesBySubresource_def
      intro!: issues_intros issues_removeBySubresource_loop)

lemma handle_writes:
  assumes "handleNodeAndVMHealth api c n v healthy running s = (r, s')"
  shows "\<exists>tr. calls s' = calls s @ tr \<and>
    action_writes c n v (decide healthy running (fenced n)) (writes tr)"
proof (cases "decide healthy running (fenced n)")
  case Detach
  have "issues (\<lambda>k. read_only k \<or> call_kind k = VMs \<and> call_ns k = namespace c \<and>
     call_verb k = (if ncDeclarativeHotplug c then VPatch else VRemoveVolume))
     (handleNodeAndVMHealth api c n v healthy running)"
    unfolding handle_decide Detach action.case by (intro issues_intros issues_removeAll)
  from issuesD [OF this assms] obtain tr where "calls s' = calls s @ tr"
    "\<forall>k \<in> set tr. read_only k \<or> call_kind k = VMs \<and> call_ns k = namespace c \<and>
     call_verb k = (if ncDeclarativeHotplug c then VPatch else VRemoveVolume)" by blast
  with Detach show ?thesis by (intro exI [of _ tr]) (auto simp: writes_def)
next
  case Untaint
  then have "fenced n" by (rule decide_Untaint)
  with assms Untaint show ?thesis
    by (auto simp: handle_decide removeTaint_run andThen_returns kUpdate_returns ret_run)
qed (use assms in \<open>auto simp: handle_decide addTaint_def andThen_returns kUpdate_returns ret_run\<close>)

lemma node_apiD:
  assumes "node_api api nodes"
  shows "keyed nodes" "update_law (guestNodes api) nodes node_admits"
    "client_keeps nodes (vms api)" "keeps nodes (vmPatch api ns m ops)"
    "keeps nodes (vmRemoveVolume api ns m v)" "keeps nodes (mapOrder api ks)"
  using assms by (auto simp: node_api_def)

lemma leaves_removeBySubresource_loop:
  assumes "node_api api nodes"
  shows "leaves nodes (removeBySubresource_loop api c v names)"
  by (induction names)
    (auto simp: kRemoveVolume_def intro!: leaves_intros node_apiD(5) [OF assms])

lemma leaves_removeAll:
  assumes "node_api api nodes"
  shows "leaves nodes (removeAllHotplugVolumes api c v)"
  unfolding removeAllHotplugVolumes_def removeAllHotplugVolumesByPatch_def vm_template_def
    removeAllHotplugVolumesBySubresource_def kPatchVM_def
  by (intro leaves_intros client_keepsD node_apiD [OF assms]
      leaves_removeBySubresource_loop [OF assms])

lemma taint_first_appendI:
  assumes "taint_first n tr" and "\<And>k. k \<in> set us \<Longrightarrow> call_kind k = VMs \<Longrightarrow> \<not> read_only k \<Longrightarrow>
    Call VUpdate GuestNodes '''' n None \<in> set tr"
  shows "taint_first n (tr @ us)"
  unfolding taint_first_def
proof (intro allI impI)
  fix pre k post
  assume e: "tr @ us = pre @ k # post" and k: "call_kind k = VMs" "\<not> read_only k"
  show "Call VUpdate GuestNodes '''' n None \<in> set pre"
  proof (cases "length pre < length tr")
    case True
    with e have "tr = pre @ k # take (length tr - length pre - 1) post"
      by (auto simp: append_eq_append_conv2 append_eq_Cons_conv Cons_eq_append_conv)
    with assms(1) k show ?thesis unfolding taint_first_def by blast
  next
    case False
    with e obtain m where "pre = tr @ m" "us = m @ k # post"
      by (auto simp: append_eq_append_conv2 append_eq_Cons_conv Cons_eq_append_conv)
    with assms(2) [of k] k show ?thesis by auto
  qed
qed

lemma kUpdate_node:
  assumes srv: "node_api api nodes"
    and run: "andThen (kUpdate GuestNodes (guestNodes api) y) (\<lambda>z. ret (Some z)) s = (r, s')"
    and y: "Namespace y = ''''" "Name y = n"
  shows "\<exists>e. calls s' = calls s @ [Call VUpdate GuestNodes '''' n e] \<and>
    (nodes (world s') = nodes (world s) \<or>
     e = None \<and> (\<exists>z. r = Ok (Some z) \<and> node_admits y z \<and> nodes (world s') = stored (nodes (world s)) '''' n z))"
  using run y update_law_Ok [OF node_apiD(2) [OF srv]] update_law_Err [OF node_apiD(2) [OF srv]]
  by (auto simp: andThen_returns kUpdate_returns ret_run)

text \<open>One event: the node changes only by a successful update, the machine is written only for
  a fenced node.\<close>

lemma OnNodesChange_step:
  assumes srv: "node_api api nodes" and run: "OnNodesChange api c (Some x) s = (r, s')"
    and x: "Namespace x = ''''" "Name x = n"
  shows "\<exists>tr. calls s' = calls s @ tr \<and>
    (\<forall>k \<in> set tr. call_kind k = VMs \<longrightarrow> \<not> read_only k \<longrightarrow> fenced x) \<and>
    (nodes (world s') = nodes (world s) \<or> Call VUpdate GuestNodes '''' n None \<in> set tr)"
  using run
proof (cases rule: OnNodesChange_cases)
  case (unknown e)
  have "leaves nodes (getNodeAndVMHealth api c x)"
    unfolding getNodeAndVMHealth_def
    by (intro leaves_intros client_keepsD node_apiD(3) [OF srv])
  from leavesD [OF this unknown(1)] issuesD [OF reads_getNodeAndVMHealth unknown(1)] show ?thesis
    by metis
next
  case (act cond v vcond s1)
  let ?d = "decide (CondStatus cond = ConditionTrue)
      (CondStatus vcond = ConditionTrue \<and> PrintableStatus v = VirtualMachineStatusRunning) (fenced x)"
  from act(3) keepsD [OF client_keepsD(1) [OF node_apiD(3) [OF srv]]]
  have s1: "calls s1 = calls s @ [Call VGet VMs (namespace c) (Name x) None]"
    "nodes (world s1) = nodes (world s)" by (auto simp: kGet_returns)
  have "\<exists>tr. calls s' = calls s1 @ tr \<and>
    (\<forall>k \<in> set tr. call_kind k = VMs \<longrightarrow> \<not> read_only k \<longrightarrow> fenced x) \<and>
    (nodes (world s') = nodes (world s1) \<or> Call VUpdate GuestNodes '''' n None \<in> set tr)"
  proof (cases ?d)
    case Nothing
    with act(5) show ?thesis by (simp add: handle_decide ret_run)
  next
    case Taint
    with act(5) kUpdate_node [OF srv, of "x\<lparr>Taints := Taints x @ [outOfService]\<rparr>" s1 r s' n] x
    show ?thesis by (auto simp: handle_decide addTaint_def outOfService_def Let_def)
  next
    case Untaint
    then have "fenced x" by (rule decide_Untaint)
    with Untaint act(5) x kUpdate_node [OF srv, of "x\<lparr>Taints :=
        filter (\<lambda>t. TaintKey t \<noteq> nonGracefulTaintKey) (Taints x)\<rparr>" s1 r s' n]
    show ?thesis by (auto simp: handle_decide removeTaint_run)
  next
    case Detach
    then have "fenced x" by (rule decide_Detach)
    from Detach act(5) obtain q where "removeAllHotplugVolumes api c v s1 = (q, s')"
      by (auto simp: handle_decide handle_returns fail_run ret_run)
    with leavesD [OF leaves_removeAll [OF srv]] issuesD [OF issues_removeAll] \<open>fenced x\<close> show ?thesis
      by metis
  qed
  then obtain tr where "calls s' = calls s1 @ tr"
    "\<forall>k \<in> set tr. call_kind k = VMs \<longrightarrow> \<not> read_only k \<longrightarrow> fenced x"
    "nodes (world s') = nodes (world s1) \<or> Call VUpdate GuestNodes '''' n None \<in> set tr" by blast
  with s1 show ?thesis
    by (intro exI [of _ "Call VGet VMs (namespace c) (Name x) None # tr"]) auto
qed simp

text \<open>What holds along every run: the versions of the node are versions of this node, and a
  fenced version or a write to the machine has an update of the node before it.\<close>

lemma fencing_invariant:
  assumes "node_api api nodes" and "fencing api c nodes n s seen"
  shows "(\<forall>x \<in> seen. Namespace x = '''' \<and> Name x = n) \<and>
    ((\<exists>x \<in> seen. fenced x) \<longrightarrow> Call VUpdate GuestNodes '''' n None \<in> set (calls s)) \<and>
    taint_first n (calls s) \<and> set_option (nodes (world s) '''' n) \<subseteq> seen"
  using assms(2)
proof induction
  case (start w x)
  then show ?case using keyedD [OF node_apiD(1) [OF assms(1)] start(1)]
    by (auto simp: taint_first_def)
next
  case (reconcile s seen x r s')
  then have x: "Namespace x = ''''" "Name x = n" by blast+
  from OnNodesChange_step [OF assms(1) reconcile(3) x] obtain tr where
    tr: "calls s' = calls s @ tr" "\<forall>k \<in> set tr. call_kind k = VMs \<longrightarrow> \<not> read_only k \<longrightarrow> fenced x"
      "nodes (world s') = nodes (world s) \<or> Call VUpdate GuestNodes '''' n None \<in> set tr" by blast
  have "taint_first n (calls s @ tr)"
    using tr(2) reconcile.IH reconcile(2) by (intro taint_first_appendI) blast+
  with tr reconcile.IH show ?case
    using keyedD [OF node_apiD(1) [OF assms(1)]] by auto
next
  case (others s seen w)
  then show ?case using keyedD [OF node_apiD(1) [OF assms(1)]] by auto
qed

interpretation all_removal: patch_removal removeAllOps "\<lambda>t n. n \<in> set (hotplugNames t)"
  by unfold_locales (simp add: removeAllOps_def)

lemma hotplugNames_unplug_all [simp]: "hotplugNames (unplug_all t) = []"
  by (auto simp: hotplugNames_def unplug_all_def filter_empty_conv)

lemma unplug_all_none: "hotplugNames t = [] \<Longrightarrow> unplug_all t = t"
  by (simp add: unplug_all_def)

lemma hotplug_has_volumes: "hotplugNames t \<noteq> [] \<Longrightarrow> Volumes t \<noteq> []"
  by (auto simp: hotplugNames_def)

lemma vm_apiD:
  assumes "vm_api api machines"
  shows "keyed machines" "get_law (vms api) machines" "get_available (vms api) machines"
    "patch_law api machines" "patch_available api machines" "client_keeps machines (guestNodes api)"
  using assms by (auto simp: vm_api_def)

lemma kUpdate_available:
  assumes "update_available c lookup" and "lookup (world s) (Namespace x) (Name x) \<noteq> None"
  obtains y s' where "kUpdate k c x s = (Ok y, s')" "cupdate c x (world s) = (Inr y, world s')"
proof -
  from assms obtain y w where "cupdate c x (world s) = (Inr y, w)"
    unfolding update_available_def by blast
  then show thesis
    by (intro that [of y "\<lparr>world = w, calls = calls s @ [Call VUpdate k (Namespace x) (Name x) None]\<rparr>"])
      (simp_all add: kUpdate_def perform_run)
qed

lemma kPatch_available:
  assumes "patch_available api lookup" and "lookup (world s) ns n = Some v0" and "apply_ops ops v0 \<noteq> None"
  obtains y s' where "kPatchVM api ns n ops s = (Ok y, s')" "vmPatch api ns n ops (world s) = (Inr y, world s')"
proof -
  from assms obtain y w where "vmPatch api ns n ops (world s) = (Inr y, w)"
    unfolding patch_available_def by metis
  then show thesis
    by (intro that [of y "\<lparr>world = w, calls = calls s @ [Call VPatch VMs ns n None]\<rparr>"])
      (simp_all add: kPatchVM_def perform_run)
qed

text \<open>An event of a node that is down, up to the action.\<close>

lemma OnNodesChange_down:
  assumes srv: "vm_api api machines" and nsrv: "node_api api nodes"
    and x: "DeletionTimestamp x = None"
    and v: "machines (world s) (namespace c) (Name x) = Some v" and d: "down x v"
  obtains s1 where "OnNodesChange api c (Some x) s = handleNodeAndVMHealth api c x v False False s1"
    "machines (world s1) = machines (world s)" "nodes (world s1) = nodes (world s)"
proof -
  from kGet_available_Some [OF vm_apiD(2,3) [OF srv] v] obtain s1 where
    s1: "kGet VMs (vms api) (namespace c) (Name x) s = (Ok v, s1)" "machines (world s1) = machines (world s)"
    by metis
  have "nodes (world s1) = nodes (world s)"
    using s1(1) keepsD [OF client_keepsD(1) [OF node_apiD(3) [OF nsrv]]] by (auto simp: kGet_returns)
  moreover have "OnNodesChange api c (Some x) s = handleNodeAndVMHealth api c x v False False s1"
    using x d s1(1)
    by (auto simp: OnNodesChange_def getNodeAndVMHealth_def down_def andThen_run handle_run ret_run Let_def)
  ultimately show thesis using s1(2) that by blast
qed

lemma removeAll_declarative:
  assumes srv: "vm_api api machines" and c: "ncDeclarativeHotplug c"
    and v: "machines (world s) (namespace c) (Name v) = Some v" "Template v = Some t" "Disks t \<noteq> []"
  shows "\<exists>s' rv. removeAllHotplugVolumes api c v s = (Ok (), s') \<and>
    machines (world s') = stored (machines (world s)) (namespace c) (Name v)
      (with_template v rv (unplug_all t))"
proof -
  from kGet_available_Some [OF vm_apiD(2,3) [OF srv] v(1)] obtain s1 where
    s1: "kGet VMs (vms api) (namespace c) (Name v) s = (Ok v, s1)" "machines (world s1) = machines (world s)"
    by metis
  show ?thesis
  proof (cases "hotplugNames t = []")
    case True
    with s1 v show ?thesis
      by (intro exI [of _ s1] exI [of _ "ResourceVersion v"])
        (simp add: removeAllHotplugVolumes_def handle_run andThen_run vm_template_def ret_run
          unplug_all_none with_template_same stored_same)
  next
    case False
    let ?v = "v\<lparr>Template := Some (unplug_all t)\<rparr>"
    have ap: "apply_ops (removeAllOps v t) v = Some ?v"
      using v(2,3) hotplug_has_volumes [OF False]
      by (simp add: all_removal.removal_applies_iff unplug_all_def)
    from s1(2) v(1) have "machines (world s1) (namespace c) (Name v) = Some v" by simp
    with kPatch_available [OF vm_apiD(5) [OF srv]] ap obtain y s2 where
      p: "kPatchVM api (namespace c) (Name v) (removeAllOps v t) s1 = (Ok y, s2)"
        "vmPatch api (namespace c) (Name v) (removeAllOps v t) (world s1) = (Inr y, world s2)"
      by (metis option.distinct(1))
    from patch_law_Ok [OF vm_apiD(4) [OF srv] p(2)] s1(2) v(1) ap obtain rv where
      "machines (world s2) = stored (machines (world s)) (namespace c) (Name v)
         (with_template v rv (unplug_all t))"
      by (auto simp: with_template_def)
    with False s1 p(1) v(2) c show ?thesis
      by (intro exI [of _ s2] exI [of _ rv])
        (simp add: removeAllHotplugVolumes_def removeAllHotplugVolumesByPatch_def handle_run
          andThen_run vm_template_def ret_run)
  qed
qed

lemma fence_step:
  assumes srv: "vm_api api machines" and nsrv: "node_api api nodes"
    and av: "update_available (guestNodes api) nodes"
    and x: "nodes (world s) '''' n = Some x" "DeletionTimestamp x = None" "\<not> fenced x"
    and v: "machines (world s) (namespace c) n = Some v" and d: "down x v"
  shows "\<exists>x1 s1. OnNodesChange api c (Some x) s = (Ok (Some x1), s1) \<and>
    nodes (world s1) '''' n = Some x1 \<and> machines (world s1) = machines (world s) \<and>
    node_admits (x\<lparr>Taints := Taints x @ [outOfService]\<rparr>) x1"
proof -
  let ?y = "x\<lparr>Taints := Taints x @ [outOfService]\<rparr>"
  from keyedD [OF node_apiD(1) [OF nsrv] x(1)] have k: "Namespace x = ''''" "Name x = n" by auto
  with OnNodesChange_down [OF srv nsrv x(2) _ d] v obtain s1 where
    s1: "OnNodesChange api c (Some x) s = handleNodeAndVMHealth api c x v False False s1"
      "machines (world s1) = machines (world s)" "nodes (world s1) = nodes (world s)" by metis
  have "nodes (world s1) (Namespace ?y) (Name ?y) \<noteq> None" using s1(3) x(1) k by simp
  from kUpdate_available [OF av this] obtain x1 s2 where
    u: "kUpdate GuestNodes (guestNodes api) ?y s1 = (Ok x1, s2)"
      "cupdate (guestNodes api) ?y (world s1) = (Inr x1, world s2)" by blast
  have "machines (world s2) = machines (world s1)"
    by (rule keepsD [OF client_keepsD(4) [OF vm_apiD(6) [OF srv]] u(2)])
  with update_law_Ok [OF node_apiD(2) [OF nsrv] u(2)] s1 k x(3) u(1) show ?thesis
    by (intro exI [of _ x1] exI [of _ s2])
      (simp add: handle_decide addTaint_def outOfService_def Let_def andThen_run ret_run)
qed

lemma detach_step:
  assumes srv: "vm_api api machines" and nsrv: "node_api api nodes"
    and c: "ncDeclarativeHotplug c"
    and x: "nodes (world s) '''' n = Some x" "DeletionTimestamp x = None" "fenced x"
    and v: "machines (world s) (namespace c) n = Some v" "Template v = Some t" "Disks t \<noteq> []"
    and d: "down x v"
  shows "\<exists>s1 rv. OnNodesChange api c (Some x) s = (Ok None, s1) \<and> nodes (world s1) '''' n = Some x \<and>
    machines (world s1) = stored (machines (world s)) (namespace c) n
      (with_template v rv (unplug_all t))"
proof -
  from keyedD [OF node_apiD(1) [OF nsrv] x(1)] have k: "Name x = n" by auto
  from keyedD [OF vm_apiD(1) [OF srv] v(1)] have kv: "Name v = n" by auto
  from OnNodesChange_down [OF srv nsrv x(2) _ d] v(1) k obtain s1 where
    s1: "OnNodesChange api c (Some x) s = handleNodeAndVMHealth api c x v False False s1"
      "machines (world s1) = machines (world s)" "nodes (world s1) = nodes (world s)" by metis
  with removeAll_declarative [OF srv c _ v(2,3)] v(1) kv obtain s2 rv where
    r: "removeAllHotplugVolumes api c v s1 = (Ok (), s2)"
      "machines (world s2) = stored (machines (world s)) (namespace c) n
        (with_template v rv (unplug_all t))" by metis
  have "nodes (world s2) = nodes (world s1)" by (rule leavesD [OF leaves_removeAll [OF nsrv] r(1)])
  with s1 r x show ?thesis
    by (intro exI [of _ s2] exI [of _ rv]) (simp add: handle_decide handle_run ret_run)
qed

lemma decide_not_fenced: "decide a b False = Nothing \<or> decide a b False = Taint"
  by (cases a; cases b) simp_all

lemma apply_op_key: "apply_op p v = Some v' \<Longrightarrow> Namespace v' = Namespace v \<and> Name v' = Name v"
  by (auto simp: apply_op_def split: if_splits bind_splits)

lemma apply_ops_key: "apply_ops ops v = Some v' \<Longrightarrow> Namespace v' = Namespace v \<and> Name v' = Name v"
proof (induction ops arbitrary: v)
  case (Cons p ps)
  then obtain v1 where "apply_op p v = Some v1" "apply_ops ps v1 = Some v'" by (auto split: bind_splits)
  with Cons.IH [of v1] apply_op_key show ?case by fastforce
qed simp

section \<open>A concrete shutdown\<close>

definition demo_node :: node where
  "demo_node = \<lparr>Namespace = '''', Name = ''node-1'', ResourceVersion = ''1'', Labels = None,
     Annotations = None, CreationTimestamp = None, DeletionTimestamp = None,
     Taints = [\<lparr>TaintKey = ''dedicated'', TaintValue = ''db'', TaintEffect = ''NoSchedule''\<rparr>],
     NodeConditions = [\<lparr>CondType = ''Ready'', CondStatus = ''Unknown''\<rparr>]\<rparr>"

text \<open>A node that is not ready, and its machine, which is stopped and has one hotplugged volume.\<close>

definition stopped_vm :: vm where
  "stopped_vm = \<lparr>Namespace = ''default'', Name = ''node-1'', ResourceVersion = ''7'', Labels = None,
     Annotations = None, CreationTimestamp = None, DeletionTimestamp = None,
     Template = Some \<lparr>Volumes = [\<lparr>volName = ''root'', volPVC = None\<rparr>, hotplug_volume ''pvc-1''],
       Disks = [\<lparr>diskName = ''root'', diskBus = Some ''virtio''\<rparr>, hotplug_disk ''pvc-1'']\<rparr>,
     VMConditions = [\<lparr>CondType = ''Ready'', CondStatus = ''False''\<rparr>],
     PrintableStatus = ''Stopped''\<rparr>"

definition shutdown_mem :: mem where
  "shutdown_mem = empty_mem\<lparr>mNodes := [demo_node], mVMs := [stopped_vm]\<rparr>"

definition demo_controller :: controller where
  "demo_controller = \<lparr>nodeName = ''node-1'', namespace = ''default'', ncDeclarativeHotplug = True\<rparr>"

definition reserved_node :: node where
  "reserved_node = demo_node\<lparr>Taints := [\<lparr>TaintKey = nonGracefulTaintKey, TaintValue = ''nodeshutdown'',
     TaintEffect = ''NoSchedule''\<rparr>]\<rparr>"

lemma shutdown_look:
  "look (mNodes shutdown_mem) '''' ''node-1'' = Some demo_node"
  "look (mVMs shutdown_mem) ''default'' ''node-1'' = Some stopped_vm"
  by (simp_all add: shutdown_mem_def demo_node_def stopped_vm_def has_key_def)

lemma mem_node_api: "node_api mem_api (\<lambda>w. look (mNodes w))"
  unfolding node_api_def
  by (intro conjI mem_keyed)
    (auto simp: mem_api_def mem_laws node_admits_def keeps_def mem_patch_def
      mem_vm_remove_volume_def Let_def split: option.splits)

lemma mem_patch_available: "patch_available mem_api (\<lambda>w. look (mVMs w))"
  unfolding patch_available_def
proof (intro allI impI)
  fix ns n ops v0 and w :: mem
  assume v0: "look (mVMs w) ns n = Some v0" and "apply_ops ops v0 \<noteq> None"
  then obtain v1 where v1: "apply_ops ops v0 = Some v1" by blast
  with v0 keyedD [OF mem_keyed [of mVMs] v0] apply_ops_key [OF v1]
  show "\<exists>v w'. vmPatch mem_api ns n ops w = (Inr v, w')"
    by (simp add: mem_api_def mem_patch_def Let_def has_key_def)
qed

lemma mem_vm_api: "vm_api mem_api (\<lambda>w. look (mVMs w))"
  unfolding vm_api_def
  by (intro conjI mem_keyed mem_patch_law mem_patch_available)
    (simp_all add: mem_api_def mem_laws mem_available)

lemma mem_update_available: "update_available (guestNodes mem_api) (\<lambda>w. look (mNodes w))"
  by (auto simp: update_available_def mem_api_def mem_client_def split: option.splits)

section \<open>Properties\<close>

text \<open>
  C3: along every run of the controller and the other actors, with events that may carry any
  earlier version of the node, each write to the virtual machine comes after a successful
  update of the node: no volume is detached before the node was tainted, as long as nobody else
  puts the out-of-service taint on it.
\<close>

theorem fence_before_detach:
  assumes "node_api api nodes" and "fencing api c nodes n s seen"
  shows "taint_first n (calls s)"
  using fencing_invariant [OF assms] by blast

theorem fence_before_detach_witness:
  "\<exists>s seen. fencing mem_api demo_controller (\<lambda>w. look (mNodes w)) ''node-1'' s seen \<and>
     Call VPatch VMs ''default'' ''node-1'' None \<in> set (calls s) \<and> taint_first ''node-1'' (calls s)"
proof -
  let ?nodes = "\<lambda>w. look (mNodes w)"
  let ?ev = "OnNodesChange mem_api demo_controller"
  define s1 where "s1 = snd (?ev (Some demo_node) (in_mem shutdown_mem))"
  define x1 where "x1 = the (look (mNodes (world s1)) '''' ''node-1'')"
  define s2 where "s2 = snd (?ev (Some x1) s1)"
  have "\<not> fenced demo_node" by code_simp
  with shutdown_look(1) have f0: "fencing mem_api demo_controller ?nodes ''node-1'' (in_mem shutdown_mem) {demo_node}"
    unfolding in_mem_def by (rule fencing.start)
  have x1: "look (mNodes (world s1)) '''' ''node-1'' = Some x1" 
  proof -
    have "\<not> Option.is_none (look (mNodes (world s1)) '''' ''node-1'')" unfolding s1_def by code_simp
    then show ?thesis by (simp add: x1_def Option.is_none_def)
  qed
  have "?ev (Some demo_node) (in_mem shutdown_mem) =
      (fst (?ev (Some demo_node) (in_mem shutdown_mem)), s1)" by (simp add: s1_def)
  from fencing.reconcile [OF f0 _ this] x1
  have f1: "fencing mem_api demo_controller ?nodes ''node-1'' s1 {demo_node, x1}"
    by (simp add: insert_commute)
  have "?ev (Some x1) s1 = (fst (?ev (Some x1) s1), s2)" by (simp add: s2_def)
  from fencing.reconcile [OF f1 _ this] obtain seen where
    f2: "fencing mem_api demo_controller ?nodes ''node-1'' s2 seen" by blast
  have "Call VPatch VMs ''default'' ''node-1'' None \<in> set (calls s2)"
    unfolding s2_def x1_def s1_def by code_simp
  with f2 fence_before_detach [OF mem_node_api f2] show ?thesis by blast
qed





text \<open>
  C36: adding the taint to a node without one and removing it again gives the node its taints
  back, and changes no other node.
\<close>

theorem taint_roundtrip:
  assumes "node_api api nodes" and "nodes (world s) '''' n = Some x"
    and "getNodeTaint (Taints x) nonGracefulTaintKey = None"
    and "addTaint api x s = (Ok (Some x1), s1)" and "removeTaint api x1 s1 = (Ok (Some x2), s2)"
  shows "fenced x1 \<and> Taints x2 = Taints x \<and> nodes (world s2) = stored (nodes (world s)) '''' n x2"
proof -
  from keyedD [OF node_apiD(1) [OF assms(1)] assms(2)] have k: "Namespace x = ''''" "Name x = n"
    by auto
  let ?y = "x\<lparr>Taints := Taints x @ [outOfService]\<rparr>"
  from assms(4) have "cupdate (guestNodes api) ?y (world s) = (Inr x1, world s1)"
    by (auto simp: addTaint_def outOfService_def Let_def andThen_returns kUpdate_returns ret_run)
  from update_law_Ok [OF node_apiD(2) [OF assms(1)] this] k have
    a: "node_admits ?y x1" "nodes (world s1) = stored (nodes (world s)) '''' n x1" by simp_all
  then have f: "fenced x1" using assms(3)
    by (simp add: fenced_def node_admits_def getNodeTaint_append taintWithNoExecute_def outOfService_def)
  let ?z = "x1\<lparr>Taints := filter (\<lambda>t. TaintKey t \<noteq> nonGracefulTaintKey) (Taints x1)\<rparr>"
  from assms(5) have "cupdate (guestNodes api) ?z (world s1) = (Inr x2, world s2)"
    by (auto simp: removeTaint_run [OF f] andThen_returns kUpdate_returns ret_run)
  from update_law_Ok [OF node_apiD(2) [OF assms(1)] this] a k have
    "node_admits ?z x2" "nodes (world s2) = stored (nodes (world s)) '''' n x2"
    by (simp_all add: node_admits_def)
  moreover have "filter (\<lambda>t. TaintKey t \<noteq> nonGracefulTaintKey) (Taints x1) = Taints x"
    using a(1) assms(3)
    by (simp add: node_admits_def outOfService_def getNodeTaint_None filter_id_conv)
  ultimately show ?thesis using f by (simp add: node_admits_def)
qed

theorem taint_roundtrip_witness:
  "\<exists>x1 s1 x2 s2. addTaint mem_api demo_node (in_mem shutdown_mem) = (Ok (Some x1), s1) \<and> fenced x1 \<and>
     removeTaint mem_api x1 s1 = (Ok (Some x2), s2) \<and> Taints x2 = Taints demo_node"
proof -
  let ?add = "addTaint mem_api demo_node (in_mem shutdown_mem)"
  obtain x1 s1 where s1: "?add = (Ok (Some x1), s1)"
    by (simp add: addTaint_def mem_api_def mem_client_def kUpdate_def perform_run andThen_run ret_run
        shutdown_mem_def demo_node_def has_key_def Let_def)
  have "is_Ok (fst (removeTaint mem_api (case fst ?add of Ok (Some y) \<Rightarrow> y | _ \<Rightarrow> demo_node) (snd ?add)))"
    by code_simp
  with s1 have "is_Ok (fst (removeTaint mem_api x1 s1))" by simp
  then obtain y s2 where y: "removeTaint mem_api x1 s1 = (Ok y, s2)" by (rule is_Ok_run)
  then obtain x2 where x2: "y = Some x2"
    by (auto simp: removeTaint_def andThen_returns ret_run panic_run Let_def split: if_splits)
  have "getNodeTaint (Taints demo_node) nonGracefulTaintKey = None" by code_simp
  from taint_roundtrip [OF mem_node_api _ this s1 y [unfolded x2]] shutdown_look(1) s1 y x2 show ?thesis by auto
qed

text \<open>
  When the first out-of-service taint of the node has another effect than NoExecute, an
  event never detaches a volume, and the node it stores is in the same situation again, with
  one more taint.
\<close>

lemma other_effect_never_detaches:
  assumes "node_api api nodes" and "Namespace x = ''''" and "Name x = n"
    and "getNodeTaint (Taints x) nonGracefulTaintKey = Some t"
    and "TaintEffect t \<noteq> TaintEffectNoExecute"
    and "OnNodesChange api c (Some x) s = (r, s')"
  shows "(\<exists>tr. calls s' = calls s @ tr \<and>
      (\<forall>k \<in> set tr. call_kind k = VMs \<longrightarrow> read_only k)) \<and>
    (\<forall>y. r = Ok (Some y) \<longrightarrow> getNodeTaint (Taints y) nonGracefulTaintKey = Some t)"
proof -
  have nf: "\<not> fenced x" using assms(4,5) by (simp add: fenced_def taintWithNoExecute_def)
  have "\<forall>y. r = Ok (Some y) \<longrightarrow> getNodeTaint (Taints y) nonGracefulTaintKey = Some t"
    using assms(6)
  proof (cases rule: OnNodesChange_cases)
    case (act cond v vcond s1)
    consider (no) "r = Ok None" | (taint) "addTaint api x s1 = (r, s')"
      using act(5) nf decide_not_fenced [of "CondStatus cond = ConditionTrue"
          "CondStatus vcond = ConditionTrue \<and> PrintableStatus v = VirtualMachineStatusRunning"]
      by (auto simp: handle_decide ret_run)
    then show ?thesis
    proof cases
      case taint
      then show ?thesis using assms(4)
        by (auto simp: addTaint_def andThen_returns kUpdate_returns ret_run node_admits_def
            getNodeTaint_append dest!: update_law_Ok [OF node_apiD(2) [OF assms(1)]])
    qed simp
  qed (use assms(4) in auto)
  with OnNodesChange_step [OF assms(1,6,2,3)] nf show ?thesis by blast
qed

lemma other_effect_never_detaches_witness:
  "\<exists>y s'. OnNodesChange mem_api demo_controller (Some reserved_node)
      (in_mem (shutdown_mem\<lparr>mNodes := [reserved_node]\<rparr>)) = (Ok (Some y), s') \<and>
     \<not> fenced y \<and> length (Taints y) = 2"
proof -
  let ?run = "OnNodesChange mem_api demo_controller (Some reserved_node)
      (in_mem (shutdown_mem\<lparr>mNodes := [reserved_node]\<rparr>))"
  have "(case fst ?run of Ok (Some y) \<Rightarrow> length (Taints y) = 2 | _ \<Rightarrow> False)" by code_simp
  then obtain y s' where y: "?run = (Ok (Some y), s')" "length (Taints y) = 2"
    by (cases ?run) (auto split: result.splits option.splits)
  have "getNodeTaint (Taints reserved_node) nonGracefulTaintKey =
      Some \<lparr>TaintKey = nonGracefulTaintKey, TaintValue = ''nodeshutdown'', TaintEffect = ''NoSchedule''\<rparr>"
    by (simp add: reserved_node_def)
  from other_effect_never_detaches [OF mem_node_api _ refl this _ y(1)] y show ?thesis
    by (auto simp: reserved_node_def demo_node_def TaintEffectNoExecute_def fenced_def
        taintWithNoExecute_def)
qed

end
