(* ===== verification/Node_Files.thy ===== *)
theory Node_Files
  imports Kube_Api
begin

text \<open>
  The node's operating system as the node server uses it, and the helpers of \<open>pkg/csi/util.go\<close>
  that touch files.

  The system calls, the vendored mount package and the executor that runs commands in the
  host's name spaces are third-party code: a value of type \<open>'w os\<close> gives their answers for any
  world of type \<open>'w\<close>, like the API servers of \<open>Kube_Api\<close>. Nothing is assumed of them here. The
  lexical functions of Go's package \<open>filepath\<close> are modelled.
\<close>

section \<open>Paths and quoting\<close>

text \<open>\<open>strings.Split(s, "/")\<close> and \<open>strings.Join(elems, "/")\<close>.\<close>

fun split_slash :: "string \<Rightarrow> string list" where
  "split_slash [] = [[]]"
| "split_slash (c # s) =
     (if c = CHR ''/'' then [] # split_slash s
      else case split_slash s of [] \<Rightarrow> [[c]] | x # xs \<Rightarrow> (c # x) # xs)"

fun join_slash :: "string list \<Rightarrow> string" where
  "join_slash [] = []"
| "join_slash [x] = x"
| "join_slash (x # y # xs) = x @ ''/'' @ join_slash (y # xs)"

text \<open>\<open>filepath.Clean\<close>: the elements kept so far, the last one first.\<close>

definition clean_step :: "bool \<Rightarrow> string \<Rightarrow> string list \<Rightarrow> string list" where
  "clean_step rooted elem out =
     (if elem = '''' \<or> elem = ''.'' then out
      else if elem = ''..'' then
        (case out of
           [] \<Rightarrow> if rooted then [] else [''..'']
         | c # cs \<Rightarrow> if c = ''..'' then ''..'' # out else cs)
      else elem # out)"

definition Clean :: "string \<Rightarrow> string" where
  "Clean path =
     (if path = '''' then ''.''
      else
        (let rooted = (hd path = CHR ''/'');
             comps = rev (fold (clean_step rooted) (split_slash path) []) in
         if rooted then ''/'' @ join_slash comps
         else if comps = [] then ''.''
         else join_slash comps))"

text \<open>\<open>filepath.Dir\<close> cleans the text up to the last slash; \<open>filepath.Join\<close> of two elements.\<close>

definition Dir :: "string \<Rightarrow> string" where
  "Dir path = Clean (rev (dropWhile (\<lambda>c. c \<noteq> CHR ''/'') (rev path)))"

definition Join :: "string \<Rightarrow> string \<Rightarrow> string" where
  "Join a b =
     (if a \<noteq> '''' then Clean (join_slash [a, b])
      else if b \<noteq> '''' then Clean b
      else '''')"

text \<open>
  \<open>strconv.Quote\<close>, which the verb \<open>%q\<close> prints. Bytes above 127 are copied, as Go does for
  printable characters; it would escape the others.
\<close>

fun hex_digit :: "nat \<Rightarrow> char" where
  "hex_digit n = (if n < 10 then char_of (48 + n) else char_of (87 + n))"

definition quote_char :: "char \<Rightarrow> string" where
  "quote_char c =
     (let n = of_char c :: nat in
      if n = 34 then [char_of (92 :: nat), c]
      else if n = 92 then [c, c]
      else if n = 7 then [char_of (92 :: nat), CHR ''a'']
      else if n = 8 then [char_of (92 :: nat), CHR ''b'']
      else if n = 12 then [char_of (92 :: nat), CHR ''f'']
      else if n = 10 then [char_of (92 :: nat), CHR ''n'']
      else if n = 13 then [char_of (92 :: nat), CHR ''r'']
      else if n = 9 then [char_of (92 :: nat), CHR ''t'']
      else if n = 11 then [char_of (92 :: nat), CHR ''v'']
      else if n < 32 \<or> n = 127 then
        [char_of (92 :: nat), CHR ''x'', hex_digit (n div 16), hex_digit (n mod 16)]
      else [c])"

definition Quote :: "string \<Rightarrow> string" where
  "Quote s = [char_of (34 :: nat)] @ concat (map quote_char s) @ [char_of (34 :: nat)]"

section \<open>The operating system\<close>

text \<open>\<open>unix.Statfs_t\<close>: counters are \<open>uint64\<close>, the block size is \<open>int64\<close>.\<close>

record statfs_t =
  Bsize :: int64
  Blocks :: "64 word"
  Bfree :: "64 word"
  Bavail :: "64 word"
  Files :: "64 word"
  Ffree :: "64 word"

text \<open>
  The mount package answers \<open>false\<close> together with every error of \<open>IsMountPoint\<close>, so the error
  alone is the answer. \<open>openCreate\<close> is \<open>os.OpenFile\<close> with \<open>O_CREATE\<close> and the \<open>Close\<close> after it;
  \<open>osIsDir\<close> is \<open>os.Stat\<close> and \<open>IsDir\<close>; \<open>combinedOutput\<close> answers the output also with an error.
  \<open>newExecutor\<close> and \<open>execute\<close> are the executor for the host's name spaces.
\<close>

record 'w os =
  isMountPoint :: "string \<Rightarrow> ('w, bool) request"
  isLikelyNotMountPoint :: "string \<Rightarrow> ('w, bool) request"
  mountFS :: "string \<Rightarrow> string \<Rightarrow> string \<Rightarrow> string list \<Rightarrow> ('w, unit) request"
  formatAndMount :: "string \<Rightarrow> string \<Rightarrow> string \<Rightarrow> string list \<Rightarrow> ('w, unit) request"
  unmountFS :: "string \<Rightarrow> ('w, unit) request"
  cleanupMountPoint :: "string \<Rightarrow> ('w, unit) request"
  pathExists :: "string \<Rightarrow> ('w, bool) request"
  mkdirAll :: "string \<Rightarrow> nat \<Rightarrow> ('w, unit) request"
  openCreate :: "string \<Rightarrow> nat \<Rightarrow> ('w, unit) request"
  removeFile :: "string \<Rightarrow> ('w, unit) request"
  readDir :: "string \<Rightarrow> ('w, string list) request"
  evalSymlinks :: "string \<Rightarrow> ('w, string) request"
  osIsDir :: "string \<Rightarrow> ('w, bool) request"
  unixStatMode :: "string \<Rightarrow> ('w, 32 word) request"
  unixStatfs :: "string \<Rightarrow> ('w, statfs_t) request"
  newExecutor :: "('w, unit) request"
  execute :: "string \<Rightarrow> string list \<Rightarrow> ('w, string) request"
  combinedOutput :: "string \<Rightarrow> string list \<Rightarrow> 'w \<Rightarrow> (string \<times> gerror option) \<times> 'w"

text \<open>The calls, logged.\<close>

definition IsMountPoint :: "'w os \<Rightarrow> string \<Rightarrow> ('w, bool) io" where
  "IsMountPoint os p = perform VGet NodeFS '''' p (isMountPoint os p)"

definition IsLikelyNotMountPoint :: "'w os \<Rightarrow> string \<Rightarrow> ('w, bool) io" where
  "IsLikelyNotMountPoint os p = perform VGet NodeFS '''' p (isLikelyNotMountPoint os p)"

definition MountFS ::
  "'w os \<Rightarrow> string \<Rightarrow> string \<Rightarrow> string \<Rightarrow> string list \<Rightarrow> ('w, unit) io" where
  "MountFS os source target fstype options =
     perform VMount NodeFS source target (mountFS os source target fstype options)"

definition FormatAndMount ::
  "'w os \<Rightarrow> string \<Rightarrow> string \<Rightarrow> string \<Rightarrow> string list \<Rightarrow> ('w, unit) io" where
  "FormatAndMount os source target fstype options =
     perform VFormatAndMount NodeFS source target (formatAndMount os source target fstype options)"

definition Unmount :: "'w os \<Rightarrow> string \<Rightarrow> ('w, unit) io" where
  "Unmount os p = perform VUnmount NodeFS '''' p (unmountFS os p)"

definition CleanupMountPoint :: "'w os \<Rightarrow> string \<Rightarrow> ('w, unit) io" where
  "CleanupMountPoint os p = perform VDelete NodeFS '''' p (cleanupMountPoint os p)"

definition PathExists :: "'w os \<Rightarrow> string \<Rightarrow> ('w, bool) io" where
  "PathExists os p = perform VGet NodeFS '''' p (pathExists os p)"

definition MkdirAll :: "'w os \<Rightarrow> string \<Rightarrow> nat \<Rightarrow> ('w, unit) io" where
  "MkdirAll os p perm = perform VCreate NodeFS '''' p (mkdirAll os p perm)"

definition Remove :: "'w os \<Rightarrow> string \<Rightarrow> ('w, unit) io" where
  "Remove os p = perform VDelete NodeFS '''' p (removeFile os p)"

definition ReadDir :: "'w os \<Rightarrow> string \<Rightarrow> ('w, string list) io" where
  "ReadDir os p = perform VList NodeFS '''' p (readDir os p)"

definition EvalSymlinks :: "'w os \<Rightarrow> string \<Rightarrow> ('w, string) io" where
  "EvalSymlinks os p = perform VGet NodeFS '''' p (evalSymlinks os p)"

definition IsDir :: "'w os \<Rightarrow> string \<Rightarrow> ('w, bool) io" where
  "IsDir os p = perform VGet NodeFS '''' p (osIsDir os p)"

definition NewExecutor :: "'w os \<Rightarrow> ('w, unit) io" where
  "NewExecutor os = perform VGet HostCommands ''nsenter'' ''-V'' (newExecutor os)"

definition Execute :: "'w os \<Rightarrow> string \<Rightarrow> string list \<Rightarrow> ('w, string) io" where
  "Execute os cmd args = perform VExec HostCommands cmd (last args) (execute os cmd args)"

definition CombinedOutput ::
  "'w os \<Rightarrow> string \<Rightarrow> string list \<Rightarrow> ('w, string \<times> gerror option) io" where
  "CombinedOutput os cmd args = (\<lambda>s.
     case combinedOutput os cmd args (world s) of
       ((out, err), w) \<Rightarrow>
         (Ok (out, err),
          \<lparr>world = w, calls = calls s @ [Call VExec NodeCommands cmd (last args) err]\<rparr>))"

section \<open>Helpers of util.go\<close>

text \<open>Permission bits are octal in Go: 0644 is 420, 0755 is 493, 0750 is 488.\<close>

definition makeDir :: "'w os \<Rightarrow> string \<Rightarrow> ('w, unit) io" where
  "makeDir os pathname =
     handle (MkdirAll os pathname 493)
       (\<lambda>err. if \<not> IsExist err then fail err else ret ())
       (\<lambda>_. ret ())"

definition makeFile :: "'w os \<Rightarrow> string \<Rightarrow> ('w, unit) io" where
  "makeFile os pathname =
     handle (perform VCreate NodeFS '''' pathname (openCreate os pathname 420))
       (\<lambda>err. if \<not> IsExist err then fail err else ret ())
       (\<lambda>_. ret ())"

text \<open>\<open>unix.S_IFMT\<close> and \<open>unix.S_IFBLK\<close>.\<close>

definition S_IFMT :: "32 word" where "S_IFMT = 0xf000"
definition S_IFBLK :: "32 word" where "S_IFBLK = 0x6000"

definition isBlockDevice :: "'w os \<Rightarrow> string \<Rightarrow> ('w, bool) io" where
  "isBlockDevice os volumePath =
     andThen (perform VGet NodeFS '''' volumePath (unixStatMode os volumePath)) (\<lambda>mode.
     ret (and mode S_IFMT = S_IFBLK))"

record volumeFilesystemStatistics =
  availableBytes :: int64
  totalBytes :: int64
  usedBytes :: int64
  availableInodes :: int64
  totalInodes :: int64
  usedInodes :: int64

text \<open>The conversions \<open>int64(x)\<close> of unsigned counters keep the bits.\<close>

definition statistics_of :: "statfs_t \<Rightarrow> volumeFilesystemStatistics" where
  "statistics_of statfs =
     \<lparr>availableBytes = Bavail statfs * Bsize statfs,
      totalBytes = Blocks statfs * Bsize statfs,
      usedBytes = (Blocks statfs - Bfree statfs) * Bsize statfs,
      availableInodes = Ffree statfs,
      totalInodes = Files statfs,
      usedInodes = Files statfs - Ffree statfs\<rparr>"

definition getFilesystemStatistics ::
  "'w os \<Rightarrow> string \<Rightarrow> ('w, volumeFilesystemStatistics) io" where
  "getFilesystemStatistics os volumePath =
     andThen (perform VGet NodeFS '''' volumePath (unixStatfs os volumePath)) (\<lambda>statfs.
     ret (statistics_of statfs))"

section \<open>What the theorems speak of\<close>

text \<open>A file system whose counters are consistent and whose size in bytes fits into an \<open>int64\<close>.\<close>

definition sane_statfs :: "statfs_t \<Rightarrow> bool" where
  "sane_statfs st \<longleftrightarrow>
     0 < sint (Bsize st) \<and> uint (Bavail st) \<le> uint (Bfree st) \<and> uint (Bfree st) \<le> uint (Blocks st) \<and>
     uint (Ffree st) \<le> uint (Files st) \<and> uint (Files st) < 2 ^ 63 \<and>
     uint (Blocks st) * sint (Bsize st) < 2 ^ 63"

section \<open>Lemmas\<close>

lemma sint_eq_uint: "uint (x :: int64) < 2 ^ 63 \<Longrightarrow> sint x = uint x"
proof -
  assume "uint x < 2 ^ 63"
  moreover have "- (2 ^ 63) \<le> uint x" by (rule order_trans [of _ 0]) simp_all
  ultimately have "signed_take_bit 63 (uint x) = uint x" by (intro signed_take_bit_int_eq_self)
  then show ?thesis by (simp add: sint_uint)
qed

lemma sint_times:
  assumes "0 \<le> sint a" "0 \<le> sint b" "sint a * sint b < 2 ^ 63"
  shows "sint (a * b :: int64) = sint a * sint b"
proof -
  have "0 \<le> sint a * sint b" using assms(1,2) by simp
  with assms(3) show ?thesis by (simp add: sint_word_mult signed_take_bit_int_eq_self)
qed

lemma sint_diff_uint:
  assumes "sint a = uint a" "sint b = uint b" "uint b \<le> uint (a :: int64)"
  shows "sint (a - b) = sint a - sint b"
proof (rule sint_int64_diff)
  show "- (2 ^ 63) \<le> sint a - sint b" by (rule order_trans [of _ 0]) (use assms in simp_all)
  have "sint a - sint b \<le> sint a" using assms(2) by simp
  then show "sint a - sint b < 2 ^ 63" using int64_bounds(2) [of a] by linarith
qed

text \<open>A count of blocks times the block size, computed with 64 bits.\<close>

lemma sint_blocks:
  assumes "sint x = k" "0 \<le> k" "k \<le> n" "n * sint b < 2 ^ 63" "0 < sint b"
  shows "sint (x * b :: int64) = k * sint b"
proof -
  have "k * sint b \<le> n * sint b" using assms(3,5) by simp
  with assms(4) have "k * sint b < 2 ^ 63" by linarith
  then show ?thesis using assms(1,2,5) sint_times [of x b] by simp
qed

section \<open>A concrete instance\<close>

definition demo_statfs :: statfs_t where
  "demo_statfs = \<lparr>Bsize = 4096, Blocks = 1000, Bfree = 400, Bavail = 350, Files = 64, Ffree = 60\<rparr>"

section \<open>Properties\<close>

text \<open>
  C37: for a file system with consistent counters whose size fits into an \<open>int64\<close>, the statistics
  are exact: nothing wraps around, used and available bytes are not negative and together do
  not exceed the total, and used and free inodes make up all inodes.
\<close>

theorem statistics_exact:
  assumes "sane_statfs st"
  shows "sint (totalBytes (statistics_of st)) = uint (Blocks st) * sint (Bsize st) \<and>
    sint (usedBytes (statistics_of st)) = (uint (Blocks st) - uint (Bfree st)) * sint (Bsize st) \<and>
    sint (availableBytes (statistics_of st)) = uint (Bavail st) * sint (Bsize st) \<and>
    0 \<le> sint (usedBytes (statistics_of st)) \<and>
    sint (usedBytes (statistics_of st)) + sint (availableBytes (statistics_of st))
      \<le> sint (totalBytes (statistics_of st)) \<and>
    sint (usedInodes (statistics_of st)) + sint (availableInodes (statistics_of st)) =
      sint (totalInodes (statistics_of st))"
proof -
  let ?n = "uint (Blocks st)" and ?f = "uint (Bfree st)" and ?a = "uint (Bavail st)"
  from assms have b: "0 < sint (Bsize st)" "?a \<le> ?f" "?f \<le> ?n" "?n * sint (Bsize st) < 2 ^ 63"
    by (simp_all add: sane_statfs_def)
  have "?n \<le> ?n * sint (Bsize st)" using b(1) uint_ge_0 [of "Blocks st"] by (simp add: mult_le_cancel_left1)
  with b have s: "sint (Blocks st) = ?n" "sint (Bfree st) = ?f" "sint (Bavail st) = ?a"
    by (auto intro!: sint_eq_uint)
  then have d: "sint (Blocks st - Bfree st) = ?n - ?f"
    using sint_diff_uint b(3) by simp
  have t: "sint (Blocks st * Bsize st) = ?n * sint (Bsize st)"
    "sint ((Blocks st - Bfree st) * Bsize st) = (?n - ?f) * sint (Bsize st)"
    "sint (Bavail st * Bsize st) = ?a * sint (Bsize st)"
    using b s d uint_ge_0 [of "Bavail st"] uint_ge_0 [of "Bfree st"] uint_ge_0 [of "Blocks st"]
    by (auto intro!: sint_blocks [where n = ?n])
  have "(?n - ?f + ?a) * sint (Bsize st) \<le> ?n * sint (Bsize st)"
    using b by (intro mult_right_mono) auto
  then have "(?n - ?f) * sint (Bsize st) + ?a * sint (Bsize st) \<le> ?n * sint (Bsize st)"
    by (simp add: distrib_right)
  moreover have "sint (Files st - Ffree st) + sint (Ffree st) = sint (Files st)"
  proof -
    from assms have "sint (Files st) = uint (Files st)" "sint (Ffree st) = uint (Ffree st)"
      "uint (Ffree st) \<le> uint (Files st)"
      by (auto simp: sane_statfs_def intro!: sint_eq_uint)
    then show ?thesis using sint_diff_uint by simp
  qed
  ultimately show ?thesis using t b by (simp add: statistics_of_def)
qed

theorem statistics_exact_witness:
  "sint (usedBytes (statistics_of demo_statfs)) + sint (availableBytes (statistics_of demo_statfs))
     \<le> sint (totalBytes (statistics_of demo_statfs)) \<and> 0 < sint (usedBytes (statistics_of demo_statfs))"
proof -
  have "sane_statfs demo_statfs" by (simp add: sane_statfs_def demo_statfs_def)
  from statistics_exact [OF this] show ?thesis by (simp add: demo_statfs_def)
qed

end
