(* ===== verification/Node_Server.thy ===== *)
theory Node_Server
  imports Node_Files Mem_Api Controller_Base
begin

text \<open>
  The node server (\<open>pkg/csi/node_server.go\<close>): staging and publishing of volumes on the node,
  unpublishing, statistics and expansion.

  The clients of the Harvester cluster and the operating system are parameters over the same
  world. \<open>NodeUnpublishVolume\<close> loops until the target is no mount point any more, so it may not
  return: its model answers \<open>None\<close> then.
\<close>

section \<open>Requests and the server's state\<close>

record node_stage_request =
  sgVolumeId :: string
  sgStagingTargetPath :: string
  sgCapability :: "volcap option"

record node_unstage_request =
  ugVolumeId :: string
  ugStagingTargetPath :: string

record node_publish_request =
  npVolumeId :: string
  npTargetPath :: string
  npStagingTargetPath :: string
  npCapability :: "volcap option"

record node_unpublish_request =
  nuVolumeId :: string
  nuTargetPath :: string

record node_stats_request =
  gsVolumeId :: string
  gsVolumePath :: string

datatype usage_unit = BYTES | INODES

record volume_usage =
  Available :: int64
  Total :: int64
  Used :: int64
  Unit :: usage_unit

datatype node_rpc_type =
  NODE_UNKNOWN | STAGE_UNSTAGE_VOLUME | GET_VOLUME_STATS | NODE_EXPAND_VOLUME

datatype node_service_cap = NodeRpcCap (node_cap_type: node_rpc_type)

record 'w node_clients =
  nodePVCs :: "('w, pvc) client"
  nodeVMIs :: "('w, vmi) client"
  nodeNetworkFSs :: "('w, networkfs) client"
  nodeSettings :: "('w, setting) client"

record node_server =
  ns_namespace :: string
  ns_nodeID :: string
  ns_caps :: "node_service_cap list"
  ns_vip :: string

fun getNodeServiceCapabilities :: "node_rpc_type list \<Rightarrow> node_service_cap list" where
  "getNodeServiceCapabilities [] = []"
| "getNodeServiceCapabilities (c # cs) = NodeRpcCap c # getNodeServiceCapabilities cs"

definition NewNodeServer :: "string \<Rightarrow> string \<Rightarrow> string \<Rightarrow> node_server" where
  "NewNodeServer nodeID namespace' vip =
     \<lparr>ns_namespace = namespace', ns_nodeID = nodeID,
      ns_caps = getNodeServiceCapabilities
        [GET_VOLUME_STATS, STAGE_UNSTAGE_VOLUME, NODE_EXPAND_VOLUME],
      ns_vip = vip\<rparr>"

definition NodeGetInfo :: "node_server \<Rightarrow> string" where
  "NodeGetInfo ns = ns_nodeID ns"

definition NodeGetCapabilities :: "node_server \<Rightarrow> node_service_cap list" where
  "NodeGetCapabilities ns = ns_caps ns"

section \<open>Staging\<close>

definition EndpointStatusReady :: string where
  "EndpointStatusReady = ''Ready''"

text \<open>NFSv4 unless the network file system asks for other options.\<close>

definition stageMountOpts :: "networkfs \<Rightarrow> string" where
  "stageMountOpts networkfs =
     (if MountOpts networkfs \<noteq> '''' then MountOpts networkfs else ''vers=4'')"

definition nodeStageRWXVolume ::
  "'w node_clients \<Rightarrow> 'w os \<Rightarrow> node_server \<Rightarrow> node_stage_request \<Rightarrow> ('w, unit) io" where
  "nodeStageRWXVolume cl os ns req =
     (let stagingTargetPath = sgStagingTargetPath req; volName = sgVolumeId req in
      if stagingTargetPath = '''' then
        fail (status_Error InvalidArgument ''staging target path missing in request'')
      else if sgCapability req = None then
        fail (status_Error InvalidArgument ''volume capability missing in request'')
      else
      handle (kGet PVCs (nodePVCs cl) (ns_namespace ns) volName)
        (\<lambda>err. fail (status_Errorf Internal ''Failed to get PVC %v: %v'' [volName, Error err]))
        (\<lambda>pvc.
      let lhVolName = VolumeName pvc in
      handle (kGet NetworkFilesystems (nodeNetworkFSs cl) HarvesterNS lhVolName)
        (\<lambda>err. fail (status_Errorf Internal ''Failed to get NetworkFS %v: %v''
           [lhVolName, Error err]))
        (\<lambda>networkfs.
      if NFSStatus networkfs \<noteq> EndpointStatusReady then
        fail (status_Errorf Internal ''NetworkFS %v is not ready'' [lhVolName])
      else
      let mountOpts = stageMountOpts networkfs;
          export = Sprintf ''%s:/%s'' [NFSEndpoint networkfs, lhVolName];
          args = [''-t'', ''nfs'', ''-o'', mountOpts, export, stagingTargetPath] in
      handle (NewExecutor os)
        (\<lambda>err. fail (status_Errorf Internal ''Could not create executor: %v'' [Error err]))
        (\<lambda>_.
      handle (Execute os ''mount'' args)
        (\<lambda>err. fail (status_Errorf Internal ''Could not mount %v for global path: %v''
           [export, Error err]))
        (\<lambda>_. ret ())))))"

definition NodeStageVolume ::
  "'w node_clients \<Rightarrow> 'w os \<Rightarrow> node_server \<Rightarrow> node_stage_request \<Rightarrow> ('w, unit) io" where
  "NodeStageVolume cl os ns req =
     (case sgCapability req of
        None \<Rightarrow> fail (status_Error InvalidArgument ''Missing volume capability in request'')
      | Some volCaps \<Rightarrow>
          if GetMode volCaps = MULTI_NODE_MULTI_WRITER then nodeStageRWXVolume cl os ns req
          else ret ())"

definition NodeUnstageVolume :: "'w os \<Rightarrow> node_unstage_request \<Rightarrow> ('w, unit) io" where
  "NodeUnstageVolume os req =
     (let stagingTargetPath = ugStagingTargetPath req in
      if stagingTargetPath = '''' then
        fail (status_Error InvalidArgument ''staging target path missing in request'')
      else
      handle (NewExecutor os)
        (\<lambda>err. fail (status_Errorf Internal ''Could not create executor: %v'' [Error err]))
        (\<lambda>_.
      handle (Execute os ''mountpoint'' [stagingTargetPath])
        (\<lambda>err. if Contains (Error err) ''is not a mountpoint'' then ret ()
               else fail (status_Errorf Internal ''Could not check mountpoint %v: %v''
                 [stagingTargetPath, Error err]))
        (\<lambda>out.
      if \<not> Contains out ''is a mountpoint'' then ret ()
      else
      handle (Execute os ''umount'' [stagingTargetPath])
        (\<lambda>err. fail (status_Errorf Internal ''Could not unmount %v: %v''
           [stagingTargetPath, Error err]))
        (\<lambda>_. ret ()))))"

section \<open>Publishing\<close>

definition nodePublishRWXVolume ::
  "'w os \<Rightarrow> node_publish_request \<Rightarrow> string \<Rightarrow> ('w, unit) io" where
  "nodePublishRWXVolume os req targetPath =
     (let stagingTargetPath = npStagingTargetPath req;
          bindMount =
            handle (MountFS os stagingTargetPath targetPath '''' [''bind''])
              (\<lambda>err. fail (status_Errorf Internal
                 ''failed to bind mount volume %s to target path %s: %v''
                 [npVolumeId req, targetPath, Error err]))
              (\<lambda>_. ret ()) in
      if stagingTargetPath = '''' then
        fail (status_Error InvalidArgument ''staging target path missing in request'')
      else
      handle (IsMountPoint os targetPath)
        (\<lambda>err.
           if IsNotExist err then
             handle (MkdirAll os targetPath 488)
               (\<lambda>err'. fail (status_Errorf Internal ''Could not create target dir %s: %v''
                  [targetPath, Error err']))
               (\<lambda>_. bindMount)
           else bindMount)
        (\<lambda>mounted. if mounted then ret () else bindMount))"

definition deviceByIDDirectory :: string where
  "deviceByIDDirectory = ''/dev/disk/by-id/''"

text \<open>The loop over the directory: resolve the first name that contains the volume's.\<close>

fun resolveByID :: "'w os \<Rightarrow> string \<Rightarrow> string list \<Rightarrow> ('w, string) io" where
  "resolveByID os volumeID [] = ret ''''"
| "resolveByID os volumeID (file # files) =
     (if Contains file volumeID then EvalSymlinks os (Join deviceByIDDirectory file)
      else resolveByID os volumeID files)"

definition getDevicePathByVolumeID :: "'w os \<Rightarrow> string \<Rightarrow> ('w, string) io" where
  "getDevicePathByVolumeID os volumeID =
     andThen (ReadDir os deviceByIDDirectory) (\<lambda>files.
     andThen (resolveByID os volumeID files) (\<lambda>target.
     if target = '''' then
       fail (ErrorString (Sprintf ''no matching disk for volume %v'' [volumeID]))
     else ret target))"

definition nodePublishBlockVolume ::
  "'w os \<Rightarrow> string \<Rightarrow> string \<Rightarrow> ('w, unit) io" where
  "nodePublishBlockVolume os devicePath targetPath =
     (let targetDir = Dir targetPath;
          mountTarget =
            handle (makeFile os targetPath)
              (\<lambda>err. fail (status_Errorf Internal ''Error in making file %v'' [Error err]))
              (\<lambda>_.
            handle (MountFS os devicePath targetPath '''' [''bind''])
              (\<lambda>err.
                 handle (Remove os targetPath)
                   (\<lambda>removeErr. fail (status_Errorf Internal
                      ''Could not remove mount target %q: %v'' [Quote targetPath, Error err]))
                   (\<lambda>_. fail (status_Errorf Internal ''Could not mount %q at %q: %v''
                      [Quote devicePath, Quote targetPath, Error err])))
              (\<lambda>_. ret ())) in
      handle (PathExists os targetDir)
        (\<lambda>err. fail (status_Error Internal (Error err)))
        (\<lambda>exists.
      if \<not> exists then
        handle (makeDir os targetDir)
          (\<lambda>err. fail (status_Errorf Internal ''Could not create dir %q: %v''
             [Quote targetDir, Error err]))
          (\<lambda>_. mountTarget)
      else mountTarget))"

definition isLikelyNotMountPointAttach :: "'w os \<Rightarrow> string \<Rightarrow> ('w, bool) io" where
  "isLikelyNotMountPointAttach os targetpath =
     handle (IsLikelyNotMountPoint os targetpath)
       (\<lambda>err.
          if IsNotExist err then andThen (MkdirAll os targetpath 488) (\<lambda>_. ret True)
          else fail err)
       (\<lambda>notMnt. ret notMnt)"

definition resize2fsCmd :: string where "resize2fsCmd = ''resize2fs''"
definition xfsGrowfsCmd :: string where "xfsGrowfsCmd = ''xfs_growfs''"

definition resizeFilesystem :: "'w os \<Rightarrow> string \<Rightarrow> string \<Rightarrow> ('w, unit) io" where
  "resizeFilesystem os targetPath fsType =
     (let grow = (\<lambda>cmd.
        andThen (CombinedOutput os cmd [targetPath]) (\<lambda>(output, err).
        case err of
          Some e \<Rightarrow> fail (ErrorString (Sprintf ''%s failed: %v, output: %s''
                     [cmd, Error e, output]))
        | None \<Rightarrow> ret ())) in
      if fsType = fsTypeExt4 then grow resize2fsCmd
      else if fsType = fsTypeXFS then grow xfsGrowfsCmd
      else fail (ErrorString (Sprintf ''unsupported filesystem type: %s'' [fsType])))"

definition nodePublishMountVolume ::
  "'w os \<Rightarrow> string \<Rightarrow> string \<Rightarrow> string \<Rightarrow> string \<Rightarrow> string list \<Rightarrow> ('w, unit) io" where
  "nodePublishMountVolume os volumeName devicePath targetPath fsType mountFlags =
     handle (isLikelyNotMountPointAttach os targetPath)
       (\<lambda>err. fail (status_Error Internal (Error err)))
       (\<lambda>notMnt.
     if \<not> notMnt then ret ()
     else
     handle (FormatAndMount os devicePath targetPath fsType mountFlags)
       (\<lambda>err. fail (status_Error Internal (Error err)))
       (\<lambda>_.
     handle (resizeFilesystem os devicePath fsType)
       (\<lambda>err. fail (status_Errorf Internal
          ''Failed to resize filesystem for volume %s at %s: %v''
          [volumeName, devicePath, Error err]))
       (\<lambda>_. ret ())))"

definition VolumeReady :: string where
  "VolumeReady = ''Ready''"

fun hotPlugDiskReady :: "string \<Rightarrow> volume_status list \<Rightarrow> bool" where
  "hotPlugDiskReady volumeID [] = False"
| "hotPlugDiskReady volumeID (v # vs) =
     (if vsName v = volumeID \<and> vsHotplug v \<and> vsPhase v = VolumeReady \<and> vsTarget v \<noteq> ''''
      then True else hotPlugDiskReady volumeID vs)"

definition nodePublishRWOVolume ::
  "'w node_clients \<Rightarrow> 'w os \<Rightarrow> node_server \<Rightarrow> node_publish_request \<Rightarrow> string \<Rightarrow> volcap \<Rightarrow>
   ('w, unit) io" where
  "nodePublishRWOVolume cl os ns req targetPath volCaps =
     handle (kGet VMIs (nodeVMIs cl) (ns_namespace ns) (ns_nodeID ns))
       (\<lambda>err. fail (status_Errorf Internal ''Failed to get VMI %v: %v''
          [ns_nodeID ns, Error err]))
       (\<lambda>vmi.
     if \<not> hotPlugDiskReady (npVolumeId req) (VolumeStatus vmi) then
       fail (status_Errorf Aborted ''The hot-plug volume %s is not ready'' [npVolumeId req])
     else
     handle (getDevicePathByVolumeID os (npVolumeId req))
       (\<lambda>err. fail (status_Errorf Internal ''Failed to get device path for volume %v: %v''
          [npVolumeId req, Error err]))
       (\<lambda>devicePath.
     if GetBlock volCaps \<noteq> None then nodePublishBlockVolume os devicePath targetPath
     else case GetMount volCaps of
       Some m \<Rightarrow>
         nodePublishMountVolume os (npVolumeId req) devicePath targetPath
           (if FsType m = '''' then ''ext4'' else FsType m) (MountFlags m)
     | None \<Rightarrow> fail (status_Error InvalidArgument
                 ''Invalid volume capability, neither Mount nor Block'')))"

definition NodePublishVolume ::
  "'w node_clients \<Rightarrow> 'w os \<Rightarrow> node_server \<Rightarrow> node_publish_request \<Rightarrow> ('w, unit) io" where
  "NodePublishVolume cl os ns req =
     (let targetPath = npTargetPath req in
      if targetPath = '''' then
        fail (status_Error InvalidArgument ''Missing target path in request'')
      else case npCapability req of
        None \<Rightarrow> fail (status_Error InvalidArgument ''Missing volume capability in request'')
      | Some volumeCapability \<Rightarrow>
          if GetMode volumeCapability = MULTI_NODE_MULTI_WRITER then
            nodePublishRWXVolume os req targetPath
          else if GetMode volumeCapability = SINGLE_NODE_WRITER then
            nodePublishRWOVolume cl os ns req targetPath volumeCapability
          else fail (status_Error InvalidArgument
                 ''Invalid Access Mode, neither RWX nor RWO''))"

section \<open>Unpublishing\<close>

definition not_mounted :: "gerror \<Rightarrow> bool" where
  "not_mounted err \<longleftrightarrow>
     Contains (Error err) ''not mounted'' \<or> Contains (Error err) ''no mount point specified''"

partial_function (option) unmount_loop ::
  "'w os \<Rightarrow> string \<Rightarrow> 'w st \<Rightarrow> (unit result \<times> 'w st) option" where
  "unmount_loop os targetPath s =
     (case Unmount os targetPath s of
        (Err err, s1) \<Rightarrow>
          if not_mounted err then Some (Ok (), s1)
          else Some (Err (status_Error Internal (Error err)), s1)
      | (Panic, s1) \<Rightarrow> Some (Panic, s1)
      | (Ok _, s1) \<Rightarrow>
          (case IsLikelyNotMountPoint os targetPath s1 of
             (Err err, s2) \<Rightarrow> Some (Err (status_Error Internal (Error err)), s2)
           | (Panic, s2) \<Rightarrow> Some (Panic, s2)
           | (Ok notMnt, s2) \<Rightarrow>
               if notMnt then Some (Ok (), s2) else unmount_loop os targetPath s2))"

declare unmount_loop.simps [code]

definition NodeUnpublishVolume ::
  "'w os \<Rightarrow> node_unpublish_request \<Rightarrow> 'w st \<Rightarrow> (unit result \<times> 'w st) option" where
  "NodeUnpublishVolume os req s =
     (if nuVolumeId req = '''' then
        Some (fail (status_Errorf InvalidArgument ''Missing volume ID in request'' []) s)
      else if nuTargetPath req = '''' then
        Some (fail (status_Error InvalidArgument ''Missing target path in request'') s)
      else
        (case unmount_loop os (nuTargetPath req) s of
           None \<Rightarrow> None
         | Some (Ok _, s1) \<Rightarrow>
             Some (handle (CleanupMountPoint os (nuTargetPath req))
               (\<lambda>err. fail (status_Error Internal (Error err))) (\<lambda>_. ret ()) s1)
         | Some (r, s1) \<Rightarrow> Some (r, s1)))"

section \<open>Statistics\<close>

definition NodeGetVolumeStats ::
  "'w node_clients \<Rightarrow> 'w os \<Rightarrow> node_server \<Rightarrow> node_stats_request \<Rightarrow> ('w, volume_usage list) io" where
  "NodeGetVolumeStats cl os ns req =
     (let volumePath = gsVolumePath req in
      if gsVolumeId req = '''' then
        fail (status_Error InvalidArgument ''Missing volume ID in request'')
      else if volumePath = '''' then
        fail (status_Error InvalidArgument ''Missing volume path in request'')
      else
      handle (isBlockDevice os volumePath)
        (\<lambda>err.
           if Is_errno ENOENT err then
             fail (status_Errorf NotFound ''volume path %v is not mounted'' [volumePath])
           else fail (status_Errorf Internal
             ''failed to check volume mode for volume path %v: %v'' [volumePath, Error err]))
        (\<lambda>isBlockVolume.
      handle (kGet PVCs (nodePVCs cl) (ns_namespace ns) (gsVolumeId req))
        (\<lambda>err. fail (status_Errorf Internal ''Failed to get PVC %v:%v''
           [gsVolumeId req, Error err]))
        (\<lambda>pvc.
      if isBlockVolume then
        ret [\<lparr>Available = 0, Total = Storage (Capacity pvc), Used = 0, Unit = BYTES\<rparr>]
      else
      handle (getFilesystemStatistics os volumePath)
        (\<lambda>err.
           if Is_errno ENOENT err then
             fail (status_Errorf NotFound ''volume path %v is not mounted'' [volumePath])
           else fail (status_Errorf Internal
             ''failed to retrieve capacity statistics for volume path %v: %v''
             [volumePath, Error err]))
        (\<lambda>stats.
      ret [\<lparr>Available = availableBytes stats, Total = totalBytes stats, Used = usedBytes stats,
             Unit = BYTES\<rparr>,
           \<lparr>Available = availableInodes stats, Total = totalInodes stats,
             Used = usedInodes stats, Unit = INODES\<rparr>]))))"

section \<open>Expansion\<close>

definition failedStatErr :: string where
  "failedStatErr = ''failed to stat volume path''"

definition failedMountCheckErr :: string where
  "failedMountCheckErr = ''failed to check mount point''"

definition failedDevicePathErr :: string where
  "failedDevicePathErr = ''failed to get device path for volume''"

definition failedResizeErr :: string where
  "failedResizeErr = ''failed to resize fs on volume''"

definition NodeExpandVolume ::
  "'w node_clients \<Rightarrow> 'w os \<Rightarrow> node_expand_request \<Rightarrow> ('w, int64) io" where
  "NodeExpandVolume cl os req =
     andThen (lift_result (validateNodeExpandReq req)) (\<lambda>_.
     if nodeExpandRWX req then
       fail (status_Errorf Internal ''rwx volume expansion is not supported'' [])
     else
     handle (kGet Settings (nodeSettings cl) '''' csiOnlineExpandValidation)
       (\<lambda>err. fail (status_Errorf Internal ''Failed to get online expansion validation: %v''
          [Error err]))
       (\<lambda>_.
     let volumeID = neVolumeId req; volumePath = neVolumePath req;
         reqSize = GetRequiredBytes (neCapacityRange req) in
     handle (IsDir os volumePath)
       (\<lambda>err. fail (status_Errorf Internal ''%s %q: %v''
          [failedStatErr, Quote volumePath, Error err]))
       (\<lambda>isDir.
     if \<not> isDir then ret reqSize
     else
     handle (isLikelyNotMountPointAttach os volumePath)
       (\<lambda>err. fail (status_Errorf Internal ''%s %q: %v''
          [failedMountCheckErr, Quote volumePath, Error err]))
       (\<lambda>notMnt.
     if notMnt then
       fail (status_Errorf FailedPrecondition ''volume %s is not mounted at %q''
         [volumeID, Quote volumePath])
     else
     handle (getDevicePathByVolumeID os volumeID)
       (\<lambda>err. fail (status_Errorf Internal ''%s %s: %v''
          [failedDevicePathErr, volumeID, Error err]))
       (\<lambda>devicePath.
     handle (lift_result (getNodeFsType req))
       (\<lambda>err. fail (status_Errorf Internal ''failed to get filesystem type for volume %s: %v''
          [volumeID, Error err]))
       (\<lambda>fstype.
     handle (resizeFilesystem os devicePath fstype)
       (\<lambda>err. fail (status_Errorf Internal ''%s %s devPath %s: %v''
          [failedResizeErr, volumeID, devicePath, Error err]))
       (\<lambda>_. ret reqSize)))))))"

section \<open>What the theorems speak of\<close>

text \<open>
  The mounts on the node, as the number of file systems stacked on a path. A successful
  \<open>umount\<close> takes the top one off, and fails with "not mounted" only on a path without any; the
  check is right when it reports that the path is no mount point; the clean-up mounts nothing.
\<close>

definition mount_stack :: "'w os \<Rightarrow> ('w \<Rightarrow> string \<Rightarrow> nat) \<Rightarrow> bool" where
  "mount_stack os depth \<longleftrightarrow>
     (\<forall>p w r w'. unmountFS os p w = (r, w') \<longrightarrow>
        (case r of
           Inr _ \<Rightarrow> 0 < depth w p \<and> depth w' = (depth w)(p := depth w p - 1)
         | Inl e \<Rightarrow> depth w' = depth w \<and> (not_mounted e \<longrightarrow> depth w p = 0))) \<and>
     (\<forall>p w r w'. isLikelyNotMountPoint os p w = (r, w') \<longrightarrow>
        depth w' = depth w \<and> (r = Inr True \<longrightarrow> depth w p = 0)) \<and>
     (\<forall>p w r w'. cleanupMountPoint os p w = (r, w') \<longrightarrow> depth w' p \<le> depth w p)"

text \<open>How many unmounts were tried.\<close>

definition unmounts :: "call list \<Rightarrow> nat" where
  "unmounts tr = length (filter (\<lambda>c. call_verb c = VUnmount) tr)"

text \<open>A device of the node that is linked under a name that contains the volume's.\<close>

definition device_of :: "'w os \<Rightarrow> string \<Rightarrow> string \<Rightarrow> bool" where
  "device_of os vid dev \<longleftrightarrow>
     (\<exists>files file w w1 w2 w3. readDir os deviceByIDDirectory w = (Inr files, w1) \<and>
        file \<in> set files \<and> Contains file vid \<and>
        evalSymlinks os (Join deviceByIDDirectory file) w2 = (Inr dev, w3))"

text \<open>The virtual machine reports the volume as hotplugged and ready.\<close>

definition hotplug_ready :: "'w node_clients \<Rightarrow> node_server \<Rightarrow> string \<Rightarrow> bool" where
  "hotplug_ready cl ns vid \<longleftrightarrow>
     (\<exists>i w w1. cget (nodeVMIs cl) (ns_namespace ns) (ns_nodeID ns) w = (Inr i, w1) \<and>
        (\<exists>v \<in> set (VolumeStatus i). vsName v = vid \<and> vsHotplug v \<and> vsPhase v = VolumeReady \<and>
           vsTarget v \<noteq> ''''))"

text \<open>The calls of the two ways to publish: mounts go from the device to the target.\<close>

definition is_mount :: "call \<Rightarrow> bool" where
  "is_mount c \<longleftrightarrow> call_verb c = VMount \<or> call_verb c = VFormatAndMount"

text \<open>
  The mounts in the host's name space, changed by the commands \<open>mount\<close> and \<open>umount\<close> when they
  succeed and by no other call of the node server.
\<close>

definition host_mounts :: "'w node_clients \<Rightarrow> 'w os \<Rightarrow> ('w \<Rightarrow> string \<Rightarrow> nat) \<Rightarrow> bool" where
  "host_mounts cl os depth \<longleftrightarrow>
     (\<forall>args w r w'. execute os ''mount'' args w = (r, w') \<longrightarrow>
        depth w' = (case r of Inr _ \<Rightarrow> (depth w)(last args := depth w (last args) + 1) | Inl _ \<Rightarrow> depth w)) \<and>
     (\<forall>args w r w'. execute os ''umount'' args w = (r, w') \<longrightarrow>
        depth w' = (case r of Inr _ \<Rightarrow> (depth w)(last args := depth w (last args) - 1) | Inl _ \<Rightarrow> depth w)) \<and>
     (\<forall>args. keeps depth (execute os ''mountpoint'' args)) \<and> keeps depth (newExecutor os) \<and>
     client_keeps depth (nodePVCs cl) \<and> client_keeps depth (nodeNetworkFSs cl)"

section \<open>Lemmas\<close>

lemma unmounts_simps [simp]:
  "unmounts [] = 0" "unmounts (xs @ ys) = unmounts xs + unmounts ys"
  "unmounts (c # xs) = (if call_verb c = VUnmount then 1 else 0) + unmounts xs"
  by (simp_all add: unmounts_def)

lemma mount_stackD:
  assumes "mount_stack os depth"
  shows "unmountFS os p w = (Inr u, w') \<Longrightarrow> 0 < depth w p \<and> depth w' = (depth w)(p := depth w p - 1)"
    and "unmountFS os p w = (Inl e, w') \<Longrightarrow> depth w' = depth w \<and> (not_mounted e \<longrightarrow> depth w p = 0)"
    and "isLikelyNotMountPoint os p w = (r, w') \<Longrightarrow> depth w' = depth w \<and> (r = Inr True \<longrightarrow> depth w p = 0)"
    and "cleanupMountPoint os p w = (q, w') \<Longrightarrow> depth w' p \<le> depth w p"
  using assms unfolding mount_stack_def by (fastforce, fastforce, blast, blast)

lemmas os_call_defs = IsMountPoint_def IsLikelyNotMountPoint_def MountFS_def FormatAndMount_def
  Unmount_def CleanupMountPoint_def PathExists_def MkdirAll_def Remove_def ReadDir_def
  EvalSymlinks_def IsDir_def NewExecutor_def Execute_def

text \<open>One turn of the loop.\<close>

lemma unmount_loop_turn:
  assumes "mount_stack os depth"
  obtains (stop) r s1 tr where "unmount_loop os p s = Some (r, s1)" "calls s1 = calls s @ tr"
      "unmounts tr = 1" "r = Ok () \<longrightarrow> depth (world s1) p = 0" "depth (world s1) p \<le> depth (world s) p"
  | (again) s1 tr where "unmount_loop os p s = unmount_loop os p s1" "calls s1 = calls s @ tr"
      "unmounts tr = 1" "depth (world s1) p < depth (world s) p"
proof (cases "Unmount os p s")
  case (Pair q s1)
  note u = Pair
  show thesis
  proof (cases q)
    case (Err e)
    with u have f: "unmountFS os p (world s) = (Inl e, world s1)"
      "calls s1 = calls s @ [Call VUnmount NodeFS '''' p (Some e)]"
      by (auto simp: Unmount_def perform_returns)
    with u Err mount_stackD(2) [OF assms f(1)] show thesis
      by (intro stop [of "if not_mounted e then Ok () else Err (status_Error Internal (Error e))"
            s1 "[Call VUnmount NodeFS [] p (Some e)]"])
        (auto simp: unmount_loop.simps [of os p s])
  next
    case Panic
    with u show thesis by (auto simp: Unmount_def perform_returns)
  next
    case (Ok x)
    with u have f: "unmountFS os p (world s) = (Inr x, world s1)"
      "calls s1 = calls s @ [Call VUnmount NodeFS '''' p None]"
      by (auto simp: Unmount_def perform_returns)
    note d = mount_stackD(1) [OF assms f(1)]
    obtain q2 s2 where i: "IsLikelyNotMountPoint os p s1 = (q2, s2)" by (cases "IsLikelyNotMountPoint os p s1")
    then obtain y e where y: "isLikelyNotMountPoint os p (world s1) = (y, world s2)"
      "calls s2 = calls s1 @ [Call VGet NodeFS '''' p e]" "q2 = (case y of Inl e \<Rightarrow> Err e | Inr b \<Rightarrow> Ok b)"
      by (auto simp: IsLikelyNotMountPoint_def perform_returns)
    note d2 = mount_stackD(3) [OF assms y(1)]
    show thesis
    proof (cases "y = Inr False")
      case True
      with u Ok i y f d d2 show thesis
        by (intro again [of s2 "[Call VUnmount NodeFS '''' p None, Call VGet NodeFS '''' p e]"])
          (auto simp: unmount_loop.simps [of os p s])
    next
      case False
      with u Ok i y f d d2 show thesis
        by (intro stop [of "case y of Inl e \<Rightarrow> Err (status_Error Internal (Error e)) | Inr _ \<Rightarrow> Ok ()"
              s2 "[Call VUnmount NodeFS '''' p None, Call VGet NodeFS '''' p e]"])
          (auto simp: unmount_loop.simps [of os p s] split: sum.splits)
    qed
  qed
qed

lemma unmount_loop_returns:
  assumes "mount_stack os depth"
  shows "\<exists>r s' tr. unmount_loop os p s = Some (r, s') \<and> calls s' = calls s @ tr \<and>
    unmounts tr \<le> depth (world s) p + 1 \<and> (r = Ok () \<longrightarrow> depth (world s') p = 0)"
proof (induction "depth (world s) p" arbitrary: s rule: less_induct)
  case less
  from assms show ?case
  proof (cases rule: unmount_loop_turn [of os depth p s])
    case (stop r s1 tr)
    then show ?thesis by (intro exI [of _ r] exI [of _ s1] exI [of _ tr]) simp
  next
    case (again s1 tr)
    from less.hyps [OF again(4)] obtain r s' tr' where
      "unmount_loop os p s1 = Some (r, s')" "calls s' = calls s1 @ tr'"
      "unmounts tr' \<le> depth (world s1) p + 1" "r = Ok () \<longrightarrow> depth (world s') p = 0" by blast
    with again show ?thesis
      by (intro exI [of _ r] exI [of _ s'] exI [of _ "tr @ tr'"]) simp
  qed
qed

lemma hotPlugDiskReady_iff:
  "hotPlugDiskReady vid vs \<longleftrightarrow>
     (\<exists>v \<in> set vs. vsName v = vid \<and> vsHotplug v \<and> vsPhase v = VolumeReady \<and> vsTarget v \<noteq> '''')"
  by (induction vs) auto

lemma resolveByID_Ok:
  assumes "resolveByID os vid files s = (Ok dev, s')" and "dev \<noteq> ''''"
  shows "\<exists>file \<in> set files. Contains file vid \<and>
    evalSymlinks os (Join deviceByIDDirectory file) (world s) = (Inr dev, world s')"
  using assms
  by (induction files) (auto simp: EvalSymlinks_def perform_returns ret_run split: if_splits)

lemma getDevicePathByVolumeID_Ok:
  assumes "getDevicePathByVolumeID os vid s = (Ok dev, s')"
  shows "device_of os vid dev"
proof -
  from assms obtain files s1 where "readDir os deviceByIDDirectory (world s) = (Inr files, world s1)"
    "resolveByID os vid files s1 = (Ok dev, s')" "dev \<noteq> ''''"
    by (auto simp: getDevicePathByVolumeID_def andThen_returns ReadDir_def perform_returns ret_run
        fail_run split: if_splits)
  with resolveByID_Ok show ?thesis unfolding device_of_def by blast
qed

lemma issues_CombinedOutput [issues_intros]:
  assumes "\<And>e. P (Call VExec NodeCommands cmd (last args) e)"
  shows "issues P (CombinedOutput os cmd args)"
  using assms by (auto simp: issues_def CombinedOutput_def split: prod.splits)

lemma reads_resolveByID: "issues read_only (resolveByID os vid files)"
  by (induction files) (auto simp: EvalSymlinks_def intro!: issues_intros)

lemma reads_getDevicePathByVolumeID: "issues read_only (getDevicePathByVolumeID os vid)"
  by (auto simp: getDevicePathByVolumeID_def ReadDir_def intro!: issues_intros reads_resolveByID)

lemma issues_any: "issues P m \<Longrightarrow> issues (\<lambda>_. True) m"
  by (rule issues_mono) simp_all

lemma issues_publish_device:
  shows "issues (\<lambda>c. is_mount c \<longrightarrow> call_ns c = dev \<and> call_name c = target)
      (nodePublishBlockVolume os dev target)"
    and "issues (\<lambda>c. is_mount c \<longrightarrow> call_ns c = dev \<and> call_name c = target)
      (nodePublishMountVolume os vid dev target fs flags)"
  unfolding nodePublishBlockVolume_def nodePublishMountVolume_def isLikelyNotMountPointAttach_def
    resizeFilesystem_def makeFile_def makeDir_def os_call_defs Let_def
  by (intro issues_intros; auto simp: is_mount_def)+

lemma host_mountsD:
  assumes "host_mounts cl os depth"
  shows "execute os ''mount'' args w = (Inr out, w') \<Longrightarrow>
      depth w' = (depth w)(last args := depth w (last args) + 1)"
    and "execute os ''umount'' args w = (Inr out, w') \<Longrightarrow>
      depth w' = (depth w)(last args := depth w (last args) - 1)"
    and "execute os ''umount'' args w = (Inl err, w') \<Longrightarrow> depth w' = depth w"
    and "keeps depth (execute os ''mountpoint'' args)" and "keeps depth (newExecutor os)"
    and "client_keeps depth (nodePVCs cl)" and "client_keeps depth (nodeNetworkFSs cl)"
  using assms unfolding host_mounts_def by (fastforce, fastforce, fastforce, blast+)

lemma stage_mounts:
  assumes srv: "host_mounts cl os depth"
    and run: "NodeStageVolume cl os ns req s = (Ok (), s')"
    and cap: "sgCapability req = Some cap" "GetMode cap = MULTI_NODE_MULTI_WRITER"
  shows "depth (world s') = (depth (world s))(sgStagingTargetPath req :=
    depth (world s) (sgStagingTargetPath req) + 1)"
proof -
  let ?args = "\<lambda>n p. [''-t'', ''nfs'', ''-o'', stageMountOpts n,
     Sprintf ''%s:/%s'' [NFSEndpoint n, VolumeName p], sgStagingTargetPath req]"
  from run cap obtain p n out w1 w2 w3 where
    "cget (nodePVCs cl) (ns_namespace ns) (sgVolumeId req) (world s) = (Inr p, w1)"
    "cget (nodeNetworkFSs cl) HarvesterNS (VolumeName p) w1 = (Inr n, w2)"
    "newExecutor os w2 = (Inr (), w3)"
    "execute os ''mount'' (?args n p) w3 = (Inr out, world s')"
    by (auto simp: NodeStageVolume_def nodeStageRWXVolume_def Let_def handle_returns kGet_returns
        NewExecutor_def Execute_def perform_returns fail_run ret_run split: if_splits)
  then show ?thesis
    using host_mountsD(1) [OF srv, of "?args n p"] keepsD [OF host_mountsD(5) [OF srv]]
      keepsD [OF client_keepsD(1) [OF host_mountsD(6) [OF srv]]]
      keepsD [OF client_keepsD(1) [OF host_mountsD(7) [OF srv]]]
    by simp
qed

lemma unstage_unmounts_once:
  assumes srv: "host_mounts cl os depth" and run: "NodeUnstageVolume os req s = (r, s')"
  shows "depth (world s) p \<le> depth (world s') p + 1"
proof -
  obtain q s1 where e: "NewExecutor os s = (q, s1)" by (cases "NewExecutor os s")
  have d1: "depth (world s1) = depth (world s)"
    using e keepsD [OF host_mountsD(5) [OF srv]] by (auto simp: NewExecutor_def perform_returns)
  obtain q2 s2 where m: "Execute os ''mountpoint'' [ugStagingTargetPath req] s1 = (q2, s2)"
    by (cases "Execute os ''mountpoint'' [ugStagingTargetPath req] s1")
  have d2: "depth (world s2) = depth (world s1)"
    using m keepsD [OF host_mountsD(4) [OF srv]] by (auto simp: Execute_def perform_returns)
  obtain q3 s3 where u: "Execute os ''umount'' [ugStagingTargetPath req] s2 = (q3, s3)"
    by (cases "Execute os ''umount'' [ugStagingTargetPath req] s2")
  have d3: "depth (world s2) p \<le> depth (world s3) p + 1"
    using u host_mountsD(2,3) [OF srv, of "[ugStagingTargetPath req]"]
    by (auto simp: Execute_def perform_returns)
  have "s' = s \<or> s' = s1 \<or> s' = s2 \<or> s' = s3"
    using run e m u
    by (cases q; cases q2; cases q3)
      (auto simp: NodeUnstageVolume_def Let_def handle_run fail_run ret_run split: if_splits)
  with d1 d2 d3 show ?thesis by auto
qed

section \<open>A concrete instance\<close>

text \<open>A node in memory: objects of the cluster, mounts as source and target (the latest first),
  mounts in the host's name space, and the links to the disks.\<close>

record node_mem =
  nmPVCs :: "pvc list"
  nmVMIs :: "vmi list"
  nmNFSs :: "networkfs list"
  nmSettings :: "setting list"
  nmMounts :: "(string \<times> string) list"
  nmHostMounts :: "string list"
  nmByID :: "(string \<times> string) list"

text \<open>Clients and an operating system over one world: a stack of mounts per path, in the node's and in
  the host's mount name space, and the links to the node's disks.\<close>

definition mem_node_clients :: "node_mem node_clients" where
  "mem_node_clients =
     \<lparr>nodePVCs = mem_client nmPVCs (\<lambda>x w. w\<lparr>nmPVCs := x\<rparr>),
      nodeVMIs = mem_client nmVMIs (\<lambda>x w. w\<lparr>nmVMIs := x\<rparr>),
      nodeNetworkFSs = mem_client nmNFSs (\<lambda>x w. w\<lparr>nmNFSs := x\<rparr>),
      nodeSettings = mem_client nmSettings (\<lambda>x w. w\<lparr>nmSettings := x\<rparr>)\<rparr>"

fun pop_mount :: "string \<Rightarrow> (string \<times> string) list \<Rightarrow> (string \<times> string) list" where
  "pop_mount p [] = []"
| "pop_mount p (m # ms) = (if snd m = p then ms else m # pop_mount p ms)"

definition mounted_at :: "node_mem \<Rightarrow> string \<Rightarrow> nat" where
  "mounted_at w p = length (filter (\<lambda>m. snd m = p) (nmMounts w))"

definition mem_execute :: "string \<Rightarrow> string list \<Rightarrow> (node_mem, string) request" where
  "mem_execute cmd args w =
     (let p = last args in
      if cmd = ''mount'' then (Inr '''', w\<lparr>nmHostMounts := p # nmHostMounts w\<rparr>)
      else if cmd = ''umount'' then (Inr '''', w\<lparr>nmHostMounts := remove1 p (nmHostMounts w)\<rparr>)
      else if p \<in> set (nmHostMounts w) then (Inr (p @ '' is a mountpoint''), w)
      else (Inl (ErrorString (p @ '' is not a mountpoint'')), w))"

definition mem_os :: "node_mem os" where
  "mem_os =
     \<lparr>isMountPoint = (\<lambda>p w. (Inr (0 < mounted_at w p), w)),
      isLikelyNotMountPoint = (\<lambda>p w. (Inr (mounted_at w p = 0), w)),
      mountFS = (\<lambda>src p fs opts w. (Inr (), w\<lparr>nmMounts := (src, p) # nmMounts w\<rparr>)),
      formatAndMount = (\<lambda>src p fs opts w. (Inr (), w\<lparr>nmMounts := (src, p) # nmMounts w\<rparr>)),
      unmountFS = (\<lambda>p w.
        if mounted_at w p = 0 then (Inl (ErrorString (''umount: '' @ p @ '': not mounted.'')), w)
        else (Inr (), w\<lparr>nmMounts := pop_mount p (nmMounts w)\<rparr>)),
      cleanupMountPoint = (\<lambda>p w. (Inr (), w)),
      pathExists = (\<lambda>p w. (Inr True, w)),
      mkdirAll = (\<lambda>p perm w. (Inr (), w)),
      openCreate = (\<lambda>p perm w. (Inr (), w)),
      removeFile = (\<lambda>p w. (Inr (), w)),
      readDir = (\<lambda>p w. (Inr (map fst (nmByID w)), w)),
      evalSymlinks = (\<lambda>p w.
        case map_of (map (\<lambda>(n, d). (Join deviceByIDDirectory n, d)) (nmByID w)) p of
          None \<Rightarrow> (Inl (OsError ENOENT ''no such file or directory''), w)
        | Some d \<Rightarrow> (Inr d, w)),
      osIsDir = (\<lambda>p w. (Inr True, w)),
      unixStatMode = (\<lambda>p w. (Inr 0x4000, w)),
      unixStatfs = (\<lambda>p w. (Inr \<lparr>Bsize = 4096, Blocks = 1000, Bfree = 400, Bavail = 350,
        Files = 64, Ffree = 60\<rparr>, w)),
      newExecutor = (\<lambda>w. (Inr (), w)),
      execute = mem_execute,
      combinedOutput = (\<lambda>cmd args w. (('''', None), w))\<rparr>"

lemma mounted_at_pop:
  "0 < mounted_at w p \<Longrightarrow> mounted_at (w\<lparr>nmMounts := pop_mount p (nmMounts w)\<rparr>) =
     (mounted_at w)(p := mounted_at w p - 1)"
proof -
  have "0 < length (filter (\<lambda>m. snd m = p) ms) \<Longrightarrow>
      length (filter (\<lambda>m. snd m = q) (pop_mount p ms)) =
        (if q = p then length (filter (\<lambda>m. snd m = p) ms) - 1
         else length (filter (\<lambda>m. snd m = q) ms))" for ms q
    by (induction ms) (auto split: if_splits)
  then show "0 < mounted_at w p \<Longrightarrow> mounted_at (w\<lparr>nmMounts := pop_mount p (nmMounts w)\<rparr>) =
     (mounted_at w)(p := mounted_at w p - 1)"
    by (intro ext) (simp add: mounted_at_def)
qed

lemma mem_mount_stack: "mount_stack mem_os mounted_at"
  by (auto simp: mount_stack_def mem_os_def mounted_at_pop split: if_splits)

lemma mem_host_mounts: "host_mounts mem_node_clients mem_os (\<lambda>w p. count_list (nmHostMounts w) p)"
  unfolding host_mounts_def
  by (auto simp: mem_os_def mem_execute_def mem_node_clients_def mem_laws keeps_def Let_def fun_eq_iff
      count_list_remove1)

definition node_vmi :: vmi where
  "node_vmi = \<lparr>Namespace = ''default'', Name = ''node-1'', ResourceVersion = ''3'', Labels = None,
     Annotations = None, CreationTimestamp = None, DeletionTimestamp = None,
     VMINodeName = ''host-1'',
     VolumeStatus = [\<lparr>vsName = ''pvc-1'', vsHotplug = True, vsPhase = ''Ready'', vsTarget = ''sda''\<rparr>],
     InterfaceMACs = []\<rparr>"

definition shared_claim :: pvc where
  "shared_claim = \<lparr>Namespace = ''default'', Name = ''pvc-2'', ResourceVersion = '''', Labels = None,
     Annotations = None, CreationTimestamp = None, DeletionTimestamp = None, AccessModes = [],
     VolumeMode = None, StorageClassName = None, VolumeName = ''pv-2'', Requests = None,
     DataSource = None, Phase = ''Bound'', Capacity = None\<rparr>"

definition ready_nfs :: networkfs where
  "ready_nfs = \<lparr>Namespace = HarvesterNS, Name = ''pv-2'', ResourceVersion = '''', Labels = None,
     Annotations = None, CreationTimestamp = None, DeletionTimestamp = None,
     NetworkFSName = ''pv-2'', DesiredState = ''Enabled'', NFSProvisioner = '''', NFSState = ''Enabled'',
     NFSEndpoint = ''10.0.0.1'', NFSStatus = ''Ready'', MountOpts = ''''\<rparr>"

definition demo_ns :: node_server where
  "demo_ns = NewNodeServer ''node-1'' ''default'' ''10.0.0.2''"

definition demo_node_mem :: node_mem where
  "demo_node_mem = \<lparr>nmPVCs = [shared_claim], nmVMIs = [node_vmi], nmNFSs = [ready_nfs], nmSettings = [],
     nmMounts = [(''a'', ''/pods/1''), (''b'', ''/pods/1'')], nmHostMounts = [],
     nmByID = [(''scsi-root'', ''/dev/vda''), (''scsi-pvc-1'', ''/dev/sda'')]\<rparr>"

definition in_node :: "node_mem st" where
  "in_node = \<lparr>world = demo_node_mem, calls = []\<rparr>"

definition demo_node_publish :: node_publish_request where
  "demo_node_publish = \<lparr>npVolumeId = ''pvc-1'', npTargetPath = ''/pods/2/mount'',
     npStagingTargetPath = '''',
     npCapability = Some \<lparr>AccessType = Some (Mount \<lparr>FsType = '''', MountFlags = []\<rparr>),
       AccessMode = Some SINGLE_NODE_WRITER\<rparr>\<rparr>"

definition demo_stage :: node_stage_request where
  "demo_stage = \<lparr>sgVolumeId = ''pvc-2'', sgStagingTargetPath = ''/staging'',
     sgCapability = Some \<lparr>AccessType = Some (Mount \<lparr>FsType = '''', MountFlags = []\<rparr>),
       AccessMode = Some MULTI_NODE_MULTI_WRITER\<rparr>\<rparr>"

section \<open>Properties\<close>



text \<open>
  C13: whatever the servers and the system answer, publishing a volume for a single node mounts
  (and possibly formats) nothing but a device linked under a name that contains the volume's
  name, at the target path, and only after the virtual machine reported the volume as
  hotplugged and ready.
\<close>

theorem publish_mounts_own_device:
  assumes run: "NodePublishVolume cl os ns req s = (r, s')"
    and cap: "npCapability req = Some cap" "GetMode cap = SINGLE_NODE_WRITER"
    and tr: "calls s' = calls s @ tr" "c \<in> set tr" "is_mount c"
  shows "call_name c = npTargetPath req \<and> device_of os (npVolumeId req) (call_ns c) \<and>
    hotplug_ready cl ns (npVolumeId req)"
proof -
  have nr: "\<not> read_only c" using tr(3) by (auto simp: is_mount_def read_only_def)
  have "npTargetPath req \<noteq> ''''"
    using run tr by (auto simp: NodePublishVolume_def fail_run)
  with run cap have "nodePublishRWOVolume cl os ns req (npTargetPath req) cap s = (r, s')"
    by (simp add: NodePublishVolume_def)
  note rwo = this [unfolded nodePublishRWOVolume_def]
  let ?dev = "\<lambda>devicePath. if GetBlock cap \<noteq> None then nodePublishBlockVolume os devicePath (npTargetPath req)
     else case GetMount cap of
       Some m \<Rightarrow>
         nodePublishMountVolume os (npVolumeId req) devicePath (npTargetPath req)
           (if FsType m = '''' then ''ext4'' else FsType m) (MountFlags m)
     | None \<Rightarrow> fail (status_Error InvalidArgument
                 ''Invalid volume capability, neither Mount nor Block'')"
  have dev: "issues (\<lambda>c. is_mount c \<longrightarrow> call_ns c = d \<and> call_name c = npTargetPath req) (?dev d)" for d
    by (intro issues_intros issues_publish_device)
  from rwo tr(1,2) nr obtain vmi s1 t1 where
    g: "kGet VMIs (nodeVMIs cl) (ns_namespace ns) (ns_nodeID ns) s = (Ok vmi, s1)" and
    k: "(if \<not> hotPlugDiskReady (npVolumeId req) (VolumeStatus vmi) then
       fail (status_Errorf Aborted ''The hot-plug volume %s is not ready'' [npVolumeId req])
     else
     handle (getDevicePathByVolumeID os (npVolumeId req))
       (\<lambda>err. fail (status_Errorf Internal ''Failed to get device path for volume %v: %v''
          [npVolumeId req, Error err])) ?dev) s1 = (r, s')" and t1: "calls s' = calls s1 @ t1" "c \<in> set t1"
    by (rule handle_reached [where Q = "\<lambda>_. True"])
      (auto intro!: issues_intros issues_any [OF issues_publish_device(1)] issues_any [OF issues_publish_device(2)] issues_any [OF reads_getDevicePathByVolumeID])
  from k t1 have ready: "hotPlugDiskReady (npVolumeId req) (VolumeStatus vmi)"
    by (auto simp: fail_run split: if_splits)
  with k have "handle (getDevicePathByVolumeID os (npVolumeId req))
       (\<lambda>err. fail (status_Errorf Internal ''Failed to get device path for volume %v: %v''
          [npVolumeId req, Error err])) ?dev s1 = (r, s')" by simp
  from this t1 nr reads_getDevicePathByVolumeID obtain d s2 t2 where
    d: "getDevicePathByVolumeID os (npVolumeId req) s1 = (Ok d, s2)" "?dev d s2 = (r, s')"
      "calls s' = calls s2 @ t2" "c \<in> set t2"
    by (rule handle_reached [where Q = "\<lambda>_. True"]) (auto intro!: issues_intros issues_any [OF issues_publish_device(1)] issues_any [OF issues_publish_device(2)])
  from issuesD [OF dev d(2)] d(3,4) tr(3) have "call_ns c = d \<and> call_name c = npTargetPath req"
    by auto
  moreover have "hotplug_ready cl ns (npVolumeId req)"
    using g ready unfolding hotplug_ready_def hotPlugDiskReady_iff by (auto simp: kGet_returns)
  ultimately show ?thesis using getDevicePathByVolumeID_Ok [OF d(1)] by simp
qed

theorem publish_mounts_own_device_witness:
  "\<exists>c \<in> set (calls (snd (NodePublishVolume mem_node_clients mem_os demo_ns demo_node_publish in_node))).
     is_mount c \<and> call_ns c = ''/dev/sda'' \<and> device_of mem_os ''pvc-1'' (call_ns c)"
proof -
  let ?run = "NodePublishVolume mem_node_clients mem_os demo_ns demo_node_publish in_node"
  let ?c = "Call VFormatAndMount NodeFS ''/dev/sda'' ''/pods/2/mount'' None"
  have c: "?c \<in> set (calls (snd ?run))" by code_simp
  have "?run = (fst ?run, snd ?run)" "calls (snd ?run) = calls in_node @ calls (snd ?run)"
    by (simp_all add: in_node_def)
  from publish_mounts_own_device [OF this(1) _ _ this(2) c] c show ?thesis
    by (intro bexI [of _ ?c]) (auto simp: demo_node_publish_def GetMode_def is_mount_def)
qed

text \<open>
  Staging a shared volume is not idempotent: when \<open>NodeStageVolume\<close> succeeded twice for a
  path, \<open>NodeUnstageVolume\<close> leaves it mounted.
\<close>

lemma restage_leaves_mounted:
  assumes "host_mounts cl os depth"
    and "sgCapability req = Some cap" and "GetMode cap = MULTI_NODE_MULTI_WRITER"
    and "NodeStageVolume cl os ns req s = (Ok (), s1)"
    and "NodeStageVolume cl os ns req s1 = (Ok (), s2)"
    and "ugStagingTargetPath req' = sgStagingTargetPath req"
    and "NodeUnstageVolume os req' s2 = (r, s3)"
  shows "0 < depth (world s3) (sgStagingTargetPath req)"
  using stage_mounts [OF assms(1,4,2,3)] stage_mounts [OF assms(1,5,2,3)]
    unstage_unmounts_once [OF assms(1,7), of "sgStagingTargetPath req"]
  by simp

lemma restage_leaves_mounted_witness:
  "\<exists>s1 s2 s3. NodeStageVolume mem_node_clients mem_os demo_ns demo_stage in_node = (Ok (), s1) \<and>
     NodeStageVolume mem_node_clients mem_os demo_ns demo_stage s1 = (Ok (), s2) \<and>
     NodeUnstageVolume mem_os \<lparr>ugVolumeId = ''pvc-2'', ugStagingTargetPath = ''/staging''\<rparr> s2 =
       (Ok (), s3) \<and> 0 < count_list (nmHostMounts (world s3)) ''/staging''"
proof -
  let ?st = "NodeStageVolume mem_node_clients mem_os demo_ns demo_stage"
  let ?un = "NodeUnstageVolume mem_os \<lparr>ugVolumeId = ''pvc-2'', ugStagingTargetPath = ''/staging''\<rparr>"
  have "is_Ok (fst (?st in_node))" by code_simp
  then obtain s1 where s1: "?st in_node = (Ok (), s1)" by (rule is_Ok_run) simp
  have "is_Ok (fst (?st (snd (?st in_node))))" by code_simp
  with s1 obtain s2 where s2: "?st s1 = (Ok (), s2)" by (auto elim: is_Ok_run)
  have "is_Ok (fst (?un (snd (?st (snd (?st in_node))))))" by code_simp
  with s1 s2 obtain s3 where s3: "?un s2 = (Ok (), s3)" by (auto elim: is_Ok_run)
  have "sgCapability demo_stage = Some \<lparr>AccessType = Some (Mount \<lparr>FsType = '''', MountFlags = []\<rparr>),
       AccessMode = Some MULTI_NODE_MULTI_WRITER\<rparr>" by (simp add: demo_stage_def)
  from restage_leaves_mounted [OF mem_host_mounts this _ s1 s2 _ s3] s1 s2 s3 show ?thesis
    by (auto simp: GetMode_def demo_stage_def)
qed

end
