(* ===== verification/Grpc_Server.thy ===== *)
theory Grpc_Server
  imports Node_Server
begin

text \<open>
  The identity server (\<open>pkg/csi/identity_server.go\<close>) and the gRPC endpoint (\<open>pkg/csi/server.go\<close>):
  the server, its wait group and the goroutine that listens as a state machine, which the process
  that serves the requests is built from.
\<close>

section \<open>The identity server\<close>

record identity_server =
  ids_driverName :: string
  ids_version :: string

definition driverName :: string where
  "driverName = ''driver.harvesterhci.io''"

datatype plugin_cap = CONTROLLER_SERVICE | VOLUME_EXPANSION_ONLINE

definition NewIdentityServer :: "string \<Rightarrow> string \<Rightarrow> identity_server" where
  "NewIdentityServer name version = \<lparr>ids_driverName = name, ids_version = version\<rparr>"

definition GetPluginInfo :: "identity_server \<Rightarrow> string \<times> string" where
  "GetPluginInfo ids = (ids_driverName ids, ids_version ids)"

definition Probe :: "identity_server \<Rightarrow> unit" where
  "Probe ids = ()"

definition GetPluginCapabilities :: "identity_server \<Rightarrow> plugin_cap list" where
  "GetPluginCapabilities ids = [CONTROLLER_SERVICE, VOLUME_EXPANSION_ONLINE]"

section \<open>The gRPC endpoint\<close>

text \<open>
  \<open>strings.ToLower\<close> as far as a test for an ASCII prefix can see it: apart from the ASCII letters
  only U+0130 and U+212A have an ASCII letter as their lower case; the bytes of all other
  characters are kept, where Go has those of another non-ASCII character.
\<close>

fun ToLower :: "string \<Rightarrow> string" where
  "ToLower [] = []"
| "ToLower (c # s) =
     (let n = of_char c :: nat in
      if 65 \<le> n \<and> n \<le> 90 then char_of (n + 32) # ToLower s
      else if n = 196 \<and> HasPrefix s [char_of (176 :: nat)] then
        CHR ''i'' # ToLower (drop 1 s)
      else if n = 226 \<and> HasPrefix s [char_of (132 :: nat), char_of (170 :: nat)] then
        CHR ''k'' # ToLower (drop 2 s)
      else c # ToLower s)"

text \<open>The split has two parts whenever the prefix test succeeded.\<close>

definition parseEndpoint :: "string \<Rightarrow> gerror + (string \<times> string)" where
  "parseEndpoint ep =
     (let invalid = Inl (ErrorString (Sprintf ''invalid endpoint: %v'' [ep])) in
      if HasPrefix (ToLower ep) ''unix://'' \<or> HasPrefix (ToLower ep) ''tcp://'' then
        (case SplitN2 ep ''://'' of
           [proto, addr] \<Rightarrow> if addr \<noteq> '''' then Inr (proto, addr) else invalid
         | _ \<Rightarrow> invalid)
      else invalid)"

text \<open>
  What the process asks of the packages it is linked with: configurations and client sets from
  the kubeconfig file, a listener, and connections from it.
\<close>

datatype clientset =
    LocalKubeClient | LocalCoreClient | KubeClient | CoreClient | StorageClient | VirtClient
  | LHClient | HarvNetworkFSClient | HarvClient | SnapClient

record 'w platform =
  readFile :: "string \<Rightarrow> ('w, string) request"
  inClusterConfig :: "('w, unit) request"
  newClientset :: "clientset \<Rightarrow> ('w, unit) request"
  configNamespace :: "string \<Rightarrow> ('w, string) request"
  configHost :: "string \<Rightarrow> ('w, string) request"
  netListen :: "string \<Rightarrow> string \<Rightarrow> ('w, unit) request"
  netAccept :: "('w, unit) request"

definition ask :: "('w, 'a) request \<Rightarrow> ('w, 'a) io" where
  "ask f = andThen (observe f) lift_result"

datatype service = IdentityService | ControllerService | NodeService

definition registered ::
  "identity_server option \<Rightarrow> controller_server option \<Rightarrow> node_server option \<Rightarrow> service list" where
  "registered ids cs ns =
     (if ids \<noteq> None then [IdentityService] else []) @
     (if cs \<noteq> None then [ControllerService] else []) @
     (if ns \<noteq> None then [NodeService] else [])"

text \<open>\<open>logGRPC\<close>: the levels of the two log lines around a handler, and the handler's outcome.\<close>

datatype log_level = TraceLevel | DebugLevel | InfoLevel | ErrorLevel

definition grpcLogLevel :: "string \<Rightarrow> log_level" where
  "grpcLogLevel fullMethod =
     (if fullMethod \<in> set [''/csi.v1.Node/NodeGetCapabilities'', ''/csi.v1.Node/NodeGetVolumeStats'']
      then TraceLevel else InfoLevel)"

definition logGRPC :: "string \<Rightarrow> ('w, 'a) io \<Rightarrow> 'w st \<Rightarrow> log_level list \<times> 'a result \<times> 'w st" where
  "logGRPC fullMethod handler s =
     (let level = grpcLogLevel fullMethod in
      case handler s of
        (Ok resp, s') \<Rightarrow> ([level, level], Ok resp, s')
      | (Err err, s') \<Rightarrow> ([level, ErrorLevel], Err err, s')
      | (Panic, s') \<Rightarrow> ([level], Panic, s'))"

section \<open>The server and its goroutines\<close>

text \<open>
  \<open>sync.WaitGroup\<close>: a counter of 32 bits whose \<open>Add\<close> panics (\<open>None\<close>) when it becomes negative. A
  goroutine waits in it only while the counter is positive, so that the other misuse that \<open>Add\<close>
  detects, a first \<open>Add\<close> beside a waiting goroutine, does not arise.
\<close>

definition wg_Add :: "32 word \<Rightarrow> 32 word \<Rightarrow> 32 word option" where
  "wg_Add delta v = (if sint (v + delta) < 0 then None else Some (v + delta))"

text \<open>The part of a \<open>grpc.Server\<close> the driver depends on: what was registered, and whether one of
  the two ways to stop it was called.\<close>

record grpc =
  services :: "service list"
  stopping :: bool

text \<open>
  A goroutine in \<open>serve\<close>: its arguments, its local variables, and where it is. Each goroutine makes
  one \<open>grpc.Server\<close>, so that the pointer \<open>server\<close> of the struct is the index of the goroutine that
  made it.
\<close>

datatype serve_at =
    AtParse | AtRemove | AtListen | AtNewServer | AtRegister | AtServe | AtAccept | AtReturned

record routine =
  r_endpoint :: string
  r_ids :: "identity_server option"
  r_cs :: "controller_server option"
  r_ns :: "node_server option"
  r_proto :: string
  r_addr :: string
  r_server :: "grpc option"
  r_at :: serve_at

text \<open>\<open>logrus.Fatal\<close> ends the process with a message, and so does a panic of any goroutine.\<close>

datatype outcome = Running | Fatal string | Crashed

record 'w process =
  wg :: "32 word"
  server :: "nat option"
  routines :: "routine list"
  pstate :: "'w st"
  outcome :: outcome

definition NewNonBlockingGRPCServer :: "'w st \<Rightarrow> 'w process" where
  "NewNonBlockingGRPCServer s =
     \<lparr>wg = 0, server = None, routines = [], pstate = s, outcome = Running\<rparr>"

definition Start ::
  "string \<Rightarrow> identity_server option \<Rightarrow> controller_server option \<Rightarrow> node_server option \<Rightarrow>
   'w process \<Rightarrow> 'w process" where
  "Start endpoint ids cs ns p =
     (case wg_Add 1 (wg p) of
        None \<Rightarrow> p\<lparr>outcome := Crashed\<rparr>
      | Some v \<Rightarrow> p\<lparr>wg := v,
          routines := routines p @ [\<lparr>r_endpoint = endpoint, r_ids = ids, r_cs = cs, r_ns = ns,
            r_proto = '''', r_addr = '''', r_server = None, r_at = AtParse\<rparr>]\<rparr>)"

text \<open>Whether \<open>Wait\<close> returns in this state; it blocks otherwise.\<close>

definition Wait :: "'w process \<Rightarrow> bool" where
  "Wait p \<longleftrightarrow> wg p = 0"

definition stop_server :: "'w process \<Rightarrow> 'w process" where
  "stop_server p =
     (case server p of
        None \<Rightarrow> p\<lparr>outcome := Crashed\<rparr>
      | Some i \<Rightarrow> p\<lparr>routines := (routines p)[i := (routines p ! i)
          \<lparr>r_server := map_option (stopping_update (\<lambda>_. True)) (r_server (routines p ! i))\<rparr>]\<rparr>)"

text \<open>Both ways to stop close the listener and end the accept loop. They differ in how the calls
  under way end, which takes no step here: a handler runs as one.\<close>

definition Stop :: "'w process \<Rightarrow> 'w process" where
  "Stop p = stop_server p"

definition ForceStop :: "'w process \<Rightarrow> 'w process" where
  "ForceStop p = stop_server p"

definition set_routine :: "nat \<Rightarrow> routine \<Rightarrow> 'w process \<Rightarrow> 'w process" where
  "set_routine i r p = p\<lparr>routines := (routines p)[i := r]\<rparr>"

text \<open>The accept loop of \<open>grpc.Server.Serve\<close> ends with an error of the listener that is not
  temporary, and then returns an error unless the server was stopped.\<close>

definition serve_step :: "'w os \<Rightarrow> 'w platform \<Rightarrow> nat \<Rightarrow> 'w process \<Rightarrow> 'w process" where
  "serve_step os pf i p =
     (let r = routines p ! i; fatal = (\<lambda>msg s. p\<lparr>pstate := s, outcome := Fatal msg\<rparr>);
          stopped = (case r_server r of Some g \<Rightarrow> stopping g | None \<Rightarrow> False) in
      case r_at r of
        AtParse \<Rightarrow>
          (case parseEndpoint (r_endpoint r) of
             Inl err \<Rightarrow> fatal (Error err) (pstate p)
           | Inr (proto, addr) \<Rightarrow>
               if proto = ''unix'' then
                 set_routine i (r\<lparr>r_proto := proto, r_addr := ''/'' @ addr, r_at := AtRemove\<rparr>) p
               else set_routine i (r\<lparr>r_proto := proto, r_addr := addr, r_at := AtListen\<rparr>) p)
      | AtRemove \<Rightarrow>
          (case Remove os (r_addr r) (pstate p) of
             (Err err, s) \<Rightarrow>
               if \<not> IsNotExist err then
                 fatal (Sprintf ''Failed to remove %s, error: %s'' [r_addr r, Error err]) s
               else set_routine i (r\<lparr>r_at := AtListen\<rparr>) (p\<lparr>pstate := s\<rparr>)
           | (Ok _, s) \<Rightarrow> set_routine i (r\<lparr>r_at := AtListen\<rparr>) (p\<lparr>pstate := s\<rparr>)
           | (Panic, s) \<Rightarrow> p\<lparr>pstate := s, outcome := Crashed\<rparr>)
      | AtListen \<Rightarrow>
          (case ask (netListen pf (r_proto r) (r_addr r)) (pstate p) of
             (Err err, s) \<Rightarrow> fatal (Sprintf ''Failed to listen: %v'' [Error err]) s
           | (Ok _, s) \<Rightarrow> set_routine i (r\<lparr>r_at := AtNewServer\<rparr>) (p\<lparr>pstate := s\<rparr>)
           | (Panic, s) \<Rightarrow> p\<lparr>pstate := s, outcome := Crashed\<rparr>)
      | AtNewServer \<Rightarrow>
          set_routine i (r\<lparr>r_server := Some \<lparr>services = [], stopping = False\<rparr>, r_at := AtRegister\<rparr>)
            (p\<lparr>server := Some i\<rparr>)
      | AtRegister \<Rightarrow>
          set_routine i (r\<lparr>r_server := map_option
              (services_update (\<lambda>_. registered (r_ids r) (r_cs r) (r_ns r))) (r_server r),
            r_at := AtServe\<rparr>) p
      | AtServe \<Rightarrow>
          if stopped then
            fatal (Sprintf ''Failed to serve: %v'' [''grpc: the server has been stopped'']) (pstate p)
          else set_routine i (r\<lparr>r_at := AtAccept\<rparr>) p
      | AtAccept \<Rightarrow>
          (case ask (netAccept pf) (pstate p) of
             (Err err, s) \<Rightarrow>
               if stopped then set_routine i (r\<lparr>r_at := AtReturned\<rparr>) (p\<lparr>pstate := s\<rparr>)
               else fatal (Sprintf ''Failed to serve: %v'' [Error err]) s
           | (Ok _, s) \<Rightarrow> p\<lparr>pstate := s\<rparr>
           | (Panic, s) \<Rightarrow> p\<lparr>pstate := s, outcome := Crashed\<rparr>)
      | AtReturned \<Rightarrow> p)"

section \<open>What the theorems speak of\<close>

text \<open>The goroutine takes calls for the service.\<close>

definition answers :: "'w process \<Rightarrow> nat \<Rightarrow> service \<Rightarrow> bool" where
  "answers p i svc \<longleftrightarrow>
     i < length (routines p) \<and> outcome p = Running \<and> r_at (routines p ! i) = AtAccept \<and>
     (case r_server (routines p ! i) of Some g \<Rightarrow> \<not> stopping g \<and> svc \<in> set (services g) | None \<Rightarrow> False)"

text \<open>
  What holds of a goroutine wherever it is: past the first step the endpoint was well-formed and
  its parts are the local variables, and a server that is used has the services of the arguments.
\<close>

definition routine_ok :: "routine \<Rightarrow> bool" where
  "routine_ok r \<longleftrightarrow>
     (r_at r \<noteq> AtParse \<longrightarrow>
        (\<exists>addr. parseEndpoint (r_endpoint r) = Inr (r_proto r, addr) \<and>
           r_addr r = (if r_proto r = ''unix'' then ''/'' @ addr else addr))) \<and>
     (r_at r = AtRemove \<longrightarrow> r_proto r = ''unix'') \<and>
     (r_at r \<in> {AtRegister, AtServe, AtAccept, AtReturned} \<longrightarrow> r_server r \<noteq> None) \<and>
     (r_at r \<in> {AtServe, AtAccept, AtReturned} \<longrightarrow>
        map_option services (r_server r) = Some (registered (r_ids r) (r_cs r) (r_ns r)))"

definition process_ok :: "'w process \<Rightarrow> bool" where
  "process_ok p \<longleftrightarrow>
     sint (wg p) = int (length (routines p)) \<and> (\<forall>r \<in> set (routines p). routine_ok r) \<and>
     (\<forall>i. server p = Some i \<longrightarrow> i < length (routines p))"

section \<open>Lemmas\<close>

lemma process_ok_new: "process_ok (NewNonBlockingGRPCServer s)"
  by (simp add: process_ok_def NewNonBlockingGRPCServer_def)

lemma wg_Add_one:
  assumes "wg_Add 1 v = Some v'" and "0 \<le> sint v"
  shows "sint v' = sint v + 1"
proof -
  from assms(1) have v': "v' = v + 1" and pos: "0 \<le> sint (v + 1)"
    by (auto simp: wg_Add_def split: if_splits)
  have "sint v < 2 ^ 31" using sint_lt [of v] by simp
  moreover have "sint v \<noteq> 2 ^ 31 - 1"
  proof
    assume "sint v = 2 ^ 31 - 1"
    then have "sint (v + 1) = signed_take_bit 31 (2 ^ 31)" by (simp add: sint_word_ariths)
    also have "\<dots> < 0" by (simp add: signed_take_bit_eq_if_negative)
    finally show False using pos by simp
  qed
  ultimately show ?thesis
    using assms(2) v' by (simp add: sint_word_ariths signed_take_bit_int_eq_self)
qed

lemma process_ok_Start: "process_ok p \<Longrightarrow> process_ok (Start endpoint ids cs ns p)"
  by (auto simp: Start_def process_ok_def routine_ok_def dest: wg_Add_one split: option.splits)

lemma routine_ok_stop:
  "routine_ok r \<Longrightarrow> routine_ok (r\<lparr>r_server := map_option (stopping_update f) (r_server r)\<rparr>)"
  by (auto simp: routine_ok_def option.map_comp comp_def)

lemma process_ok_set:
  "process_ok p \<Longrightarrow> routine_ok r \<Longrightarrow> process_ok (set_routine i r p)"
  by (auto simp: process_ok_def set_routine_def dest!: set_update_subset_insert [THEN subsetD])

lemma process_ok_state [simp]: "process_ok (p\<lparr>pstate := s\<rparr>) = process_ok p"
  "process_ok (p\<lparr>outcome := z\<rparr>) = process_ok p"
  by (simp_all add: process_ok_def)

lemma process_ok_stop:
  assumes "process_ok p"
  shows "process_ok (Stop p)" "process_ok (ForceStop p)"
proof -
  have "process_ok (stop_server p)"
  proof (cases "server p")
    case (Some i)
    with assms have "routine_ok (routines p ! i)" by (simp add: process_ok_def)
    with assms Some process_ok_set [OF assms routine_ok_stop, of "routines p ! i"] show ?thesis
      by (simp add: stop_server_def set_routine_def)
  qed (use assms in \<open>simp add: stop_server_def\<close>)
  then show "process_ok (Stop p)" "process_ok (ForceStop p)"
    by (simp_all add: Stop_def ForceStop_def)
qed

lemma process_ok_serve_step:
  assumes "process_ok p" and "i < length (routines p)"
  shows "process_ok (serve_step os pf i p)"
proof -
  have r: "routine_ok (routines p ! i)" using assms by (simp add: process_ok_def)
  have new: "process_ok (p\<lparr>server := Some i\<rparr>)" using assms by (simp add: process_ok_def)
  show ?thesis
  proof (cases "r_at (routines p ! i)")
    case AtParse
    with assms r show ?thesis
      by (auto simp: serve_step_def Let_def routine_ok_def intro!: process_ok_set split: sum.split)
  next
    case AtNewServer
    with new r show ?thesis
      by (auto simp: serve_step_def Let_def routine_ok_def intro!: process_ok_set)
  qed (use assms r in \<open>auto simp: serve_step_def Let_def routine_ok_def option.map_comp comp_def
      intro!: process_ok_set split: result.split prod.split\<close>)
qed

lemma ask_returns [returns_iff]:
  "ask f s = (r, s') \<longleftrightarrow>
     (\<exists>x. f (world s) = (Inr x, world s') \<and> r = Ok x \<and> calls s' = calls s) \<or>
     (\<exists>e. f (world s) = (Inl e, world s') \<and> r = Err e \<and> calls s' = calls s)"
  unfolding ask_def andThen_returns observe_returns lift_result_returns
  by (cases s'; cases "fst (f (world s))") fastforce+

lemma issues_ask [issues_intros]: "issues P (ask f)"
  unfolding ask_def by (intro issues_intros)

text \<open>What \<open>parseEndpoint\<close> accepts is the endpoint cut at its first \<open>://\<close>.\<close>

lemma parseEndpoint_sound:
  "parseEndpoint ep = Inr (proto, addr) \<Longrightarrow> ep = proto @ ''://'' @ addr \<and> addr \<noteq> ''''"
  using SplitN2_parts [of "''://''" ep proto addr]
  by (auto simp: parseEndpoint_def Let_def simp del: HasPrefix_iff split: if_splits list.splits)

lemma parseEndpoint_complete:
  "proto = ''unix'' \<or> proto = ''tcp'' \<Longrightarrow> addr \<noteq> '''' \<Longrightarrow>
     parseEndpoint (proto @ ''://'' @ addr) = Inr (proto, addr)"
  by (auto simp: parseEndpoint_def Let_def)

text \<open>The scheme is tested without regard to case but passed on as it is written, so that an
  upper-case scheme reaches the listener as a network it does not know.\<close>

lemma parseEndpoint_upper:
  "parseEndpoint ''UNIX:///csi/csi.sock'' = Inr (''UNIX'', ''/csi/csi.sock'')"
  by code_simp

end
