(* ===== verification/Semver.thy ===== *)
theory Semver
  imports Prelude
begin

text \<open>
  The check of the server's version (\<open>pkg/utils/version.go\<close>) and the functions of the vendored
  package \<open>golang.org/x/mod/semver\<close> that it calls: parsing and comparison of semantic versions
  as strings, with no conversion to numbers.

  \<open>IsVersionAtLeast\<close> is shown to be a comparison of the major and minor number, as numbers of any
  size, that treats pre-releases of a version like the version itself.
\<close>

section \<open>Strings\<close>

text \<open>Go's \<open>x < y\<close> on strings compares bytes.\<close>

fun str_less :: "string \<Rightarrow> string \<Rightarrow> bool" where
  "str_less x [] = False"
| "str_less [] (d # y) = True"
| "str_less (c # x) (d # y) =
     ((of_char c :: nat) < of_char d \<or> c = d \<and> str_less x y)"

definition is_digit :: "char \<Rightarrow> bool" where
  "is_digit c \<longleftrightarrow> 48 \<le> (of_char c :: nat) \<and> (of_char c :: nat) \<le> 57"

definition isIdentChar :: "char \<Rightarrow> bool" where
  "isIdentChar c \<longleftrightarrow>
     (let n = of_char c :: nat in
      65 \<le> n \<and> n \<le> 90 \<or> 97 \<le> n \<and> n \<le> 122 \<or> is_digit c \<or> c = CHR ''-'')"

text \<open>The verb \<open>%d\<close>.\<close>

fun digits :: "nat \<Rightarrow> string" where
  "digits n = (if n < 10 then [char_of (48 + n)] else digits (n div 10) @ [char_of (48 + n mod 10)])"

declare digits.simps [simp del]

definition itoa :: "int \<Rightarrow> string" where
  "itoa i = (if i < 0 then CHR ''-'' # digits (nat (- i)) else digits (nat i))"

section \<open>Parsing\<close>

record parsed =
  pMajor :: string
  pMinor :: string
  pPatch :: string
  pShort :: string
  pPrerelease :: string
  pBuild :: string

definition isBadNum :: "string \<Rightarrow> bool" where
  "isBadNum v \<longleftrightarrow>
     (let i = length (takeWhile is_digit v) in i = length v \<and> i > 1 \<and> hd v = CHR ''0'')"

definition isNum :: "string \<Rightarrow> bool" where
  "isNum v \<longleftrightarrow> length (takeWhile is_digit v) = length v"

definition parseInt :: "string \<Rightarrow> (string \<times> string) option" where
  "parseInt v =
     (case v of
        [] \<Rightarrow> None
      | c # _ \<Rightarrow>
          if \<not> is_digit c then None
          else
            (let t = takeWhile is_digit v in
             if c = CHR ''0'' \<and> length t \<noteq> 1 then None
             else Some (t, dropWhile is_digit v)))"

text \<open>
  The loops of \<open>parsePrerelease\<close> and \<open>parseBuild\<close>: \<open>ident\<close> is \<open>v[start:i]\<close>, the identifier read so
  far; the answer is the text consumed from here and the rest.
\<close>

fun prerelease_loop :: "string \<Rightarrow> string \<Rightarrow> (string \<times> string) option" where
  "prerelease_loop ident [] = (if ident = '''' \<or> isBadNum ident then None else Some ('''', ''''))"
| "prerelease_loop ident (c # v) =
     (if c = CHR ''+'' then
        (if ident = '''' \<or> isBadNum ident then None else Some ('''', c # v))
      else if \<not> isIdentChar c \<and> c \<noteq> CHR ''.'' then None
      else if c = CHR ''.'' then
        (if ident = '''' \<or> isBadNum ident then None
         else map_option (\<lambda>(t, rest). (c # t, rest)) (prerelease_loop '''' v))
      else map_option (\<lambda>(t, rest). (c # t, rest)) (prerelease_loop (ident @ [c]) v))"

definition parsePrerelease :: "string \<Rightarrow> (string \<times> string) option" where
  "parsePrerelease v =
     (case v of
        [] \<Rightarrow> None
      | c # r \<Rightarrow>
          if c \<noteq> CHR ''-'' then None
          else map_option (\<lambda>(t, rest). (c # t, rest)) (prerelease_loop '''' r))"

fun build_loop :: "bool \<Rightarrow> string \<Rightarrow> string option" where
  "build_loop fresh [] = (if fresh then None else Some '''')"
| "build_loop fresh (c # v) =
     (if \<not> isIdentChar c \<and> c \<noteq> CHR ''.'' then None
      else if c = CHR ''.'' then
        (if fresh then None else map_option ((#) c) (build_loop True v))
      else map_option ((#) c) (build_loop False v))"

definition parseBuild :: "string \<Rightarrow> (string \<times> string) option" where
  "parseBuild v =
     (case v of
        [] \<Rightarrow> None
      | c # r \<Rightarrow>
          if c \<noteq> CHR ''+'' then None
          else map_option (\<lambda>t. (c # t, '''')) (build_loop True r))"

text \<open>The part of \<open>parse\<close> after the patch number.\<close>

definition parse_suffix :: "parsed \<Rightarrow> string \<Rightarrow> parsed option" where
  "parse_suffix p v =
     Option.bind
       (if v \<noteq> '''' \<and> hd v = CHR ''-'' then
          map_option (\<lambda>(t, rest). (p\<lparr>pPrerelease := t\<rparr>, rest)) (parsePrerelease v)
        else Some (p, v))
       (\<lambda>(p1, v1).
     Option.bind
       (if v1 \<noteq> '''' \<and> hd v1 = CHR ''+'' then
          map_option (\<lambda>(t, rest). (p1\<lparr>pBuild := t\<rparr>, rest)) (parseBuild v1)
        else Some (p1, v1))
       (\<lambda>(p2, v2). if v2 \<noteq> '''' then None else Some p2))"

definition parse :: "string \<Rightarrow> parsed option" where
  "parse v =
     (if v = '''' \<or> hd v \<noteq> CHR ''v'' then None
      else
      Option.bind (parseInt (tl v)) (\<lambda>(major, v1).
      let p = \<lparr>pMajor = major, pMinor = '''', pPatch = '''', pShort = '''', pPrerelease = '''',
               pBuild = ''''\<rparr> in
      if v1 = '''' then Some (p\<lparr>pMinor := ''0'', pPatch := ''0'', pShort := ''.0.0''\<rparr>)
      else if hd v1 \<noteq> CHR ''.'' then None
      else
      Option.bind (parseInt (tl v1)) (\<lambda>(minor, v2).
      if v2 = '''' then Some (p\<lparr>pMinor := minor, pPatch := ''0'', pShort := ''.0''\<rparr>)
      else if hd v2 \<noteq> CHR ''.'' then None
      else
      Option.bind (parseInt (tl v2)) (\<lambda>(patch, v3).
      parse_suffix (p\<lparr>pMinor := minor, pPatch := patch\<rparr>) v3))))"

definition IsValid :: "string \<Rightarrow> bool" where
  "IsValid v \<longleftrightarrow> parse v \<noteq> None"

section \<open>Comparison\<close>

definition compareInt :: "string \<Rightarrow> string \<Rightarrow> int" where
  "compareInt x y =
     (if x = y then 0
      else if length x < length y then -1
      else if length x > length y then 1
      else if str_less x y then -1
      else 1)"

definition nextIdent :: "string \<Rightarrow> string \<times> string" where
  "nextIdent x = (takeWhile (\<lambda>c. c \<noteq> CHR ''.'') x, dropWhile (\<lambda>c. c \<noteq> CHR ''.'') x)"

text \<open>The answer for two different identifiers.\<close>

definition compareIdent :: "string \<Rightarrow> string \<Rightarrow> int" where
  "compareIdent dx dy =
     (if isNum dx \<noteq> isNum dy then (if isNum dx then -1 else 1)
      else if isNum dx \<and> length dx < length dy then -1
      else if isNum dx \<and> length dx > length dy then 1
      else if str_less dx dy then -1
      else 1)"

function comparePrerelease_loop :: "string \<Rightarrow> string \<Rightarrow> int" where
  "comparePrerelease_loop x y =
     (if x \<noteq> '''' \<and> y \<noteq> '''' then
        (let (dx, x') = nextIdent (tl x); (dy, y') = nextIdent (tl y) in
         if dx \<noteq> dy then compareIdent dx dy else comparePrerelease_loop x' y')
      else if x = '''' then -1
      else 1)"
  by pat_completeness auto

termination
  by (relation "measure (\<lambda>(x, y). length x)")
    (auto simp: nextIdent_def intro: le_less_trans [OF length_dropWhile_le])

declare comparePrerelease_loop.simps [simp del]

definition comparePrerelease :: "string \<Rightarrow> string \<Rightarrow> int" where
  "comparePrerelease x y =
     (if x = y then 0
      else if x = '''' then 1
      else if y = '''' then -1
      else comparePrerelease_loop x y)"

definition Compare :: "string \<Rightarrow> string \<Rightarrow> int" where
  "Compare v w =
     (case (parse v, parse w) of
        (None, None) \<Rightarrow> 0
      | (None, Some _) \<Rightarrow> -1
      | (Some _, None) \<Rightarrow> 1
      | (Some pv, Some pw) \<Rightarrow>
          (let c = compareInt (pMajor pv) (pMajor pw) in
           if c \<noteq> 0 then c
           else
           let c = compareInt (pMinor pv) (pMinor pw) in
           if c \<noteq> 0 then c
           else
           let c = compareInt (pPatch pv) (pPatch pw) in
           if c \<noteq> 0 then c
           else comparePrerelease (pPrerelease pv) (pPrerelease pw)))"

section \<open>The driver's check\<close>

definition IsVersionAtLeast :: "string \<Rightarrow> int \<Rightarrow> int \<Rightarrow> bool" where
  "IsVersionAtLeast version major minor =
     (if \<not> IsValid version then True
      else Compare version (Sprintf ''v%d.%d.0-0'' [itoa major, itoa minor]) \<ge> 0)"

section \<open>What the theorems speak of\<close>

text \<open>The number that a string of digits denotes.\<close>

definition digit_value :: "char \<Rightarrow> nat" where
  "digit_value c = of_char c - 48"

text \<open>The number that a string of digits stands for.\<close>

definition numeral_value :: "string \<Rightarrow> nat" where
  "numeral_value v = foldl (\<lambda>n c. 10 * n + digit_value c) 0 v"

text \<open>What \<open>parseInt\<close> accepts: digits without a leading zero.\<close>

definition numeral_ok :: "string \<Rightarrow> bool" where
  "numeral_ok v \<longleftrightarrow> v \<noteq> '''' \<and> (\<forall>c \<in> set v. is_digit c) \<and> (hd v = CHR ''0'' \<longrightarrow> length v = 1)"

section \<open>Lemmas\<close>

lemma numeral_value_snoc [simp]: "numeral_value (v @ [c]) = 10 * numeral_value v + digit_value c"
  by (simp add: numeral_value_def)

lemma numeral_value_Nil [simp]: "numeral_value [] = 0"
  by (simp add: numeral_value_def)

lemma numeral_value_Cons: "numeral_value (c # v) = digit_value c * 10 ^ length v + numeral_value v"
proof (induction v rule: rev_induct)
  case (snoc d v)
  have "numeral_value (c # v @ [d]) = 10 * numeral_value (c # v) + digit_value d"
    using numeral_value_snoc [of "c # v" d] by simp
  with snoc show ?case by (simp add: algebra_simps)
qed (simp add: numeral_value_def)

lemma digit_value_le: "is_digit c \<Longrightarrow> digit_value c \<le> 9"
  by (auto simp: is_digit_def digit_value_def)

lemma numeral_value_less: "\<forall>c \<in> set v. is_digit c \<Longrightarrow> numeral_value v < 10 ^ length v"
proof (induction v)
  case (Cons c v)
  then have "digit_value c * 10 ^ length v \<le> 9 * 10 ^ length v"
    using digit_value_le [of c] by (intro mult_right_mono) auto
  moreover have "numeral_value v < 10 ^ length v" using Cons by simp
  ultimately have "numeral_value (c # v) < 9 * 10 ^ length v + 10 ^ length v"
    unfolding numeral_value_Cons by (rule add_le_less_mono)
  then show ?case by simp
qed simp

lemma of_char_eq_iff_nat: "(of_char c :: nat) = of_char d \<longleftrightarrow> c = d"
  by simp

lemma digit_value_zero: "is_digit c \<Longrightarrow> digit_value c = 0 \<longleftrightarrow> c = CHR ''0''"
  using of_char_eq_iff_nat [of c "CHR ''0''"] by (auto simp: is_digit_def digit_value_def)

lemma digit_value_mono:
  "is_digit c \<Longrightarrow> is_digit d \<Longrightarrow> (of_char c :: nat) < of_char d \<longleftrightarrow> digit_value c < digit_value d"
  by (auto simp: is_digit_def digit_value_def)

text \<open>Strings of digits of the same length compare as their numbers do.\<close>

lemma str_less_value:
  assumes "length x = length y" "\<forall>c \<in> set x. is_digit c" "\<forall>c \<in> set y. is_digit c"
  shows "str_less x y \<longleftrightarrow> numeral_value x < numeral_value y"
  using assms
proof (induction x y rule: list_induct2)
  case (Cons c x d y)
  have v: "numeral_value x < 10 ^ length x" "numeral_value y < 10 ^ length x"
    using Cons numeral_value_less [of x] numeral_value_less [of y] by auto
  have lt: "a * 10 ^ length x + m < b * 10 ^ length x + k"
    if "a < b" "m < 10 ^ length x" for a b m k :: nat
  proof -
    have "(a + 1) * 10 ^ length x \<le> b * 10 ^ length x" using that(1) by (intro mult_right_mono) auto
    with that(2) show ?thesis by simp
  qed
  consider "digit_value c < digit_value d" | "digit_value d < digit_value c" | "c = d"
    using Cons.prems digit_value_mono [of c d] digit_value_mono [of d c] by force
  then show ?case
  proof cases
    case 1
    with lt [OF 1 v(1)] Cons show ?thesis by (simp add: numeral_value_Cons digit_value_mono)
  next
    case 2
    with lt [OF 2 v(2)] Cons show ?thesis
      using digit_value_mono [of c d] digit_value_mono [of d c]
      by (auto simp: numeral_value_Cons not_less [symmetric] dest: less_asym)
  next
    case 3
    with Cons show ?thesis by (simp add: numeral_value_Cons)
  qed
qed simp

lemma numeral_value_ge:
  assumes "numeral_ok v" "1 < length v"
  shows "10 ^ (length v - 1) \<le> numeral_value v"
proof (cases v)
  case (Cons c w)
  with assms have "is_digit c" "c \<noteq> CHR ''0''" by (auto simp: numeral_ok_def)
  then have "0 < digit_value c" using digit_value_zero by blast
  then have "1 * 10 ^ length w \<le> digit_value c * 10 ^ length w" by (intro mult_right_mono) auto
  then have "10 ^ length w \<le> numeral_value (c # w)" unfolding numeral_value_Cons by linarith
  with Cons show ?thesis by simp
qed (use assms in simp)

lemma shorter_less:
  assumes "numeral_ok x" "numeral_ok y" "length x < length y"
  shows "numeral_value x < numeral_value y"
proof -
  have "numeral_value x < 10 ^ length x" using assms(1) by (simp add: numeral_ok_def numeral_value_less)
  also have "\<dots> \<le> 10 ^ (length y - 1)" using assms(3) by (intro power_increasing) auto
  also have "\<dots> \<le> numeral_value y"
  proof (rule numeral_value_ge [OF assms(2)])
    have "x \<noteq> ''''" using assms(1) by (simp add: numeral_ok_def)
    then show "1 < length y" using assms(3) by (cases x) auto
  qed
  finally show ?thesis .
qed

lemma str_less_linear: "length x = length y \<Longrightarrow> x \<noteq> y \<Longrightarrow> str_less x y \<or> str_less y x"
  by (induction x y rule: list_induct2) (auto simp: neq_iff)

text \<open>So \<open>compareInt\<close> compares numbers.\<close>

lemma compareInt_value:
  assumes "numeral_ok x" "numeral_ok y"
  shows "compareInt x y =
    (if numeral_value x < numeral_value y then -1
     else if numeral_value y < numeral_value x then 1 else 0)"
proof -
  consider "length x < length y" | "length y < length x" | "length x = length y" by linarith
  then show ?thesis
  proof cases
    case 1
    with shorter_less [OF assms 1] show ?thesis by (auto simp: compareInt_def)
  next
    case 2
    with shorter_less [OF assms(2,1) 2] show ?thesis by (auto simp: compareInt_def)
  next
    case 3
    have "str_less x y \<longleftrightarrow> numeral_value x < numeral_value y"
      "str_less y x \<longleftrightarrow> numeral_value y < numeral_value x"
      using str_less_value [OF 3] str_less_value [OF 3 [symmetric]] assms
      unfolding numeral_ok_def by blast+
    with str_less_linear [OF 3] 3 show ?thesis by (auto simp: compareInt_def)
  qed
qed

lemma is_digit_char [simp]: "(n :: nat) < 10 \<Longrightarrow> is_digit (char_of (48 + n))"
  by (simp add: is_digit_def)

lemma digit_value_char [simp]: "(n :: nat) < 10 \<Longrightarrow> digit_value (char_of (48 + n)) = n"
  by (simp add: digit_value_def)

lemma digits_props:
  "(\<forall>c \<in> set (digits n). is_digit c) \<and> numeral_value (digits n) = n \<and> digits n \<noteq> '''' \<and>
   (hd (digits n) = CHR ''0'' \<longrightarrow> n = 0)"
proof (induction n rule: digits.induct)
  case (1 n)
  show ?case
  proof (cases "n < 10")
    case True
    moreover have "char_of (48 + n) = CHR ''0'' \<longrightarrow> n = 0"
      using digit_value_char [OF True] digit_value_zero [OF is_digit_char [OF True]] by auto
    ultimately show ?thesis using numeral_value_snoc [of "[]" "char_of (48 + n)"]
      by (simp add: digits.simps [of n] numeral_value_Cons)
  next
    case False
    with 1 have IH: "(\<forall>c \<in> set (digits (n div 10)). is_digit c) \<and>
       numeral_value (digits (n div 10)) = n div 10 \<and> digits (n div 10) \<noteq> '''' \<and>
       (hd (digits (n div 10)) = CHR ''0'' \<longrightarrow> n div 10 = 0)" by blast
    with False show ?thesis
      by (auto simp: digits.simps [of n])
  qed
qed

lemma numeral_ok_digits: "numeral_ok (digits n)"
proof -
  have "hd (digits n) = CHR ''0'' \<longrightarrow> length (digits n) = 1"
    using digits_props [of n] by (auto simp: digits.simps [of 0])
  with digits_props show ?thesis by (simp add: numeral_ok_def)
qed

lemma parseInt_Some:
  "parseInt v = Some (t, rest) \<longleftrightarrow>
     v = t @ rest \<and> numeral_ok t \<and> (rest = [] \<or> \<not> is_digit (hd rest))"
proof
  assume "parseInt v = Some (t, rest)"
  then show "v = t @ rest \<and> numeral_ok t \<and> (rest = [] \<or> \<not> is_digit (hd rest))"
    by (cases v, auto simp: parseInt_def numeral_ok_def Let_def dropWhile_eq_Cons_conv
        dest: set_takeWhileD hd_dropWhile split: if_splits)
      (metis self_append_conv2 takeWhile_dropWhile_id)
next
  assume a: "v = t @ rest \<and> numeral_ok t \<and> (rest = [] \<or> \<not> is_digit (hd rest))"
  then have "takeWhile is_digit v = t" "dropWhile is_digit v = rest"
    by (auto simp: numeral_ok_def takeWhile_append dropWhile_append takeWhile_eq_Nil_iff
        dropWhile_eq_self_iff)
  moreover from a obtain c w where "t = c # w" "is_digit c" by (cases t) (auto simp: numeral_ok_def)
  ultimately show "parseInt v = Some (t, rest)" using a by (auto simp: parseInt_def numeral_ok_def Let_def)
qed

text \<open>What the loop over identifiers has accepted starts with a good identifier.\<close>

lemma prerelease_loop_first:
  assumes "prerelease_loop ident v = Some (t, rest)" and "CHR ''.'' \<notin> set ident"
  shows "let d = ident @ takeWhile (\<lambda>c. c \<noteq> CHR ''.'') t in d \<noteq> [] \<and> \<not> isBadNum d"
  using assms
proof (induction ident v arbitrary: t rule: prerelease_loop.induct)
  case (2 ident c v)
  then show ?case
    by (auto simp: Let_def split: if_splits)
qed (auto split: if_splits)

lemma comparePrerelease_zero:
  assumes "takeWhile (\<lambda>c. c \<noteq> CHR ''.'') t \<noteq> []"
  shows "0 \<le> comparePrerelease (CHR ''-'' # t) ''-0''"
proof (cases "CHR ''-'' # t = ''-0''")
  case True
  then show ?thesis by (simp add: comparePrerelease_def)
next
  case False
  define d where "d = takeWhile (\<lambda>c. c \<noteq> CHR ''.'') t"
  define r where "r = dropWhile (\<lambda>c. c \<noteq> CHR ''.'') t"
  have dr: "t = d @ r" "d \<noteq> []" using assms by (simp_all add: d_def r_def)
  have loop: "comparePrerelease (CHR ''-'' # t) ''-0'' =
      (if d \<noteq> ''0'' then compareIdent d ''0'' else comparePrerelease_loop r '''')"
    using False
    by (simp add: comparePrerelease_def comparePrerelease_loop.simps [of "CHR ''-'' # t"]
        nextIdent_def d_def r_def)
  show ?thesis
  proof (cases "d = ''0''")
    case True
    with False dr have "r \<noteq> []" by auto
    with True loop show ?thesis by (simp add: comparePrerelease_loop.simps [of r])
  next
    case False
    have zero: "isNum ''0''" by (simp add: isNum_def is_digit_def)
    obtain c w where cw: "d = c # w" using dr(2) by (cases d) auto
    have "\<not> str_less d ''0''" if "isNum d"
      using that cw by (auto simp: isNum_def is_digit_def split: if_splits)
    with False loop zero dr(2) show ?thesis by (auto simp: compareIdent_def)
  qed
qed

lemma parse_Some:
  assumes "parse v = Some p"
  shows "numeral_ok (pMajor p)" "numeral_ok (pMinor p)" "numeral_ok (pPatch p)"
    "pPrerelease p = [] \<or>
     (\<exists>t. pPrerelease p = CHR ''-'' # t \<and> takeWhile (\<lambda>c. c \<noteq> CHR ''.'') t \<noteq> [])"
proof -
  have z: "numeral_ok ''0''" by (simp add: numeral_ok_def is_digit_def)
  have suffix: "pMajor q = pMajor p0 \<and> pMinor q = pMinor p0 \<and> pPatch q = pPatch p0 \<and>
      (pPrerelease q = [] \<or>
       (\<exists>t. pPrerelease q = CHR ''-'' # t \<and> takeWhile (\<lambda>c. c \<noteq> CHR ''.'') t \<noteq> []))"
    if "parse_suffix p0 w = Some q" "pPrerelease p0 = []" for p0 w q
    using that prerelease_loop_first [of "[]"]
    by (auto simp: parse_suffix_def parsePrerelease_def Let_def split: bind_splits if_splits list.splits)
  from assms z show "numeral_ok (pMajor p)" "numeral_ok (pMinor p)" "numeral_ok (pPatch p)"
    "pPrerelease p = [] \<or>
     (\<exists>t. pPrerelease p = CHR ''-'' # t \<and> takeWhile (\<lambda>c. c \<noteq> CHR ''.'') t \<noteq> [])"
    by (auto simp: parse_def Let_def parseInt_Some split: bind_splits if_splits dest!: suffix)
qed

lemma parse_target:
  "parse (CHR ''v'' # digits a @ CHR ''.'' # digits b @ ''.0-0'') =
     Some \<lparr>pMajor = digits a, pMinor = digits b, pPatch = ''0'', pShort = '''',
       pPrerelease = ''-0'', pBuild = ''''\<rparr>"
proof -
  have "parseInt (digits a @ CHR ''.'' # w) = Some (digits a, CHR ''.'' # w)" for a w
    by (simp add: parseInt_Some numeral_ok_digits is_digit_def)
  moreover have "parseInt ''0-0'' = Some (''0'', ''-0'')"
    by (simp add: parseInt_def is_digit_def Let_def)
  moreover have "parse_suffix p ''-0'' = Some (p\<lparr>pPrerelease := ''-0''\<rparr>)" for p
    by (simp add: parse_suffix_def parsePrerelease_def isIdentChar_def is_digit_def isBadNum_def)
  ultimately show ?thesis by (simp add: parse_def)
qed

lemma target_text:
  "Sprintf ''v%d.%d.0-0'' [itoa (int a), itoa (int b)] =
     CHR ''v'' # digits a @ CHR ''.'' # digits b @ ''.0-0''"
  by (simp add: Sprintf.simps itoa_def)

section \<open>Properties\<close>

text \<open>
  C18: \<open>IsVersionAtLeast\<close> is the comparison of the major and minor version as numbers of any
  size: a valid version is accepted exactly when its pair is not below the given one, whatever
  its patch, pre-release and build parts are, and a string that is no semantic version is
  always accepted.
\<close>

theorem IsVersionAtLeast_numbers:
  "IsVersionAtLeast v (int major) (int minor) \<longleftrightarrow>
     (case parse v of
        None \<Rightarrow> True
      | Some p \<Rightarrow>
          major < numeral_value (pMajor p) \<or>
          major = numeral_value (pMajor p) \<and> minor \<le> numeral_value (pMinor p))"
proof (cases "parse v")
  case None
  then show ?thesis by (simp add: IsVersionAtLeast_def IsValid_def)
next
  case (Some p)
  note ok = parse_Some [OF Some]
  have pre: "0 \<le> comparePrerelease (pPrerelease p) ''-0''"
  proof (cases "pPrerelease p = []")
    case True
    then show ?thesis by (simp add: comparePrerelease_def)
  next
    case False
    with ok(4) comparePrerelease_zero show ?thesis by auto
  qed
  have z: "numeral_ok ''0''" "numeral_value ''0'' = 0"
    by (simp_all add: numeral_ok_def is_digit_def numeral_value_Cons digit_value_def)
  have "numeral_value (digits n) = n" for n using digits_props [of n] by blast
  then show ?thesis
    using pre by (auto simp: IsVersionAtLeast_def IsValid_def Compare_def Some target_text parse_target
        compareInt_value ok numeral_ok_digits z Let_def)
qed

end
