(* ===== verification/Hw_Addr.thy ===== *)
theory Hw_Addr
  imports Node_Files
begin

text \<open>
  Hardware addresses: Go's \<open>net.ParseMAC\<close> and \<open>HardwareAddr.String\<close>, and the list of the node's
  interfaces read from \<open>/sys/class/net\<close> (\<open>pkg/sysfsnet/interfaces_linux.go\<close>).
\<close>

section \<open>MAC addresses\<close>

type_synonym hwaddr = "8 word list"

text \<open>One hexadecimal digit, as \<open>xtoi\<close> reads it.\<close>

definition hex_value :: "char \<Rightarrow> nat option" where
  "hex_value c =
     (let n = of_char c :: nat in
      if 48 \<le> n \<and> n \<le> 57 then Some (n - 48)
      else if 97 \<le> n \<and> n \<le> 102 then Some (n - 87)
      else if 65 \<le> n \<and> n \<le> 70 then Some (n - 55)
      else None)"

text \<open>\<open>xtoi2(s, e)\<close>: the first two bytes are digits, and the third, if there is one, is \<open>e\<close>. Its
  callers never pass less than two bytes.\<close>

definition xtoi2 :: "string \<Rightarrow> char \<Rightarrow> 8 word option" where
  "xtoi2 s e =
     (if length s > 2 \<and> s ! 2 \<noteq> e then None
      else
        (case s of
           a # b # _ \<Rightarrow>
             Option.bind (hex_value a) (\<lambda>x.
             Option.bind (hex_value b) (\<lambda>y. Some (of_nat (16 * x + y))))
         | _ \<Rightarrow> None))"

text \<open>The loops over groups of two and of four digits, for \<open>n\<close> groups.\<close>

fun mac_pairs :: "nat \<Rightarrow> char \<Rightarrow> string \<Rightarrow> hwaddr option" where
  "mac_pairs 0 sep s = Some []"
| "mac_pairs (Suc n) sep s =
     Option.bind (xtoi2 s sep) (\<lambda>b.
     Option.bind (mac_pairs n sep (drop 3 s)) (\<lambda>bs. Some (b # bs)))"

fun mac_quads :: "nat \<Rightarrow> char \<Rightarrow> string \<Rightarrow> hwaddr option" where
  "mac_quads 0 sep s = Some []"
| "mac_quads (Suc n) sep s =
     Option.bind (xtoi2 (take 2 s) (char_of (0 :: nat))) (\<lambda>b.
     Option.bind (xtoi2 (drop 2 s) sep) (\<lambda>b'.
     Option.bind (mac_quads n sep (drop 5 s)) (\<lambda>bs. Some (b # b' # bs))))"

definition ParseMAC :: "string \<Rightarrow> hwaddr option" where
  "ParseMAC s =
     (if length s < 14 then None
      else if s ! 2 = CHR '':'' \<or> s ! 2 = CHR ''-'' then
        (let n = (length s + 1) div 3 in
         if (length s + 1) mod 3 \<noteq> 0 \<or> n \<noteq> 6 \<and> n \<noteq> 8 \<and> n \<noteq> 20 then None
         else mac_pairs n (s ! 2) s)
      else if s ! 4 = CHR ''.'' then
        (let n = 2 * (length s + 1) div 5 in
         if (length s + 1) mod 5 \<noteq> 0 \<or> n \<noteq> 6 \<and> n \<noteq> 8 \<and> n \<noteq> 20 then None
         else mac_quads (n div 2) (s ! 4) s)
      else None)"

definition byte_hex :: "8 word \<Rightarrow> string" where
  "byte_hex b = [hex_digit (unat b div 16), hex_digit (unat b mod 16)]"

fun mac_String :: "hwaddr \<Rightarrow> string" where
  "mac_String [] = ''''"
| "mac_String [b] = byte_hex b"
| "mac_String (b # c # bs) = byte_hex b @ '':'' @ mac_String (c # bs)"

section \<open>The interfaces of the node\<close>

record iface =
  HardwareAddr :: hwaddr

text \<open>\<open>strings.TrimSpace\<close>: white space of Unicode, in UTF-8.\<close>

definition spaces :: "string list" where
  "spaces =
     [[CHR 0x09], [CHR 0x0A], [CHR 0x0B], [CHR 0x0C], [CHR 0x0D], [CHR 0x20],
      [CHR 0xC2, CHR 0x85], [CHR 0xC2, CHR 0xA0], [CHR 0xE1, CHR 0x9A, CHR 0x80],
      [CHR 0xE2, CHR 0x80, CHR 0x80], [CHR 0xE2, CHR 0x80, CHR 0x81],
      [CHR 0xE2, CHR 0x80, CHR 0x82], [CHR 0xE2, CHR 0x80, CHR 0x83],
      [CHR 0xE2, CHR 0x80, CHR 0x84], [CHR 0xE2, CHR 0x80, CHR 0x85],
      [CHR 0xE2, CHR 0x80, CHR 0x86], [CHR 0xE2, CHR 0x80, CHR 0x87],
      [CHR 0xE2, CHR 0x80, CHR 0x88], [CHR 0xE2, CHR 0x80, CHR 0x89],
      [CHR 0xE2, CHR 0x80, CHR 0x8A], [CHR 0xE2, CHR 0x80, CHR 0xA8],
      [CHR 0xE2, CHR 0x80, CHR 0xA9], [CHR 0xE2, CHR 0x80, CHR 0xAF],
      [CHR 0xE2, CHR 0x81, CHR 0x9F], [CHR 0xE3, CHR 0x80, CHR 0x80]]"

function trim_with :: "string list \<Rightarrow> string \<Rightarrow> string" where
  "trim_with es s =
     (case find (\<lambda>e. e \<noteq> '''' \<and> HasPrefix s e) es of
        None \<Rightarrow> s
      | Some e \<Rightarrow> trim_with es (drop (length e) s))"
  by pat_completeness auto

termination
  by (relation "measure (\<lambda>(es, s). length s)") (auto simp: find_Some_iff)

declare trim_with.simps [simp del]

definition TrimSpace :: "string \<Rightarrow> string" where
  "TrimSpace s = rev (trim_with (map rev spaces) (rev (trim_with spaces s)))"

text \<open>
  What the first \<open>Scan\<close> of a line scanner reads from a file: the text before the first newline
  without a carriage return at its end, or nothing when the line does not fit into its buffer.
\<close>

definition scan_line :: "string \<Rightarrow> string" where
  "scan_line content =
     (let line = takeWhile (\<lambda>c. c \<noteq> CHR 0x0A) content in
      if 65535 < int (length line) then ''''
      else if line \<noteq> '''' \<and> last line = CHR 0x0D then butlast line
      else line)"

definition sysClassNet :: string where
  "sysClassNet = ''/sys/class/net''"

text \<open>Reading a file is a further service of the system, given as the argument \<open>readFile\<close>: the
  error of \<open>os.Open\<close> or the text in the file.\<close>

definition readMACFromFile ::
  "(string \<Rightarrow> ('w, string) request) \<Rightarrow> string \<Rightarrow> ('w, string) io" where
  "readMACFromFile readFile s =
     handle (perform VGet NodeFS '''' s (readFile s))
       (\<lambda>err. if IsNotExist err then ret '''' else fail err)
       (\<lambda>content. ret (scan_line content))"

fun interfaces_loop ::
  "'w os \<Rightarrow> (string \<Rightarrow> ('w, string) request) \<Rightarrow> string list \<Rightarrow> ('w, iface list) io" where
  "interfaces_loop os readFile [] = ret []"
| "interfaces_loop os readFile (name # names) =
     (let entryPath = Join sysClassNet name in
      handle (IsDir os entryPath)
        (\<lambda>err. interfaces_loop os readFile names)
        (\<lambda>isDir.
      if \<not> isDir then interfaces_loop os readFile names
      else
      handle (readMACFromFile readFile (Join entryPath ''address''))
        (\<lambda>err. if IsNotExist err then interfaces_loop os readFile names else fail err)
        (\<lambda>hwText.
      case ParseMAC (TrimSpace hwText) of
        None \<Rightarrow> interfaces_loop os readFile names
      | Some hw \<Rightarrow>
          andThen (interfaces_loop os readFile names) (\<lambda>ifaces. ret (\<lparr>HardwareAddr = hw\<rparr> # ifaces)))))"

definition Interfaces ::
  "'w os \<Rightarrow> (string \<Rightarrow> ('w, string) request) \<Rightarrow> ('w, iface list) io" where
  "Interfaces os readFile =
     andThen (ReadDir os sysClassNet) (interfaces_loop os readFile)"

section \<open>Lemmas\<close>

lemma hex_digit_value: "n < 16 \<Longrightarrow> hex_value (hex_digit n) = Some n"
  by (auto simp: hex_value_def Let_def of_char_of)

lemma hex_digit_inj: "m < 16 \<Longrightarrow> n < 16 \<Longrightarrow> hex_digit m = hex_digit n \<longleftrightarrow> m = n"
  by (metis hex_digit_value option.inject)

lemma byte_bounds: "unat (b :: 8 word) div 16 < 16" "unat (b :: 8 word) mod 16 < 16"
proof -
  have "unat b < 2 ^ 8" using unsigned_less [of b] by simp
  then show "unat b div 16 < 16" by (simp add: less_mult_imp_div_less)
qed simp

lemma byte_hex_inj [simp]: "byte_hex a = byte_hex b \<longleftrightarrow> a = b"
proof
  assume "byte_hex a = byte_hex b"
  then have "unat a div 16 = unat b div 16" "unat a mod 16 = unat b mod 16"
    by (simp_all add: byte_hex_def hex_digit_inj byte_bounds del: hex_digit.simps)
  then have "unat a = unat b" by (metis div_mult_mod_eq)
  then show "a = b" by (rule unsigned_word_eqI)
qed simp

lemma byte_of_digits: "16 * of_nat (unat b div 16) + of_nat (unat b mod 16) = (b :: 8 word)"
proof -
  have "of_nat (16 * (unat b div 16) + unat b mod 16) = b" by (simp only: mult_div_mod_eq) simp
  then show ?thesis by (simp only: of_nat_add of_nat_mult of_nat_numeral)
qed

lemma byte_hex_length [simp]: "length (byte_hex b) = 2"
  by (simp add: byte_hex_def)

lemma mac_String_Nil: "mac_String hw = '''' \<longleftrightarrow> hw = []"
  by (cases hw rule: mac_String.cases) (auto simp: byte_hex_def)

lemma mac_String_inj [simp]: "mac_String a = mac_String b \<longleftrightarrow> a = b"
proof
  show "mac_String a = mac_String b \<Longrightarrow> a = b"
  proof (induction a arbitrary: b rule: mac_String.induct)
    case 1
    then show ?case by (metis mac_String_Nil mac_String.simps(1))
  next
    case (2 x)
    then show ?case
      by (cases b rule: mac_String.cases) (auto dest: arg_cong [of _ _ length])
  next
    case (3 x y xs)
    then show ?case
      by (cases b rule: mac_String.cases) (auto simp: append_eq_append_conv dest: arg_cong [of _ _ length])
  qed
qed simp

lemma xtoi2_byte_hex: "xtoi2 (byte_hex b) e = Some b"
  using byte_bounds [of b]
  by (simp add: xtoi2_def byte_hex_def hex_digit_value byte_of_digits del: hex_digit.simps)

lemma xtoi2_byte_hex_sep: "xtoi2 (byte_hex b @ e # s) e = Some b"
  using byte_bounds [of b]
  by (simp add: xtoi2_def byte_hex_def hex_digit_value byte_of_digits del: hex_digit.simps)

lemma mac_pairs_String: "mac_pairs (length hw) CHR '':'' (mac_String hw) = Some hw"
proof (induction hw rule: mac_String.induct)
  case (3 b c bs)
  have "drop 3 (mac_String (b # c # bs)) = mac_String (c # bs)" by (simp add: byte_hex_def)
  with 3 show ?case using xtoi2_byte_hex_sep [of b "CHR '':''" "mac_String (c # bs)"] by simp
qed (simp_all add: xtoi2_byte_hex)

lemma mac_String_length: "hw \<noteq> [] \<Longrightarrow> length (mac_String hw) + 1 = 3 * length hw"
  by (induction hw rule: mac_String.induct) auto

text \<open>Addresses of the lengths that hardware has survive printing and parsing.\<close>

lemma ParseMAC_String:
  assumes "length hw \<in> {6, 8, 20}"
  shows "ParseMAC (mac_String hw) = Some hw"
proof -
  obtain b c bs where hw: "hw = b # c # bs"
    using assms by (cases hw rule: mac_String.cases) auto
  have "length (mac_String hw) + 1 = 3 * length hw" using hw mac_String_length by blast
  moreover have "mac_String hw ! 2 = CHR '':''" by (simp add: hw byte_hex_def nth_append)
  ultimately show ?thesis
    using assms mac_pairs_String [of hw] by (auto simp: ParseMAC_def Let_def)
qed

lemma reads_interfaces_loop: "issues read_only (interfaces_loop os rf names)"
  by (induction names)
    (auto simp: IsDir_def readMACFromFile_def Let_def read_only_def intro!: issues_intros split: option.split)

lemma reads_Interfaces: "issues read_only (Interfaces os rf)"
  by (auto simp: Interfaces_def ReadDir_def read_only_def intro!: issues_intros reads_interfaces_loop)

end
