(* ===== verification/Driver.thy ===== *)
theory Driver
  imports Node_Controller Grpc_Server Semver Hw_Addr
begin

text \<open>
  The manager, which finds out which virtual machine the node is and which hot-plug interface the
  Harvester cluster has, and makes the servers (\<open>pkg/csi/manager.go\<close>, with \<open>pkg/config\<close> and
  \<open>pkg/version\<close>).
\<close>

section \<open>Configuration and version\<close>

record config =
  Endpoint :: string
  KubeConfig :: string
  NodeID :: string
  HostStorageClass :: string
  Debug :: bool

definition Version :: string where
  "Version = ''v0.0.0-dev''"

definition GitCommit :: string where
  "GitCommit = ''HEAD''"

definition FriendlyVersion :: string where
  "FriendlyVersion = Sprintf ''%s (%s)'' [Version, GitCommit]"

section \<open>Which virtual machine is this node?\<close>

definition calicoMacAddress :: string where
  "calicoMacAddress = ''ee:ee:ee:ee:ee:ee''"

definition loopBackMacAddress :: string where
  "loopBackMacAddress = ''00:00:00:00:00:00''"

fun node_macs :: "iface list \<Rightarrow> string list" where
  "node_macs [] = []"
| "node_macs (i # ifaces) =
     (if mac_String (HardwareAddr i) = calicoMacAddress \<or>
         mac_String (HardwareAddr i) = loopBackMacAddress
      then node_macs ifaces
      else mac_String (HardwareAddr i) # node_macs ifaces)"

fun vmi_matches :: "string list \<Rightarrow> string list \<Rightarrow> bool" where
  "vmi_matches macs [] = False"
| "vmi_matches macs (m # ifaces) =
     (case ParseMAC m of
        None \<Rightarrow> vmi_matches macs ifaces
      | Some mac \<Rightarrow> if mac_String mac \<in> set macs then True else vmi_matches macs ifaces)"

text \<open>The answer \<open>None\<close> is the error \<open>errVMINotFound\<close>, which the caller tells from all others.\<close>

definition discoverVMIName ::
  "'w api \<Rightarrow> string \<Rightarrow> string \<Rightarrow> iface list \<Rightarrow> ('w, string option) io" where
  "discoverVMIName api ns nodeID ifaces =
     (if ifaces = [] then ret None
      else
        (let macs = node_macs ifaces;
             searchAll =
               andThen (kList VMIs (vmis api) ns empty_options) (\<lambda>(instances, _).
               ret (map_option Name
                 (find (\<lambda>i. vmi_matches macs (InterfaceMACs i)) instances))) in
         handle (kGet VMIs (vmis api) ns nodeID)
           (\<lambda>err. searchAll)
           (\<lambda>i. if vmi_matches macs (InterfaceMACs i) then ret (Some (Name i))
                else searchAll)))"

section \<open>The manager\<close>

definition defaultKubeconfigPath :: string where
  "defaultKubeconfigPath = ''/etc/kubernetes/cloud-config''"

definition serverVersionSettingName :: string where
  "serverVersionSettingName = ''server-version''"

text \<open>The servers the manager starts on the endpoint, and the handler of the node controller on a
  control plane node.\<close>

record 'w manager =
  m_ids :: identity_server
  m_ns :: node_server
  m_cs :: controller_server
  m_endpoint :: string
  m_handler :: "(string \<times> (node option \<Rightarrow> ('w, node option) io)) option"

fun newClientsets :: "'w platform \<Rightarrow> clientset list \<Rightarrow> ('w, unit) io" where
  "newClientsets pf [] = ret ()"
| "newClientsets pf (c # cs) = andThen (ask (newClientset pf c)) (\<lambda>_. newClientsets pf cs)"

definition kubeConfigPath :: "'w os \<Rightarrow> config \<Rightarrow> ('w, string) io" where
  "kubeConfigPath os cfg =
     handle (IsDir os (KubeConfig cfg))
       (\<lambda>err. if IsNotExist err then ret defaultKubeconfigPath else fail err)
       (\<lambda>_. ret (KubeConfig cfg))"

definition runsNodeController :: "'w api \<Rightarrow> string \<Rightarrow> ('w, bool) io" where
  "runsNodeController api nodeID =
     handle (kGet GuestNodes (guestNodes api) '''' nodeID)
       (\<lambda>err. ret False)
       (\<lambda>node. ret (map_get (Labels node) ''node-role.kubernetes.io/control-plane'' = Some ''true''))"

text \<open>
  \<open>Run\<close> up to the point where it waits for the gRPC server. The answer \<open>None\<close> is its return
  without an error before anything was started.
\<close>

definition Run :: "'w api \<Rightarrow> 'w os \<Rightarrow> 'w platform \<Rightarrow> config \<Rightarrow> ('w, 'w manager option) io" where
  "Run api os pf cfg =
     andThen (kubeConfigPath os cfg) (\<lambda>path.
     handle (ask (inClusterConfig pf)) (\<lambda>err. ret None) (\<lambda>_.
     andThen (newClientsets pf [LocalKubeClient, LocalCoreClient]) (\<lambda>_.
     andThen (ask (configNamespace pf path)) (\<lambda>configured.
     let namespace' = if configured = '''' then ''default'' else configured in
     andThen (ask (configHost pf path)) (\<lambda>host.
     andThen (newClientsets pf [KubeClient, CoreClient, StorageClient, VirtClient, LHClient,
       HarvNetworkFSClient, HarvClient, SnapClient]) (\<lambda>_.
     andThen (kGet Settings (settings api) '''' serverVersionSettingName) (\<lambda>serverVersion.
     let declarative = IsVersionAtLeast (SettingValue serverVersion) 1 8 in
     andThen (handle (Interfaces os (readFile pf)) (\<lambda>err. ret []) ret) (\<lambda>ifaces.
     andThen (discoverVMIName api namespace' (NodeID cfg) ifaces) (\<lambda>name.
     let nodeID = (case name of Some n \<Rightarrow> n | None \<Rightarrow> NodeID cfg) in
     andThen (NewControllerServer api namespace' (HostStorageClass cfg) declarative) (\<lambda>cs.
     andThen (runsNodeController api nodeID) (\<lambda>controlPlane.
     ret (Some \<lparr>m_ids = NewIdentityServer driverName FriendlyVersion,
       m_ns = NewNodeServer nodeID namespace' host, m_cs = cs, m_endpoint = Endpoint cfg,
       m_handler = (if controlPlane then Some (Register api nodeID namespace' declarative)
         else None)\<rparr>))))))))))))"

section \<open>What the theorems speak of\<close>

text \<open>The instance has a network interface with the hardware address of one of the node's, other
  than the address all Calico interfaces have and that of the loop-back interface.\<close>

definition on_node :: "iface list \<Rightarrow> vmi \<Rightarrow> bool" where
  "on_node ifaces i \<longleftrightarrow>
     (\<exists>hw \<in> HardwareAddr ` set ifaces.
        hw \<noteq> replicate 6 0xee \<and> hw \<noteq> replicate 6 0 \<and> Some hw \<in> ParseMAC ` set (InterfaceMACs i))"

text \<open>What the discovery may answer in a world: the instance that is the node, that there is none,
  or the error of a list.\<close>

definition discovery_ok ::
  "'w api \<Rightarrow> ('w \<Rightarrow> string \<Rightarrow> string \<Rightarrow> vmi option) \<Rightarrow> 'w \<Rightarrow> string \<Rightarrow> iface list \<Rightarrow>
   string option result \<Rightarrow> bool" where
  "discovery_ok api lookup w ns ifaces r =
     (case r of
        Ok (Some n) \<Rightarrow> \<exists>i. lookup w ns n = Some i \<and> on_node ifaces i
      | Ok None \<Rightarrow> \<forall>n i. lookup w ns n = Some i \<longrightarrow> \<not> on_node ifaces i
      | Err e \<Rightarrow> \<exists>w1 w2. clist (vmis api) ns empty_options w1 = (Inl e, w2)
      | Panic \<Rightarrow> False)"

text \<open>The search among all instances.\<close>

definition search_all :: "'w api \<Rightarrow> string \<Rightarrow> iface list \<Rightarrow> ('w, string option) io" where
  "search_all api ns ifaces =
     andThen (kList VMIs (vmis api) ns empty_options) (\<lambda>(instances, _).
     ret (map_option Name (find (on_node ifaces) instances)))"

section \<open>Lemmas\<close>

lemma special_macs:
  "mac_String hw = calicoMacAddress \<longleftrightarrow> hw = replicate 6 0xee"
  "mac_String hw = loopBackMacAddress \<longleftrightarrow> hw = replicate 6 0"
proof -
  have calico: "calicoMacAddress = mac_String (replicate 6 0xee)" by code_simp
  show "mac_String hw = calicoMacAddress \<longleftrightarrow> hw = replicate 6 0xee"
    by (simp only: calico mac_String_inj)
  have loop: "loopBackMacAddress = mac_String (replicate 6 0)" by code_simp
  show "mac_String hw = loopBackMacAddress \<longleftrightarrow> hw = replicate 6 0"
    by (simp only: loop mac_String_inj)
qed

lemma node_macs_iff:
  "x \<in> set (node_macs ifaces) \<longleftrightarrow>
     (\<exists>hw \<in> HardwareAddr ` set ifaces.
        hw \<noteq> replicate 6 0xee \<and> hw \<noteq> replicate 6 0 \<and> x = mac_String hw)"
  by (induction ifaces) (auto simp: special_macs)

lemma vmi_matches_iff:
  "vmi_matches macs ms \<longleftrightarrow> (\<exists>m \<in> set ms. \<exists>hw. ParseMAC m = Some hw \<and> mac_String hw \<in> set macs)"
  by (induction ms) (auto split: option.splits)

lemma matches_on_node: "vmi_matches (node_macs ifaces) (InterfaceMACs i) \<longleftrightarrow> on_node ifaces i"
  by (simp only: vmi_matches_iff node_macs_iff on_node_def mac_String_inj image_iff) metis

lemma discoverVMIName_eq:
  "discoverVMIName api ns nodeID ifaces =
     (if ifaces = [] then ret None
      else handle (kGet VMIs (vmis api) ns nodeID)
        (\<lambda>err. search_all api ns ifaces)
        (\<lambda>i. if on_node ifaces i then ret (Some (Name i)) else search_all api ns ifaces))"
  by (simp add: discoverVMIName_def search_all_def matches_on_node Let_def cong: if_cong)

lemma on_node_Nil [simp]: "\<not> on_node [] i"
  by (simp add: on_node_def)

lemma search_all_ok:
  assumes "search_all api ns ifaces s = (r, s')" and "list_law (vmis api) lookup"
    and "keyed lookup" and "ns \<noteq> ''''"
  shows "discovery_ok api lookup (world s) ns ifaces r"
  using assms(1) unfolding search_all_def andThen_returns
proof (elim disjE exE conjE)
  fix p s1
  assume l: "kList VMIs (vmis api) ns empty_options s = (Ok p, s1)"
    and k: "(case p of (instances, _) \<Rightarrow> ret (map_option Name (find (on_node ifaces) instances))) s1 = (r, s')"
  obtain items cont where p: "p = (items, cont)" by (cases p)
  with l have "clist (vmis api) ns empty_options (world s) = (Inr (items, cont), world s1)"
    by (auto simp: kList_returns)
  note held = list_lawD [OF assms(2,4) this]
  from k p have r: "r = Ok (map_option Name (find (on_node ifaces) items))" by (simp add: ret_def)
  show ?thesis
  proof (cases "find (on_node ifaces) items")
    case None
    then have "\<And>i. i \<in> set items \<Longrightarrow> \<not> on_node ifaces i" by (simp add: find_None_iff)
    with held keyedD [OF assms(3)] None r show ?thesis
      by (simp add: discovery_ok_def)
  next
    case (Some i)
    then have "i \<in> set items" "on_node ifaces i" by (auto simp: find_Some_iff)
    with held Some r show ?thesis by (auto simp: discovery_ok_def)
  qed
qed (auto simp: kList_returns discovery_ok_def)

lemma reads_newClientsets: "issues read_only (newClientsets pf cs)"
  by (induction cs) (auto intro!: issues_intros)

lemma reads_discoverVMIName: "issues read_only (discoverVMIName api ns nodeID ifaces)"
  by (auto simp: discoverVMIName_def Let_def read_only_def intro!: issues_intros)

lemma reads_NewControllerServer: "issues read_only (NewControllerServer api ns sc d)"
  by (auto simp: NewControllerServer_def read_only_def intro!: issues_intros)

lemma reads_runsNodeController: "issues read_only (runsNodeController api nodeID)"
  by (auto simp: runsNodeController_def read_only_def intro!: issues_intros)

lemma reads_kubeConfigPath: "issues read_only (kubeConfigPath os cfg)"
  by (auto simp: kubeConfigPath_def IsDir_def read_only_def intro!: issues_intros)

lemma reads_Run: "issues read_only (Run api os pf cfg)"
  unfolding Run_def Let_def
  by (auto simp: read_only_def intro!: issues_intros reads_kubeConfigPath reads_newClientsets reads_Interfaces
      reads_discoverVMIName reads_NewControllerServer reads_runsNodeController)

lemma NewControllerServer_fields:
  "NewControllerServer api ns sc d s = (Ok cs, s') \<Longrightarrow>
     cs_namespace cs = ns \<and> hostStorageClass cs = sc \<and> useDeclarativeHotplug cs = d"
  by (auto simp: NewControllerServer_def andThen_returns handle_returns ret_def)

lemma andThen_OkE:
  assumes "andThen m k s = (Ok x, s')"
  obtains y s1 where "m s = (Ok y, s1)" "k y s1 = (Ok x, s')"
  using assms by (auto simp: andThen_returns)

lemma handle_ret_NoneE:
  assumes "handle m (\<lambda>e. ret None) k s = (Ok (Some x), s')"
  obtains y s1 where "m s = (Ok y, s1)" "k y s1 = (Ok (Some x), s')"
  using assms by (auto simp: handle_returns ret_def)

lemma ret_OkE:
  assumes "ret (Some y) s = (Ok (Some x), s')"
  obtains "x = y" "s' = s"
  using assms by (auto simp: ret_def)

lemmas started_elims = andThen_OkE handle_ret_NoneE ret_OkE

text \<open>What a manager that comes up is made of.\<close>

lemma Run_manager:
  assumes "Run api os pf cfg s = (Ok (Some m), s')"
  obtains nodeID configured host serverVersion cs cp s1 s2 s3 s4 where
    "kGet Settings (settings api) '''' serverVersionSettingName s1 = (Ok serverVersion, s2)"
    "NewControllerServer api (if configured = '''' then ''default'' else configured)
       (HostStorageClass cfg) (IsVersionAtLeast (SettingValue serverVersion) 1 8) s3 = (Ok cs, s4)"
    "m = \<lparr>m_ids = NewIdentityServer driverName FriendlyVersion,
       m_ns = NewNodeServer nodeID (if configured = '''' then ''default'' else configured) host,
       m_cs = cs, m_endpoint = Endpoint cfg,
       m_handler = (if cp then Some (Register api nodeID
         (if configured = '''' then ''default'' else configured)
         (IsVersionAtLeast (SettingValue serverVersion) 1 8)) else None)\<rparr>"
  using assms unfolding Run_def Let_def by (elim started_elims) (rule that, assumption+)

section \<open>A node that starts\<close>

text \<open>A worker with one network card, whose instance in Harvester writes the address of the card
  in another way, and a cluster of version 1.8.\<close>

definition boot_vmi :: vmi where
  "boot_vmi = \<lparr>Namespace = ''default'', Name = ''worker-1'', ResourceVersion = ''3'', Labels = None,
     Annotations = None, CreationTimestamp = None, DeletionTimestamp = None,
     VMINodeName = ''host-1'', VolumeStatus = [], InterfaceMACs = [''52-54-00-AB-12-34'']\<rparr>"

definition boot_mem :: mem where
  "boot_mem = empty_mem\<lparr>mVMIs := [boot_vmi],
     mSettings := [\<lparr>Namespace = '''', Name = ''server-version'', ResourceVersion = ''1'',
       Labels = None, Annotations = None, CreationTimestamp = None, DeletionTimestamp = None,
       SettingDefault = '''', SettingValue = ''v1.8.0''\<rparr>]\<rparr>"

definition sys_os :: "mem os" where
  "sys_os =
     \<lparr>isMountPoint = (\<lambda>p w. (Inr False, w)),
      isLikelyNotMountPoint = (\<lambda>p w. (Inr True, w)),
      mountFS = (\<lambda>src p fs opts w. (Inr (), w)),
      formatAndMount = (\<lambda>src p fs opts w. (Inr (), w)),
      unmountFS = (\<lambda>p w. (Inr (), w)),
      cleanupMountPoint = (\<lambda>p w. (Inr (), w)),
      pathExists = (\<lambda>p w. (Inr True, w)),
      mkdirAll = (\<lambda>p perm w. (Inr (), w)),
      openCreate = (\<lambda>p perm w. (Inr (), w)),
      removeFile = (\<lambda>p w. (Inr (), w)),
      readDir = (\<lambda>p w. (Inr [''eth0''], w)),
      evalSymlinks = (\<lambda>p w. (Inr p, w)),
      osIsDir = (\<lambda>p w. (Inr True, w)),
      unixStatMode = (\<lambda>p w. (Inr 0x4000, w)),
      unixStatfs = (\<lambda>p w. (Inr \<lparr>Bsize = 4096, Blocks = 1000, Bfree = 400, Bavail = 350,
        Files = 64, Ffree = 60\<rparr>, w)),
      newExecutor = (\<lambda>w. (Inr (), w)),
      execute = (\<lambda>cmd args w. (Inr '''', w)),
      combinedOutput = (\<lambda>cmd args w. (('''', None), w))\<rparr>"

definition sys_platform :: "mem platform" where
  "sys_platform =
     \<lparr>readFile = (\<lambda>p w. (Inr (''52:54:00:ab:12:34'' @ [CHR 0x0A]), w)),
      inClusterConfig = (\<lambda>w. (Inr (), w)),
      newClientset = (\<lambda>c w. (Inr (), w)),
      configNamespace = (\<lambda>p w. (Inr '''', w)),
      configHost = (\<lambda>p w. (Inr ''https://10.0.0.1:6443'', w)),
      netListen = (\<lambda>proto addr w. (Inr (), w)),
      netAccept = (\<lambda>w. (Inr (), w))\<rparr>"

definition demo_config :: config where
  "demo_config = \<lparr>Endpoint = ''unix:///csi/csi.sock'', KubeConfig = ''/kubeconfig'',
     NodeID = ''worker-1.example.org'', HostStorageClass = '''', Debug = False\<rparr>"

definition demo_ifaces :: "iface list" where
  "demo_ifaces = [\<lparr>HardwareAddr = [0x52, 0x54, 0, 0xab, 0x12, 0x34]\<rparr>, \<lparr>HardwareAddr = replicate 6 0\<rparr>]"

lemma boot_facts:
  "IsVersionAtLeast ''v1.8.0'' 1 8"
  "ParseMAC (TrimSpace (scan_line (''52:54:00:ab:12:34'' @ [CHR 0x0A]))) =
     Some [0x52, 0x54, 0, 0xab, 0x12, 0x34]"
  "vmi_matches (node_macs [\<lparr>HardwareAddr = [0x52, 0x54, 0, 0xab, 0x12, 0x34]\<rparr>])
     [''52-54-00-AB-12-34'']"
  by code_simp+

lemma boot_starts:
  "\<exists>m s'. Run mem_api sys_os sys_platform demo_config (in_mem boot_mem) = (Ok (Some m), s') \<and>
     NodeGetInfo (m_ns m) = ''worker-1''"
  by (simp add: Run_def Let_def io_run ask_def kubeConfigPath_def IsDir_def kcall_defs mem_api_def
      mem_client_def boot_mem_def empty_mem_def boot_vmi_def serverVersionSettingName_def
      boot_facts(1,3) boot_facts(2) [simplified] Interfaces_def ReadDir_def readMACFromFile_def
      sys_os_def sys_platform_def discoverVMIName_def runsNodeController_def
      NewControllerServer_def demo_config_def NewNodeServer_def NodeGetInfo_def has_key_def
      in_mem_def del: node_macs.simps vmi_matches.simps)

section \<open>Properties\<close>

text \<open>
  C17: \<open>discoverVMIName\<close> decides which virtual machine the node is by hardware address. With clients
  that answer what the cluster holds, a name it answers is that of an instance one of whose
  interfaces has the address, byte for byte and however it is written, of an interface of the
  node other than the ones Calico and the loop-back share; it answers that there is none only
  when there is none; and every other error is the one of a refused list.
\<close>

theorem discoverVMIName_correct:
  assumes "get_law (vmis api) lookup" and "list_law (vmis api) lookup" and "keyed lookup"
    and "ns \<noteq> ''''" and "discoverVMIName api ns nodeID ifaces s = (r, s')"
  shows "discovery_ok api lookup (world s) ns ifaces r"
proof (cases "ifaces = []")
  case True
  with assms(5) show ?thesis by (auto simp: discoverVMIName_eq ret_def discovery_ok_def)
next
  case False
  obtain g s1 where g: "kGet VMIs (vmis api) ns nodeID s = (g, s1)" by fastforce
  then have same: "lookup (world s1) = lookup (world s)"
    using get_lawD [OF assms(1)] by (auto simp: kGet_returns)
  note all = search_all_ok [OF _ assms(2-4), of ifaces s1 r s', unfolded discovery_ok_def same,
      folded discovery_ok_def]
  show ?thesis
  proof (cases g)
    case (Ok i)
    with g have "lookup (world s) ns nodeID = Some i"
      using get_law_Ok [OF assms(1)] by (auto simp: kGet_returns)
    with Ok g assms(5) False all keyedD [OF assms(3)] show ?thesis
      by (auto simp: discoverVMIName_eq handle_def ret_def discovery_ok_def split: if_splits)
  next
    case (Err e)
    with g assms(5) False all show ?thesis by (simp add: discoverVMIName_eq handle_def)
  next
    case Panic
    with g show ?thesis by (simp add: kGet_returns)
  qed
qed

theorem discoverVMIName_correct_witness:
  "\<exists>s'. discoverVMIName mem_api ''default'' ''worker-1.example.org'' demo_ifaces (in_mem boot_mem) =
      (Ok (Some ''worker-1''), s') \<and>
     discovery_ok mem_api (\<lambda>w. look (mVMIs w)) boot_mem ''default'' demo_ifaces (Ok (Some ''worker-1''))"
proof -
  let ?run = "discoverVMIName mem_api ''default'' ''worker-1.example.org'' demo_ifaces (in_mem boot_mem)"
  have "fst ?run = Ok (Some ''worker-1'')" by code_simp
  then have run: "?run = (Ok (Some ''worker-1''), snd ?run)" by (metis prod.collapse)
  have "vmis mem_api = mem_client mVMIs (\<lambda>x w. w\<lparr>mVMIs := x\<rparr>)" by (simp add: mem_api_def)
  then have "get_law (vmis mem_api) (\<lambda>w. look (mVMIs w))"
    "list_law (vmis mem_api) (\<lambda>w. look (mVMIs w))"
    by (simp_all add: mem_laws mem_list_law)
  from discoverVMIName_correct [OF this mem_keyed _ run] run show ?thesis by auto
qed



end
