(* ===== verification/Panic_Freedom.thy ===== *)
theory Panic_Freedom
  imports Driver
begin

text \<open>
  Which handlers cannot panic, and what they rely on for it. The handlers follow pointers in
  objects that the API servers return (a claim's storage class, a machine's template, a
  snapshot's status); the predicates on objects say which pointers, the predicates on clients
  that a client answers such objects only, and the rules \<open>safe_intros\<close> carry them through the code
  of the handlers.
\<close>

named_theorems safe_intros \<open>which handlers never panic, one rule per combinator\<close>

definition safe :: "('w, 'a) io \<Rightarrow> bool" where
  "safe m \<longleftrightarrow> (\<forall>s. fst (m s) \<noteq> Panic)"

section \<open>Complete objects\<close>

text \<open>What a client may answer to a read of one object, to a list, and to a create.\<close>

definition gets_only :: "('w, 'o) client \<Rightarrow> ('o \<Rightarrow> bool) \<Rightarrow> bool" where
  "gets_only c W \<longleftrightarrow> (\<forall>ns n w x w'. cget c ns n w = (Inr x, w') \<longrightarrow> W x)"

definition lists_only :: "('w, 'o) client \<Rightarrow> ('o \<Rightarrow> bool) \<Rightarrow> bool" where
  "lists_only c W \<longleftrightarrow> (\<forall>ns lo w xs t w'. clist c ns lo w = (Inr (xs, t), w') \<longrightarrow> list_all W xs)"

definition creates_only :: "('w, 'o) client \<Rightarrow> ('o \<Rightarrow> bool) \<Rightarrow> bool" where
  "creates_only c W \<longleftrightarrow> (\<forall>obj w x w'. ccreate c obj w = (Inr x, w') \<longrightarrow> W x)"

text \<open>The pointers that the handlers follow without a test.\<close>

definition complete_snapshot :: "snapshot \<Rightarrow> bool" where
  "complete_snapshot x \<longleftrightarrow>
     (case SnapStatus x of
        None \<Rightarrow> False
      | Some st \<Rightarrow>
          SnapError st \<noteq> Some None \<and> (ReadyToUse st = Some True \<longrightarrow> RestoreSize st \<noteq> None))"

definition complete_capabilities :: "volcap list \<Rightarrow> bool" where
  "complete_capabilities vcs \<longleftrightarrow> (\<forall>vc \<in> set vcs. AccessMode vc \<noteq> None)"

definition has_class :: "pvc \<Rightarrow> bool" where
  "has_class p \<longleftrightarrow> StorageClassName p \<noteq> None"

definition has_requests :: "pvc \<Rightarrow> bool" where
  "has_requests p \<longleftrightarrow> Requests p \<noteq> None"

definition has_template :: "vm \<Rightarrow> bool" where
  "has_template v \<longleftrightarrow> Template v \<noteq> None"

definition has_volume :: "va \<Rightarrow> bool" where
  "has_volume a \<longleftrightarrow> vaPVName a \<noteq> None"

definition has_claim :: "pv \<Rightarrow> bool" where
  "has_claim v \<longleftrightarrow> ClaimRef v \<noteq> None"


section \<open>The rules\<close>

lemma safeD: "safe m \<Longrightarrow> m s \<noteq> (Panic, s')"
  unfolding safe_def by (metis fst_conv)

lemma safe_ret [safe_intros]: "safe (ret x)"
  by (simp add: safe_def ret_def)

lemma safe_fail [safe_intros]: "safe (fail e)"
  by (simp add: safe_def fail_def)

lemma safe_lift_result [safe_intros]: "safe (lift_result r)"
  by (cases r) (simp_all add: safe_ret safe_fail)

lemma safe_lift [safe_intros]: "r \<noteq> Panic \<Longrightarrow> safe (lift r)"
  by (simp add: safe_def lift_def)

lemma safe_observe [safe_intros]: "safe (observe f)"
  by (simp add: safe_def observe_def split: prod.splits)

lemma safe_perform [safe_intros]: "safe (perform v k ns n f)"
  by (simp add: safe_def perform_def split: prod.splits sum.splits)

lemma safe_handle [safe_intros]:
  assumes "safe m" and "\<And>e. safe (h e)" and "\<And>x s s'. m s = (Ok x, s') \<Longrightarrow> safe (k x)"
  shows "safe (handle m h k)"
  unfolding safe_def
proof
  fix s
  obtain r s1 where "m s = (r, s1)" by (cases "m s")
  with assms safeD [OF assms(1), of s s1] show "fst (handle m h k s) \<noteq> Panic"
    by (cases r) (auto simp: handle_run safe_def)
qed

lemma safe_andThen [safe_intros]:
  assumes "safe m" and "\<And>x s s'. m s = (Ok x, s') \<Longrightarrow> safe (k x)"
  shows "safe (andThen m k)"
  unfolding andThen_def by (intro safe_handle safe_fail assms)

lemma safe_if [safe_intros]:
  "(b \<Longrightarrow> safe m) \<Longrightarrow> (\<not> b \<Longrightarrow> safe m') \<Longrightarrow> safe (if b then m else m')"
  by simp

lemma safe_case_option [safe_intros]:
  "(x = None \<Longrightarrow> safe m) \<Longrightarrow> (\<And>y. x = Some y \<Longrightarrow> safe (k y)) \<Longrightarrow>
     safe (case x of None \<Rightarrow> m | Some y \<Rightarrow> k y)"
  by (cases x) simp_all

lemma safe_case_sum [safe_intros]:
  "(\<And>e. x = Inl e \<Longrightarrow> safe (h e)) \<Longrightarrow> (\<And>y. x = Inr y \<Longrightarrow> safe (k y)) \<Longrightarrow>
     safe (case x of Inl e \<Rightarrow> h e | Inr y \<Rightarrow> k y)"
  by (cases x) simp_all

lemma safe_case_prod [safe_intros]:
  "(\<And>a b. x = (a, b) \<Longrightarrow> safe (k a b)) \<Longrightarrow> safe (case x of (a, b) \<Rightarrow> k a b)"
  by (cases x) simp

lemma safe_Let [safe_intros]: "safe (k v) \<Longrightarrow> safe (let x = v in k x)"
  by simp

lemma safe_kcalls [safe_intros]:
  "safe (kGet k c ns n)" "safe (kList k c ns lo)" "safe (kDelete k c ns n)"
  by (simp_all add: kcall_defs safe_perform)

lemma safe_kwrites [safe_intros]:
  "safe (kCreate k c obj)" "safe (kUpdate k c obj)"
  by (simp_all add: kcall_defs safe_perform)

section \<open>Waiting and reading\<close>

lemma kGet_gets: "kGet k c ns n s = (Ok x, s') \<Longrightarrow> gets_only c W \<Longrightarrow> W x"
  unfolding kGet_returns gets_only_def by blast

lemma kList_lists: "kList k c ns lo s = (Ok (xs, t), s') \<Longrightarrow> lists_only c W \<Longrightarrow> list_all W xs"
  unfolding kList_returns lists_only_def by blast

lemma kCreate_creates: "kCreate k c obj s = (Ok x, s') \<Longrightarrow> creates_only c W \<Longrightarrow> W x"
  unfolding kCreate_returns creates_only_def by blast

lemma safe_isLHRWXVolume [safe_intros]: "has_class p \<Longrightarrow> safe (isLHRWXVolume api p)"
proof -
  have "safe (isLHRWXVolume_loop api (Some sc) modes)" for sc modes
    by (induction modes) (auto simp: getHostSC_def intro!: safe_intros)
  then show "has_class p \<Longrightarrow> safe (isLHRWXVolume api p)"
    by (auto simp: isLHRWXVolume_def has_class_def intro!: safe_intros)
qed

lemma safe_waits [safe_intros]:
  "safe c \<Longrightarrow> safe (select_loop n c)" "safe d \<Longrightarrow> safe (pollLoop n d)"
  "safe d \<Longrightarrow> safe (PollUntilContextTimeout api b d)"
proof -
  show "safe c \<Longrightarrow> safe (select_loop n c)" for n
    by (induction n) (auto intro!: safe_intros)
  show poll: "safe d \<Longrightarrow> safe (pollLoop n d)" for n
    by (induction n) (auto intro!: safe_intros)
  then show "safe d \<Longrightarrow> safe (PollUntilContextTimeout api b d)"
    by (auto simp: PollUntilContextTimeout_def Let_def intro!: safe_intros)
qed

lemma safe_base [safe_intros]:
  "safe (getStorageClass api cs vp)" "safe (waitForLHVolumeName api cs n)"
  "safe (waitForPVCState api cs n q)" "safe (isVolumeInUse api cs n)"
  by (auto simp: getStorageClass_def validStorageClass_def getHostSC_def waitForLHVolumeName_def
      waitForPVCState_def isVolumeInUse_def intro!: safe_intros)

lemma capabilities_no_panic:
  "complete_capabilities vcs \<Longrightarrow> validateVolumeCapabilities cs vcs \<noteq> Panic"
proof -
  have "complete_capabilities vcs \<Longrightarrow> validateVolumeCapabilities_loop modes vcs \<noteq> Panic" for modes
    by (induction vcs) (auto simp: complete_capabilities_def split: option.splits)
  then show "complete_capabilities vcs \<Longrightarrow> validateVolumeCapabilities cs vcs \<noteq> Panic"
    by (simp add: validateVolumeCapabilities_def)
qed

section \<open>The controller server\<close>

lemma safe_CreateVolume:
  assumes "creates_only (pvcs api) has_class" and "complete_capabilities (cvCapabilities req)"
  shows "safe (CreateVolume api cs req)"
proof -
  have "validateCreateVolReq cs req \<noteq> Panic"
    using capabilities_no_panic [OF assms(2), of cs]
    by (auto simp: validateCreateVolReq_def Let_def split: sum.splits result.splits)
  moreover have "safe (buildHostVolumeRemoteRestore api cs req vp)" for vp
    by (auto simp: buildHostVolumeRemoteRestore_def buildHostVolumeRemoteRestoreFromBackup_def
        getOrCreateVolumeRemoteRestore_def generateHostVolumeRemoteRestore_def
        checkVolumeRemoteRestoreReadiness_def getHostVolumeRemoteRestore_def
        createHostVolumeRemoteRestore_def getHostVolumeRemoteBackup_def Let_def intro!: safe_intros)
  moreover have "safe (buildHostPVC api cs req vp sz)" for vp sz
    by (auto simp: buildHostPVC_def buildHostPVCFromScratch_def buildHostPVCFromSnap_def
        getHostSnap_def getHostSC_def Let_def intro!: safe_intros)
  moreover have "safe (ensureNetworkFilesystem api cs p)" if "has_class p" for p
    using that by (auto simp: ensureNetworkFilesystem_def createNetworkFilesystem_def intro!: safe_intros)
  ultimately show ?thesis
    unfolding CreateVolume_def createHostPVC_def
    by (intro safe_intros) (auto dest: kCreate_creates [OF _ assms(1)])
qed

lemma safe_DeleteVolume: "gets_only (pvcs api) has_class \<Longrightarrow> safe (DeleteVolume api cs vid)"
  unfolding DeleteVolume_def deletePVC_def deleteVolumeRemoteRestoreIfExists_def
    removeNetworkFilesystem_def getHostVolumeRemoteRestore_def deleteHostVolumeRemoteRestore_def
  by (intro safe_intros) (auto dest: kGet_gets)

lemma safe_ValidateVolumeCapabilities:
  "complete_capabilities (vvCapabilities req) \<Longrightarrow> safe (ValidateVolumeCapabilities api cs req)"
  unfolding ValidateVolumeCapabilities_def
  by (intro safe_intros capabilities_no_panic)

lemma safe_vm_template [safe_intros]: "has_template v \<Longrightarrow> safe (vm_template v)"
  by (auto simp: vm_template_def has_template_def intro!: safe_intros)

lemma safe_kPatchVM [safe_intros]: "safe (kPatchVM api ns n ops)"
  by (simp add: kPatchVM_def safe_perform)

lemma VA_loops_no_panic:
  "list_all has_volume vas \<Longrightarrow> checkHostVA_loop v h vas \<noteq> Panic"
  "list_all has_volume vas \<Longrightarrow> checkGuestVA_loop v n vas \<noteq> Panic"
  by (induction vas) (auto simp: has_volume_def split: option.splits)

lemma safe_waitForVASettled:
  assumes "lists_only (hostVAs api) has_volume" and "lists_only (guestVAs api) has_volume"
  shows "safe (waitForVASettled api cs p node)"
  unfolding waitForVASettled_def checkHostVA_def checkGuestVA_def
  by (intro safe_intros VA_loops_no_panic) (auto dest: kList_lists [OF _ assms(1)] kList_lists [OF _ assms(2)])

lemma safe_vm_handlers [safe_intros]:
  assumes "gets_only (vms api) has_template"
  shows "safe (isVolAttached api cs n v)" "safe (hotplugVolumeToVM api cs n v)"
    "safe (removeVolumeFromHostVM api cs n v)"
  unfolding isVolAttached_def checkVolumeExistsInVM_def checkVolumeExistsInVMI_def
    hotplugVolumeToVM_def addVolumeToVM_def addVolumeToVMLegacy_def kAddVolume_def
    removeVolumeFromHostVM_def unplugVolumeFromVM_def unplugVolumeFromVMLegacy_def removeVolumeFromVM_def
    kRemoveVolume_def kRemoveVolumeVMI_def
  by (intro safe_intros; auto dest: kGet_gets [OF _ assms])+

lemma safe_ControllerPublishVolume:
  assumes "gets_only (pvcs api) has_class" and vms: "gets_only (vms api) has_template"
    and "lists_only (hostVAs api) has_volume" and "lists_only (guestVAs api) has_volume"
  shows "safe (ControllerPublishVolume api cs req)"
  unfolding ControllerPublishVolume_def attachVolume_def waitForVolumeAttached_def volumeAttachedCheck_def
    publishRWXVolume_def enableNetworkFS_def updateNetworkFS_def createNetworkFilesystem_def
  by (intro safe_intros safe_waitForVASettled assms) (auto dest: kGet_gets [OF _ assms(1)])

lemma safe_ControllerUnpublishVolume:
  assumes "gets_only (pvcs api) has_class" and "gets_only (vms api) has_template"
    and "gets_only (guestPVs api) has_claim"
  shows "safe (ControllerUnpublishVolume api cs req)"
  unfolding ControllerUnpublishVolume_def unpublishRWXVolume_def disableNetworkFS_def updateNetworkFS_def
    podsByIndex_def
  by (intro safe_intros assms) (auto dest: kGet_gets [OF _ assms(1)] kGet_gets [OF _ assms(3)] simp: has_claim_def)

lemma safe_ControllerExpandVolume:
  assumes "gets_only (pvcs api) has_requests"
  shows "safe (ControllerExpandVolume api cs req)"
  unfolding ControllerExpandVolume_def validateOnlineExpansion_def expandPVC_def
  by (intro safe_intros) (auto dest: kGet_gets [OF _ assms] simp: has_requests_def)

lemma safe_prepareSnapshotResponse [safe_intros]:
  assumes "gets_only (snapshots api) complete_snapshot"
  shows "safe (prepareSnapshotResponse api cs n vol)"
proof -
  have "convertVolumeSnapshotToCSI x vol \<noteq> Panic" if "complete_snapshot x" for x
    using that by (auto simp: convertVolumeSnapshotToCSI_def complete_snapshot_def split: option.splits)
  then show ?thesis
    unfolding prepareSnapshotResponse_def checkSnapsReadiness_def getHostSnap_def
    by (intro safe_intros) (auto dest!: kGet_gets [OF _ assms] simp: complete_snapshot_def split: option.splits)
qed

lemma safe_getHostSnapClass [safe_intros]: "safe (getHostSnapClass api p)"
  by (auto simp: getHostSnapClass_def getHarvCSIConfig_def intro!: safe_intros)

lemma safe_prepareBackupSnapResponse [safe_intros]: "safe (prepareBackupSnapResponse api cs n vol)"
  by (auto simp: prepareBackupSnapResponse_def checkVolumeRemoteBackupReadiness_def
      getHostVolumeRemoteBackup_def convertVolumeRemoteBackupToCSI_def intro!: safe_intros
      split: if_splits)

lemma safe_CreateSnapshot:
  assumes "gets_only (snapshots api) complete_snapshot"
  shows "safe (CreateSnapshot api cs req)"
  unfolding CreateSnapshot_def handleBackupSnap_def handleExistingBackupSnap_def
    createHostVolumeRemoteBackupFromReq_def generateHostVolumeRemoteBackup_def createHostVolumeRemoteBackup_def
    getHostVolumeRemoteBackup_def handleLocalSnap_def handleExistingLocalSnap_def createSnapFromVolume_def
    generateHostSnap_def createHostSnap_def getHostSnap_def getHostPVC_def
  by (intro safe_intros assms)

lemma safe_DeleteSnapshot: "safe (DeleteSnapshot api cs i)"
  unfolding DeleteSnapshot_def handleBackupSnapDeletion_def handleLocalSnapDeletion_def
    deleteHostVolumeRemoteBackup_def deleteHostSnap_def
  by (intro safe_intros)

lemma safe_ListSnapshots:
  assumes "lists_only (snapshots api) complete_snapshot"
  shows "safe (ListSnapshots api cs req)"
proof -
  have "processHostSnapshots xs req \<noteq> Panic" if "list_all complete_snapshot xs" for xs
    using that
    by (induction xs) (auto simp: convertHostSnapshotToEntry_def convertVolumeSnapshotToCSI_def
        complete_snapshot_def Let_def split: result.splits option.splits)
  moreover have "processBackups xs req \<noteq> Panic" for xs
    by (induction xs) (auto simp: convertVolumeRemoteBackupToEntry_def convertVolumeRemoteBackupToCSI_def
        Let_def split: result.splits)
  ultimately show ?thesis
    unfolding ListSnapshots_def listLocalSnaps_def listHostSnaps_def listBackupSnaps_def
      processHostVolumeRemoteBackups_def listHostVolumeRemoteBackups_def
    by (intro safe_intros) (auto dest: kList_lists [OF _ assms])
qed

section \<open>The node controller\<close>

lemma safe_OnNodesChange:
  assumes "gets_only (vms api) has_template"
  shows "safe (OnNodesChange api c n)"
proof -
  have "safe (removeBySubresource_loop api c v names)" for v names
    by (induction names) (auto simp: kRemoveVolume_def intro!: safe_intros)
  then show ?thesis
    unfolding OnNodesChange_def getNodeAndVMHealth_def handleNodeAndVMHealth_def removeTaint_def
      addTaint_def removeAllHotplugVolumes_def removeAllHotplugVolumesByPatch_def
      removeAllHotplugVolumesBySubresource_def Let_def
    by (intro safe_intros)
      (auto dest: kGet_gets [OF _ assms] simp: taintWithNoExecute_def)
qed

section \<open>The node server\<close>

lemma safe_CombinedOutput [safe_intros]: "safe (CombinedOutput os cmd args)"
  by (simp add: safe_def CombinedOutput_def split: prod.splits)

lemma safe_os_calls [safe_intros]:
  "safe (IsMountPoint os p)" "safe (IsLikelyNotMountPoint os p)" "safe (MountFS os a p f ol)"
  "safe (FormatAndMount os a p f ol)" "safe (Unmount os p)" "safe (CleanupMountPoint os p)"
  "safe (PathExists os p)" "safe (MkdirAll os p m)" "safe (Remove os p)" "safe (ReadDir os p)"
  "safe (EvalSymlinks os p)" "safe (IsDir os p)" "safe (NewExecutor os)" "safe (Execute os cmd args)"
  by (simp_all add: os_call_defs safe_perform)

lemma safe_node_helpers [safe_intros]:
  "safe (makeDir os p)" "safe (makeFile os p)" "safe (getDevicePathByVolumeID os v)"
  "safe (resizeFilesystem os p f)" "safe (isLikelyNotMountPointAttach os p)"
proof -
  have "safe (resolveByID os v files)" for files
    by (induction files) (auto intro!: safe_intros)
  then show "safe (getDevicePathByVolumeID os v)"
    by (auto simp: getDevicePathByVolumeID_def intro!: safe_intros)
qed (auto simp: makeDir_def makeFile_def resizeFilesystem_def isLikelyNotMountPointAttach_def intro!: safe_intros)

lemma safe_node_handlers:
  "safe (NodeStageVolume cl os ns sreq)" "safe (NodeUnstageVolume os ureq)"
  "safe (NodePublishVolume cl os ns preq)" "safe (NodeGetVolumeStats cl os ns greq)"
  "safe (NodeExpandVolume cl os ereq)"
  by (auto simp: NodeStageVolume_def nodeStageRWXVolume_def NodeUnstageVolume_def NodePublishVolume_def
      nodePublishRWXVolume_def nodePublishRWOVolume_def nodePublishBlockVolume_def nodePublishMountVolume_def
      NodeGetVolumeStats_def NodeExpandVolume_def isBlockDevice_def getFilesystemStatistics_def Let_def
      intro!: safe_intros)

end
