(* ===== verification/Command_Line.thy ===== *)
theory Command_Line
  imports Driver
begin

text \<open>
  The command line (\<open>main.go\<close>), on the vendored \<open>github.com/urfave/cli\<close> and the package \<open>flag\<close> of
  Go that it parses with: which configuration the arguments and the environment come to, and what
  the process does with it. Messages of errors are the data they are made of. The arguments are
  those after the name of the program. The command \<open>help\<close> of the library only prints; its exit
  status is an argument of \<open>main\<close>.
\<close>

section \<open>Flags and their values\<close>

text \<open>
  The flags of the library, as far as the driver sets their fields. The library splits the name of
  a flag at commas (\<open>help, h\<close>); the parts are the list here. The names of environment variables
  in this program have one part.
\<close>

datatype cli_flag =
    StringFlag (flagNames: "string list") (flagDefault: string) (flagEnvVar: string)
  | BoolFlag (flagNames: "string list") (flagEnvVar: string)

datatype flag_value = StringValue string | BoolValue bool

type_synonym env = "string \<rightharpoonup> string"

datatype cli_error =
    EnvNotBool string string
  | BadFlagSyntax string
  | FlagNotDefined string
  | ErrHelp
  | InvalidBool string string
  | FlagNeedsArgument string
  | TwoForms string string

definition flags :: "cli_flag list" where
  "flags =
     [StringFlag [''endpoint''] ''unix:///csi/csi.sock'' '''',
      StringFlag [''nodeid''] '''' '''',
      StringFlag [''kubeconfig''] '''' '''',
      BoolFlag [''debug''] ''DEBUG'',
      StringFlag [''host-storage-class''] '''' ''HOST_STORAGE_CLASS'']"

definition HelpFlag :: cli_flag where
  "HelpFlag = BoolFlag [''help'', ''h''] ''''"

definition VersionFlag :: cli_flag where
  "VersionFlag = BoolFlag [''version'', ''v''] ''''"

text \<open>\<open>Setup\<close> appends the flags of the library, that of the version because the program has one.\<close>

definition app_flags :: "cli_flag list" where
  "app_flags = flags @ [HelpFlag, VersionFlag]"

definition Getenv :: "env \<Rightarrow> string \<Rightarrow> string option" where
  "Getenv env key = (if key = '''' then None else env key)"

definition ParseBool :: "string \<Rightarrow> bool option" where
  "ParseBool s =
     (if s \<in> set [''1'', ''t'', ''T'', ''true'', ''TRUE'', ''True''] then Some True
      else if s \<in> set [''0'', ''f'', ''F'', ''false'', ''FALSE'', ''False''] then Some False
      else None)"

fun define_all :: "string list \<Rightarrow> flag_value \<Rightarrow> (string \<rightharpoonup> flag_value) \<Rightarrow> string \<rightharpoonup> flag_value" where
  "define_all [] v fm = fm"
| "define_all (n # ns) v fm = define_all ns v (fm(n \<mapsto> v))"

fun ApplyWithError ::
  "env \<Rightarrow> cli_flag \<Rightarrow> (string \<rightharpoonup> flag_value) \<Rightarrow> cli_error + (string \<rightharpoonup> flag_value)" where
  "ApplyWithError env (StringFlag ns val envVar) fm =
     Inr (define_all ns (StringValue (case Getenv env envVar of Some v \<Rightarrow> v | None \<Rightarrow> val)) fm)"
| "ApplyWithError env (BoolFlag ns envVar) fm =
     (case Getenv env envVar of
        None \<Rightarrow> Inr (define_all ns (BoolValue False) fm)
      | Some v \<Rightarrow>
          if v = '''' then Inr (define_all ns (BoolValue False) fm)
          else
            (case ParseBool v of
               None \<Rightarrow> Inl (EnvNotBool v (hd ns))
             | Some b \<Rightarrow> Inr (define_all ns (BoolValue b) fm)))"

fun flagSet ::
  "env \<Rightarrow> cli_flag list \<Rightarrow> (string \<rightharpoonup> flag_value) \<Rightarrow> cli_error + (string \<rightharpoonup> flag_value)" where
  "flagSet env [] fm = Inr fm"
| "flagSet env (f # fs) fm =
     (case ApplyWithError env f fm of Inl e \<Rightarrow> Inl e | Inr fm' \<Rightarrow> flagSet env fs fm')"

section \<open>Parsing\<close>

text \<open>Go's \<open>flag.FlagSet\<close>: the defined flags with their values, the names of those that were set,
  and the arguments that are left.\<close>

record flagset =
  formal :: "string \<rightharpoonup> flag_value"
  actual :: "string list"
  fargs :: "string list"

text \<open>The name and the value of an argument \<open>name=value\<close>; the name has at least one character.\<close>

fun split_eq :: "string \<Rightarrow> string \<times> string option" where
  "split_eq [] = ([], None)"
| "split_eq (c # s) =
     (if c = CHR ''='' then ([], Some s) else (case split_eq s of (n, v) \<Rightarrow> (c # n, v)))"

definition name_value :: "string \<Rightarrow> string \<times> string option" where
  "name_value s = (case s of [] \<Rightarrow> ([], None) | c # r \<Rightarrow> (case split_eq r of (n, v) \<Rightarrow> (c # n, v)))"

definition set_flag :: "string \<Rightarrow> flag_value \<Rightarrow> flagset \<Rightarrow> flagset" where
  "set_flag name v f = f\<lparr>formal := (formal f)(name \<mapsto> v), actual := actual f @ [name]\<rparr>"

text \<open>The answer is whether a flag was seen, and the error.\<close>

definition parseFlag ::
  "string \<Rightarrow> string option \<Rightarrow> flagset \<Rightarrow> (bool \<times> cli_error option) \<times> flagset" where
  "parseFlag name value f =
     (case formal f name of
        None \<Rightarrow>
          if name = ''help'' \<or> name = ''h'' then ((False, Some ErrHelp), f)
          else ((False, Some (FlagNotDefined name)), f)
      | Some (BoolValue _) \<Rightarrow>
          (case value of
             None \<Rightarrow> ((True, None), set_flag name (BoolValue True) f)
           | Some v \<Rightarrow>
               (case ParseBool v of
                  None \<Rightarrow> ((False, Some (InvalidBool v name)), f\<lparr>formal := (formal f)(name \<mapsto> BoolValue False)\<rparr>)
                | Some b \<Rightarrow> ((True, None), set_flag name (BoolValue b) f)))
      | Some (StringValue _) \<Rightarrow>
          (case value of
             Some v \<Rightarrow> ((True, None), set_flag name (StringValue v) f)
           | None \<Rightarrow>
               (case fargs f of
                  [] \<Rightarrow> ((False, Some (FlagNeedsArgument name)), f)
                | v # rest \<Rightarrow> ((True, None), set_flag name (StringValue v) (f\<lparr>fargs := rest\<rparr>)))))"

definition parseOne :: "flagset \<Rightarrow> (bool \<times> cli_error option) \<times> flagset" where
  "parseOne f =
     (case fargs f of
        [] \<Rightarrow> ((False, None), f)
      | s # rest \<Rightarrow>
          if length s < 2 \<or> hd s \<noteq> CHR ''-'' then ((False, None), f)
          else if s = ''--'' then ((False, None), f\<lparr>fargs := rest\<rparr>)
          else
            (let name = (if s ! 1 = CHR ''-'' then drop 2 s else drop 1 s) in
             if name = '''' \<or> hd name = CHR ''-'' \<or> hd name = CHR ''='' then
               ((False, Some (BadFlagSyntax s)), f)
             else
               (case name_value name of
                  (n, v) \<Rightarrow> parseFlag n v (f\<lparr>fargs := rest\<rparr>))))"

lemma parseFlag_shorter: "parseFlag n v f = ((True, e), f') \<Longrightarrow> length (fargs f') \<le> length (fargs f)"
  by (auto simp: parseFlag_def set_flag_def split: option.splits flag_value.splits if_splits list.splits)

lemma parseOne_shorter: "parseOne f = ((True, e), f') \<Longrightarrow> length (fargs f') < length (fargs f)"
  by (auto simp: parseOne_def Let_def dest!: parseFlag_shorter split: list.splits if_splits prod.splits)

function Parse :: "flagset \<Rightarrow> cli_error option \<times> flagset" where
  "Parse f =
     (case parseOne f of
        ((True, _), f') \<Rightarrow> Parse f'
      | ((False, err), f') \<Rightarrow> (err, f'))"
  by pat_completeness auto
termination
  by (relation "measure (\<lambda>f. length (fargs f))") (auto dest: parseOne_shorter [OF sym])

declare Parse.simps [simp del]

text \<open>\<open>normalizeFlags\<close> gives the forms of a flag with several names the value of the one that was
  used; \<open>used\<close> is the form found so far.\<close>

fun used_form :: "string list \<Rightarrow> string list \<Rightarrow> string option \<Rightarrow> cli_error + string option" where
  "used_form visited [] used = Inr used"
| "used_form visited (n # ns) used =
     (if n \<in> set visited then
        (case used of
           Some ff \<Rightarrow> Inl (TwoForms n ff)
         | None \<Rightarrow> used_form visited ns (Some n))
      else used_form visited ns used)"

fun copy_flag :: "string list \<Rightarrow> string list \<Rightarrow> string \<Rightarrow> flagset \<Rightarrow> flagset" where
  "copy_flag visited [] ff f = f"
| "copy_flag visited (n # ns) ff f =
     copy_flag visited ns ff
       (if n \<in> set visited then f
        else (case formal f ff of Some v \<Rightarrow> set_flag n v f | None \<Rightarrow> f))"

fun normalizeFlags :: "string list \<Rightarrow> cli_flag list \<Rightarrow> flagset \<Rightarrow> cli_error + flagset" where
  "normalizeFlags visited [] f = Inr f"
| "normalizeFlags visited (fl # fls) f =
     (if length (flagNames fl) = 1 then normalizeFlags visited fls f
      else
        (case used_form visited (flagNames fl) None of
           Inl e \<Rightarrow> Inl e
         | Inr None \<Rightarrow> normalizeFlags visited fls f
         | Inr (Some ff) \<Rightarrow> normalizeFlags visited fls (copy_flag visited (flagNames fl) ff f)))"

section \<open>The application\<close>

definition string_value :: "(string \<rightharpoonup> flag_value) \<Rightarrow> string \<Rightarrow> string" where
  "string_value fm n = (case fm n of Some (StringValue v) \<Rightarrow> v | _ \<Rightarrow> '''')"

definition bool_value :: "(string \<rightharpoonup> flag_value) \<Rightarrow> string \<Rightarrow> bool" where
  "bool_value fm n = (case fm n of Some (BoolValue b) \<Rightarrow> b | _ \<Rightarrow> False)"

text \<open>The flags write into the fields of the configuration.\<close>

definition destination :: "(string \<rightharpoonup> flag_value) \<Rightarrow> config" where
  "destination fm =
     \<lparr>Endpoint = string_value fm ''endpoint'', KubeConfig = string_value fm ''kubeconfig'',
      NodeID = string_value fm ''nodeid'', HostStorageClass = string_value fm ''host-storage-class'',
      Debug = bool_value fm ''debug''\<rparr>"

text \<open>What \<open>App.Run\<close> comes to: an error, the texts it prints, its command \<open>help\<close> on the other
  arguments, or the action with the configuration.\<close>

datatype app_end =
    Failed cli_error | ShowsHelp | ShowsVersion | HelpCommand "string list" | Action config

definition app_Run :: "env \<Rightarrow> string list \<Rightarrow> app_end" where
  "app_Run env args =
     (case flagSet env app_flags Map.empty of
        Inl e \<Rightarrow> Failed e
      | Inr fm \<Rightarrow>
          (case Parse \<lparr>formal = fm, actual = [], fargs = args\<rparr> of
             (err, f) \<Rightarrow>
               (case normalizeFlags (actual f) app_flags f of
                  Inl e \<Rightarrow> Failed e
                | Inr f' \<Rightarrow>
                    (case err of
                       Some e \<Rightarrow> Failed e
                     | None \<Rightarrow>
                         if bool_value (formal f') ''help'' \<or> bool_value (formal f') ''h'' then ShowsHelp
                         else if bool_value (formal f') ''version'' \<or> bool_value (formal f') ''v'' then
                           ShowsVersion
                         else
                           (case fargs f' of
                              name # rest \<Rightarrow>
                                if name = ''help'' \<or> name = ''h'' then HelpCommand rest
                                else Action (destination (formal f'))
                            | [] \<Rightarrow> Action (destination (formal f')))))))"

section \<open>The program\<close>

definition adjustLogs :: "config \<Rightarrow> log_level" where
  "adjustLogs cfg = (if Debug cfg then DebugLevel else InfoLevel)"

definition runCSI :: "'w api \<Rightarrow> 'w os \<Rightarrow> 'w platform \<Rightarrow> config \<Rightarrow> ('w, 'w manager option) io" where
  "runCSI api os pf cfg = Run api os pf cfg"

text \<open>The status the process exits with, or the manager it runs, with the level of its log.\<close>

datatype 'w main_end = Exit int | Runs log_level "'w manager"

definition main ::
  "'w api \<Rightarrow> 'w os \<Rightarrow> 'w platform \<Rightarrow> (string list \<Rightarrow> int) \<Rightarrow> env \<Rightarrow> string list \<Rightarrow> 'w st \<Rightarrow>
   'w main_end \<times> 'w st" where
  "main api os pf help env args s =
     (case app_Run env args of
        Failed e \<Rightarrow> (Exit 1, s)
      | ShowsHelp \<Rightarrow> (Exit 0, s)
      | ShowsVersion \<Rightarrow> (Exit 0, s)
      | HelpCommand rest \<Rightarrow> (Exit (help rest), s)
      | Action cfg \<Rightarrow>
          (case runCSI api os pf cfg s of
             (Err err, s') \<Rightarrow> (Exit 1, s')
           | (Panic, s') \<Rightarrow> (Exit 2, s')
           | (Ok None, s') \<Rightarrow> (Exit 0, s')
           | (Ok (Some m), s') \<Rightarrow> (Runs (adjustLogs cfg) m, s')))"

section \<open>What the theorems speak of\<close>

text \<open>A configuration as arguments, in the form the deployment has them.\<close>

definition arguments_of :: "config \<Rightarrow> string list" where
  "arguments_of cfg =
     [''--nodeid='' @ NodeID cfg, ''--endpoint='' @ Endpoint cfg, ''--kubeconfig='' @ KubeConfig cfg,
      ''--host-storage-class='' @ HostStorageClass cfg,
      ''--debug='' @ (if Debug cfg then ''true'' else ''false'')]"

text \<open>The argument sets the flag.\<close>

definition names_flag :: "string \<Rightarrow> string \<Rightarrow> bool" where
  "names_flag n a \<longleftrightarrow>
     a = ''-'' @ n \<or> a = ''--'' @ n \<or> HasPrefix a (''-'' @ n @ ''='') \<or> HasPrefix a (''--'' @ n @ ''='')"

text \<open>What \<open>DEBUG\<close> in the environment comes to, if it is a boolean, and the values of the flags before
  the arguments are read.\<close>

definition debug_env :: "env \<Rightarrow> bool option" where
  "debug_env env =
     (case env ''DEBUG'' of Some v \<Rightarrow> if v = '''' then Some False else ParseBool v | None \<Rightarrow> Some False)"

definition initial_flags :: "env \<Rightarrow> bool \<Rightarrow> string \<rightharpoonup> flag_value" where
  "initial_flags env b = Map.empty
     (''endpoint'' \<mapsto> StringValue ''unix:///csi/csi.sock'', ''nodeid'' \<mapsto> StringValue '''',
      ''kubeconfig'' \<mapsto> StringValue '''', ''debug'' \<mapsto> BoolValue b,
      ''host-storage-class'' \<mapsto>
        StringValue (case env ''HOST_STORAGE_CLASS'' of Some v \<Rightarrow> v | None \<Rightarrow> ''''),
      ''help'' \<mapsto> BoolValue False, ''h'' \<mapsto> BoolValue False, ''version'' \<mapsto> BoolValue False,
      ''v'' \<mapsto> BoolValue False)"

section \<open>Lemmas\<close>

lemma split_eq_value: "CHR ''='' \<notin> set n \<Longrightarrow> split_eq (n @ ''='' @ v) = (n, Some v)"
  by (induction n) auto

lemma name_value_eq: "n \<noteq> '''' \<Longrightarrow> CHR ''='' \<notin> set n \<Longrightarrow> name_value (n @ ''='' @ v) = (n, Some v)"
  by (cases n) (auto simp: name_value_def split_eq_value [simplified])

lemma parseOne_value:
  assumes "fargs f = (''--'' @ n @ ''='' @ v) # rest" "n \<noteq> ''''" "hd n \<noteq> CHR ''-''" "CHR ''='' \<notin> set n"
  shows "parseOne f = parseFlag n (Some v) (f\<lparr>fargs := rest\<rparr>)"
  using assms name_value_eq [of n v] by (cases n) (auto simp: parseOne_def)

lemma split_eq_join:
  "split_eq s = (n, v) \<Longrightarrow> s = n @ (case v of None \<Rightarrow> '''' | Some w \<Rightarrow> ''='' @ w)"
  by (induction s arbitrary: n v) (auto split: if_splits prod.splits option.splits)

lemma name_value_join:
  "name_value s = (n, v) \<Longrightarrow> s = n @ (case v of None \<Rightarrow> '''' | Some w \<Rightarrow> ''='' @ w)"
  by (auto simp: name_value_def dest: split_eq_join split: list.splits prod.splits)

lemma parseFlag_frame:
  assumes "parseFlag m v f = (r, f')"
  shows "(n \<noteq> m \<longrightarrow> formal f' n = formal f n) \<and> set (fargs f') \<subseteq> set (fargs f)"
  using assms
  by (auto simp: parseFlag_def set_flag_def split: option.splits flag_value.splits if_splits list.splits)

lemma parseOne_frame:
  assumes "parseOne f = (r, f')" and "\<forall>a \<in> set (fargs f). \<not> names_flag n a"
  shows "formal f' n = formal f n \<and> set (fargs f') \<subseteq> set (fargs f)"
proof (cases "fargs f")
  case (Cons s rest)
  let ?name = "if s ! 1 = CHR ''-'' then drop 2 s else drop 1 s"
  obtain m v where mv: "name_value ?name = (m, v)" by fastforce
  have "m \<noteq> n" if "2 \<le> length s" "hd s = CHR ''-''"
  proof
    assume "m = n"
    with name_value_join [OF mv] have "?name = n @ (case v of None \<Rightarrow> '''' | Some w \<Rightarrow> ''='' @ w)" by simp
    moreover have "s = ''-'' @ ?name \<or> s = ''--'' @ ?name"
      using that by (cases s; cases "tl s") auto
    ultimately have "names_flag n s" by (cases v) (auto simp: names_flag_def)
    with assms(2) Cons show False by simp
  qed
  with assms(1) Cons mv show ?thesis
    by (auto simp: parseOne_def Let_def dest!: parseFlag_frame [of _ _ _ _ _ n] split: if_splits prod.splits)
qed (use assms(1) in \<open>auto simp: parseOne_def\<close>)

lemma Parse_frame:
  assumes "\<forall>a \<in> set (fargs f). \<not> names_flag n a" and "Parse f = (err, f')"
  shows "formal f' n = formal f n"
  using assms
proof (induction f arbitrary: rule: Parse.induct)
  case (1 f)
  obtain seen e f1 where one: "parseOne f = ((seen, e), f1)" by (metis surj_pair)
  note frame = parseOne_frame [OF one "1"(2)]
  show ?case
  proof (cases seen)
    case True
    then have "formal f' n = formal f1 n"
      using 1 one frame by (auto simp: Parse.simps [of f] subset_iff)
    with frame show ?thesis by simp
  next
    case False
    with 1 one frame show ?thesis by (simp add: Parse.simps [of f])
  qed
qed

lemma copy_flag_frame: "n \<notin> set ns \<Longrightarrow> formal (copy_flag visited ns ff f) n = formal f n"
  by (induction ns arbitrary: f) (auto simp: set_flag_def split: option.splits)

lemma normalizeFlags_frame:
  "normalizeFlags visited fls f = Inr f' \<Longrightarrow>
     (\<forall>fl \<in> set fls. n \<in> set (flagNames fl) \<longrightarrow> length (flagNames fl) = 1) \<Longrightarrow> formal f' n = formal f n"
  by (induction fls arbitrary: f) (auto simp: copy_flag_frame split: if_splits sum.splits option.splits)

lemma app_Run_field:
  assumes "app_Run env args = Action cfg" and "\<forall>a \<in> set args. \<not> names_flag n a"
    and "n \<notin> {''help'', ''h'', ''version'', ''v''}"
  shows "\<exists>fm fm'. flagSet env app_flags Map.empty = Inr fm \<and> cfg = destination fm' \<and> fm' n = fm n"
proof -
  from assms(1) obtain fm err f f' where fm: "flagSet env app_flags Map.empty = Inr fm"
    and p: "Parse \<lparr>formal = fm, actual = [], fargs = args\<rparr> = (err, f)"
    and nf: "normalizeFlags (actual f) app_flags f = Inr f'" and "cfg = destination (formal f')"
    by (auto simp: app_Run_def split: sum.splits prod.splits option.splits if_splits list.splits)
  moreover have "formal f' n = fm n"
    using normalizeFlags_frame [OF nf, of n] Parse_frame [OF _ p, of n] assms(2,3)
    by (auto simp: app_flags_def flags_def HelpFlag_def VersionFlag_def)
  ultimately show ?thesis by blast
qed

lemma flagSet_initial:
  "flagSet env app_flags Map.empty =
     (case debug_env env of
        None \<Rightarrow> Inl (EnvNotBool (the (env ''DEBUG'')) ''debug'')
      | Some b \<Rightarrow> Inr (initial_flags env b))"
  by (cases "env ''DEBUG''") (simp_all add: app_flags_def flags_def HelpFlag_def VersionFlag_def Getenv_def
      debug_env_def initial_flags_def del: fun_upd_apply split: option.splits)

lemma initial_values:
  "initial_flags env b ''endpoint'' = Some (StringValue ''unix:///csi/csi.sock'')"
  "initial_flags env b ''nodeid'' = Some (StringValue '''')"
  "initial_flags env b ''kubeconfig'' = Some (StringValue '''')"
  "initial_flags env b ''debug'' = Some (BoolValue b)"
  "initial_flags env b ''host-storage-class'' =
     Some (StringValue (case env ''HOST_STORAGE_CLASS'' of Some v \<Rightarrow> v | None \<Rightarrow> ''''))"
  "initial_flags env b ''help'' = Some (BoolValue False)" "initial_flags env b ''h'' = Some (BoolValue False)"
  "initial_flags env b ''version'' = Some (BoolValue False)" "initial_flags env b ''v'' = Some (BoolValue False)"
  by (simp_all add: initial_flags_def)

lemma app_Run_initial:
  assumes "app_Run env args = Action cfg" and "\<forall>a \<in> set args. \<not> names_flag n a"
    and "n \<notin> {''help'', ''h'', ''version'', ''v''}"
  shows "\<exists>b fm'. debug_env env = Some b \<and> cfg = destination fm' \<and> fm' n = initial_flags env b n"
  using app_Run_field [OF assms] by (auto simp: flagSet_initial split: option.splits)

lemma Parse_string:
  assumes "fargs f = (''--'' @ n @ ''='' @ v) # rest" "n \<noteq> ''''" "hd n \<noteq> CHR ''-''" "CHR ''='' \<notin> set n"
    and "formal f n = Some (StringValue w)"
  shows "Parse f = Parse (set_flag n (StringValue v) (f\<lparr>fargs := rest\<rparr>))"
  using assms parseOne_value [OF assms(1-4)] by (simp add: Parse.simps [of f] parseFlag_def)

lemma Parse_bool:
  assumes "fargs f = (''--'' @ n @ ''='' @ v) # rest" "n \<noteq> ''''" "hd n \<noteq> CHR ''-''" "CHR ''='' \<notin> set n"
    and "formal f n = Some (BoolValue w)" and "ParseBool v = Some b"
  shows "Parse f = Parse (set_flag n (BoolValue b) (f\<lparr>fargs := rest\<rparr>))"
  using assms parseOne_value [OF assms(1-4)] by (simp add: Parse.simps [of f] parseFlag_def)

lemma Parse_Nil: "fargs f = [] \<Longrightarrow> Parse f = (None, f)"
  by (simp add: Parse.simps [of f] parseOne_def)

lemma formal_set_flag: "formal (set_flag n v f) m = (if m = n then Some v else formal f m)"
  by (simp add: set_flag_def)

lemma fargs_set_flag [simp]: "fargs (set_flag n v f) = fargs f"
  "(set_flag n v f)\<lparr>fargs := rest\<rparr> = set_flag n v (f\<lparr>fargs := rest\<rparr>)"
  by (simp_all add: set_flag_def)

text \<open>When a manager runs, it runs with the configuration of the command line.\<close>

lemma main_Runs:
  assumes "main api os pf help env args s = (Runs level m, s')"
  obtains cfg where "app_Run env args = Action cfg" "level = adjustLogs cfg"
    "Run api os pf cfg s = (Ok (Some m), s')"
  using assms by (auto simp: main_def runCSI_def split: app_end.splits result.splits option.splits prod.splits)

section \<open>Properties\<close>



text \<open>
  C30: For all arguments on which the driver acts at all, a flag that none of them names has its
  value from the environment variable of the flag, if it has one that is set, and otherwise its
  default: no other argument, flag or value reaches it.
\<close>

theorem flags_default:
  assumes "app_Run env args = Action cfg"
  shows "((\<forall>a \<in> set args. \<not> names_flag ''endpoint'' a) \<longrightarrow> Endpoint cfg = ''unix:///csi/csi.sock'') \<and>
    ((\<forall>a \<in> set args. \<not> names_flag ''nodeid'' a) \<longrightarrow> NodeID cfg = '''') \<and>
    ((\<forall>a \<in> set args. \<not> names_flag ''kubeconfig'' a) \<longrightarrow> KubeConfig cfg = '''') \<and>
    ((\<forall>a \<in> set args. \<not> names_flag ''host-storage-class'' a) \<longrightarrow>
       HostStorageClass cfg = (case env ''HOST_STORAGE_CLASS'' of Some v \<Rightarrow> v | None \<Rightarrow> '''')) \<and>
    ((\<forall>a \<in> set args. \<not> names_flag ''debug'' a) \<longrightarrow>
       Debug cfg = (case env ''DEBUG'' of Some v \<Rightarrow> ParseBool v = Some True | None \<Rightarrow> False))"
proof -
  have debug: "b = (case env ''DEBUG'' of Some v \<Rightarrow> ParseBool v = Some True | None \<Rightarrow> False)"
    if "debug_env env = Some b" for b
    using that by (auto simp: debug_env_def ParseBool_def split: option.splits if_splits)
  note fields = destination_def string_value_def bool_value_def initial_values
  show ?thesis
  proof (intro conjI impI)
    assume "\<forall>a \<in> set args. \<not> names_flag ''endpoint'' a"
    from app_Run_initial [OF assms this] show "Endpoint cfg = ''unix:///csi/csi.sock''"
      by (auto simp: fields)
  next
    assume "\<forall>a \<in> set args. \<not> names_flag ''nodeid'' a"
    from app_Run_initial [OF assms this] show "NodeID cfg = ''''" by (auto simp: fields)
  next
    assume "\<forall>a \<in> set args. \<not> names_flag ''kubeconfig'' a"
    from app_Run_initial [OF assms this] show "KubeConfig cfg = ''''" by (auto simp: fields)
  next
    assume "\<forall>a \<in> set args. \<not> names_flag ''host-storage-class'' a"
    from app_Run_initial [OF assms this]
    show "HostStorageClass cfg = (case env ''HOST_STORAGE_CLASS'' of Some v \<Rightarrow> v | None \<Rightarrow> '''')"
      by (auto simp: fields)
  next
    assume "\<forall>a \<in> set args. \<not> names_flag ''debug'' a"
    from app_Run_initial [OF assms this]
    show "Debug cfg = (case env ''DEBUG'' of Some v \<Rightarrow> ParseBool v = Some True | None \<Rightarrow> False)"
      by (auto simp: fields dest!: debug)
  qed
qed

theorem flags_default_witness:
  "\<exists>cfg. app_Run (Map.empty(''HOST_STORAGE_CLASS'' \<mapsto> ''fast'')) [''-nodeid'', ''worker-1'', ''stray'', ''--debug''] =
     Action cfg \<and> NodeID cfg = ''worker-1'' \<and> Endpoint cfg = ''unix:///csi/csi.sock'' \<and> HostStorageClass cfg = ''fast''"
proof -
  let ?env = "Map.empty(''HOST_STORAGE_CLASS'' \<mapsto> ''fast'')"
  let ?args = "[''-nodeid'', ''worker-1'', ''stray'', ''--debug'']"
  let ?cfg = "\<lparr>Endpoint = ''unix:///csi/csi.sock'', KubeConfig = '''', NodeID = ''worker-1'',
    HostStorageClass = ''fast'', Debug = False\<rparr>"
  have run: "app_Run ?env ?args = Action ?cfg" by code_simp
  have "\<forall>a \<in> set ?args. \<not> names_flag ''endpoint'' a \<and> \<not> names_flag ''host-storage-class'' a" by code_simp
  with run flags_default [OF run] show ?thesis by auto
qed

end
