(* ===== verification/Service.thy ===== *)
theory Service
  imports Panic_Freedom Command_Line
begin

text \<open>
  The whole process: the requests of the three services and the event of the node informer, each
  with its handler (\<open>dispatch\<close>), and the runs of a process from the end of \<open>Run\<close> on, in which the
  goroutine of the endpoint, the handlers and the world outside take turns. Handlers run one at a
  time. The theorems hold for every run.
\<close>

section \<open>Requests\<close>

text \<open>The remote procedure calls of the three services, and the event of the node informer.\<close>

datatype rpc =
    RGetPluginInfo | RProbe | RGetPluginCapabilities
  | RCreateVolume create_volume_request | RDeleteVolume string
  | RPublish publish_request | RUnpublish unpublish_request | RExpand ctrl_expand_request
  | RCreateSnapshot create_snapshot_request | RDeleteSnapshot string
  | RListSnapshots list_snapshots_request | RValidate validate_request
  | RControllerGetCapabilities | RControllerGetVolume | RListVolumes | RGetCapacity | RModify
  | RNodeStage node_stage_request | RNodeUnstage node_unstage_request
  | RNodePublish node_publish_request | RNodeUnpublish node_unpublish_request
  | RNodeStats node_stats_request | RNodeExpand node_expand_request
  | RNodeGetInfo | RNodeGetCapabilities
  | RNodeChanged "node option"

text \<open>A manager that came up, with the clients, the operating system and the packages it uses.\<close>

record 'w driver =
  d_api :: "'w api"
  d_clients :: "'w node_clients"
  d_os :: "'w os"
  d_platform :: "'w platform"
  d_manager :: "'w manager"

abbreviation d_cs :: "'w driver \<Rightarrow> controller_server" where "d_cs d \<equiv> m_cs (d_manager d)"
abbreviation d_ns :: "'w driver \<Rightarrow> node_server" where "d_ns d \<equiv> m_ns (d_manager d)"
abbreviation d_ids :: "'w driver \<Rightarrow> identity_server" where "d_ids d \<equiv> m_ids (d_manager d)"

fun service_of :: "rpc \<Rightarrow> service option" where
  "service_of RGetPluginInfo = Some IdentityService"
| "service_of RProbe = Some IdentityService"
| "service_of RGetPluginCapabilities = Some IdentityService"
| "service_of (RNodeStage _) = Some NodeService"
| "service_of (RNodeUnstage _) = Some NodeService"
| "service_of (RNodePublish _) = Some NodeService"
| "service_of (RNodeUnpublish _) = Some NodeService"
| "service_of (RNodeStats _) = Some NodeService"
| "service_of (RNodeExpand _) = Some NodeService"
| "service_of RNodeGetInfo = Some NodeService"
| "service_of RNodeGetCapabilities = Some NodeService"
| "service_of (RNodeChanged _) = None"
| "service_of _ = Some ControllerService"

text \<open>The handler of a request, without the content of its response. The value is \<open>None\<close> when the
  handler does not return.\<close>

definition done_with :: "('w, 'a) io \<Rightarrow> 'w st \<Rightarrow> (unit result \<times> 'w st) option" where
  "done_with m s = Some (andThen m (\<lambda>_. ret ()) s)"

fun dispatch :: "'w driver \<Rightarrow> rpc \<Rightarrow> 'w st \<Rightarrow> (unit result \<times> 'w st) option" where
  "dispatch d RGetPluginInfo = done_with (ret (GetPluginInfo (d_ids d)))"
| "dispatch d RProbe = done_with (ret (Probe (d_ids d)))"
| "dispatch d RGetPluginCapabilities = done_with (ret (GetPluginCapabilities (d_ids d)))"
| "dispatch d (RCreateVolume req) = done_with (CreateVolume (d_api d) (d_cs d) req)"
| "dispatch d (RDeleteVolume vid) = done_with (DeleteVolume (d_api d) (d_cs d) vid)"
| "dispatch d (RPublish req) = done_with (ControllerPublishVolume (d_api d) (d_cs d) req)"
| "dispatch d (RUnpublish req) = done_with (ControllerUnpublishVolume (d_api d) (d_cs d) req)"
| "dispatch d (RExpand req) = done_with (ControllerExpandVolume (d_api d) (d_cs d) req)"
| "dispatch d (RCreateSnapshot req) = done_with (CreateSnapshot (d_api d) (d_cs d) req)"
| "dispatch d (RDeleteSnapshot i) = done_with (DeleteSnapshot (d_api d) (d_cs d) i)"
| "dispatch d (RListSnapshots req) = done_with (ListSnapshots (d_api d) (d_cs d) req)"
| "dispatch d (RValidate req) = done_with (ValidateVolumeCapabilities (d_api d) (d_cs d) req)"
| "dispatch d RControllerGetCapabilities = done_with (ret (ControllerGetCapabilities (d_cs d)))"
| "dispatch d RControllerGetVolume = done_with ControllerGetVolume"
| "dispatch d RListVolumes = done_with ListVolumes"
| "dispatch d RGetCapacity = done_with GetCapacity"
| "dispatch d RModify = done_with ControllerModifyVolume"
| "dispatch d (RNodeStage req) = done_with (NodeStageVolume (d_clients d) (d_os d) (d_ns d) req)"
| "dispatch d (RNodeUnstage req) = done_with (NodeUnstageVolume (d_os d) req)"
| "dispatch d (RNodePublish req) = done_with (NodePublishVolume (d_clients d) (d_os d) (d_ns d) req)"
| "dispatch d (RNodeUnpublish req) = NodeUnpublishVolume (d_os d) req"
| "dispatch d (RNodeStats req) = done_with (NodeGetVolumeStats (d_clients d) (d_os d) (d_ns d) req)"
| "dispatch d (RNodeExpand req) = done_with (NodeExpandVolume (d_clients d) (d_os d) req)"
| "dispatch d RNodeGetInfo = done_with (ret (NodeGetInfo (d_ns d)))"
| "dispatch d RNodeGetCapabilities = done_with (ret (NodeGetCapabilities (d_ns d)))"
| "dispatch d (RNodeChanged n) =
     done_with (case m_handler (d_manager d) of
        None \<Rightarrow> ret None
      | Some (_, handler) \<Rightarrow> handler n)"

section \<open>The process\<close>

text \<open>The end of \<open>Run\<close>: all three servers on the endpoint of the configuration.\<close>

definition launch :: "'w driver \<Rightarrow> 'w st \<Rightarrow> 'w process" where
  "launch d s =
     Start (m_endpoint (d_manager d)) (Some (d_ids d)) (Some (d_cs d)) (Some (d_ns d))
       (NewNonBlockingGRPCServer s)"

text \<open>
  What happens in the process, one thing at a time: a step of the goroutine that serves, a stop,
  a request that the gRPC server passes on (or an event that the informer does), a change in the
  clusters or on the node that is not the driver's; the relation \<open>rely\<close> says which such changes
  there may be. A panic in a handler is recovered by neither library.
\<close>

datatype event = Served | Stopped | Handled rpc | Outside

inductive run :: "'w driver \<Rightarrow> ('w \<Rightarrow> 'w \<Rightarrow> bool) \<Rightarrow> 'w process \<Rightarrow> event list \<Rightarrow> 'w process \<Rightarrow> bool" 
  for d rely p0 where
  start: "run d rely p0 [] p0"
| serve: "run d rely p0 evs p \<Longrightarrow> outcome p = Running \<Longrightarrow> i < length (routines p) \<Longrightarrow>
     run d rely p0 (evs @ [Served]) (serve_step (d_os d) (d_platform d) i p)"
| stop: "run d rely p0 evs p \<Longrightarrow> outcome p = Running \<Longrightarrow> run d rely p0 (evs @ [Stopped]) (Stop p)"
| force: "run d rely p0 evs p \<Longrightarrow> outcome p = Running \<Longrightarrow> run d rely p0 (evs @ [Stopped]) (ForceStop p)"
| handled: "run d rely p0 evs p \<Longrightarrow> outcome p = Running \<Longrightarrow>
     (case service_of rq of Some svc \<Rightarrow> answers p i svc | None \<Rightarrow> True) \<Longrightarrow>
     dispatch d rq (pstate p) = Some (r, s) \<Longrightarrow>
     run d rely p0 (evs @ [Handled rq])
       (p\<lparr>pstate := s, outcome := (if r = Panic then Crashed else Running)\<rparr>)"
| outside: "run d rely p0 evs p \<Longrightarrow> rely (world (pstate p)) w \<Longrightarrow>
     run d rely p0 (evs @ [Outside]) (p\<lparr>pstate := (pstate p)\<lparr>world := w\<rparr>\<rparr>)"

section \<open>What the theorems speak of\<close>

text \<open>What a request relies on in the objects the servers answer.\<close>

fun relies_on :: "'w api \<Rightarrow> rpc \<Rightarrow> bool" where
  "relies_on api (RCreateVolume req) \<longleftrightarrow>
     complete_capabilities (cvCapabilities req) \<and> creates_only (pvcs api) has_class"
| "relies_on api (RDeleteVolume vid) \<longleftrightarrow> gets_only (pvcs api) has_class"
| "relies_on api (RPublish req) \<longleftrightarrow>
     gets_only (pvcs api) has_class \<and> gets_only (vms api) has_template \<and>
     lists_only (hostVAs api) has_volume \<and> lists_only (guestVAs api) has_volume"
| "relies_on api (RUnpublish req) \<longleftrightarrow>
     gets_only (pvcs api) has_class \<and> gets_only (vms api) has_template \<and>
     gets_only (guestPVs api) has_claim"
| "relies_on api (RExpand req) \<longleftrightarrow> gets_only (pvcs api) has_requests"
| "relies_on api (RCreateSnapshot req) \<longleftrightarrow> gets_only (snapshots api) complete_snapshot"
| "relies_on api (RListSnapshots req) \<longleftrightarrow> lists_only (snapshots api) complete_snapshot"
| "relies_on api (RValidate req) \<longleftrightarrow> complete_capabilities (vvCapabilities req)"
| "relies_on api (RNodeChanged n) \<longleftrightarrow> gets_only (vms api) has_template"
| "relies_on api _ \<longleftrightarrow> True"

text \<open>The calls that stay on the node.\<close>

definition on_the_node :: "call \<Rightarrow> bool" where
  "on_the_node c \<longleftrightarrow> call_kind c \<in> {NodeFS, NodeCommands, HostCommands}"

text \<open>The calls that change something and that a request entitles the driver to.\<close>

fun scope :: "'w driver \<Rightarrow> rpc \<Rightarrow> call \<Rightarrow> bool" where
  "scope d (RCreateVolume req) c \<longleftrightarrow> call_verb c = VCreate \<and>
     (call_kind c \<in> {PVCs, VolumeRemoteRestores} \<and> call_ns c = cs_namespace (d_cs d) \<and>
        call_name c = cvName req \<or>
      call_kind c = NetworkFilesystems \<and> call_ns c = HarvesterNS)"
| "scope d (RDeleteVolume vid) c \<longleftrightarrow> call_verb c = VDelete \<and>
     (call_kind c \<in> {PVCs, VolumeRemoteRestores} \<and> call_ns c = cs_namespace (d_cs d) \<and>
        call_name c = vid \<or>
      call_kind c = NetworkFilesystems \<and> call_ns c = HarvesterNS)"
| "scope d (RPublish req) c \<longleftrightarrow>
     call_verb c \<in> {VPatch, VAddVolume} \<and> call_kind c = VMs \<and>
        call_ns c = cs_namespace (d_cs d) \<and> call_name c = puNodeId req \<or>
     call_verb c \<in> {VCreate, VUpdate} \<and> call_kind c = NetworkFilesystems \<and> call_ns c = HarvesterNS"
| "scope d (RUnpublish req) c \<longleftrightarrow>
     call_verb c \<in> {VPatch, VRemoveVolume} \<and> call_kind c \<in> {VMs, VMIs} \<and>
        call_ns c = cs_namespace (d_cs d) \<and> call_name c = unNodeId req \<or>
     call_verb c = VUpdate \<and> call_kind c = NetworkFilesystems \<and> call_ns c = HarvesterNS"
| "scope d (RExpand req) c \<longleftrightarrow> call_verb c = VUpdate \<and> call_kind c = PVCs \<and>
     call_ns c = cs_namespace (d_cs d) \<and> call_name c = ceVolumeId req"
| "scope d (RCreateSnapshot req) c \<longleftrightarrow> call_verb c = VCreate \<and>
     call_kind c \<in> {VolumeSnapshots, VolumeRemoteBackups} \<and>
     call_ns c = cs_namespace (d_cs d) \<and> call_name c = csName req"
| "scope d (RDeleteSnapshot i) c \<longleftrightarrow> call_verb c = VDelete \<and>
     (call_kind c = VolumeSnapshots \<and> call_ns c = cs_namespace (d_cs d) \<and> call_name c = i \<or>
      call_kind c = VolumeRemoteBackups \<and> i = formatBackupSnapshotID (call_ns c) (call_name c))"
| "scope d (RNodeChanged n) c \<longleftrightarrow>
     (\<exists>x. n = Some x \<and> call_name c = Name x \<and>
        (call_verb c = VUpdate \<and> call_kind c = GuestNodes \<or>
         call_verb c \<in> {VPatch, VRemoveVolume} \<and> call_kind c = VMs \<and>
           call_ns c = cs_namespace (d_cs d)))"
| "scope d (RNodeStage _) c \<longleftrightarrow> on_the_node c"
| "scope d (RNodeUnstage _) c \<longleftrightarrow> on_the_node c"
| "scope d (RNodePublish _) c \<longleftrightarrow> on_the_node c"
| "scope d (RNodeUnpublish _) c \<longleftrightarrow> on_the_node c"
| "scope d (RNodeExpand _) c \<longleftrightarrow> on_the_node c"
| "scope d _ c \<longleftrightarrow> False"

text \<open>A read answers the object it was asked for.\<close>

definition keeps_key :: "('w, 'x objectmeta_scheme) client \<Rightarrow> bool" where
  "keeps_key c \<longleftrightarrow>
     (\<forall>ns n w x w'. cget c ns n w = (Inr x, w') \<longrightarrow> Namespace x = ns \<and> Name x = n)"

definition may :: "'w driver \<Rightarrow> rpc \<Rightarrow> call \<Rightarrow> bool" where
  "may d rq c \<longleftrightarrow> read_only c \<or> scope d rq c"

declare may_def [simp]

definition on_node_fs :: "call list \<Rightarrow> call list \<Rightarrow> bool" where
  "on_node_fs before after \<longleftrightarrow> (\<exists>cs. after = before @ cs \<and> (\<forall>c \<in> set cs. call_kind c = NodeFS))"

text \<open>The handler of the node controller is the one that \<open>Run\<close> makes.\<close>

definition wired :: "'w driver \<Rightarrow> bool" where
  "wired d \<longleftrightarrow>
     m_handler (d_manager d) = None \<or>
     (\<exists>nodeID declarative. m_handler (d_manager d) =
        Some (Register (d_api d) nodeID (cs_namespace (d_cs d)) declarative))"

text \<open>The removal of the socket of an earlier process.\<close>

definition removes_socket :: "string \<Rightarrow> call \<Rightarrow> bool" where
  "removes_socket endpoint c \<longleftrightarrow>
     (\<exists>addr. parseEndpoint endpoint = Inr (''unix'', addr) \<and>
        call_verb c = VDelete \<and> call_kind c = NodeFS \<and> call_name c = ''/'' @ addr)"

definition local_call :: "call \<Rightarrow> bool" where
  "local_call c \<longleftrightarrow> read_only c \<or> on_the_node c"

text \<open>What the goroutines were started with.\<close>

definition arguments :: "'w process \<Rightarrow>
    (string \<times> identity_server option \<times> controller_server option \<times> node_server option) list" where
  "arguments p = map (\<lambda>r. (r_endpoint r, r_ids r, r_cs r, r_ns r)) (routines p)"

section \<open>Lemmas\<close>

lemma done_with_safe: "safe m \<Longrightarrow> done_with m s \<noteq> Some (Panic, s')"
  by (auto simp: done_with_def andThen_returns ret_def dest: safeD)

lemma on_node_fs_refl [simp]: "on_node_fs xs xs"
  by (simp add: on_node_fs_def)

lemma on_node_fs_trans: "on_node_fs xs ys \<Longrightarrow> on_node_fs ys zs \<Longrightarrow> on_node_fs xs zs"
  unfolding on_node_fs_def by (metis Un_iff append.assoc set_append)

lemma on_node_fs_calls:
  "Unmount os p s = (r, s1) \<Longrightarrow> on_node_fs (calls s) (calls s1)"
  "IsLikelyNotMountPoint os p s = (q, s1) \<Longrightarrow> on_node_fs (calls s) (calls s1)"
  "CleanupMountPoint os p s = (r, s1) \<Longrightarrow> on_node_fs (calls s) (calls s1)"
  by (auto simp: os_call_defs perform_returns on_node_fs_def)

lemma unmount_loop_invariant:
  assumes "unmount_loop os p s = Some y" and "Q s"
    and "\<And>s r s1. Q s \<Longrightarrow> Unmount os p s = (r, s1) \<Longrightarrow> Q s1"
    and "\<And>s r s1. Q s \<Longrightarrow> IsLikelyNotMountPoint os p s = (r, s1) \<Longrightarrow> Q s1"
  shows "fst y \<noteq> Panic \<and> Q (snd y)"
proof -
  have "os' = os \<longrightarrow> p' = p \<longrightarrow> Q s' \<longrightarrow> fst y' \<noteq> Panic \<and> Q (snd y')"
    if "unmount_loop os' p' s' = Some y'" for os' p' s' y'
    using that
  proof (rule unmount_loop.raw_induct [rotated])
    fix f os' p' s y
    assume IH: "\<And>os' p' s y. f os' p' s = Some y \<Longrightarrow>
        os' = os \<longrightarrow> p' = p \<longrightarrow> Q s \<longrightarrow> fst y \<noteq> Panic \<and> Q (snd y)"
      and body: "(case Unmount os' p' s of
          (Err err, s1) \<Rightarrow>
            if not_mounted err then Some (Ok (), s1)
            else Some (Err (status_Error Internal (Error err)), s1)
        | (Panic, s1) \<Rightarrow> Some (Panic, s1)
        | (Ok _, s1) \<Rightarrow>
            (case IsLikelyNotMountPoint os' p' s1 of
               (Err err, s2) \<Rightarrow> Some (Err (status_Error Internal (Error err)), s2)
             | (Panic, s2) \<Rightarrow> Some (Panic, s2)
             | (Ok notMnt, s2) \<Rightarrow>
                 if notMnt then Some (Ok (), s2) else f os' p' s2)) = Some y"
    obtain u s1 where u: "Unmount os' p' s = (u, s1)" by fastforce
    obtain q s2 where q: "IsLikelyNotMountPoint os' p' s1 = (q, s2)" by fastforce
    have no_panic: "u \<noteq> Panic" "q \<noteq> Panic"
      using u q safeD [OF safe_os_calls(5), of os' p' s s1] safeD [OF safe_os_calls(2), of os' p' s1 s2]
      by auto
    show "os' = os \<longrightarrow> p' = p \<longrightarrow> Q s \<longrightarrow> fst y \<noteq> Panic \<and> Q (snd y)"
    proof (intro impI)
      assume "os' = os" "p' = p" "Q s"
      with u q assms(3) [of s u s1] assms(4) [of s1 q s2] have "Q s1" "Q s2" by simp_all
      with body u q no_panic \<open>os' = os\<close> \<open>p' = p\<close> show "fst y \<noteq> Panic \<and> Q (snd y)"
        by (auto split: result.splits if_splits dest!: IH)
    qed
  qed
  with assms(1,2) show ?thesis by blast
qed

lemma NodeUnpublishVolume_invariant:
  assumes "NodeUnpublishVolume os req s = Some (r, s')" and "Q s"
    and "\<And>p s r s1. Q s \<Longrightarrow> Unmount os p s = (r, s1) \<Longrightarrow> Q s1"
    and "\<And>p s r s1. Q s \<Longrightarrow> IsLikelyNotMountPoint os p s = (r, s1) \<Longrightarrow> Q s1"
    and "\<And>p s r s1. Q s \<Longrightarrow> CleanupMountPoint os p s = (r, s1) \<Longrightarrow> Q s1"
  shows "r \<noteq> Panic \<and> Q s'"
proof -
  have loop: "fst y \<noteq> Panic \<and> Q (snd y)" if "unmount_loop os p s = Some y" for p y
    by (rule unmount_loop_invariant [OF that, of Q]) (use assms(2-4) in blast)+
  have cleanup: "Q s2 \<and> c \<noteq> Panic" if "CleanupMountPoint os p s1 = (c, s2)" "Q s1" for p s1 c s2
    using assms(5) [OF that(2,1)] safeD [OF safe_os_calls(6), of os p s1 s2] that(1) by auto
  from assms(1,2) show ?thesis
    by (auto simp: NodeUnpublishVolume_def fail_def handle_returns ret_def
        dest!: loop cleanup split: option.splits prod.splits result.splits if_splits)
qed

lemma NodeUnpublishVolume_no_panic: "NodeUnpublishVolume os req s \<noteq> Some (Panic, s')"
  using NodeUnpublishVolume_invariant [of os req s Panic s' "\<lambda>_. True"] by auto

lemma kGet_key: "kGet k c ns n s = (Ok x, s') \<Longrightarrow> keeps_key c \<Longrightarrow> Namespace x = ns \<and> Name x = n"
  unfolding kGet_returns keeps_key_def by blast

lemma buildHostPVC_key:
  "buildHostPVC api cs req vp sz s = (Ok p, s') \<Longrightarrow> Namespace p = cs_namespace cs \<and> Name p = cvName req"
  by (auto simp: buildHostPVC_def buildHostPVCFromScratch_def buildHostPVCFromSnap_def new_pvc_def
      andThen_returns ret_def fail_def Let_def split: if_splits option.splits prod.splits)

lemma scope_CreateVolume: "issues (may d (RCreateVolume req)) (CreateVolume api (d_cs d) req)"
proof -
  have "issues (may d (RCreateVolume req)) (buildHostPVC api (d_cs d) req vp sz)" for vp sz
    by (auto simp: buildHostPVC_def buildHostPVCFromScratch_def buildHostPVCFromSnap_def getHostSnap_def
        getHostSC_def Let_def intro!: issues_intros)
  moreover have "issues (may d (RCreateVolume req)) (buildHostVolumeRemoteRestore api (d_cs d) req vp)" for vp
    by (auto simp: buildHostVolumeRemoteRestore_def buildHostVolumeRemoteRestoreFromBackup_def
        getOrCreateVolumeRemoteRestore_def generateHostVolumeRemoteRestore_def
        checkVolumeRemoteRestoreReadiness_def getHostVolumeRemoteRestore_def
        createHostVolumeRemoteRestore_def getHostVolumeRemoteBackup_def Let_def intro!: issues_intros)
  moreover have "issues (may d (RCreateVolume req)) (ensureNetworkFilesystem api (d_cs d) p)" for p
    by (auto simp: ensureNetworkFilesystem_def createNetworkFilesystem_def intro!: issues_intros)
  moreover have "issues (may d (RCreateVolume req)) (createHostPVC api p)"
    if "Namespace p = cs_namespace (d_cs d)" "Name p = cvName req" for p
    using that by (auto simp: createHostPVC_def intro!: issues_intros)
  ultimately show ?thesis
    unfolding CreateVolume_def
    by (intro issues_intros issues_andThen_after) (auto dest: buildHostPVC_key intro!: issues_intros)
qed

lemma scope_DeleteVolume: "issues (may d (RDeleteVolume vid)) (DeleteVolume api (d_cs d) vid)"
  unfolding DeleteVolume_def deletePVC_def deleteVolumeRemoteRestoreIfExists_def
    removeNetworkFilesystem_def getHostVolumeRemoteRestore_def deleteHostVolumeRemoteRestore_def
  by (intro issues_intros) auto

lemma scope_Publish: "issues (may d (RPublish req)) (ControllerPublishVolume api (d_cs d) req)"
  unfolding ControllerPublishVolume_def attachVolume_def waitForVolumeAttached_def volumeAttachedCheck_def
    hotplugVolumeToVM_def addVolumeToVM_def addVolumeToVMLegacy_def kAddVolume_def
    publishRWXVolume_def enableNetworkFS_def updateNetworkFS_def createNetworkFilesystem_def
    isVolAttached_def checkVolumeExistsInVM_def checkVolumeExistsInVMI_def
  by (intro issues_intros) auto

lemma scope_Unpublish: "issues (may d (RUnpublish req)) (ControllerUnpublishVolume api (d_cs d) req)"
  unfolding ControllerUnpublishVolume_def unpublishRWXVolume_def disableNetworkFS_def updateNetworkFS_def
    podsByIndex_def removeVolumeFromHostVM_def unplugVolumeFromVM_def unplugVolumeFromVMLegacy_def
    removeVolumeFromVM_def kRemoveVolume_def kRemoveVolumeVMI_def checkVolumeExistsInVM_def
    checkVolumeExistsInVMI_def
  by (intro issues_intros) auto

lemma scope_Expand:
  assumes "keeps_key (pvcs api)"
  shows "issues (may d (RExpand req)) (ControllerExpandVolume api (d_cs d) req)"
proof -
  have "issues (may d (RExpand req)) (expandPVC api (d_cs d) req p sz)"
    if "Namespace p = cs_namespace (d_cs d)" "Name p = ceVolumeId req" for p sz
    using that by (auto simp: expandPVC_def intro!: issues_intros)
  moreover have "issues (may d (RExpand req)) (validateOnlineExpansion api (d_cs d) p)" for p
    by (auto simp: validateOnlineExpansion_def intro!: issues_intros)
  ultimately show ?thesis
    unfolding ControllerExpandVolume_def
    by (intro issues_intros issues_handle_after) (auto dest: kGet_key [OF _ assms] intro!: issues_intros)
qed

lemma scope_CreateSnapshot: "issues (may d (RCreateSnapshot req)) (CreateSnapshot api (d_cs d) req)"
proof -
  have "generateHostSnapManifest (d_cs d) (csName req) cls p = Inr hs \<Longrightarrow>
      Namespace hs = cs_namespace (d_cs d) \<and> Name hs = csName req" for cls p hs
    by (auto simp: generateHostSnapManifest_def Let_def split: if_splits option.splits)
  then have "issues (may d (RCreateSnapshot req)) (generateHostSnap api (d_cs d) (csName req) p)" for p
    by (auto simp: generateHostSnap_def createHostSnap_def getHostSnapClass_def getHarvCSIConfig_def
        lift_result_returns intro!: issues_intros issues_andThen_after)
  then show ?thesis
    by (auto simp: CreateSnapshot_def handleBackupSnap_def handleExistingBackupSnap_def
      createHostVolumeRemoteBackupFromReq_def generateHostVolumeRemoteBackup_def createHostVolumeRemoteBackup_def
      buildHostVolumeRemoteBackup_def getHostVolumeRemoteBackup_def handleLocalSnap_def
      handleExistingLocalSnap_def createSnapFromVolume_def getHostSnap_def getHostPVC_def
      intro!: issues_intros)
qed

lemma scope_DeleteSnapshot: "issues (may d (RDeleteSnapshot i)) (DeleteSnapshot api (d_cs d) i)"
  unfolding DeleteSnapshot_def handleBackupSnapDeletion_def handleLocalSnapDeletion_def
    deleteHostVolumeRemoteBackup_def deleteHostSnap_def
  by (intro issues_intros) (auto dest: snapid.decode_backup snapid.decode_plain)

lemma scope_reads:
  "issues (may d (RListSnapshots req)) (ListSnapshots api (d_cs d) req)"
  "issues (may d (RValidate vreq)) (ValidateVolumeCapabilities api (d_cs d) vreq)"
  by (auto simp: ListSnapshots_def listLocalSnaps_def listHostSnaps_def listBackupSnaps_def
      processHostVolumeRemoteBackups_def listHostVolumeRemoteBackups_def ValidateVolumeCapabilities_def Let_def
      intro!: issues_intros)

lemma scope_OnNodesChange:
  assumes keys: "keeps_key (vms api)"
    and ns: "namespace nc = cs_namespace (d_cs d)"
  shows "issues (may d (RNodeChanged n)) (OnNodesChange api nc n)"
proof (cases n)
  case None
  then show ?thesis by (simp add: OnNodesChange_def issues_ret)
next
  case (Some x)
  let ?P = "may d (RNodeChanged n)"
  have detach: "issues ?P (removeAllHotplugVolumes api nc v)" if "Name v = Name x" for v
    using Some that ns
    by (auto simp: removeAllHotplugVolumes_def removeAllHotplugVolumesByPatch_def
        removeAllHotplugVolumesBySubresource_def dest!: kGet_key [OF _ keys]
        intro!: issues_intros issues_handle_after issues_removeBySubresource_loop)
  have taints: "issues ?P (addTaint api x)" "issues ?P (removeTaint api x)"
    using Some by (auto simp: addTaint_def removeTaint_def Let_def intro!: issues_intros)
  have health: "issues ?P (getNodeAndVMHealth api nc x)"
    by (auto simp: getNodeAndVMHealth_def Let_def intro!: issues_intros)
  have "Name v = Name x" if "getNodeAndVMHealth api nc x s = (Ok (a, b, v), s')" for a b v s s'
    using that kGet_key [OF _ keys]
    by (auto simp: getNodeAndVMHealth_def Let_def handle_returns fail_run ret_run split: option.splits)
  with detach taints health show ?thesis
    unfolding OnNodesChange_def handleNodeAndVMHealth_def Some
    by (auto simp: Some Let_def intro!: issues_intros issues_andThen_after)
qed

lemma local_call_simps [simp]:
  "local_call (Call v NodeFS ns n e)" "local_call (Call v NodeCommands ns n e)"
  "local_call (Call v HostCommands ns n e)" "local_call (Call VGet k ns n e)"
  by (simp_all add: local_call_def on_the_node_def)

lemma local_helpers [issues_intros]:
  "issues local_call (makeDir os p)" "issues local_call (makeFile os p)"
  "issues local_call (getDevicePathByVolumeID os v)" "issues local_call (resizeFilesystem os p f)"
  "issues local_call (isLikelyNotMountPointAttach os p)"
proof -
  show "issues local_call (getDevicePathByVolumeID os v)"
    using reads_getDevicePathByVolumeID by (rule issues_mono) (simp add: local_call_def)
qed (auto simp: makeDir_def makeFile_def resizeFilesystem_def isLikelyNotMountPointAttach_def os_call_defs
    Let_def intro!: issues_intros)

lemma local_handlers:
  "issues local_call (NodeStageVolume cl os ns sreq)" "issues local_call (NodeUnstageVolume os ureq)"
  "issues local_call (NodePublishVolume cl os ns preq)" "issues local_call (NodeExpandVolume cl os ereq)"
  unfolding NodeStageVolume_def nodeStageRWXVolume_def NodeUnstageVolume_def NodePublishVolume_def
      nodePublishRWXVolume_def nodePublishRWOVolume_def nodePublishBlockVolume_def nodePublishMountVolume_def
      NodeExpandVolume_def isBlockDevice_def getFilesystemStatistics_def Let_def os_call_defs
  by (auto intro!: issues_intros)

lemma reads_NodeGetVolumeStats: "issues read_only (NodeGetVolumeStats cl os ns greq)"
  unfolding NodeGetVolumeStats_def isBlockDevice_def getFilesystemStatistics_def Let_def os_call_defs
  by (auto intro!: issues_intros)

lemma NodeUnpublishVolume_local:
  "NodeUnpublishVolume os req s = Some (r, s') \<Longrightarrow> on_node_fs (calls s) (calls s')"
  using NodeUnpublishVolume_invariant [of os req s r s' "\<lambda>s'. on_node_fs (calls s) (calls s')"]
  by (blast intro: on_node_fs_refl on_node_fs_trans on_node_fs_calls)

lemma done_with_issues:
  assumes "issues P m" and "done_with m s = Some (r, s')"
  shows "\<exists>tr. calls s' = calls s @ tr \<and> (\<forall>c \<in> set tr. P c)"
proof -
  have "issues P (andThen m (\<lambda>_. ret ()))" by (intro issues_intros assms)
  with assms(2) issuesD [of P "andThen m (\<lambda>_. ret ())" s r s'] show ?thesis
    by (auto simp: done_with_def)
qed

lemma scope_local:
  "issues (may d (RNodeStage sreq)) (NodeStageVolume cl os ns sreq)"
  "issues (may d (RNodeUnstage ureq)) (NodeUnstageVolume os ureq)"
  "issues (may d (RNodePublish preq)) (NodePublishVolume cl os ns preq)"
  "issues (may d (RNodeExpand ereq)) (NodeExpandVolume cl os ereq)"
  "issues (may d (RNodeStats greq)) (NodeGetVolumeStats cl os ns greq)"
  by (rule issues_mono, rule local_handlers reads_NodeGetVolumeStats, simp add: local_call_def)+

lemmas scopes = scope_CreateVolume scope_DeleteVolume scope_Publish scope_Unpublish
  scope_CreateSnapshot scope_DeleteSnapshot scope_reads scope_local

lemma wired_main:
  assumes "main (d_api d) os pf help env args s0 = (Runs level (d_manager d), s)"
  shows "wired d"
proof -
  obtain cfg where "Run (d_api d) os pf cfg s0 = (Ok (Some (d_manager d)), s)"
    using main_Runs [OF assms] by blast
  then show ?thesis
    by (rule Run_manager) (auto simp: wired_def dest!: NewControllerServer_fields intro!: exI)
qed

lemma done_with_pure [simp]:
  "done_with (ret x) s = Some (Ok (), s)" "done_with (fail e) s = Some (Err e, s)"
  by (simp_all add: done_with_def io_run)

lemma handler_cases:
  assumes "wired d"
  obtains "m_handler (d_manager d) = None"
  | nc name where "m_handler (d_manager d) = Some (name, OnNodesChange (d_api d) nc)"
      "namespace nc = cs_namespace (d_cs d)"
  using assms by (auto simp: wired_def Register_def)

lemma dispatch_safe:
  assumes "relies_on (d_api d) rq" and "wired d"
  shows "dispatch d rq s \<noteq> Some (Panic, s')"
proof (cases rq)
  case (RNodeChanged n)
  with assms show ?thesis
    by (auto elim!: handler_cases simp: done_with_safe safe_OnNodesChange safe_ret)
qed (use assms in \<open>auto simp: done_with_safe safe_CreateVolume safe_DeleteVolume safe_ControllerPublishVolume
      safe_ControllerUnpublishVolume safe_ControllerExpandVolume safe_CreateSnapshot safe_DeleteSnapshot
      safe_ListSnapshots safe_ValidateVolumeCapabilities safe_node_handlers safe_ret safe_fail
      ControllerGetVolume_def ListVolumes_def GetCapacity_def ControllerModifyVolume_def
      NodeUnpublishVolume_no_panic\<close>)

lemma dispatch_confined:
  assumes disp: "dispatch d rq s = Some (r, s')" and "wired d"
    and "keeps_key (pvcs (d_api d))" and "keeps_key (vms (d_api d))"
  shows "\<exists>tr. calls s' = calls s @ tr \<and> (\<forall>c \<in> set tr. may d rq c)"
proof (cases rq)
  case (RNodeUnpublish req)
  with disp show ?thesis by (auto dest!: NodeUnpublishVolume_local simp: on_node_fs_def on_the_node_def)
next
  case (RExpand req)
  with disp show ?thesis by (auto intro!: done_with_issues [OF scope_Expand [OF assms(3)]] simp del: may_def)
next
  case (RNodeChanged n)
  show ?thesis
  proof (rule handler_cases [OF assms(2)])
    assume "m_handler (d_manager d) = None"
    with disp RNodeChanged show ?thesis by auto
  next
    fix nc name
    assume "m_handler (d_manager d) = Some (name, OnNodesChange (d_api d) nc)"
      and "namespace nc = cs_namespace (d_cs d)"
    with disp RNodeChanged show ?thesis
      by (auto intro!: done_with_issues [OF scope_OnNodesChange [OF assms(4)]] simp del: may_def)
  qed
qed (use disp in \<open>auto intro!: scopes [THEN done_with_issues] simp: ControllerGetVolume_def ListVolumes_def GetCapacity_def
    ControllerModifyVolume_def simp del: may_def\<close>)

lemma process_ok_run: "run d rely p0 evs p \<Longrightarrow> process_ok p0 \<Longrightarrow> process_ok p"
  by (induction rule: run.induct) (auto intro: process_ok_serve_step process_ok_stop)

lemma process_ok_launch: "process_ok (launch d s)"
  by (simp add: launch_def process_ok_Start process_ok_new)

lemma length_arguments: "length (arguments p) = length (routines p)"
  by (simp add: arguments_def)

lemma map_update_same: "f y = f (xs ! i) \<Longrightarrow> map f (xs[i := y]) = map f xs"
  by (metis list_update_id map_update)

lemma arguments_step [simp]:
  "arguments (serve_step os pf i p) = arguments p" "arguments (Stop p) = arguments p"
  "arguments (ForceStop p) = arguments p" "arguments (p\<lparr>pstate := s\<rparr>) = arguments p"
  "arguments (p\<lparr>outcome := z\<rparr>) = arguments p"
  by (auto simp: arguments_def serve_step_def Stop_def ForceStop_def stop_server_def set_routine_def
      Let_def map_update_same split: serve_at.split option.split sum.split prod.split result.split)

lemma arguments_run: "run d rely p0 evs p \<Longrightarrow> arguments p = arguments p0"
  by (induction rule: run.induct) simp_all

lemma launch_started:
  "arguments (launch d s) = [(m_endpoint (d_manager d), Some (d_ids d), Some (d_cs d), Some (d_ns d))]"
  "outcome (launch d s) = Running" "pstate (launch d s) = s"
  by (simp_all add: launch_def Start_def NewNonBlockingGRPCServer_def wg_Add_def arguments_def)

lemma arguments_nth:
  "arguments p = [(ep, ids, cs, ns)] \<Longrightarrow> i < length (routines p) \<Longrightarrow>
     r_endpoint (routines p ! i) = ep \<and> r_ids (routines p ! i) = ids \<and>
     r_cs (routines p ! i) = cs \<and> r_ns (routines p ! i) = ns"
  by (cases "routines p") (auto simp: arguments_def)

lemma serve_step_running: "outcome p = Running \<Longrightarrow> outcome (serve_step os pf i p) \<noteq> Crashed"
  using safeD [of "Remove os (r_addr (routines p ! i))"] safeD [of "ask (netAccept pf)"]
    safeD [of "ask (netListen pf (r_proto (routines p ! i)) (r_addr (routines p ! i)))"]
  by (auto simp: serve_step_def set_routine_def Let_def ask_def safe_intros safe_os_calls
      split: serve_at.split option.split sum.split prod.split result.split)

lemma serve_step_calls:
  assumes "process_ok p" and "i < length (routines p)"
  shows "\<exists>tr. calls (pstate (serve_step os pf i p)) = calls (pstate p) @ tr \<and>
    (\<forall>c \<in> set tr. removes_socket (r_endpoint (routines p ! i)) c)"
proof (cases "r_at (routines p ! i)")
  case AtRemove
  have "routine_ok (routines p ! i)" using assms by (simp add: process_ok_def)
  with AtRemove show ?thesis
    by (auto simp: serve_step_def set_routine_def Let_def Remove_def perform_returns routine_ok_def removes_socket_def
        split: prod.split result.split)
qed (auto simp: serve_step_def set_routine_def Let_def ask_returns
      split: serve_at.split option.split sum.split prod.split result.split)

section \<open>A process that publishes a volume\<close>

text \<open>The cluster in memory, with an API server that refuses incomplete objects; a node that boots
  in it, listens, and publishes a volume.\<close>

definition refused :: gerror where
  "refused = APIStatus ''Invalid'' 422 ''the object is incomplete''"

definition checked :: "('o \<Rightarrow> bool) \<Rightarrow> ('w, 'o) client \<Rightarrow> ('w, 'o) client" where
  "checked W c = c
     \<lparr>cget := (\<lambda>ns n w. case cget c ns n w of
         (Inr x, w') \<Rightarrow> if W x then (Inr x, w') else (Inl refused, w') | r \<Rightarrow> r),
      clist := (\<lambda>ns lo w. case clist c ns lo w of
         (Inr (xs, t), w') \<Rightarrow> (Inr (filter W xs, t), w') | (Inl e, w') \<Rightarrow> (Inl e, w')),
      ccreate := (\<lambda>obj w. case ccreate c obj w of
         (Inr x, w') \<Rightarrow> if W x then (Inr x, w') else (Inl refused, w) | r \<Rightarrow> r)\<rparr>"

definition validated :: "'w api \<Rightarrow> 'w api" where
  "validated api = api
     \<lparr>pvcs := checked (\<lambda>p. has_class p \<and> has_requests p) (pvcs api),
      vms := checked has_template (vms api),
      hostVAs := checked has_volume (hostVAs api),
      guestVAs := checked has_volume (guestVAs api),
      guestPVs := checked has_claim (guestPVs api),
      snapshots := checked complete_snapshot (snapshots api)\<rparr>"

lemma checked_answers:
  "gets_only (checked W c) W" "lists_only (checked W c) W" "creates_only (checked W c) W"
  by (auto simp: gets_only_def lists_only_def creates_only_def checked_def list_all_iff
      split: prod.splits sum.splits if_splits)

lemma gets_mono: "gets_only c V \<Longrightarrow> (\<And>x. V x \<Longrightarrow> W x) \<Longrightarrow> gets_only c W"
  unfolding gets_only_def by blast

lemma creates_mono: "creates_only c V \<Longrightarrow> (\<And>x. V x \<Longrightarrow> W x) \<Longrightarrow> creates_only c W"
  unfolding creates_only_def by blast

lemma validated_answers:
  "gets_only (pvcs (validated api)) has_class" "gets_only (pvcs (validated api)) has_requests"
  "creates_only (pvcs (validated api)) has_class" "gets_only (vms (validated api)) has_template"
  "lists_only (hostVAs (validated api)) has_volume"
  "lists_only (guestVAs (validated api)) has_volume"
  "gets_only (guestPVs (validated api)) has_claim"
  "gets_only (snapshots (validated api)) complete_snapshot" "lists_only (snapshots (validated api)) complete_snapshot"
  by (auto simp: validated_def intro: checked_answers gets_mono [OF checked_answers(1)]
      creates_mono [OF checked_answers(3)])


definition served_mem :: mem where
  "served_mem = plug_mem
     \<lparr>mPVCs := [bound_claim\<lparr>Requests := Some (Map.empty(''storage'' \<mapsto> 1073741824))\<rparr>],
      mSettings := [\<lparr>Namespace = '''', Name = ''server-version'', ResourceVersion = ''1'',
        Labels = None, Annotations = None, CreationTimestamp = None, DeletionTimestamp = None,
        SettingDefault = '''', SettingValue = ''v1.7.2''\<rparr>]\<rparr>"

definition demo_manager :: "mem manager" where
  "demo_manager =
     \<lparr>m_ids = NewIdentityServer driverName FriendlyVersion,
      m_ns = NewNodeServer ''worker-1.example.org'' ''default'' ''https://10.0.0.1:6443'',
      m_cs = \<lparr>cs_namespace = ''default'', hostStorageClass = '''', useDeclarativeHotplug = False,
        caps = getControllerServiceCapabilities
          [CREATE_DELETE_VOLUME, PUBLISH_UNPUBLISH_VOLUME, EXPAND_VOLUME,
           CREATE_DELETE_SNAPSHOT, LIST_SNAPSHOTS],
        accessModes = getVolumeCapabilityAccessModes [SINGLE_NODE_WRITER, MULTI_NODE_MULTI_WRITER]\<rparr>,
      m_endpoint = ''unix:///csi/csi.sock'', m_handler = None\<rparr>"

definition booted :: "mem st" where
  "booted = \<lparr>world = served_mem, calls =
     [Call VGet NodeFS '''' ''/kubeconfig'' None,
      Call VGet Settings '''' ''server-version'' None,
      Call VList NodeFS '''' ''/sys/class/net'' None,
      Call VGet NodeFS '''' ''/sys/class/net/eth0'' None,
      Call VGet NodeFS '''' ''/sys/class/net/eth0/address'' None,
      Call VGet VMIs ''default'' ''worker-1.example.org''
        (Some (APIStatus ''NotFound'' 404 ''worker-1.example.org not found'')),
      Call VList VMIs ''default'' '''' None,
      Call VList NetworkFilesystems HarvesterNS '''' None,
      Call VList LonghornVolumes LonghornNS '''' None,
      Call VGet GuestNodes '''' ''worker-1.example.org''
        (Some (APIStatus ''NotFound'' 404 ''worker-1.example.org not found''))]\<rparr>"

definition demo_driver :: "mem driver" where
  "demo_driver = \<lparr>d_api = validated mem_api,
     d_clients = \<lparr>nodePVCs = pvcs mem_api, nodeVMIs = vmis mem_api,
       nodeNetworkFSs = networkfss mem_api, nodeSettings = settings mem_api\<rparr>,
     d_os = sys_os, d_platform = sys_platform, d_manager = demo_manager\<rparr>"

definition demo_serving :: "mem process" where
  "demo_serving = (serve_step sys_os sys_platform 0 ^^ 6) (launch demo_driver booted)"

lemma demo_boots:
  "main (d_api demo_driver) (d_os demo_driver) (d_platform demo_driver) (\<lambda>_. 0) Map.empty
     (arguments_of demo_config) (in_mem served_mem) = (Runs InfoLevel (d_manager demo_driver), booted)"
proof -
  have old: "\<not> IsVersionAtLeast ''v1.7.2'' 1 8" by code_simp
  have names: "sysClassNet = ''/sys/class/net''" "Join ''/sys/class/net'' ''eth0'' = ''/sys/class/net/eth0''"
    "Join ''/sys/class/net/eth0'' ''address'' = ''/sys/class/net/eth0/address''"
    "notFound ''worker-1.example.org'' = APIStatus ''NotFound'' 404 ''worker-1.example.org not found''"
    by code_simp+
  have "Run (d_api demo_driver) (d_os demo_driver) (d_platform demo_driver) demo_config
      (in_mem served_mem) = (Ok (Some (d_manager demo_driver)), booted)"
    by (simp add: Run_def Let_def io_run ask_def kubeConfigPath_def IsDir_def kcall_defs mem_api_def
      mem_client_def served_mem_def plug_mem_def empty_mem_def demo_vmi_def serverVersionSettingName_def
      old names boot_facts(2) [simplified] Interfaces_def ReadDir_def readMACFromFile_def
      sys_os_def sys_platform_def discoverVMIName_def runsNodeController_def
      NewControllerServer_def demo_config_def has_key_def demo_driver_def validated_def
      booted_def demo_manager_def in_mem_def del: node_macs.simps)
  moreover have "app_Run Map.empty (arguments_of demo_config) = Action demo_config" by code_simp
  moreover have "adjustLogs demo_config = InfoLevel" by code_simp
  ultimately show ?thesis by (simp add: main_def runCSI_def)
qed

definition listening :: "mem st" where
  "listening = \<lparr>world = served_mem, calls = calls booted @ [Call VDelete NodeFS '''' ''//csi/csi.sock'' None]\<rparr>"

lemma demo_serves: "answers demo_serving 0 ControllerService" "pstate demo_serving = listening"
  "\<forall>k < 6. outcome ((serve_step sys_os sys_platform 0 ^^ k) (launch demo_driver booted)) = Running"
proof -
  have "parseEndpoint ''unix:///csi/csi.sock'' = Inr (''unix'', ''/csi/csi.sock'')" by code_simp
  moreover have "Remove sys_os ''//csi/csi.sock'' booted = (Ok (), listening)"
    by (simp add: Remove_def sys_os_def io_run listening_def booted_def)
  moreover have "ask (netListen sys_platform ''unix'' ''//csi/csi.sock'') listening = (Ok (), listening)"
    by (simp add: ask_def io_run sys_platform_def listening_def)
  ultimately show "answers demo_serving 0 ControllerService" "pstate demo_serving = listening"
    "\<forall>k < 6. outcome ((serve_step sys_os sys_platform 0 ^^ k) (launch demo_driver booted)) = Running"
    by (simp_all add: demo_serving_def demo_driver_def demo_manager_def launch_def Start_def wg_Add_def
        NewNonBlockingGRPCServer_def numeral_eq_Suc less_Suc_eq all_conj_distrib funpow_swap1 serve_step_def set_routine_def
        registered_def answers_def)
qed

lemma demo_handles:
  "case dispatch demo_driver (RPublish demo_publish) listening of
     Some (r, s') \<Rightarrow> is_Ok r \<and> Call VAddVolume VMs ''default'' ''node-1'' None \<in> set (calls s')
   | None \<Rightarrow> False"
  by code_simp

lemma length_routines_step: "length (routines (serve_step os pf i p)) = length (routines p)"
  by (metis arguments_step(1) length_arguments)

lemma run_serves:
  assumes "\<forall>k < n. outcome ((serve_step (d_os d) (d_platform d) 0 ^^ k) p0) = Running"
    and "routines p0 \<noteq> []"
  shows "run d rely p0 (replicate n Served) ((serve_step (d_os d) (d_platform d) 0 ^^ n) p0) \<and>
    routines ((serve_step (d_os d) (d_platform d) 0 ^^ n) p0) \<noteq> []"
  using assms
proof (induction n)
  case 0
  then show ?case by (simp add: run.start)
next
  case (Suc n)
  then have "run d rely p0 (replicate n Served @ [Served]) ((serve_step (d_os d) (d_platform d) 0 ^^ Suc n) p0)"
    by (auto intro: run.serve)
  with Suc show ?case
    using length_routines_step [of "d_os d" "d_platform d" 0 "(serve_step (d_os d) (d_platform d) 0 ^^ n) p0"]
    by (auto simp: replicate_append_same)
qed

lemma demo_run:
  "run demo_driver (\<lambda>_ _. True) (launch demo_driver booted) (replicate 6 Served) demo_serving"
proof -
  have here: "d_os demo_driver = sys_os" "d_platform demo_driver = sys_platform"
    by (simp_all add: demo_driver_def)
  have "routines (launch demo_driver booted) \<noteq> []"
    using length_arguments [of "launch demo_driver booted"] by (auto simp: launch_started)
  from run_serves [of 6 demo_driver "launch demo_driver booted", OF _ this, unfolded here, OF demo_serves(3)] show ?thesis
    by (simp add: demo_serving_def)
qed

abbreviation demo_events :: "event list" where
  "demo_events \<equiv> replicate 6 Served @ [Handled (RPublish demo_publish)]"

lemma demo_published:
  "\<exists>p. run demo_driver (\<lambda>_ _. True) (launch demo_driver booted) demo_events p \<and>
     Call VAddVolume VMs ''default'' ''node-1'' None \<in> set (calls (pstate p)) \<and> outcome p = Running"
proof -
  obtain r s' where "dispatch demo_driver (RPublish demo_publish) (pstate demo_serving) = Some (r, s')" "is_Ok r"
    and add: "Call VAddVolume VMs ''default'' ''node-1'' None \<in> set (calls s')"
    using demo_handles unfolding demo_serves(2) by (auto split: option.splits)
  moreover have "outcome demo_serving = Running" using demo_serves(1) by (simp add: answers_def)
  ultimately show ?thesis
    using run.handled [OF demo_run, where rq = "RPublish demo_publish" and i = 0] demo_serves(1)
    by (cases r) fastforce+
qed

lemma demo_relies: "Handled rq \<in> set demo_events \<Longrightarrow> relies_on (d_api demo_driver) rq"
  by (auto simp: demo_driver_def validated_answers)

lemma demo_keys: "keeps_key (pvcs (d_api demo_driver))" "keeps_key (vms (d_api demo_driver))"
  by (auto simp: keeps_key_def demo_driver_def validated_def checked_def mem_api_def mem_client_def
      dest: look_key split: prod.splits sum.splits if_splits option.splits)

section \<open>Properties\<close>





text \<open>
  C21: On an endpoint of the form \<open>unix://\<close> the goroutine that \<open>Start\<close> makes comes up in six steps, when
  the socket of an earlier process can be removed or does not exist and the listener is granted:
  then all three services answer.
\<close>

theorem endpoint_comes_up:
  assumes "m_endpoint (d_manager d) = ''unix://'' @ addr" and "addr \<noteq> ''''"
    and "Remove (d_os d) (''/'' @ addr) s = (rm, s1)"
    and "rm = Ok () \<or> (\<exists>e. rm = Err e \<and> IsNotExist e)"
    and "netListen (d_platform d) ''unix'' (''/'' @ addr) (world s1) = (Inr (), w)"
  shows "answers ((serve_step (d_os d) (d_platform d) 0 ^^ 6) (launch d s)) 0 svc"
proof -
  let ?step = "serve_step (d_os d) (d_platform d) 0"
  let ?r = "\<lparr>r_endpoint = m_endpoint (d_manager d), r_ids = Some (d_ids d), r_cs = Some (d_cs d),
    r_ns = Some (d_ns d), r_proto = ''unix'', r_addr = ''/'' @ addr, r_server = None, r_at = AtRemove\<rparr>"
  let ?p = "\<lparr>wg = 1, server = None, routines = [?r], pstate = s, outcome = Running\<rparr>"
  have "?step (launch d s) = ?p"
    using assms(1) parseEndpoint_complete [of "''unix''" addr] assms(2)
    by (simp add: launch_def Start_def NewNonBlockingGRPCServer_def wg_Add_def serve_step_def set_routine_def)
  moreover have "?step ?p = ?p\<lparr>routines := [?r\<lparr>r_at := AtListen\<rparr>], pstate := s1\<rparr>"
    using assms(3,4) by (auto simp: serve_step_def set_routine_def)
  moreover have "?step (?p\<lparr>routines := [?r\<lparr>r_at := AtListen\<rparr>], pstate := s1\<rparr>) =
      ?p\<lparr>routines := [?r\<lparr>r_at := AtNewServer\<rparr>], pstate := s1\<lparr>world := w\<rparr>\<rparr>"
  proof -
    have "ask (netListen (d_platform d) ''unix'' (''/'' @ addr)) s1 = (Ok (), s1\<lparr>world := w\<rparr>)"
      using assms(5) by (auto simp: ask_returns)
    then show ?thesis by (simp add: serve_step_def set_routine_def)
  qed
  ultimately show ?thesis
    by (cases svc) (simp_all add: numeral_eq_Suc funpow_swap1 serve_step_def set_routine_def registered_def answers_def)
qed

theorem endpoint_comes_up_witness:
  "\<exists>s1 w. Remove (d_os demo_driver) ''//csi/csi.sock'' booted = (Ok (), s1) \<and>
     netListen (d_platform demo_driver) ''unix'' ''//csi/csi.sock'' (world s1) = (Inr (), w) \<and>
     answers ((serve_step (d_os demo_driver) (d_platform demo_driver) 0 ^^ 6)
       (launch demo_driver booted)) 0 IdentityService"
proof -
  have "m_endpoint (d_manager demo_driver) = ''unix://'' @ ''/csi/csi.sock''"
    by (simp add: demo_driver_def demo_manager_def)
  moreover have "Remove (d_os demo_driver) (''/'' @ ''/csi/csi.sock'') booted = (Ok (), listening)"
    by (simp add: demo_driver_def Remove_def sys_os_def io_run listening_def booted_def)
  moreover have "netListen (d_platform demo_driver) ''unix'' (''/'' @ ''/csi/csi.sock'') (world listening) =
      (Inr (), world listening)"
    by (simp add: demo_driver_def sys_platform_def)
  ultimately show ?thesis using endpoint_comes_up by fastforce
qed





end
