(* ===== verification/Volume_Store.thy ===== *)
theory Volume_Store
  imports Service
begin

text \<open>
  The contract of the driver towards those who keep data in its volumes, as an abstract machine: a
  store of volumes by name, with their sizes, on which a request creates a volume that is missing,
  deletes one, lets one grow, or does nothing. The process of the theory \<open>Service\<close> implements it:
  the store is the claims in the namespace of the configuration, and every run of the process is a
  run of the store.
\<close>

section \<open>The abstract machine\<close>

type_synonym store = "string \<rightharpoonup> int64"

text \<open>The size of the claim of a new volume.\<close>

definition claim_size :: "create_volume_request \<Rightarrow> int64" where
  "claim_size req =
     (if cvContentSource req = None then RoundUpSize (requested_size req) else requested_size req)"

text \<open>What a request may do to the store, by its outcome. A creation that succeeds has stored the
  volume, unless it restores a backup, whose claim the host cluster makes; an expansion that
  succeeds has stored the size. A failure may come after the change.\<close>

fun store_next :: "rpc \<Rightarrow> unit result \<Rightarrow> store \<Rightarrow> store \<Rightarrow> bool" where
  "store_next (RCreateVolume req) r v v' \<longleftrightarrow>
     (v (cvName req) = None \<and> v' = v(cvName req \<mapsto> claim_size req)) \<or>
     (v' = v \<and> (is_Ok r \<longrightarrow> isBackupSnapshotRestore req))"
| "store_next (RDeleteVolume vid) r v v' \<longleftrightarrow> v' = v(vid := None) \<or> v' = v"
| "store_next (RExpand req) r v v' \<longleftrightarrow>
     (\<exists>capRange old. ceCapacityRange req = Some capRange \<and> v (ceVolumeId req) = Some old \<and>
        sint old \<le> sint (RequiredBytes capRange) \<and> v' = v(ceVolumeId req \<mapsto> RequiredBytes capRange)) \<or>
     (v' = v \<and> \<not> is_Ok r)"
| "store_next _ r v v' \<longleftrightarrow> v' = v"

text \<open>The runs of the store, with the changes \<open>env\<close> from outside.\<close>

inductive store_run :: "(store \<Rightarrow> store \<Rightarrow> bool) \<Rightarrow> store \<Rightarrow> event list \<Rightarrow> store \<Rightarrow> bool" for env v0 where
  start: "store_run env v0 [] v0"
| quiet: "store_run env v0 evs v \<Longrightarrow> e = Served \<or> e = Stopped \<Longrightarrow> store_run env v0 (evs @ [e]) v"
| handled: "store_run env v0 evs v \<Longrightarrow> store_next rq r v v' \<Longrightarrow> store_run env v0 (evs @ [Handled rq]) v'"
| outside: "store_run env v0 evs v \<Longrightarrow> env v v' \<Longrightarrow> store_run env v0 (evs @ [Outside]) v'"

text \<open>A volume lasts: if it was there, it still is, and no smaller.\<close>

definition lasting :: "store \<Rightarrow> store \<Rightarrow> string \<Rightarrow> bool" where
  "lasting v v' vid \<longleftrightarrow>
     (\<forall>sz. v vid = Some sz \<longrightarrow> (\<exists>sz'. v' vid = Some sz' \<and> sint sz \<le> sint sz'))"

section \<open>The store in the claims\<close>

definition volumes :: "string \<Rightarrow> (string \<Rightarrow> string \<Rightarrow> pvc option) \<Rightarrow> store" where
  "volumes ns held = (\<lambda>n. map_option (\<lambda>p. Storage (Requests p)) (held ns n))"

abbreviation driver_volumes :: "'w driver \<Rightarrow> ('w \<Rightarrow> string \<Rightarrow> string \<Rightarrow> pvc option) \<Rightarrow> 'w st \<Rightarrow> store" where
  "driver_volumes d claims s \<equiv> volumes (cs_namespace (d_cs d)) (claims (world s))"

definition claim_server :: "'w api \<Rightarrow> ('w \<Rightarrow> string \<Rightarrow> string \<Rightarrow> pvc option) \<Rightarrow> bool" where
  "claim_server api claims \<longleftrightarrow>
     keyed claims \<and> get_law (pvcs api) claims \<and> create_law (pvcs api) claims pvc_admits \<and>
     update_law (pvcs api) claims pvc_admits \<and> delete_law (pvcs api) claims"

text \<open>Which calls leave a part of the world alone, here the claims: all but the writes of claims.\<close>

definition api_leaves :: "('w \<Rightarrow> 'v) \<Rightarrow> 'w api \<Rightarrow> bool" where
  "api_leaves view api \<longleftrightarrow>
     (\<forall>ns n. keeps view (cget (pvcs api) ns n)) \<and> (\<forall>ns lo. keeps view (clist (pvcs api) ns lo)) \<and>
     client_keeps view (storageclasses api) \<and> client_keeps view (snapshots api) \<and>
     client_keeps view (vrbs api) \<and> client_keeps view (vrrs api) \<and> client_keeps view (settings api) \<and>
     client_keeps view (networkfss api) \<and> client_keeps view (lhvolumes api) \<and>
     client_keeps view (vms api) \<and> client_keeps view (vmis api) \<and> client_keeps view (hostVAs api) \<and>
     client_keeps view (hostPods api) \<and> client_keeps view (guestVAs api) \<and>
     client_keeps view (guestPVs api) \<and> client_keeps view (guestNodes api) \<and>
     (\<forall>a b. keeps view (guestPodsByIndex api a b)) \<and> (\<forall>ns n ops. keeps view (vmPatch api ns n ops)) \<and>
     (\<forall>ns n v dk. keeps view (vmAddVolume api ns n v dk)) \<and>
     (\<forall>ns n v. keeps view (vmRemoveVolume api ns n v) \<and> keeps view (vmiRemoveVolume api ns n v)) \<and>
     keeps view (ticks api) \<and> (\<forall>xs. keeps view (mapOrder api xs))"

definition os_leaves :: "('w \<Rightarrow> 'v) \<Rightarrow> 'w os \<Rightarrow> bool" where
  "os_leaves view os \<longleftrightarrow>
     (\<forall>p. keeps view (isMountPoint os p) \<and> keeps view (isLikelyNotMountPoint os p) \<and>
        keeps view (unmountFS os p) \<and> keeps view (cleanupMountPoint os p) \<and> keeps view (pathExists os p) \<and>
        keeps view (removeFile os p) \<and> keeps view (readDir os p) \<and> keeps view (evalSymlinks os p) \<and>
        keeps view (osIsDir os p) \<and> keeps view (unixStatMode os p) \<and> keeps view (unixStatfs os p)) \<and>
     (\<forall>src p fs opts. keeps view (mountFS os src p fs opts) \<and> keeps view (formatAndMount os src p fs opts)) \<and>
     (\<forall>p perm. keeps view (mkdirAll os p perm) \<and> keeps view (openCreate os p perm)) \<and>
     keeps view (newExecutor os) \<and>
     (\<forall>cmd args. keeps view (execute os cmd args) \<and> keeps view (combinedOutput os cmd args))"

definition clients_leave :: "('w \<Rightarrow> 'v) \<Rightarrow> 'w node_clients \<Rightarrow> bool" where
  "clients_leave view cl \<longleftrightarrow>
     (\<forall>ns n. keeps view (cget (nodePVCs cl) ns n) \<and> keeps view (cget (nodeVMIs cl) ns n) \<and>
        keeps view (cget (nodeNetworkFSs cl) ns n) \<and> keeps view (cget (nodeSettings cl) ns n))"

definition platform_leaves :: "('w \<Rightarrow> 'v) \<Rightarrow> 'w platform \<Rightarrow> bool" where
  "platform_leaves view pf \<longleftrightarrow> (\<forall>proto addr. keeps view (netListen pf proto addr)) \<and> keeps view (netAccept pf)"

text \<open>The world in which the process works: the server of claims, and that nothing else the process
  calls touches the claims.\<close>

definition store_world :: "'w driver \<Rightarrow> ('w \<Rightarrow> string \<Rightarrow> string \<Rightarrow> pvc option) \<Rightarrow> bool" where
  "store_world d claims \<longleftrightarrow>
     claim_server (d_api d) claims \<and> api_leaves claims (d_api d) \<and> os_leaves claims (d_os d) \<and>
     clients_leave claims (d_clients d) \<and> platform_leaves claims (d_platform d)"

definition grown ::
  "string \<Rightarrow> ctrl_expand_request \<Rightarrow> (string \<Rightarrow> string \<Rightarrow> pvc option) \<Rightarrow>
   (string \<Rightarrow> string \<Rightarrow> pvc option) \<Rightarrow> bool" where
  "grown ns req v v' \<longleftrightarrow>
     (\<exists>capRange p x. ceCapacityRange req = Some capRange \<and> v ns (ceVolumeId req) = Some p \<and>
        sint (Storage (Requests p)) \<le> sint (RequiredBytes capRange) \<and>
        v' = stored v ns (ceVolumeId req) x \<and> Storage (Requests x) = RequiredBytes capRange)"

text \<open>How a handler may change a part of the world.\<close>

definition moves :: "('w \<Rightarrow> 'v) \<Rightarrow> ('v \<Rightarrow> 'v \<Rightarrow> bool) \<Rightarrow> ('w, 'a) io \<Rightarrow> bool" where
  "moves view R m \<longleftrightarrow> (\<forall>s r s'. m s = (r, s') \<longrightarrow> R (view (world s)) (view (world s')))"

section \<open>Handlers that leave the claims alone\<close>

lemma api_leavesD:
  assumes "api_leaves view api"
  shows "keeps view (cget (pvcs api) ns n)" "keeps view (clist (pvcs api) ns lo)"
    "client_keeps view (storageclasses api)" "client_keeps view (snapshots api)"
    "client_keeps view (vrbs api)" "client_keeps view (vrrs api)" "client_keeps view (settings api)"
    "client_keeps view (networkfss api)" "client_keeps view (lhvolumes api)" "client_keeps view (vms api)"
    "client_keeps view (vmis api)" "client_keeps view (hostVAs api)" "client_keeps view (hostPods api)"
    "client_keeps view (guestVAs api)" "client_keeps view (guestPVs api)" "client_keeps view (guestNodes api)"
    "keeps view (guestPodsByIndex api a b)" "keeps view (vmPatch api ns n ops)"
    "keeps view (vmAddVolume api ns n v dk)" "keeps view (vmRemoveVolume api ns n u)"
    "keeps view (vmiRemoveVolume api ns n u)" "keeps view (ticks api)" "keeps view (mapOrder api xs)"
  using assms by (simp_all add: api_leaves_def)

lemma leaves_case_sum [leaves_intros]:
  "(\<And>e. leaves view (h e)) \<Longrightarrow> (\<And>y. leaves view (k y)) \<Longrightarrow>
     leaves view (case x of Inl e \<Rightarrow> h e | Inr y \<Rightarrow> k y)"
  by (cases x) simp_all

lemma leaves_restore:
  assumes "api_leaves view api"
  shows "leaves view (buildHostVolumeRemoteRestore api cs req vp)"
  unfolding buildHostVolumeRemoteRestore_def buildHostVolumeRemoteRestoreFromBackup_def
    getOrCreateVolumeRemoteRestore_def generateHostVolumeRemoteRestore_def
    checkVolumeRemoteRestoreReadiness_def getHostVolumeRemoteRestore_def
    createHostVolumeRemoteRestore_def getHostVolumeRemoteBackup_def Let_def
  by (intro leaves_intros client_keepsD api_leavesD [OF assms])

lemma leaves_vm:
  assumes "api_leaves view api"
  shows "leaves view (isVolAttached api cs n v)" "leaves view (hotplugVolumeToVM api cs n v)"
    "leaves view (removeVolumeFromHostVM api cs n v)"
  unfolding isVolAttached_def checkVolumeExistsInVM_def checkVolumeExistsInVMI_def
    hotplugVolumeToVM_def addVolumeToVM_def addVolumeToVMLegacy_def kAddVolume_def
    removeVolumeFromHostVM_def unplugVolumeFromVM_def unplugVolumeFromVMLegacy_def removeVolumeFromVM_def
    kRemoveVolume_def kRemoveVolumeVMI_def vm_template_def kPatchVM_def
  by (intro leaves_intros client_keepsD api_leavesD [OF assms])+

lemma leaves_publish:
  assumes "api_leaves view api"
  shows "leaves view (ControllerPublishVolume api cs req)" "leaves view (ControllerUnpublishVolume api cs ureq)"
  unfolding ControllerPublishVolume_def attachVolume_def waitForVolumeAttached_def volumeAttachedCheck_def
    publishRWXVolume_def enableNetworkFS_def updateNetworkFS_def createNetworkFilesystem_def
    waitForVASettled_def checkHostVA_def checkGuestVA_def
    ControllerUnpublishVolume_def unpublishRWXVolume_def disableNetworkFS_def podsByIndex_def
  by (intro leaves_intros leaves_vm client_keepsD api_leavesD [OF assms] assms)+

lemma leaves_snapshots:
  assumes "api_leaves view api"
  shows "leaves view (CreateSnapshot api cs req)" "leaves view (DeleteSnapshot api cs i)"
    "leaves view (ListSnapshots api cs lreq)" "leaves view (ValidateVolumeCapabilities api cs vreq)"
  unfolding CreateSnapshot_def handleBackupSnap_def handleExistingBackupSnap_def
    createHostVolumeRemoteBackupFromReq_def generateHostVolumeRemoteBackup_def createHostVolumeRemoteBackup_def
    getHostVolumeRemoteBackup_def handleLocalSnap_def handleExistingLocalSnap_def createSnapFromVolume_def
    generateHostSnap_def createHostSnap_def getHostSnap_def getHostPVC_def getHostSnapClass_def
    getHarvCSIConfig_def prepareBackupSnapResponse_def checkVolumeRemoteBackupReadiness_def
    prepareSnapshotResponse_def checkSnapsReadiness_def
    DeleteSnapshot_def handleBackupSnapDeletion_def handleLocalSnapDeletion_def
    deleteHostVolumeRemoteBackup_def deleteHostSnap_def
    ListSnapshots_def listLocalSnaps_def listHostSnaps_def listBackupSnaps_def
    processHostVolumeRemoteBackups_def listHostVolumeRemoteBackups_def ValidateVolumeCapabilities_def
  by (intro leaves_intros client_keepsD api_leavesD [OF assms])+

lemma leaves_OnNodesChange:
  assumes "api_leaves view api"
  shows "leaves view (OnNodesChange api c n)"
proof -
  have "leaves view (removeBySubresource_loop api c v names)" for v names
    by (induction names) (auto simp: kRemoveVolume_def intro!: leaves_intros api_leavesD [OF assms])
  then show ?thesis
    unfolding OnNodesChange_def getNodeAndVMHealth_def handleNodeAndVMHealth_def removeTaint_def
      addTaint_def removeAllHotplugVolumes_def removeAllHotplugVolumesByPatch_def
      removeAllHotplugVolumesBySubresource_def kPatchVM_def vm_template_def Let_def
    by (intro leaves_intros client_keepsD api_leavesD [OF assms])
qed

lemma leaves_os:
  assumes "os_leaves view os"
  shows "leaves view (IsMountPoint os p)" "leaves view (IsLikelyNotMountPoint os p)"
    "leaves view (MountFS os a p f ol)" "leaves view (FormatAndMount os a p f ol)"
    "leaves view (Unmount os p)" "leaves view (CleanupMountPoint os p)" "leaves view (PathExists os p)"
    "leaves view (MkdirAll os p m)" "leaves view (Remove os p)" "leaves view (ReadDir os p)"
    "leaves view (EvalSymlinks os p)" "leaves view (IsDir os p)" "leaves view (NewExecutor os)"
    "leaves view (Execute os cmd args)" 
  using assms by (simp_all add: os_call_defs leaves_perform os_leaves_def)

lemma leaves_node_calls:
  assumes "os_leaves view os"
  shows "leaves view (CombinedOutput os cmd args)" "leaves view (makeDir os p)" "leaves view (makeFile os p)"
    "leaves view (getDevicePathByVolumeID os v)" "leaves view (resizeFilesystem os p f)"
    "leaves view (isLikelyNotMountPointAttach os p)"
proof -
  have "leaves view (resolveByID os v files)" for files
    by (induction files) (auto intro!: leaves_intros leaves_os [OF assms])
  then show "leaves view (getDevicePathByVolumeID os v)"
    by (auto simp: getDevicePathByVolumeID_def intro!: leaves_intros leaves_os [OF assms])
  show out: "leaves view (CombinedOutput os cmd args)" for cmd args
    using assms by (auto simp: CombinedOutput_def leaves_def keeps_def os_leaves_def split: prod.splits) (metis snd_conv)
  show "leaves view (resizeFilesystem os p f)"
    by (auto simp: resizeFilesystem_def intro!: leaves_intros out)
  show "leaves view (makeDir os p)" "leaves view (makeFile os p)" "leaves view (isLikelyNotMountPointAttach os p)"
    using assms
    by (auto simp: makeDir_def makeFile_def isLikelyNotMountPointAttach_def os_leaves_def 
      intro!: leaves_intros leaves_os [OF assms])
qed

lemma leaves_node:
  assumes "os_leaves view os" and "clients_leave view cl"
  shows "leaves view (NodeStageVolume cl os ns sreq)" "leaves view (NodeUnstageVolume os ureq)"
    "leaves view (NodePublishVolume cl os ns preq)" "leaves view (NodeGetVolumeStats cl os ns greq)"
    "leaves view (NodeExpandVolume cl os ereq)"
  using assms
  unfolding NodeStageVolume_def nodeStageRWXVolume_def NodeUnstageVolume_def NodePublishVolume_def
    nodePublishRWXVolume_def nodePublishRWOVolume_def nodePublishBlockVolume_def nodePublishMountVolume_def
    NodeGetVolumeStats_def NodeExpandVolume_def isBlockDevice_def getFilesystemStatistics_def Let_def
    clients_leave_def
  by (auto simp: os_leaves_def intro!: leaves_intros leaves_os [OF assms(1)] leaves_node_calls [OF assms(1)])

section \<open>Handlers that change them\<close>

lemma volumes_stored: "volumes ns (stored held ns n x) = (volumes ns held)(n \<mapsto> Storage (Requests x))"
  by (auto simp: volumes_def)

lemma volumes_removed: "volumes ns (removed held ns n) = (volumes ns held)(n := None)"
  by (auto simp: volumes_def)

lemma claim_serverD:
  assumes "claim_server api claims"
  shows "keyed claims" "get_law (pvcs api) claims" "create_law (pvcs api) claims pvc_admits"
    "update_law (pvcs api) claims pvc_admits" "delete_law (pvcs api) claims"
  using assms by (simp_all add: claim_server_def)

lemma servers:
  assumes "claim_server api claims" and "api_leaves claims api"
  shows "pvc_server api claims" "expand_server api claims"
  using claim_serverD [OF assms(1)] api_leavesD [OF assms(2)]
  by (simp_all add: pvc_server_def expand_server_def)

lemma buildHostPVC_size:
  "buildHostPVC api cs req vp (requested_size req) s = (Ok p, s') \<Longrightarrow> Storage (Requests p) = claim_size req"
  by (auto simp: buildHostPVC_def buildHostPVCFromScratch_def buildHostPVCFromSnap_def new_pvc_def claim_size_def
      Storage_def andThen_returns ret_def fail_def Let_def split: if_splits option.splits prod.splits)

lemma validateCreateVolReq_size:
  "validateCreateVolReq cs req = Ok (vp, sz) \<Longrightarrow> sz = requested_size req"
  by (auto simp: validateCreateVolReq_def Let_def split: sum.splits if_splits result.splits)

lemma CreateVolume_store:
  assumes "CreateVolume api cs req s = (r, s')" and "claim_server api claims" and "api_leaves claims api"
  shows "claims (world s) (cs_namespace cs) (cvName req) = None \<and>
      (\<exists>x. claims (world s') = stored (claims (world s)) (cs_namespace cs) (cvName req) x \<and>
         Storage (Requests x) = claim_size req) \<or>
    claims (world s') = claims (world s) \<and> (is_Ok r \<longrightarrow> isBackupSnapshotRestore req)"
proof (cases "validateCreateVolReq cs req")
  case (Ok v)
  obtain vp sz where v: "v = (vp, sz)" by (cases v)
  note sz = validateCreateVolReq_size [OF Ok [unfolded v]]
  note build = leavesD [OF leaves_buildHostPVC [OF servers(1) [OF assms(2,3)]]]
  show ?thesis
  proof (cases "isBackupSnapshotRestore req")
    case True
    with assms(1) Ok v leavesD [OF leaves_restore [OF assms(3)]] show ?thesis
      by (auto simp: CreateVolume_def lift_def andThen_returns)
  next
    case False
    with assms(1) Ok v consider e s1 where "buildHostPVC api cs req vp sz s = (Err e, s1)" "s' = s1" "r = Err e"
      | s1 where "buildHostPVC api cs req vp sz s = (Panic, s1)" "s' = s1" "r = Panic"
      | p s1 q s2 where "buildHostPVC api cs req vp sz s = (Ok p, s1)" "createHostPVC api p s1 = (q, s2)"
        "\<And>x. q \<noteq> Ok x" "s' = s2" "\<not> is_Ok r"
      | p s1 x s2 t where "buildHostPVC api cs req vp sz s = (Ok p, s1)" "createHostPVC api p s1 = (Ok x, s2)"
         "ensureNetworkFilesystem api cs x s2 = (t, s')"
      by (fastforce simp: CreateVolume_def lift_def andThen_returns handle_returns fail_def ret_def)
    then show ?thesis
    proof cases
      case (3 p s1 q s2)
      with build create_law_Err [OF claim_serverD(3) [OF assms(2)]] show ?thesis
        by (fastforce simp: createHostPVC_def kCreate_returns)
    next
      case (4 p s1 x s2 t)
      from 4(2) have c: "ccreate (pvcs api) p (world s1) = (Inr x, world s2)"
        by (simp add: createHostPVC_def kCreate_returns)
      have "claims (world s') = claims (world s2)"
        using leavesD [OF leaves_ensureNetworkFilesystem [OF servers(1) [OF assms(2,3)]] 4(3)] .
      with build [OF 4(1)] create_law_Ok [OF claim_serverD(3) [OF assms(2)] c]
        buildHostPVC_key [OF 4(1)] buildHostPVC_size [OF 4(1) [unfolded sz]]
      show ?thesis by (auto simp: pvc_admits_def)
    qed (use build in auto)
  qed
qed (use assms(1) in \<open>auto simp: CreateVolume_def lift_def andThen_returns\<close>)

lemma moves_leaves: "leaves view m \<Longrightarrow> (\<And>v. R v v) \<Longrightarrow> moves view R m"
  unfolding moves_def by (metis leavesD)

lemma movesD: "moves view R m \<Longrightarrow> m s = (r, s') \<Longrightarrow> R (view (world s)) (view (world s'))"
  by (simp add: moves_def)

lemma moves_before:
  assumes "leaves view m" and "\<And>e. moves view R (h e)" and "\<And>x. moves view R (k x)" and "\<And>v. R v v"
  shows "moves view R (handle m h k)"
  unfolding moves_def
proof (intro allI impI)
  fix s r s'
  assume run: "handle m h k s = (r, s')"
  obtain q s1 where q: "m s = (q, s1)" by (cases "m s")
  note same = leavesD [OF assms(1) q]
  show "R (view (world s)) (view (world s'))"
  proof (cases q)
    case (Ok x)
    with q run same assms(3) [of x] show ?thesis by (auto simp: handle_run moves_def) metis
  next
    case (Err e)
    with q run same assms(2) [of e] show ?thesis by (auto simp: handle_run moves_def) metis
  qed (use q run same assms(4) in \<open>simp add: handle_run\<close>)
qed

lemma moves_after:
  assumes "moves view R m" and "\<And>e. leaves view (h e)" and "\<And>x. leaves view (k x)"
  shows "moves view R (handle m h k)"
  unfolding moves_def
proof (intro allI impI)
  fix s r s'
  assume run: "handle m h k s = (r, s')"
  obtain q s1 where q: "m s = (q, s1)" by (cases "m s")
  with assms(1) have "R (view (world s)) (view (world s1))" by (auto simp: moves_def)
  with q run leavesD [OF assms(2)] leavesD [OF assms(3)] show "R (view (world s)) (view (world s'))"
    by (cases q) (auto simp: handle_run)
qed

lemma moves_if: "(b \<Longrightarrow> moves view R m) \<Longrightarrow> (\<not> b \<Longrightarrow> moves view R m') \<Longrightarrow> moves view R (if b then m else m')"
  by simp

lemma DeleteVolume_store:
  assumes "claim_server api claims" and "api_leaves claims api"
  shows "moves claims (\<lambda>v v'. v' = removed v (cs_namespace cs) vid \<or> v' = v) (DeleteVolume api cs vid)"
    (is "moves claims ?R _")
proof -
  have refl: "?R v v" for v by simp
  have restore: "leaves claims (deleteVolumeRemoteRestoreIfExists api cs vid)"
    unfolding deleteVolumeRemoteRestoreIfExists_def getHostVolumeRemoteRestore_def deleteHostVolumeRemoteRestore_def
    by (intro leaves_intros client_keepsD api_leavesD [OF assms(2)])
  have "moves claims ?R (kDelete PVCs (pvcs api) (cs_namespace cs) vid)"
    using delete_law_Ok [OF claim_serverD(5) [OF assms(1)]] delete_law_Err [OF claim_serverD(5) [OF assms(1)]]
    by (fastforce simp: moves_def kDelete_returns)
  then have "moves claims ?R (deletePVC api cs vid p)" for p
    unfolding deletePVC_def andThen_def
    by (intro moves_before [OF _ _ _ refl] moves_after moves_leaves [OF leaves_fail refl]
        leaves_intros client_keepsD api_leavesD [OF assms(2)])
  note claim = this
  show ?thesis
  proof (cases "vid = '''' \<or> (\<exists>e. validateControllerServiceRequest cs CREATE_DELETE_VOLUME = Inl e)")
    case True
    then show ?thesis by (auto simp: DeleteVolume_def intro!: moves_leaves [OF leaves_fail])
  next
    case False
    then obtain u where "vid \<noteq> ''''" "validateControllerServiceRequest cs CREATE_DELETE_VOLUME = Inr u"
      by (cases "validateControllerServiceRequest cs CREATE_DELETE_VOLUME") auto
    then show ?thesis
      unfolding DeleteVolume_def andThen_def
      by simp (intro moves_before [OF _ _ _ refl] moves_if claim restore moves_leaves [OF leaves_ret refl]
          moves_leaves [OF leaves_fail refl] leaves_kGet api_leavesD [OF assms(2)])
  qed
qed

lemma expandPVC_store:
  assumes srv: "claim_server api claims" and keep: "api_leaves claims api"
    and key: "Namespace p = cs_namespace cs" "Name p = ceVolumeId req"
    and range: "ceCapacityRange req = Some capRange" "\<not> int64_less (RequiredBytes capRange) (Storage (Requests p))"
  shows "moves claims (\<lambda>v v'. v (cs_namespace cs) (ceVolumeId req) = Some p \<longrightarrow> grown (cs_namespace cs) req v v' \<or> v' = v)
    (expandPVC api cs req p (RequiredBytes capRange))" (is "moves claims ?R _")
proof (cases "Requests p")
  case None
  then show ?thesis by (auto simp: expandPVC_def intro!: moves_leaves [OF leaves_panic])
next
  case (Some rs)
  have "moves claims ?R (kUpdate PVCs (pvcs api) (p\<lparr>Requests := Some (rs(''storage'' \<mapsto> RequiredBytes capRange))\<rparr>))"
    using key range update_law_Ok [OF claim_serverD(4) [OF srv]] update_law_Err [OF claim_serverD(4) [OF srv]]
    by (fastforce simp: moves_def kUpdate_returns grown_def pvc_admits_def Storage_def int64_less_def)
  with Some show ?thesis
    unfolding expandPVC_def
    by simp (rule moves_after, assumption, (intro leaves_intros client_keepsD api_leavesD [OF keep])+)
qed

lemma ControllerExpandVolume_store:
  assumes run: "ControllerExpandVolume api cs req s = (r, s')"
    and srv: "claim_server api claims" and keep: "api_leaves claims api"
  shows "grown (cs_namespace cs) req (claims (world s)) (claims (world s')) \<or> claims (world s') = claims (world s)"
proof -
  let ?get = "kGet PVCs (pvcs api) (cs_namespace cs) (ceVolumeId req)"
  obtain q s1 where g: "?get s = (q, s1)" by fastforce
  have same: "claims (world s1) = claims (world s)"
    by (rule leavesD [OF leaves_kGet [OF api_leavesD(1) [OF keep]] g])
  show ?thesis
  proof (cases "\<exists>p. q = Ok p \<and> validateCtrlExpandReq req = Inr () \<and> \<not> ctrlExpandRWX req")
    case False
    with run g same show ?thesis
      by (cases q; cases "validateCtrlExpandReq req")
        (auto simp: ControllerExpandVolume_def andThen_run handle_run fail_run ret_run split: if_splits)
  next
    case True
    then obtain p where p: "q = Ok p" "validateCtrlExpandReq req = Inr ()" "\<not> ctrlExpandRWX req" by blast
    let ?R = "\<lambda>v v'. v (cs_namespace cs) (ceVolumeId req) = Some p \<longrightarrow> grown (cs_namespace cs) req v v' \<or> v' = v"
    from p g get_law_Ok [OF claim_serverD(2) [OF srv]]
    have held: "claims (world s) (cs_namespace cs) (ceVolumeId req) = Some p" by (auto simp: kGet_returns)
    note key = keyedD [OF claim_serverD(1) [OF srv] held]
    have "moves claims ?R (andThen (validateOnlineExpansion api cs p) (\<lambda>_.
       case ceCapacityRange req of
         None \<Rightarrow> fail (status_Error InvalidArgument ''Capacity range is missing in the request'')
       | Some capRange \<Rightarrow>
           (let reqSize = RequiredBytes capRange in
            if int64_less reqSize (Storage (Requests p)) then
              fail (status_Errorf FailedPrecondition ''Volume shrink is not supported'' [])
            else expandPVC api cs req p reqSize)))"
      using key expandPVC_store [OF srv keep] unfolding andThen_def
      by (intro moves_before) (auto simp: Let_def intro!: moves_leaves [OF leaves_fail] moves_if
          leaves_intros client_keepsD api_leavesD [OF keep] split: option.split)
    note body = movesD [OF this, of s1 r s']
    show ?thesis
    proof (cases "VolumeName p = ''''")
      case True
      with run g p same show ?thesis
        by (auto simp: ControllerExpandVolume_def andThen_run handle_run ret_run fail_run)
    next
      case False
      with run g p body same held show ?thesis
        by (auto simp: ControllerExpandVolume_def andThen_run [of _ _ s] handle_run ret_run)
    qed
  qed
qed

lemma ControllerExpandVolume_grows:
  assumes run: "ControllerExpandVolume api cs req s = (Ok resp, s')"
    and srv: "claim_server api claims" and keep: "api_leaves claims api"
  shows "grown (cs_namespace cs) req (claims (world s)) (claims (world s'))"
  using run
proof (cases rule: ControllerExpandVolume_cases)
  case (expand p capRange s1 s2 tr)
  note exp = servers(2) [OF srv keep]
  from expand(1) get_law_Ok [OF claim_serverD(2) [OF srv]]
  have l: "claims (world s) (cs_namespace cs) (ceVolumeId req) = Some p" "claims (world s1) = claims (world s)"
    by (auto simp: kGet_returns)
  have "claims (world s2) = claims (world s1)"
    by (rule leavesD [OF leaves_validateOnlineExpansion [OF expand_serverD(4,5) [OF exp]] expand(2)])
  with l expand expandPVC_Ok [OF exp expand(7)] keyedD [OF claim_serverD(1) [OF srv] l(1)] show ?thesis
    unfolding grown_def by (metis (no_types, lifting))
qed simp

lemma done_withE:
  assumes "done_with m s = Some (r, s')"
  obtains q where "m s = (q, s')" "is_Ok r \<longleftrightarrow> is_Ok q"
  using assms by (cases "m s"; cases "fst (m s)") (auto simp: done_with_def andThen_run ret_run)

lemma done_with_leaves: "leaves claims m \<Longrightarrow> done_with m s = Some (r, s') \<Longrightarrow> claims (world s') = claims (world s)"
  by (metis done_withE leavesD)

lemma leaves_handler:
  assumes "wired d" and "api_leaves claims (d_api d)"
  shows "leaves claims (case m_handler (d_manager d) of None \<Rightarrow> ret None | Some (_, handler) \<Rightarrow> handler n)"
  by (rule handler_cases [OF assms(1)]) (simp_all add: leaves_ret leaves_OnNodesChange [OF assms(2)])

lemma dispatch_leaves:
  assumes "dispatch d rq s = Some (r, s')" and "store_world d claims" and "wired d"
    and "\<And>req. rq \<noteq> RCreateVolume req" "\<And>vid. rq \<noteq> RDeleteVolume vid" "\<And>req. rq \<noteq> RExpand req"
  shows "claims (world s') = claims (world s)"
proof -
  from assms(2) have srv: "api_leaves claims (d_api d)" "os_leaves claims (d_os d)"
    "clients_leave claims (d_clients d)"
    by (simp_all add: store_world_def)
  note leave = leaves_publish [OF srv(1), THEN done_with_leaves] leaves_snapshots [OF srv(1), THEN done_with_leaves]
    leaves_node [OF srv(2,3), THEN done_with_leaves] leaves_handler [OF assms(3) srv(1), THEN done_with_leaves]
  show ?thesis
  proof (cases rq)
    case (RNodeUnpublish req)
    with assms(1) have unp: "NodeUnpublishVolume (d_os d) req s = Some (r, s')" by simp
    note l = leavesD [OF leaves_os(2) [OF srv(2)]] leavesD [OF leaves_os(5) [OF srv(2)]]
      leavesD [OF leaves_os(6) [OF srv(2)]]
    have "r \<noteq> Panic \<and> claims (world s') = claims (world s)"
      by (rule NodeUnpublishVolume_invariant [OF unp, where Q = "\<lambda>s'. claims (world s') = claims (world s)"])
        (auto dest: l)
    then show ?thesis ..
  qed (use assms(1,4-) in \<open>auto simp: ControllerGetVolume_def ListVolumes_def GetCapacity_def
      ControllerModifyVolume_def dest: leave\<close>)
qed

lemma store_create:
  assumes "dispatch d (RCreateVolume req) s = Some (r, s')"
    and srv: "claim_server (d_api d) claims" "api_leaves claims (d_api d)"
  shows "store_next (RCreateVolume req) r (driver_volumes d claims s) (driver_volumes d claims s')"
proof -
  from assms(1) obtain q where "CreateVolume (d_api d) (d_cs d) req s = (q, s')" "is_Ok r \<longleftrightarrow> is_Ok q"
    by (auto elim: done_withE)
  with CreateVolume_store [OF _ srv] consider
    (new) x where "claims (world s) (cs_namespace (d_cs d)) (cvName req) = None"
      "claims (world s') = stored (claims (world s)) (cs_namespace (d_cs d)) (cvName req) x"
      "Storage (Requests x) = claim_size req"
    | (same) "claims (world s') = claims (world s)" "is_Ok r \<longrightarrow> isBackupSnapshotRestore req"
    by metis
  then show ?thesis
  proof cases
    case new
    have "driver_volumes d claims s (cvName req) = None" using new(1) by (simp add: volumes_def)
    with new(2,3) show ?thesis by (simp add: volumes_stored)
  next
    case same
    then show ?thesis by simp
  qed
qed

lemma store_expand:
  assumes "dispatch d (RExpand req) s = Some (r, s')"
    and srv: "claim_server (d_api d) claims" "api_leaves claims (d_api d)"
  shows "store_next (RExpand req) r (driver_volumes d claims s) (driver_volumes d claims s')"
proof -
  from assms(1) obtain q where q: "ControllerExpandVolume (d_api d) (d_cs d) req s = (q, s')" "is_Ok r \<longleftrightarrow> is_Ok q"
    by (auto elim: done_withE)
  then consider (grown) "grown (cs_namespace (d_cs d)) req (claims (world s)) (claims (world s'))"
    | (same) "claims (world s') = claims (world s)" "\<not> is_Ok r"
    using ControllerExpandVolume_store [OF q(1) srv] ControllerExpandVolume_grows [OF _ srv, of "d_cs d" req s _ s']
    by (cases q) auto
  then show ?thesis
  proof cases
    case grown
    then obtain capRange p x where c: "ceCapacityRange req = Some capRange"
      "claims (world s) (cs_namespace (d_cs d)) (ceVolumeId req) = Some p"
      "sint (Storage (Requests p)) \<le> sint (RequiredBytes capRange)"
      "claims (world s') = stored (claims (world s)) (cs_namespace (d_cs d)) (ceVolumeId req) x"
      "Storage (Requests x) = RequiredBytes capRange"
      unfolding grown_def by blast
    have "driver_volumes d claims s (ceVolumeId req) = Some (Storage (Requests p))"
      using c(2) by (simp add: volumes_def)
    with c show ?thesis by (simp add: volumes_stored)
  next
    case same
    then show ?thesis by simp
  qed
qed

lemma dispatch_store:
  assumes "dispatch d rq s = Some (r, s')" and "store_world d claims" and "wired d"
  shows "store_next rq r (driver_volumes d claims s) (driver_volumes d claims s')"
proof -
  from assms(2) have srv: "claim_server (d_api d) claims" "api_leaves claims (d_api d)"
    by (simp_all add: store_world_def)
  show ?thesis
  proof (cases rq)
    case (RCreateVolume req)
    with assms(1) store_create [OF _ srv] show ?thesis by simp
  next
    case (RDeleteVolume vid)
    with assms(1) obtain q where "DeleteVolume (d_api d) (d_cs d) vid s = (q, s')" by (auto elim: done_withE)
    from movesD [OF DeleteVolume_store [OF srv] this] RDeleteVolume show ?thesis
      by (elim disjE) (simp_all add: volumes_removed)
  next
    case (RExpand req)
    with assms(1) store_expand [OF _ srv] show ?thesis by simp
  qed (use dispatch_leaves [OF assms] in simp_all)
qed

section \<open>Runs\<close>

lemma lasting_refl [simp]: "lasting v v vid"
  by (simp add: lasting_def)

lemma lasting_trans: "lasting v v' vid \<Longrightarrow> lasting v' v'' vid \<Longrightarrow> lasting v v'' vid"
  unfolding lasting_def by (meson order_trans)

lemma store_next_lasting:
  "store_next rq r v v' \<Longrightarrow> rq \<noteq> RDeleteVolume vid \<Longrightarrow> lasting v v' vid"
  by (cases rq) (auto simp: lasting_def split: if_splits)

lemma serve_step_leaves:
  assumes "os_leaves claims os" and "platform_leaves claims pf"
  shows "claims (world (pstate (serve_step os pf i p))) = claims (world (pstate p))"
proof -
  let ?r = "routines p ! i"
  have rm: "leaves claims (Remove os (r_addr ?r))" by (rule leaves_os [OF assms(1)])
  have net: "leaves claims (ask (netListen pf (r_proto ?r) (r_addr ?r)))" "leaves claims (ask (netAccept pf))"
    using assms(2) by (auto simp: ask_def platform_leaves_def intro!: leaves_intros)
  show ?thesis
    by (cases "r_at ?r") (auto simp: serve_step_def set_routine_def Let_def
        dest: leavesD [OF rm] leavesD [OF net(1)] leavesD [OF net(2)]
        split: option.split sum.split prod.split result.split)
qed

lemma volumes_step:
  assumes "store_world d claims"
  shows "driver_volumes d claims (pstate (serve_step (d_os d) (d_platform d) i p)) = driver_volumes d claims (pstate p)"
    "pstate (Stop p) = pstate p" "pstate (ForceStop p) = pstate p"
  using assms serve_step_leaves [of claims "d_os d" "d_platform d" i p]
  by (simp_all add: store_world_def Stop_def ForceStop_def stop_server_def split: option.splits)

section \<open>A process that expands a volume\<close>

definition store_driver :: "mem driver" where
  "store_driver = demo_driver\<lparr>d_api := mem_api\<rparr>"

definition store_process :: "mem process" where
  "store_process = demo_serving\<lparr>pstate := in_mem expand_mem\<rparr>"

lemma store_driver_world: "store_world store_driver (\<lambda>w. look (mPVCs w))" "wired store_driver"
proof -
  have reads: "snd (cget (mem_client sel upd) ns n w) = w" "snd (clist (mem_client sel upd) ns lo w) = w"
    for sel :: "mem \<Rightarrow> pvc list" and upd ns n lo w
    by (simp_all add: mem_client_def split: option.splits)
  have machines: "mPVCs (snd (mem_patch ns n ops w)) = mPVCs w"
    "mPVCs (snd (mem_add_volume ns n v dk w)) = mPVCs w"
    "mPVCs (snd (mem_vm_remove_volume ns n u w)) = mPVCs w"
    "mPVCs (snd (mem_vmi_remove_volume ns n u w)) = mPVCs w" for ns n ops v dk u w
    by (simp_all add: mem_patch_def mem_add_volume_def mem_vm_remove_volume_def mem_vmi_remove_volume_def Let_def
        split: option.splits)
  have "api_leaves (\<lambda>w. look (mPVCs w)) mem_api"
    unfolding api_leaves_def
    by (intro conjI allI) (simp_all add: mem_api_def mem_client_keeps keeps_def reads machines)
  moreover have "claim_server mem_api (\<lambda>w. look (mPVCs w))"
    unfolding claim_server_def
    by (intro conjI mem_keyed) (simp_all add: mem_api_def mem_laws pvc_admits_def)
  moreover have "clients_leave (\<lambda>w. look (mPVCs w)) (d_clients demo_driver)"
    by (simp add: clients_leave_def demo_driver_def mem_api_def keeps_def mem_client_def split: option.splits)
  moreover have "os_leaves (\<lambda>w. look (mPVCs w)) sys_os" by (simp add: os_leaves_def sys_os_def keeps_def)
  ultimately show "store_world store_driver (\<lambda>w. look (mPVCs w))" "wired store_driver"
    by (simp_all add: store_world_def store_driver_def demo_driver_def demo_manager_def wired_def 
        clients_leave_def platform_leaves_def sys_platform_def keeps_def)
qed

lemma store_expands:
  "case dispatch store_driver (RExpand demo_expand) (in_mem expand_mem) of
     Some (r, s') \<Rightarrow> is_Ok r \<and>
       map_option (\<lambda>p. Storage (Requests p)) (look (mPVCs (world s')) ''default'' ''pvc-1'') = Some 20971520
   | None \<Rightarrow> False"
  by code_simp

lemma store_answers: "answers store_process 0 ControllerService" "outcome store_process = Running"
  "pstate store_process = in_mem expand_mem"
  using demo_serves(1) by (auto simp: store_process_def answers_def)

lemma store_event:
  "\<exists>p. run store_driver (\<lambda>w w'. w' = w) store_process [Handled (RExpand demo_expand)] p \<and>
     driver_volumes store_driver (\<lambda>w. look (mPVCs w)) (pstate p) ''pvc-1'' = Some 20971520"
proof -
  have ns: "cs_namespace (d_cs store_driver) = ''default''"
    by (simp add: store_driver_def demo_driver_def demo_manager_def)
  obtain r s' where r: "dispatch store_driver (RExpand demo_expand) (in_mem expand_mem) = Some (r, s')"
    and v: "map_option (\<lambda>p. Storage (Requests p)) (look (mPVCs (world s')) ''default'' ''pvc-1'') = Some 20971520"
    using store_expands by (auto split: option.splits)
  have "run store_driver (\<lambda>w w'. w' = w) store_process ([] @ [Handled (RExpand demo_expand)])
      (store_process\<lparr>pstate := s', outcome := (if r = Panic then Crashed else Running)\<rparr>)"
    by (rule run.handled [OF run.start, where i = 0]) (simp_all add: r store_answers del: dispatch.simps)
  with v show ?thesis by (force simp: volumes_def ns)
qed

section \<open>Properties\<close>



text \<open>
  C8: No volume is lost. In every run in which \<open>DeleteVolume\<close> is not called for a volume, from any
  state of the process on, a volume that was there is still there and no smaller, whatever other
  requests the process handles and however they fail, as long as nobody outside deletes or shrinks
  it.
\<close>

theorem volume_survives:
  assumes "run d rely p0 evs p" and "store_world d claims" and "wired d"
    and "\<And>s w. rely (world s) w \<Longrightarrow> lasting (driver_volumes d claims s) (driver_volumes d claims (s\<lparr>world := w\<rparr>)) vid"
    and "Handled (RDeleteVolume vid) \<notin> set evs"
  shows "lasting (driver_volumes d claims (pstate p0)) (driver_volumes d claims (pstate p)) vid"
  using assms(1,5)
proof induction
  case start
  show ?case by simp
next
  case (handled evs p rq i r s)
  from handled(6) have "rq \<noteq> RDeleteVolume vid" by auto
  from lasting_trans [OF _ store_next_lasting [OF dispatch_store [OF handled(4) assms(2,3)] this]] handled(5,6)
  show ?case by simp
next
  case (outside evs p w)
  from lasting_trans [OF _ assms(4) [OF outside(2)]] outside(3,4) show ?case by simp
qed (simp_all only: volumes_step [OF assms(2)] set_append Un_iff de_Morgan_disj simp_thms)

theorem volume_survives_witness:
  "\<exists>p. run store_driver (\<lambda>w w'. w' = w) store_process [Handled (RExpand demo_expand)] p \<and>
     lasting (driver_volumes store_driver (\<lambda>w. look (mPVCs w)) (pstate store_process))
       (driver_volumes store_driver (\<lambda>w. look (mPVCs w)) (pstate p)) ''pvc-1'' \<and>
     driver_volumes store_driver (\<lambda>w. look (mPVCs w)) (pstate p) ''pvc-1'' = Some 20971520"
proof -
  obtain p where p: "run store_driver (\<lambda>w w'. w' = w) store_process [Handled (RExpand demo_expand)] p"
    and v: "driver_volumes store_driver (\<lambda>w. look (mPVCs w)) (pstate p) ''pvc-1'' = Some 20971520"
    using store_event by blast
  from volume_survives [OF p store_driver_world, of "''pvc-1''"] p v show ?thesis by auto
qed

end
