(* ===== verification/Spec2Isabelle.thy ===== *)
theory Spec2Isabelle
  imports Volume_Store
begin

text \<open>
  A verification library for the Harvester CSI driver.

  \<^bold>\<open>The program.\<close> The driver runs in a guest Kubernetes cluster whose nodes are virtual machines
  of a Harvester host cluster, and gives guest volumes their storage there: a guest volume is a
  claim in the host cluster that is hot-plugged into the machine of the node that uses it. Each
  process (\<open>pkg/csi/manager.go\<close>) finds out which virtual machine its node is and which hot-plug
  interface the host cluster has, and serves three gRPC services: identity
  (\<open>identity_server.go\<close>), controller (\<open>controller_server.go\<close>: volumes, attachments, snapshots,
  expansion) and node (\<open>node_server.go\<close>: mounts on the node itself). On control plane nodes it
  also runs the node controller (\<open>pkg/controller/node\<close>), which taints a node that was shut down
  and then detaches its volumes. The command line (\<open>main.go\<close>) gives the configuration, and the
  endpoint (\<open>server.go\<close>) serves from a goroutine of its own.

  \<^bold>\<open>Shape of the model.\<close> The theory \<open>Prelude\<close> has Go's values and errors and one type for all
  handlers: a function of a state that holds the outside world, of any type, and the log of the
  calls issued so far; its outcome is a value, a Go error or a panic, so that every early return
  and every nil dereference of the source is a branch of the model. The API servers of both
  clusters are the argument \<open>api\<close> (\<open>Kube_Api\<close>), the operating system and the mount package the
  argument \<open>os\<close> (\<open>Node_Files\<close>), the constructors of client sets and the listener the argument
  \<open>platform\<close> (\<open>Grpc_Server\<close>). What they are documented to do is stated as laws (\<open>get_law\<close>,
  \<open>create_law\<close>, \<open>update_law\<close>, \<open>delete_law\<close>, \<open>list_law\<close>, \<open>patch_law\<close>, \<open>mount_stack\<close>, \<open>host_mounts\<close>,
  \<open>store_world\<close>) that appear as hypotheses where a theorem needs them. \<open>Mem_Api\<close> is a cluster in memory, and
  \<open>Node_Server\<close> has an operating system in memory, that satisfy them; the concrete runs use these.

  \<^bold>\<open>Theories and sources.\<close>

  \<^item> \<open>Prelude\<close>: strings, \<open>int64\<close>, errors, effects, the call log; rules for what a handler
    returns (\<open>returns_iff\<close>), which calls it may issue (\<open>issues_intros\<close>), what it leaves alone.
  \<^item> \<open>Kube_Api\<close>, \<open>Vm_Patch\<close>, \<open>Mem_Api\<close>: the objects of both clusters, the clients and their laws,
    JSON patches on virtual machines, the cluster in memory. The locale \<open>patch_removal\<close> is the
    contract of the two patches that remove volumes.
  \<^item> \<open>Csi_Types\<close>, \<open>Csi_Util\<close>: requests and responses; \<open>pkg/csi/util.go\<close> and \<open>pkg/utils/util.go\<close>.
    The locale \<open>snapshot_id_codec\<close> is the contract of snapshot identifiers. Rounding of sizes is
    exact up to the last 2 MiB of \<open>int64\<close> and wraps there.
  \<^item> \<open>Controller_Base\<close>, \<open>Controller_Volume\<close>, \<open>Controller_Publish\<close>, \<open>Controller_Snapshot\<close>,
    \<open>Controller_Expand\<close>: \<open>pkg/csi/controller_server.go\<close>, in the order of the source. The locales
    \<open>bounded_wait\<close>, \<open>get_or_create\<close> and \<open>snapshot_lister\<close> are the contracts of the wait loops, of
    the three operations that create an object unless it exists, and of the two snapshot lists.
    Theorems: what each handler has achieved when it succeeds, which writes it may issue and
    when, that the calls the CSI specification wants idempotent are, with the exceptions that
    are findings.
  \<^item> \<open>Json\<close>: the part of \<open>encoding/json\<close> that reads the driver's setting.
  \<^item> \<open>Node_Controller\<close>: \<open>pkg/controller/node/controller.go\<close>. Theorems: volumes are detached only
    behind the taint, the handler follows a decision table, two events after a shutdown detach
    everything that was hot-plugged.
  \<^item> \<open>Node_Files\<close>, \<open>Node_Server\<close>: the helpers of \<open>util.go\<close> that touch the node, and
    \<open>pkg/csi/node_server.go\<close>. Theorems: unpublishing ends and leaves no layer mounted, only the
    volume's own disk is mounted, statistics are exact for sane counters.
  \<^item> \<open>Semver\<close>: \<open>pkg/utils/version.go\<close> on the vendored \<open>golang.org/x/mod/semver\<close>.
  \<^item> \<open>Hw_Addr\<close>: \<open>pkg/sysfsnet\<close>, with MAC addresses as Go parses and prints them.
  \<^item> \<open>Grpc_Server\<close>: \<open>identity_server.go\<close> and \<open>server.go\<close>. The struct with its wait group and pointer, and
    each goroutine in \<open>serve\<close> with its local variables and its place in the code, are the record
    \<open>process\<close>; \<open>serve_step\<close> is one step of a goroutine, \<open>process_ok\<close> the invariant.
  \<^item> \<open>Driver\<close>: \<open>manager.go\<close>, \<open>pkg/config\<close>, \<open>pkg/version\<close>. Theorems: which virtual machine the node is
    taken for, and that the servers and the node controller agree.
  \<^item> \<open>Command_Line\<close>: \<open>main.go\<close>, with the parsing of the vendored \<open>github.com/urfave/cli\<close> and of Go's
    package \<open>flag\<close>. Theorems: a configuration written as arguments is read back, and what no
    argument names comes from the environment or is the default.
  \<^item> \<open>Panic_Freedom\<close>: which pointers in the answers of the servers each handler follows, and that it
    does not panic when they are there (\<open>safe_intros\<close>).
  \<^item> \<open>Service\<close>: the process from \<open>main\<close> on. \<open>dispatch\<close> takes each request to its handler; \<open>run\<close> is the
    runs in which requests, node events, the serving goroutine and the world outside take turns in
    any order; the changes outside are those that the relation \<open>rely\<close> admits. Theorems: no run
    crashes, no run changes what no request entitles it to, the services come up and come up
    together, \<open>Wait\<close> never returns.
  \<^item> \<open>Volume_Store\<close>: the abstract store of volumes and that every run of the process is a run of the
    store; no volume is lost but by \<open>DeleteVolume\<close>.

  \<^bold>\<open>Loops.\<close> Loops over lists are structural recursions. The poll loops of the controller server
  end with their context's deadline; how many polls fit before it is an answer of the world
  (\<open>ticks\<close>), and the theorems hold for every number. The loop of \<open>NodeUnpublishVolume\<close> has no bound
  in the source; it is a \<open>partial_function\<close> whose value is \<open>None\<close> when it does not return, and it
  is proved to return. Loops over Go maps take their order from the world (\<open>mapOrder\<close>).

  The loop that parses the arguments ends because each flag takes at least one of them.

  \<^bold>\<open>Not modelled.\<close> Log lines, except for their level in \<open>logGRPC\<close> and \<open>adjustLogs\<close>, and the texts of
  usage errors of the command line. Contexts and cancellation other than deadlines of polls.
  Leader election, informers, the transport of gRPC and the encoding of its messages, which are
  calls into libraries; the library's command \<open>help\<close>. Two handlers never interleave: each runs as
  one step of the process, between arbitrary changes of the world. \<open>resource.Quantity\<close> is its value
  in bytes. Fields of objects that no code of the driver reads or writes are left out of the
  records.
\<close>

end
